(* ===== verification/Prelude.thy ===== *)
theory Prelude
  imports Main "HOL-Library.Sublist"
begin

text \<open>
  Shared vocabulary of the development: the theorem collections that the component
  theories fill, the error values that stand for Go's \<^verbatim>\<open>error\<close> interface, and the
  generic lemmas on lists, prefixes and first matches that more than one component uses.
\<close>

section \<open>Collections\<close>

named_theorems store_defs \<open>definitions of store operations\<close>
named_theorems frame \<open>fields an operation does not change\<close>
named_theorems guard_simps \<open>how a validation loop reports success\<close>

section \<open>Errors\<close>

text \<open>
  Go's \<^verbatim>\<open>error\<close> values. The package-level sentinels of \<^verbatim>\<open>store.go\<close> are constructors; an
  \<^verbatim>\<open>errors.New\<close> with a fixed text is \<open>ErrNew\<close>; a formatted error is a constructor with the
  values that are formatted; \<open>ErrIO\<close> is a failure the operating system reports;
  \<open>ErrCtx\<close> is the error of a cancelled context; \<open>ErrNotExist\<close> is what \<^verbatim>\<open>os.IsNotExist\<close>
  recognises, \<open>ErrNotFound\<close> the sentinel of package \<^verbatim>\<open>runtime\<close>, \<open>ErrNoSuchProcess\<close> the error
  number \<^verbatim>\<open>ESRCH\<close>; \<open>ErrWrap\<close> is \<^verbatim>\<open>fmt.Errorf("...: %w")\<close> and
  \<open>ErrJoined\<close> is the value of \<^verbatim>\<open>errors.Join\<close>.
\<close>

datatype error =
    ErrInvalidRootKey
  | ErrTokenExpired
  | ErrTokenRevoked
  | ErrTokenNotFound
  | ErrNew string
  | ErrLimit string int int int
  | ErrTooMany string int int
  | ErrValueSize string int
  | ErrGPUIndex int
  | ErrGPU string int
  | ErrOverlap int string
  | ErrID string string
  | ErrDuration string int
  | ErrIO string
  | ErrCtx
  | ErrNotExist
  | ErrNotFound
  | ErrNoSuchProcess
  | ErrPid string int
  | ErrWrap string string error
  | ErrJoined "error list"

type_synonym 'a result = "error + 'a"

text \<open>
  \<^verbatim>\<open>errors.Join(errs...)\<close> drops nil errors and is nil when none is left; a nil error is
  \<open>None\<close>.
\<close>

definition errors_Join :: "error option list \<Rightarrow> error option" where
  "errors_Join es = (case List.map_filter id es of [] \<Rightarrow> None | xs \<Rightarrow> Some (ErrJoined xs))"

lemma errors_Join_None [simp]: "errors_Join es = None \<longleftrightarrow> (\<forall>e\<in>set es. e = None)"
  by (induction es) (auto simp: errors_Join_def map_filter_simps split: list.splits option.splits)

lemma errors_Join_Nil [simp]: "errors_Join [] = None"
  by simp

text \<open>\<^verbatim>\<open>errors.Is\<close> on the tree an error unwraps to.\<close>

fun errors_Is :: "error \<Rightarrow> error \<Rightarrow> bool" where
  "errors_Is (ErrWrap k i e) target = (ErrWrap k i e = target \<or> errors_Is e target)"
| "errors_Is (ErrJoined es) target =
     (ErrJoined es = target \<or> (\<exists>e\<in>set es. errors_Is e target))"
| "errors_Is e target = (e = target)"

section \<open>Lists\<close>

text \<open>The first element satisfying a predicate, replaced: a Go loop with an early return.\<close>

fun update_first :: "('a \<Rightarrow> bool) \<Rightarrow> ('a \<Rightarrow> 'a) \<Rightarrow> 'a list \<Rightarrow> 'a list" where
  "update_first P f [] = []"
| "update_first P f (x # xs) = (if P x then f x # xs else x # update_first P f xs)"

lemma length_update_first [simp]: "length (update_first P f xs) = length xs"
  by (induction xs) auto

lemma update_first_id [simp]: "\<forall>x\<in>set xs. \<not> P x \<Longrightarrow> update_first P f xs = xs"
  by (induction xs) auto

lemma set_update_first: "set (update_first P f xs) \<subseteq> set xs \<union> f ` set xs"
  by (induction xs) auto

lemma update_first_nth:
  "i < length xs \<Longrightarrow> update_first P f xs ! i = xs ! i \<or> update_first P f xs ! i = f (xs ! i)"
  by (induction xs arbitrary: i) (auto simp: nth_Cons split: nat.splits)

lemma map_update_first:
  "(\<And>x. P x \<Longrightarrow> g (f x) = g x) \<Longrightarrow> map g (update_first P f xs) = map g xs"
  by (induction xs) auto

lemma list_all2_update_first:
  "(\<And>x. R x x) \<Longrightarrow> (\<And>x. P x \<Longrightarrow> R x (f x)) \<Longrightarrow> list_all2 R xs (update_first P f xs)"
  by (induction xs) (auto simp: list.rel_refl)

lemma find_SomeD: "find P xs = Some x \<Longrightarrow> x \<in> set xs \<and> P x"
  by (induction xs) (auto split: if_splits)

lemma find_update_first:
  "\<lbrakk>\<And>x. P x \<Longrightarrow> P (f x); find P xs = Some x\<rbrakk> \<Longrightarrow> find P (update_first P f xs) = Some (f x)"
  by (induction xs) (auto split: if_splits)

lemma find_None_iff_all: "find P xs = None \<longleftrightarrow> (\<forall>x\<in>set xs. \<not> P x)"
  by (induction xs) auto

text \<open>A loop that marks the elements that satisfy a condition.\<close>

lemma ball_map_if:
  "(\<forall>y\<in>set (map (\<lambda>x. if C x then f x else x) xs). Q y) \<longleftrightarrow>
   (\<forall>x\<in>set xs. Q (if C x then f x else x))"
  by (induction xs) auto

text \<open>A map with the position at hand: \<^verbatim>\<open>for i := range xs\<close>.\<close>

fun mapi :: "nat \<Rightarrow> (nat \<Rightarrow> 'a \<Rightarrow> 'b) \<Rightarrow> 'a list \<Rightarrow> 'b list" where
  "mapi i f [] = []"
| "mapi i f (x # xs) = f i x # mapi (Suc i) f xs"

lemma length_mapi [simp]: "length (mapi i f xs) = length xs"
  by (induction xs arbitrary: i) auto

lemma mapi_nth [simp]: "k < length xs \<Longrightarrow> mapi i f xs ! k = f (i + k) (xs ! k)"
  by (induction xs arbitrary: i k) (auto simp: nth_Cons split: nat.splits)

lemma list_all2_mapi: "(\<And>j x. x \<in> set xs \<Longrightarrow> R x (f j x)) \<Longrightarrow> list_all2 R xs (mapi i f xs)"
  by (induction xs arbitrary: i) auto

lemma map_mapi_same: "(\<And>j x. x \<in> set xs \<Longrightarrow> g (f j x) = h x) \<Longrightarrow> map g (mapi i f xs) = map h xs"
  by (induction xs arbitrary: i) auto

lemma set_mapiE: "y \<in> set (mapi i f xs) \<Longrightarrow> \<exists>j x. x \<in> set xs \<and> y = f j x"
  by (induction xs arbitrary: i) fastforce+

lemma mapi_fields:
  "(\<And>j x. x \<in> set xs \<Longrightarrow> P (f j x)) \<Longrightarrow> y \<in> set (mapi i f xs) \<Longrightarrow> P y"
  by (induction xs arbitrary: i) fastforce+

text \<open>Go maps as association lists: the last assignment to a key wins.\<close>

definition go_map :: "('k \<times> 'v) list \<Rightarrow> 'k \<Rightarrow> 'v option" where
  "go_map kvs = map_of (rev kvs)"

lemma go_map_Some: "go_map kvs k = Some v \<Longrightarrow> (k, v) \<in> set kvs"
  by (auto simp: go_map_def dest: map_of_SomeD)

lemma go_map_None: "go_map kvs k = None \<longleftrightarrow> k \<notin> fst ` set kvs"
  by (auto simp: go_map_def map_of_eq_None_iff)

lemma go_map_distinct:
  "\<lbrakk>distinct (map fst kvs); (k, v) \<in> set kvs\<rbrakk> \<Longrightarrow> go_map kvs k = Some v"
  unfolding go_map_def by (rule map_of_is_SomeI) (auto simp: rev_map [symmetric])

definition the_or :: "'a \<Rightarrow> 'a option \<Rightarrow> 'a" where
  "the_or d x = (case x of None \<Rightarrow> d | Some y \<Rightarrow> y)"

lemma the_or_simps [simp]: "the_or d None = d" "the_or d (Some x) = x"
  by (simp_all add: the_or_def)

text \<open>Subsequences keep bounds on lengths, members and distinctness.\<close>

lemma subseq_set: "subseq xs ys \<Longrightarrow> set xs \<subseteq> set ys"
  by (auto simp: subseq_conv_nths dest: in_set_nthsD)

lemma subseq_distinct_map: "\<lbrakk>subseq xs ys; distinct (map f ys)\<rbrakk> \<Longrightarrow> distinct (map f xs)"
  by (auto simp: subseq_conv_nths nths_map [symmetric] distinct_nthsI)

text \<open>Pairwise statements over the positions of a list, as \<^const>\<open>sorted_wrt\<close>.\<close>

lemma sorted_wrt_filter_imp:
  "sorted_wrt R xs \<Longrightarrow> sorted_wrt R (filter P xs)"
  by (induction xs) auto

lemma sorted_wrt_list_all2:
  assumes "list_all2 S xs ys" "sorted_wrt R xs"
    and "\<And>a b a' b'. S a a' \<Longrightarrow> S b b' \<Longrightarrow> R a b \<Longrightarrow> R a' b'"
  shows "sorted_wrt R ys"
  using assms(1,2)
proof (induction rule: list_all2_induct)
  case Nil
  then show ?case by simp
next
  case (Cons x xs y ys)
  have "R y b'" if "b' \<in> set ys" for b'
  proof -
    from that Cons.hyps(2) obtain b where "b \<in> set xs" "S b b'"
      by (metis in_set_conv_nth list_all2_conv_all_nth)
    with Cons show ?thesis by (auto intro: assms(3))
  qed
  with Cons show ?case by auto
qed

text \<open>
  A validation loop over a list: the first error stops it. Go writes it as
  \<^verbatim>\<open>for _, x := range xs { if err := f(x); err != nil { return err } }\<close>.
\<close>

fun first_error :: "('a \<Rightarrow> error option) \<Rightarrow> 'a list \<Rightarrow> error option" where
  "first_error f [] = None"
| "first_error f (x # xs) = (case f x of Some e \<Rightarrow> Some e | None \<Rightarrow> first_error f xs)"

lemma first_error_None [guard_simps, simp]:
  "first_error f xs = None \<longleftrightarrow> (\<forall>x\<in>set xs. f x = None)"
  by (induction xs) (auto split: option.splits)

text \<open>Checks made one after the other: \<^verbatim>\<open>if err := a; err != nil { return err }\<close>, then \<^verbatim>\<open>b\<close>.\<close>

fun and_then :: "error option \<Rightarrow> error option \<Rightarrow> error option" where
  "and_then (Some e) k = Some e"
| "and_then None k = k"

lemma and_then_None [guard_simps, simp]: "and_then a b = None \<longleftrightarrow> a = None \<and> b = None"
  by (cases a) auto

end
