(* ===== verification/GoLib.thy ===== *)
theory GoLib
  imports Prelude "HOL-Library.Word"
begin

text \<open>
  The parts of Go's standard library that the modelled packages use: instants and
  durations of package \<^verbatim>\<open>time\<close>, the functions of package \<^verbatim>\<open>strings\<close> on byte strings and
  \<^verbatim>\<open>path.Clean\<close>. A Go string is the list of its bytes. \<open>TrimSpace\<close> knows the UTF-8
  encodings of all of Unicode's white space; the case mapping of \<open>ToLower\<close> and
  \<open>EqualFold\<close> is the one of ASCII letters, and leaves every other byte alone.
\<close>

section \<open>Time\<close>

text \<open>
  A \<^verbatim>\<open>time.Time\<close> is the number of nanoseconds since year 1 in UTC, so that Go's zero time
  is \<open>0\<close>; \<^verbatim>\<open>UTC()\<close> changes only the location, which comparisons ignore. A
  \<^verbatim>\<open>time.Duration\<close> is a number of nanoseconds in the range of \<^verbatim>\<open>int64\<close>, to which
  \<open>time_Sub\<close> saturates.
\<close>

type_synonym time = int
type_synonym duration = int

definition Millisecond :: duration where "Millisecond = 1000000"
definition Second :: duration where "Second = 1000000000"
definition Minute :: duration where "Minute = 60 * Second"
definition Hour :: duration where "Hour = 60 * Minute"

lemmas duration_defs = Millisecond_def Second_def Minute_def Hour_def

definition IsZero :: "time \<Rightarrow> bool" where "IsZero t \<longleftrightarrow> t = 0"
definition Before :: "time \<Rightarrow> time \<Rightarrow> bool" where "Before a b \<longleftrightarrow> a < b"
definition After :: "time \<Rightarrow> time \<Rightarrow> bool" where "After a b \<longleftrightarrow> b < a"

lemmas time_defs [simp] = IsZero_def Before_def After_def

definition time_Add :: "time \<Rightarrow> duration \<Rightarrow> time" where "time_Add t d = t + d"

definition time_Sub :: "time \<Rightarrow> time \<Rightarrow> duration" where
  "time_Sub a b = max (- (2 ^ 63)) (min (2 ^ 63 - 1) (a - b))"

lemma time_Sub_le_iff:
  "\<lbrakk>- (2 ^ 63) \<le> d; d < 2 ^ 63 - 1\<rbrakk> \<Longrightarrow> time_Sub a b \<le> d \<longleftrightarrow> a - b \<le> d"
  by (auto simp: time_Sub_def)

section \<open>Strings\<close>

definition HasPrefix :: "string \<Rightarrow> string \<Rightarrow> bool" where "HasPrefix s p \<longleftrightarrow> prefix p s"
definition HasSuffix :: "string \<Rightarrow> string \<Rightarrow> bool" where "HasSuffix s p \<longleftrightarrow> suffix p s"

definition TrimPrefix :: "string \<Rightarrow> string \<Rightarrow> string" where
  "TrimPrefix s p = (if HasPrefix s p then drop (length p) s else s)"

definition TrimSuffix :: "string \<Rightarrow> string \<Rightarrow> string" where
  "TrimSuffix s p = (if HasSuffix s p then take (length s - length p) s else s)"

text \<open>\<^verbatim>\<open>strings.Index\<close>: the least position of \<open>sub\<close> in the string; \<open>None\<close> is \<open>-1\<close>.\<close>

fun str_Index :: "string \<Rightarrow> string \<Rightarrow> nat option" where
  "str_Index [] sub = (if sub = [] then Some 0 else None)"
| "str_Index (c # cs) sub =
     (if prefix sub (c # cs) then Some 0 else map_option Suc (str_Index cs sub))"

definition str_Contains :: "string \<Rightarrow> string \<Rightarrow> bool" where
  "str_Contains s sub \<longleftrightarrow> str_Index s sub \<noteq> None"

lemma str_Index_Some:
  "str_Index s sub = Some k \<Longrightarrow>
     prefix sub (drop k s) \<and> k + length sub \<le> length s \<and> (\<forall>j<k. \<not> prefix sub (drop j s))"
proof (induction s arbitrary: k)
  case Nil
  then show ?case by (auto split: if_splits)
next
  case (Cons c cs)
  show ?case
  proof (cases "prefix sub (c # cs)")
    case True
    with Cons.prems have "k = 0" by auto
    with True show ?thesis by (auto dest: prefix_length_le)
  next
    case False
    with Cons.prems obtain k' where "str_Index cs sub = Some k'" "k = Suc k'" by auto
    with Cons.IH False show ?thesis
      by (auto simp: less_Suc_eq_0_disj)
  qed
qed

lemma str_Index_None: "str_Index s sub = None \<longleftrightarrow> (\<forall>j\<le>length s. \<not> prefix sub (drop j s))"
proof (induction s)
  case Nil
  then show ?case by (auto simp: prefix_def)
next
  case (Cons c cs)
  have "(\<forall>j\<le>length (c # cs). \<not> prefix sub (drop j (c # cs))) \<longleftrightarrow>
        \<not> prefix sub (c # cs) \<and> (\<forall>j\<le>length cs. \<not> prefix sub (drop j cs))"
    by (metis Suc_le_mono drop0 drop_Suc_Cons length_Cons le0 not0_implies_Suc)
  then show ?case by (simp add: Cons.IH)
qed

text \<open>\<^verbatim>\<open>strings.Split\<close> at a one-byte separator: always at least one part.\<close>

fun Split :: "string \<Rightarrow> char \<Rightarrow> string list" where
  "Split [] sep = [[]]"
| "Split (c # cs) sep =
     (if c = sep then [] # Split cs sep
      else (case Split cs sep of p # ps \<Rightarrow> (c # p) # ps | [] \<Rightarrow> [[c]]))"

lemma Split_not_Nil [simp]: "Split s sep \<noteq> []"
  by (induction s) (auto split: list.splits)

text \<open>\<^verbatim>\<open>strings.Cut\<close> at a one-byte separator: before, after, and whether it was found.\<close>

fun Cut :: "string \<Rightarrow> char \<Rightarrow> string \<times> string \<times> bool" where
  "Cut [] sep = ([], [], False)"
| "Cut (c # cs) sep =
     (if c = sep then ([], cs, True)
      else (case Cut cs sep of (b, a, found) \<Rightarrow> (c # b, a, found)))"

fun str_Join :: "string list \<Rightarrow> string \<Rightarrow> string" where
  "str_Join [] sep = []"
| "str_Join [p] sep = p"
| "str_Join (p # ps) sep = p @ sep @ str_Join ps sep"

text \<open>
  The length in bytes of the white-space rune a string starts with, \<open>0\<close> when it starts
  with none: the six ASCII characters, U+0085, U+00A0, U+1680, U+2000 to U+200A, U+2028,
  U+2029, U+202F, U+205F and U+3000. \<open>trailing_space\<close> reads the same encodings from
  the end, on the reversed string.
\<close>

definition ascii_space :: "char \<Rightarrow> bool" where
  "ascii_space c \<longleftrightarrow> c = CHR '' '' \<or> c = CHR 0x09 \<or> c = CHR 0x0A \<or> c = CHR 0x0B \<or> c = CHR 0x0C \<or> c = CHR 0x0D"

definition space2 :: "char \<Rightarrow> char \<Rightarrow> bool" where
  "space2 a b \<longleftrightarrow> a = CHR 0xC2 \<and> (b = CHR 0x85 \<or> b = CHR 0xA0)"

definition space3 :: "char \<Rightarrow> char \<Rightarrow> char \<Rightarrow> bool" where
  "space3 a b c \<longleftrightarrow>
     a = CHR 0xE1 \<and> b = CHR 0x9A \<and> c = CHR 0x80 \<or>
     a = CHR 0xE2 \<and> b = CHR 0x80 \<and>
       (of_char c \<in> {0x80::nat..0x8A} \<or> c = CHR 0xA8 \<or> c = CHR 0xA9 \<or> c = CHR 0xAF) \<or>
     a = CHR 0xE2 \<and> b = CHR 0x81 \<and> c = CHR 0x9F \<or>
     a = CHR 0xE3 \<and> b = CHR 0x80 \<and> c = CHR 0x80"

fun TrimLeftSpace :: "string \<Rightarrow> string" where
  "TrimLeftSpace (a # b # c # s) =
     (if ascii_space a then TrimLeftSpace (b # c # s)
      else if space2 a b then TrimLeftSpace (c # s)
      else if space3 a b c then TrimLeftSpace s else a # b # c # s)"
| "TrimLeftSpace [a, b] =
     (if ascii_space a then TrimLeftSpace [b] else if space2 a b then [] else [a, b])"
| "TrimLeftSpace [a] = (if ascii_space a then [] else [a])"
| "TrimLeftSpace [] = []"

fun TrimRightSpaceRev :: "string \<Rightarrow> string" where
  "TrimRightSpaceRev (c # b # a # s) =
     (if ascii_space c then TrimRightSpaceRev (b # a # s)
      else if space2 b c then TrimRightSpaceRev (a # s)
      else if space3 a b c then TrimRightSpaceRev s else c # b # a # s)"
| "TrimRightSpaceRev [b, a] =
     (if ascii_space b then TrimRightSpaceRev [a] else if space2 a b then [] else [b, a])"
| "TrimRightSpaceRev [a] = (if ascii_space a then [] else [a])"
| "TrimRightSpaceRev [] = []"

definition TrimSpace :: "string \<Rightarrow> string" where
  "TrimSpace s = rev (TrimRightSpaceRev (rev (TrimLeftSpace s)))"

lemma TrimSpace_Nil [simp]: "TrimSpace [] = []"
  by (simp add: TrimSpace_def)

text \<open>Trimming twice is trimming once.\<close>

lemma TrimLeftSpace_suffix: "suffix (TrimLeftSpace s) s"
proof (induction s rule: TrimLeftSpace.induct)
  case (1 a b c s)
  then show ?case
    by (auto simp: suffix_ConsI)
qed (auto simp: suffix_ConsI)

lemma TrimLeftSpace_idem: "TrimLeftSpace (TrimLeftSpace s) = TrimLeftSpace s"
  by (induction s rule: TrimLeftSpace.induct) auto

lemma TrimLeftSpace_prefix:
  assumes "TrimLeftSpace s = s" "prefix p s"
  shows "TrimLeftSpace p = p"
proof -
  have shrink: "length (TrimLeftSpace x) \<le> length x" for x
    using TrimLeftSpace_suffix by (rule suffix_length_le)
  have head: "\<not> ascii_space a" if "s = a # u" for a u
  proof
    assume "ascii_space a"
    with that have "TrimLeftSpace s = TrimLeftSpace u"
      by (cases u rule: TrimLeftSpace.cases) auto
    with assms(1) that have "length (TrimLeftSpace u) > length u" by (metis length_Cons lessI less_SucI)
    with shrink [of u] show False by simp
  qed
  have head2: "\<not> space2 a b" if "s = a # b # u" for a b u
  proof
    assume "space2 a b"
    with that head have "TrimLeftSpace s = TrimLeftSpace u" by (cases u) auto
    with assms(1) that have "length (TrimLeftSpace u) > length u" by (metis length_Cons lessI less_SucI)
    with shrink [of u] show False by simp
  qed
  have head3: "\<not> space3 a b c" if "s = a # b # c # u" for a b c u
  proof
    assume "space3 a b c"
    with that head head2 have "TrimLeftSpace s = TrimLeftSpace u" by auto
    with assms(1) that have "length (TrimLeftSpace u) > length u" by (metis length_Cons lessI less_SucI)
    with shrink [of u] show False by simp
  qed
  from assms(2) obtain t where "s = p @ t" by (auto simp: prefix_def)
  with head head2 head3 show ?thesis by (cases p rule: TrimLeftSpace.cases) auto
qed

lemma TrimRightSpaceRev_suffix: "suffix (TrimRightSpaceRev s) s"
  by (induction s rule: TrimRightSpaceRev.induct) (auto simp: suffix_ConsI)

lemma TrimRightSpaceRev_idem: "TrimRightSpaceRev (TrimRightSpaceRev s) = TrimRightSpaceRev s"
  by (induction s rule: TrimRightSpaceRev.induct) auto

lemma TrimSpace_idem [simp]: "TrimSpace (TrimSpace s) = TrimSpace s"
proof -
  have "prefix (TrimSpace s) (TrimLeftSpace s)"
    using TrimRightSpaceRev_suffix [of "rev (TrimLeftSpace s)"]
    by (simp add: TrimSpace_def suffix_to_prefix)
  then have "TrimLeftSpace (TrimSpace s) = TrimSpace s"
    by (rule TrimLeftSpace_prefix [OF TrimLeftSpace_idem])
  then show ?thesis
    by (simp add: TrimSpace_def TrimRightSpaceRev_idem)
qed

definition lower_char :: "char \<Rightarrow> char" where
  "lower_char c = (let n = of_char c :: nat in if 65 \<le> n \<and> n \<le> 90 then char_of (n + 32) else c)"

definition ToLower :: "string \<Rightarrow> string" where "ToLower s = map lower_char s"

lemma lower_char_idem [simp]: "lower_char (lower_char c) = lower_char c"
proof -
  have "(of_char c :: nat) < 256" by (simp add: of_char_def)
  then show ?thesis by (auto simp: lower_char_def Let_def of_char_of)
qed

lemma ToLower_idem [simp]: "ToLower (ToLower s) = ToLower s"
  by (simp add: ToLower_def)

lemma length_ToLower [simp]: "length (ToLower s) = length s"
  by (simp add: ToLower_def)

lemma ToLower_Nil_iff [simp]: "ToLower s = [] \<longleftrightarrow> s = []"
  by (simp add: ToLower_def)

definition EqualFold :: "string \<Rightarrow> string \<Rightarrow> bool" where
  "EqualFold a b \<longleftrightarrow> ToLower a = ToLower b"

text \<open>Decimal numerals, for \<^verbatim>\<open>%d\<close>.\<close>

fun nat_text :: "nat \<Rightarrow> string" where
  "nat_text n = (if n < 10 then [char_of (48 + n)]
                 else nat_text (n div 10) @ [char_of (48 + n mod 10)])"

declare nat_text.simps [simp del]

definition int_text :: "int \<Rightarrow> string" where
  "int_text i = (if i < 0 then ''-'' @ nat_text (nat (- i)) else nat_text (nat i))"

section \<open>Hexadecimal and paths\<close>

definition is_hex_digit :: "char \<Rightarrow> bool" where
  "is_hex_digit c \<longleftrightarrow> (let n = of_char c :: nat in
     48 \<le> n \<and> n \<le> 57 \<or> 97 \<le> n \<and> n \<le> 102 \<or> 65 \<le> n \<and> n \<le> 70)"

text \<open>\<^verbatim>\<open>hex.DecodeString\<close> succeeds on an even number of hexadecimal digits.\<close>

definition hex_decodable :: "string \<Rightarrow> bool" where
  "hex_decodable s \<longleftrightarrow> even (length s) \<and> list_all is_hex_digit s"

text \<open>
  \<^verbatim>\<open>path.Clean\<close>: drop empty and \<open>.\<close> elements, let \<open>..\<close> cancel the element before it,
  drop a leading \<open>..\<close> of a rooted path, keep the leading ones of a relative path; the
  empty result is \<open>/\<close> or \<open>.\<close>. The stack holds the kept elements, last first.
\<close>

fun clean_step :: "bool \<Rightarrow> string list \<Rightarrow> string \<Rightarrow> string list" where
  "clean_step rooted st e =
     (if e = [] \<or> e = ''.'' then st
      else if e = ''..'' then
        (case st of
           [] \<Rightarrow> if rooted then [] else [''..'']
         | t # ts \<Rightarrow> if t = ''..'' then ''..'' # st else ts)
      else e # st)"

definition path_Clean :: "string \<Rightarrow> string" where
  "path_Clean p =
     (let rooted = HasPrefix p ''/'';
          out = rev (foldl (clean_step rooted) [] (Split p (CHR ''/'')))
      in if rooted then ''/'' @ str_Join out ''/''
         else if out = [] then ''.'' else str_Join out ''/'')"

end
