(* ===== verification/Model.thy ===== *)
theory Model
  imports GoLib
begin

text \<open>
  Package \<^verbatim>\<open>internal/model\<close>: the records that the store persists and the enforcement pass
  reads, the views that status requests return, and the three predicates on reservations.
  A Go struct is a record whose field names carry a prefix (\<open>tok_\<close>, \<open>res_\<close>, \<open>auth_\<close>,
  \<open>claim_\<close>, \<open>lease_\<close>, \<open>byp_\<close>, \<open>ev_\<close>, \<open>st_\<close>); \<^verbatim>\<open>uint64\<close> is \<open>64 word\<close>, \<^verbatim>\<open>int\<close> and \<^verbatim>\<open>int64\<close>
  are \<open>int\<close> where the code only compares them, and a pointer that may be nil is an option.
\<close>

section \<open>Constants\<close>

definition ModeBare :: string where "ModeBare = ''bare''"
definition ModeDocker :: string where "ModeDocker = ''docker''"
definition ModeK8s :: string where "ModeK8s = ''k8s''"
definition ModeUser :: string where "ModeUser = ''user''"
definition TokenModeReserved :: string where "TokenModeReserved = ''reserved''"
definition TokenModeClaimed :: string where "TokenModeClaimed = ''claimed''"
definition TokenModeManaged :: string where "TokenModeManaged = ''managed''"
definition TokenKeyStatusStored :: string where "TokenKeyStatusStored = ''stored''"
definition TokenKeyStatusNotStored :: string where "TokenKeyStatusNotStored = ''not_stored''"
definition BypassPID :: string where "BypassPID = ''pid''"
definition BypassCommand :: string where "BypassCommand = ''command''"

lemmas mode_defs = ModeBare_def ModeDocker_def ModeK8s_def ModeUser_def
  TokenModeReserved_def TokenModeClaimed_def TokenModeManaged_def
  TokenKeyStatusStored_def TokenKeyStatusNotStored_def BypassPID_def BypassCommand_def

section \<open>Processes\<close>

record gpu_process =
  gp_GPU :: int
  gp_PID :: int
  gp_Name :: string
  gp_MemBytes :: "64 word"
  gp_MemBytesUnknown :: bool

record proc_info =
  pi_PID :: int
  pi_StartTime :: "64 word"
  pi_UID :: int
  pi_Username :: string
  pi_Cmdline :: "string list"
  pi_CommandPath :: string
  pi_Cgroup :: string
  pi_ContainerID :: string
  pi_StderrPath :: string

section \<open>Persisted records\<close>

record token =
  tok_ID :: string
  tok_Hash :: string
  tok_Secret :: string
  tok_Name :: string
  tok_Mode :: string
  tok_Version :: int
  tok_Managed :: bool
  tok_CreatedAt :: time
  tok_ExpiresAt :: time
  tok_Revoked :: bool

record reservation =
  res_ID :: string
  res_GroupID :: string
  res_ExternalSessionID :: string
  res_GPU :: int
  res_TokenHash :: string
  res_Holder :: string
  res_Purpose :: string
  res_CreatedAt :: time
  res_StartsAt :: time
  res_ExpiresAt :: time
  res_Active :: bool
  res_Revoked :: bool

record authorization =
  auth_ID :: string
  auth_Mode :: string
  auth_TokenHash :: string
  auth_TokenMode :: string
  auth_TokenVersion :: int
  auth_Holder :: string
  auth_UID :: int
  auth_GID :: int
  auth_Username :: string
  auth_Command :: "string list"
  auth_RootPID :: int
  auth_CgroupPath :: string
  auth_CgroupRel :: string
  auth_ContainerID :: string
  auth_ContainerPattern :: string
  auth_Namespace :: string
  auth_CreatedAt :: time
  auth_ExpiresAt :: time
  auth_Active :: bool
  auth_Revoked :: bool

record soft_claim =
  claim_ID :: string
  claim_GPU :: int
  claim_TokenHash :: string
  claim_AuthorizationID :: string
  claim_Holder :: string
  claim_CreatedAt :: time
  claim_UpdatedAt :: time

record lease =
  lease_ID :: string
  lease_GPU :: int
  lease_Mode :: string
  lease_TokenHash :: string
  lease_Holder :: string
  lease_UID :: int
  lease_GID :: int
  lease_Command :: "string list"
  lease_RootPID :: int
  lease_CgroupPath :: string
  lease_CgroupRel :: string
  lease_ContainerID :: string
  lease_Namespace :: string
  lease_CreatedAt :: time
  lease_ExpiresAt :: time
  lease_Active :: bool

record bypass_rule =
  byp_ID :: string
  byp_Type :: string
  byp_PID :: int
  byp_StartTime :: "64 word"
  byp_BootID :: string
  byp_Command :: string
  byp_UID :: int
  byp_Reason :: string
  byp_CreatedAt :: time
  byp_ExpiresAt :: time
  byp_Revoked :: bool

record audit_event =
  ev_Time :: time
  ev_Kind :: string
  ev_Message :: string
  ev_GPU :: int
  ev_PID :: int
  ev_LeaseID :: string
  ev_User :: string

record state =
  st_ManagedKeys :: bool
  st_KeySnapshotID :: string
  st_Tokens :: "token list"
  st_Reservations :: "reservation list"
  st_Authorizations :: "authorization list"
  st_SoftClaims :: "soft_claim list"
  st_Leases :: "lease list"
  st_Bypasses :: "bypass_rule list"
  st_Audit :: "audit_event list"

text \<open>The zero values of Go's composite types.\<close>

definition zero_token :: token where
  "zero_token = \<lparr>tok_ID = [], tok_Hash = [], tok_Secret = [], tok_Name = [], tok_Mode = [],
     tok_Version = 0, tok_Managed = False, tok_CreatedAt = 0, tok_ExpiresAt = 0,
     tok_Revoked = False\<rparr>"

definition zero_authorization :: authorization where
  "zero_authorization = \<lparr>auth_ID = [], auth_Mode = [], auth_TokenHash = [], auth_TokenMode = [],
     auth_TokenVersion = 0, auth_Holder = [], auth_UID = 0, auth_GID = 0, auth_Username = [],
     auth_Command = [], auth_RootPID = 0, auth_CgroupPath = [], auth_CgroupRel = [],
     auth_ContainerID = [], auth_ContainerPattern = [], auth_Namespace = [], auth_CreatedAt = 0,
     auth_ExpiresAt = 0, auth_Active = False, auth_Revoked = False\<rparr>"

definition zero_lease :: lease where
  "zero_lease = \<lparr>lease_ID = [], lease_GPU = 0, lease_Mode = [], lease_TokenHash = [],
     lease_Holder = [], lease_UID = 0, lease_GID = 0, lease_Command = [], lease_RootPID = 0,
     lease_CgroupPath = [], lease_CgroupRel = [], lease_ContainerID = [], lease_Namespace = [],
     lease_CreatedAt = 0, lease_ExpiresAt = 0, lease_Active = False\<rparr>"

definition zero_claim :: soft_claim where
  "zero_claim = \<lparr>claim_ID = [], claim_GPU = 0, claim_TokenHash = [], claim_AuthorizationID = [],
     claim_Holder = [], claim_CreatedAt = 0, claim_UpdatedAt = 0\<rparr>"

definition zero_info :: proc_info where
  "zero_info = \<lparr>pi_PID = 0, pi_StartTime = 0, pi_UID = 0, pi_Username = [], pi_Cmdline = [],
     pi_CommandPath = [], pi_Cgroup = [], pi_ContainerID = [], pi_StderrPath = []\<rparr>"

definition zero_process :: gpu_process where
  "zero_process = \<lparr>gp_GPU = 0, gp_PID = 0, gp_Name = [], gp_MemBytes = 0,
     gp_MemBytesUnknown = False\<rparr>"

definition empty_state :: state where
  "empty_state = \<lparr>st_ManagedKeys = False, st_KeySnapshotID = [], st_Tokens = [],
     st_Reservations = [], st_Authorizations = [], st_SoftClaims = [], st_Leases = [],
     st_Bypasses = [], st_Audit = []\<rparr>"

section \<open>Views\<close>

record token_view =
  tv_ID :: string
  tv_Key :: string
  tv_KeyStatus :: string
  tv_Name :: string
  tv_Mode :: string
  tv_Version :: int
  tv_Managed :: bool
  tv_CreatedAt :: time
  tv_ExpiresAt :: "time option"
  tv_Revoked :: bool

record reservation_view =
  rv_ID :: string
  rv_GroupID :: string
  rv_ExternalSessionID :: string
  rv_GPU :: int
  rv_Holder :: string
  rv_Purpose :: string
  rv_CreatedAt :: time
  rv_StartsAt :: time
  rv_ExpiresAt :: time
  rv_Active :: bool
  rv_Revoked :: bool

record authorization_view =
  av_ID :: string
  av_TokenID :: string
  av_Mode :: string
  av_TokenMode :: string
  av_Holder :: string
  av_UID :: int
  av_GID :: int
  av_Username :: string
  av_Command :: "string list"
  av_RootPID :: int
  av_ContainerID :: string
  av_ContainerPattern :: string
  av_Namespace :: string
  av_CreatedAt :: time
  av_ExpiresAt :: "time option"
  av_Active :: bool
  av_Revoked :: bool

record soft_claim_view =
  cv_ID :: string
  cv_GPU :: int
  cv_AuthorizationID :: string
  cv_Holder :: string
  cv_CreatedAt :: time
  cv_UpdatedAt :: time

record status =
  su_Now :: time
  su_Tokens :: "token_view list"
  su_Reservations :: "reservation_view list"
  su_Authorizations :: "authorization_view list"
  su_SoftClaims :: "soft_claim_view list"
  su_Leases :: "lease list"
  su_Bypasses :: "bypass_rule list"

record key_status =
  ks_Now :: time
  ks_Tokens :: "token_view list"
  ks_Reservations :: "reservation_view list"
  ks_Authorizations :: "authorization_view list"
  ks_Bypasses :: "bypass_rule list"

section \<open>Reservation windows\<close>

definition ReservationStartsAt :: "reservation \<Rightarrow> time" where
  "ReservationStartsAt r = (if \<not> IsZero (res_StartsAt r) then res_StartsAt r else res_CreatedAt r)"

definition ReservationActiveAt :: "reservation \<Rightarrow> time \<Rightarrow> bool" where
  "ReservationActiveAt r now \<longleftrightarrow>
     res_Active r \<and> \<not> res_Revoked r \<and> \<not> Before now (ReservationStartsAt r) \<and>
     Before now (res_ExpiresAt r)"

definition ReservationOverlaps :: "reservation \<Rightarrow> time \<Rightarrow> time \<Rightarrow> bool" where
  "ReservationOverlaps r startsAt expiresAt \<longleftrightarrow>
     (if \<not> res_Active r \<or> res_Revoked r then False
      else Before (ReservationStartsAt r) expiresAt \<and> Before startsAt (res_ExpiresAt r))"

text \<open>
  Two stored reservations conflict when both are live, they are for one GPU and their
  half-open windows intersect.
\<close>

definition conflicting :: "reservation \<Rightarrow> reservation \<Rightarrow> bool" where
  "conflicting a b \<longleftrightarrow> res_GPU a = res_GPU b \<and> res_Active b \<and> \<not> res_Revoked b \<and>
     ReservationOverlaps a (ReservationStartsAt b) (res_ExpiresAt b)"

lemma conflicting_sym: "conflicting a b \<longleftrightarrow> conflicting b a"
  by (auto simp: conflicting_def ReservationOverlaps_def)

lemma active_both_conflicting:
  "\<lbrakk>ReservationActiveAt a now; ReservationActiveAt b now; res_GPU a = res_GPU b\<rbrakk>
   \<Longrightarrow> conflicting a b"
  by (auto simp: conflicting_def ReservationOverlaps_def ReservationActiveAt_def)

text \<open>A state in which no two reservations at different positions conflict.\<close>

definition exclusive :: "reservation list \<Rightarrow> bool" where
  "exclusive rs \<longleftrightarrow> sorted_wrt (\<lambda>a b. \<not> conflicting a b) rs"

lemma exclusive_Nil [simp]: "exclusive []"
  by (simp add: exclusive_def)

lemma exclusive_filter: "exclusive rs \<Longrightarrow> exclusive (filter P rs)"
  by (simp add: exclusive_def sorted_wrt_filter_imp)

lemma exclusive_append:
  "exclusive (xs @ ys) \<longleftrightarrow>
     exclusive xs \<and> exclusive ys \<and> (\<forall>x\<in>set xs. \<forall>y\<in>set ys. \<not> conflicting x y)"
  by (simp add: exclusive_def sorted_wrt_append)

text \<open>
  \<open>calmer r r'\<close>: \<open>r'\<close> is \<open>r\<close> with its window and GPU kept and possibly less alive. Every
  in-place change of a reservation is of this form.
\<close>

definition calmer :: "reservation \<Rightarrow> reservation \<Rightarrow> bool" where
  "calmer r r' \<longleftrightarrow> res_GPU r' = res_GPU r \<and> res_StartsAt r' = res_StartsAt r \<and>
     res_CreatedAt r' = res_CreatedAt r \<and> res_ExpiresAt r' = res_ExpiresAt r \<and>
     (res_Active r' \<longrightarrow> res_Active r) \<and> (res_Revoked r \<longrightarrow> res_Revoked r')"

lemma calmer_refl [simp]: "calmer r r"
  by (simp add: calmer_def)

lemma calmer_conflicting: "\<lbrakk>calmer a a'; calmer b b'; conflicting a' b'\<rbrakk> \<Longrightarrow> conflicting a b"
  by (auto simp: calmer_def conflicting_def ReservationOverlaps_def ReservationStartsAt_def
      split: if_splits)

lemma exclusive_calmer: "\<lbrakk>exclusive rs; list_all2 calmer rs rs'\<rbrakk> \<Longrightarrow> exclusive rs'"
  unfolding exclusive_def
  by (rule sorted_wrt_list_all2 [where S = calmer and xs = rs]) (auto dest: calmer_conflicting)

lemma exclusive_active_unique:
  assumes "exclusive rs" "i < length rs" "j < length rs"
    and "ReservationActiveAt (rs ! i) now" "ReservationActiveAt (rs ! j) now"
    and "res_GPU (rs ! i) = res_GPU (rs ! j)"
  shows "i = j"
proof (rule ccontr)
  assume "i \<noteq> j"
  then consider "i < j" | "j < i" by linarith
  then show False
  proof cases
    case 1
    with assms(1,3) have "\<not> conflicting (rs ! i) (rs ! j)"
      by (simp add: exclusive_def sorted_wrt_iff_nth_less)
    with assms(4-6) show False by (simp add: active_both_conflicting)
  next
    case 2
    with assms(1,2) have "\<not> conflicting (rs ! j) (rs ! i)"
      by (simp add: exclusive_def sorted_wrt_iff_nth_less)
    with assms(4-6) show False by (simp add: active_both_conflicting)
  qed
qed

end
