(* ===== verification/StoreBase.thy ===== *)
theory StoreBase
  imports Model
begin

text \<open>
  The transactional core of package \<^verbatim>\<open>internal/store\<close>: the size limits, the validation of a
  state before it is persisted, loading the state file, saving it atomically with rollback
  of the in-memory state, and the pattern of every operation, which loads the state under
  the mutex, decides on it and saves what it changed.

  The operating system is seen through the record \<open>io\<close>, which holds for each system call of
  one operation the error it returns, and the functions of the standard library that are
  not modelled byte for byte (SHA-256, the JSON codec of the state, the parser of
  durations) are the fields of the record \<open>golib\<close>. Both are arguments of the definitions, so
  the theorems hold for every codec, hash function and pattern of failures.
\<close>

unbundle bit_operations_syntax

section \<open>Limits\<close>

definition DefaultTokenTTL :: duration where "DefaultTokenTTL = 2 * Hour"
definition MaxTokenTTL :: duration where "MaxTokenTTL = 24 * Hour"
definition DefaultHardTTL :: duration where "DefaultHardTTL = 2 * Hour"
definition MaxHardTTL :: duration where "MaxHardTTL = 30 * 24 * Hour"
definition NoTTLMaximum :: duration where "NoTTLMaximum = 0"
definition maxAuditEvents :: int where "maxAuditEvents = 1000"
definition maxAuditLogBytes :: int where "maxAuditLogBytes = 10485760"
definition maxStateFileBytes :: int where "maxStateFileBytes = 67108864"
definition rootKeyHexBytes :: nat where "rootKeyHexBytes = 32"
definition maxActiveTokensPerHolder :: int where "maxActiveTokensPerHolder = 8"
definition maxTotalTokens :: int where "maxTotalTokens = 4096"
definition maxTotalReservations :: int where "maxTotalReservations = 4096"
definition maxTotalAuthorizations :: int where "maxTotalAuthorizations = 4096"
definition maxTotalSoftClaims :: int where "maxTotalSoftClaims = 4096"
definition maxTotalLeases :: int where "maxTotalLeases = 4096"
definition maxTotalBypasses :: int where "maxTotalBypasses = 1024"
definition maxActiveAuthorizationsPerToken :: int where "maxActiveAuthorizationsPerToken = 64"
definition maxGPUIndex :: int where "maxGPUIndex = 1023"
definition maxPersistedValueBytes :: int where "maxPersistedValueBytes = 4096"
definition maxPersistedCommandArgs :: int where "maxPersistedCommandArgs = 1024"
definition maxPersistedCommandBytes :: int where "maxPersistedCommandBytes = 262144"
definition maxViewCommandArgs :: int where "maxViewCommandArgs = 128"
definition maxViewCommandBytes :: int where "maxViewCommandBytes = 16384"
definition maxAuditMessageBytes :: int where "maxAuditMessageBytes = 16384"

lemmas limit_defs = maxAuditEvents_def maxAuditLogBytes_def maxStateFileBytes_def
  rootKeyHexBytes_def maxActiveTokensPerHolder_def maxTotalTokens_def maxTotalReservations_def
  maxTotalAuthorizations_def maxTotalSoftClaims_def maxTotalLeases_def maxTotalBypasses_def
  maxActiveAuthorizationsPerToken_def maxGPUIndex_def maxPersistedValueBytes_def
  maxPersistedCommandArgs_def maxPersistedCommandBytes_def maxViewCommandArgs_def
  maxViewCommandBytes_def maxAuditMessageBytes_def

lemmas ttl_defs = DefaultTokenTTL_def MaxTokenTTL_def DefaultHardTTL_def MaxHardTTL_def
  NoTTLMaximum_def

abbreviation len :: "'a list \<Rightarrow> int" where "len xs \<equiv> int (length xs)"

section \<open>Validation\<close>

definition checkTotalCapacity :: "string \<Rightarrow> int \<Rightarrow> int \<Rightarrow> int \<Rightarrow> error option" where
  "checkTotalCapacity kind current adding maximum =
     (if adding > maximum \<or> current > maximum - adding
      then Some (ErrLimit kind adding current maximum) else None)"

lemma checkTotalCapacity_None [guard_simps]:
  "0 \<le> current \<Longrightarrow>
   checkTotalCapacity kind current adding maximum = None \<longleftrightarrow> current + adding \<le> maximum"
  by (auto simp: checkTotalCapacity_def)

definition validatePersistedValues :: "string \<Rightarrow> string list \<Rightarrow> error option" where
  "validatePersistedValues kind values =
     first_error (\<lambda>v. if len v > maxPersistedValueBytes
                      then Some (ErrValueSize kind maxPersistedValueBytes) else None) values"

fun command_bytes_loop :: "string list \<Rightarrow> int \<Rightarrow> error option" where
  "command_bytes_loop [] used = None"
| "command_bytes_loop (argument # rest) used =
     (if len argument > maxPersistedCommandBytes - used
      then Some (ErrValueSize ''command'' maxPersistedCommandBytes)
      else command_bytes_loop rest (used + len argument))"

definition validatePersistedCommand :: "string list \<Rightarrow> error option" where
  "validatePersistedCommand command =
     (if len command > maxPersistedCommandArgs
      then Some (ErrTooMany ''command arguments'' (len command) maxPersistedCommandArgs)
      else command_bytes_loop command 0)"

definition validateGPUIndex :: "int \<Rightarrow> error option" where
  "validateGPUIndex gpu = (if gpu < 0 \<or> gpu > maxGPUIndex then Some (ErrGPUIndex gpu) else None)"

definition wrap_error :: "string \<Rightarrow> string \<Rightarrow> error option \<Rightarrow> error option" where
  "wrap_error kind ident e = map_option (ErrWrap kind ident) e"

lemma wrap_error_None [simp, guard_simps]: "wrap_error k i e = None \<longleftrightarrow> e = None"
  by (simp add: wrap_error_def)

definition validate_token :: "token \<Rightarrow> error option" where
  "validate_token t = validatePersistedValues ''token''
     [tok_ID t, tok_Hash t, tok_Secret t, tok_Name t, tok_Mode t]"

definition validate_reservation :: "reservation \<Rightarrow> error option" where
  "validate_reservation r =
     and_then (wrap_error ''reservation'' (res_ID r) (validateGPUIndex (res_GPU r)))
       (validatePersistedValues ''reservation''
          [res_ID r, res_GroupID r, res_ExternalSessionID r, res_TokenHash r, res_Holder r,
           res_Purpose r])"

definition validate_authorization :: "authorization \<Rightarrow> error option" where
  "validate_authorization a =
     and_then
       (validatePersistedValues ''authorization''
          [auth_ID a, auth_Mode a, auth_TokenHash a, auth_TokenMode a, auth_Holder a,
           auth_Username a, auth_CgroupPath a, auth_CgroupRel a, auth_ContainerID a,
           auth_ContainerPattern a, auth_Namespace a])
       (wrap_error ''authorization'' (auth_ID a) (validatePersistedCommand (auth_Command a)))"

definition validate_claim :: "soft_claim \<Rightarrow> error option" where
  "validate_claim c =
     and_then (wrap_error ''soft claim'' (claim_ID c) (validateGPUIndex (claim_GPU c)))
       (validatePersistedValues ''soft claim''
          [claim_ID c, claim_TokenHash c, claim_AuthorizationID c, claim_Holder c])"

definition validate_lease :: "lease \<Rightarrow> error option" where
  "validate_lease l =
     and_then (wrap_error ''lease'' (lease_ID l) (validateGPUIndex (lease_GPU l)))
       (and_then
          (validatePersistedValues ''lease''
             [lease_ID l, lease_Mode l, lease_TokenHash l, lease_Holder l, lease_CgroupPath l,
              lease_CgroupRel l, lease_ContainerID l, lease_Namespace l])
          (wrap_error ''lease'' (lease_ID l) (validatePersistedCommand (lease_Command l))))"

definition validate_bypass :: "bypass_rule \<Rightarrow> error option" where
  "validate_bypass b = validatePersistedValues ''bypass''
     [byp_ID b, byp_Type b, byp_BootID b, byp_Command b, byp_Reason b]"

definition validate_event :: "audit_event \<Rightarrow> error option" where
  "validate_event ev =
     and_then (validatePersistedValues ''audit event'' [ev_Kind ev, ev_LeaseID ev, ev_User ev])
       (if len (ev_Message ev) > maxAuditMessageBytes
        then Some (ErrValueSize ''audit event message'' maxAuditMessageBytes) else None)"

definition validateStateBounds :: "state \<Rightarrow> error option" where
  "validateStateBounds st =
     and_then (validatePersistedValues ''state'' [st_KeySnapshotID st])
    (and_then
       (first_error
          (\<lambda>(kind, current, maximum).
             if current > maximum then Some (ErrTooMany kind current maximum) else None)
          [(''token'', len (st_Tokens st), maxTotalTokens),
           (''reservation'', len (st_Reservations st), maxTotalReservations),
           (''authorization'', len (st_Authorizations st), maxTotalAuthorizations),
           (''soft claim'', len (st_SoftClaims st), maxTotalSoftClaims),
           (''lease'', len (st_Leases st), maxTotalLeases),
           (''bypass'', len (st_Bypasses st), maxTotalBypasses),
           (''audit event'', len (st_Audit st), maxAuditEvents)])
    (and_then (first_error validate_token (st_Tokens st))
    (and_then (first_error validate_reservation (st_Reservations st))
    (and_then (first_error validate_authorization (st_Authorizations st))
    (and_then (first_error validate_claim (st_SoftClaims st))
    (and_then (first_error validate_lease (st_Leases st))
    (and_then (first_error validate_bypass (st_Bypasses st))
              (first_error validate_event (st_Audit st)))))))))"

abbreviation within_bounds :: "state \<Rightarrow> bool" where
  "within_bounds st \<equiv> validateStateBounds st = None"

lemma within_bounds_counts:
  assumes "within_bounds st"
  shows "len (st_Tokens st) \<le> maxTotalTokens" "len (st_Reservations st) \<le> maxTotalReservations"
    "len (st_Authorizations st) \<le> maxTotalAuthorizations"
    "len (st_SoftClaims st) \<le> maxTotalSoftClaims" "len (st_Leases st) \<le> maxTotalLeases"
    "len (st_Bypasses st) \<le> maxTotalBypasses" "len (st_Audit st) \<le> maxAuditEvents"
  using assms by (auto simp: validateStateBounds_def split: if_splits)

lemma within_bounds_empty [simp]: "within_bounds empty_state"
  by (simp add: validateStateBounds_def empty_state_def validatePersistedValues_def limit_defs)

lemma command_bytes_loop_None:
  assumes "used \<le> maxPersistedCommandBytes"
  shows "command_bytes_loop xs used = None \<longleftrightarrow>
    used + sum_list (map len xs) \<le> maxPersistedCommandBytes"
  using assms
proof (induction xs arbitrary: used)
  case Nil
  then show ?case by simp
next
  case (Cons a xs)
  have "0 \<le> sum_list (map len xs)" by (rule sum_list_nonneg) auto
  with Cons show ?case by auto
qed

section \<open>Copies\<close>

text \<open>
  \<open>cloneState\<close> copies the slices of a state and the command slices inside them; on values it
  is the identity, and what it buys the code is that the copy shares no memory with the
  original. \<open>cloneEnforcementState\<close> leaves out secrets, commands and the audit history.
\<close>

definition cloneState :: "state \<Rightarrow> state" where
  "cloneState st =
     \<lparr>st_ManagedKeys = st_ManagedKeys st, st_KeySnapshotID = st_KeySnapshotID st,
      st_Tokens = [] @ st_Tokens st,
      st_Reservations = [] @ st_Reservations st,
      st_Authorizations =
        map (\<lambda>a. a\<lparr>auth_Command := [] @ auth_Command a\<rparr>) ([] @ st_Authorizations st),
      st_SoftClaims = [] @ st_SoftClaims st,
      st_Leases = map (\<lambda>l. l\<lparr>lease_Command := [] @ lease_Command l\<rparr>) ([] @ st_Leases st),
      st_Bypasses = [] @ st_Bypasses st,
      st_Audit = [] @ st_Audit st\<rparr>"

lemma cloneState_id [simp]: "cloneState st = st"
  by (simp add: cloneState_def)

definition cloneEnforcementState :: "state \<Rightarrow> state" where
  "cloneEnforcementState st =
     \<lparr>st_ManagedKeys = st_ManagedKeys st, st_KeySnapshotID = st_KeySnapshotID st,
      st_Tokens = map (\<lambda>t. t\<lparr>tok_Secret := []\<rparr>) (st_Tokens st),
      st_Reservations = st_Reservations st,
      st_Authorizations = map (\<lambda>a. a\<lparr>auth_Command := []\<rparr>) (st_Authorizations st),
      st_SoftClaims = st_SoftClaims st,
      st_Leases = map (\<lambda>l. l\<lparr>lease_Command := []\<rparr>) (st_Leases st),
      st_Bypasses = st_Bypasses st,
      st_Audit = []\<rparr>"

section \<open>Files, libraries, and the store\<close>

record file_obj =
  fo_regular :: bool
  fo_perm :: "32 word"
  fo_data :: string

record golib =
  gl_sha256hex :: "string \<Rightarrow> string"
  gl_marshal :: "state \<Rightarrow> string result"
  gl_unmarshal :: "string \<Rightarrow> state \<Rightarrow> error option \<times> state"
  gl_parseDuration :: "string \<Rightarrow> duration result"
  gl_eventJSON :: "audit_event \<Rightarrow> string result"

text \<open>
  The error, if any, of each system call an operation makes: opening and reading a file,
  creating the directory, the steps of writing a temporary file, renaming it, and syncing
  the directory.
\<close>

record io =
  io_open :: "error option"
  io_stat :: "error option"
  io_read :: "error option"
  io_mkdir :: "error option"
  io_create :: "error option"
  io_chmod :: "error option"
  io_write :: "error option"
  io_fsync :: "error option"
  io_close :: "error option"
  io_rename :: "error option"
  io_syncdir :: "error option"

definition io_ok :: io where
  "io_ok = \<lparr>io_open = None, io_stat = None, io_read = None, io_mkdir = None, io_create = None,
     io_chmod = None, io_write = None, io_fsync = None, io_close = None, io_rename = None,
     io_syncdir = None\<rparr>"

text \<open>
  The system calls around the root key file: those of reading it, those of creating it
  (the temporary file, the hard link that publishes it, the two directory syncs and the
  removal of the temporary name), those of reading it again after losing a race, the file
  another process may have published in between, and the random hexadecimal digits of a
  new key.
\<close>

record keyio =
  ki_first :: io
  ki_mkdir :: "error option"
  ki_temp :: io
  ki_race :: "file_obj option"
  ki_link :: "error option"
  ki_sync1 :: "error option"
  ki_remove :: "error option"
  ki_sync2 :: "error option"
  ki_second :: io
  ki_hex :: string

text \<open>
  What one call sees of the world: the library, the system calls of loading, of saving and
  of the root key, and the hexadecimal strings \<^verbatim>\<open>randomHex\<close> draws, in order.
\<close>

record env =
  e_lib :: golib
  e_load :: io
  e_save :: io
  e_key :: keyio
  e_rnd :: "nat \<Rightarrow> string"

record store =
  sto_state :: state
  sto_committed :: state
  sto_loaded :: bool
  sto_disk :: "file_obj option"
  sto_rootkey :: "file_obj option"

definition New :: "file_obj option \<Rightarrow> file_obj option \<Rightarrow> store" where
  "New disk rootkey = \<lparr>sto_state = empty_state, sto_committed = empty_state, sto_loaded = False,
     sto_disk = disk, sto_rootkey = rootkey\<rparr>"

definition HashToken :: "env \<Rightarrow> string \<Rightarrow> string" where
  "HashToken E secret = gl_sha256hex (e_lib E) secret"

datatype 'a reading = NotExist | ReadErr error | ReadOK 'a

abbreviation newline :: string where "newline \<equiv> [CHR 0x0A]"

definition group_or_other :: "32 word \<Rightarrow> bool" where
  "group_or_other perm \<longleftrightarrow> perm AND 63 \<noteq> 0"

definition readStateFile :: "io \<Rightarrow> file_obj option \<Rightarrow> string reading" where
  "readStateFile io file =
     (case io_open io of Some e \<Rightarrow> ReadErr e
      | None \<Rightarrow>
        (case file of None \<Rightarrow> NotExist
         | Some f \<Rightarrow>
           (case io_stat io of Some e \<Rightarrow> ReadErr e
            | None \<Rightarrow>
              if \<not> fo_regular f then ReadErr (ErrNew ''state is not a regular file'')
              else if group_or_other (fo_perm f)
                then ReadErr (ErrNew ''state permissions allow group or other access'')
              else
                (case io_read io of Some e \<Rightarrow> ReadErr e
                 | None \<Rightarrow>
                   if len (fo_data f) > maxStateFileBytes
                   then ReadErr (ErrValueSize ''state'' maxStateFileBytes)
                   else ReadOK (fo_data f)))))"

definition loadLocked :: "env \<Rightarrow> store \<Rightarrow> error option \<times> store" where
  "loadLocked E s =
     (if sto_loaded s then (None, s)
      else
        (case readStateFile (e_load E) (sto_disk s) of
           NotExist \<Rightarrow>
             (None, s\<lparr>sto_state := empty_state, sto_committed := empty_state, sto_loaded := True\<rparr>)
         | ReadErr e \<Rightarrow> (Some e, s)
         | ReadOK data \<Rightarrow>
             (case (if TrimSpace data = [] then (None, empty_state)
                    else gl_unmarshal (e_lib E) data (sto_state s)) of
                (Some e, st) \<Rightarrow> (Some e, s\<lparr>sto_state := st\<rparr>)
              | (None, st) \<Rightarrow>
                  (case validateStateBounds st of
                     Some e \<Rightarrow> (Some (ErrWrap ''invalid persisted state'' [] e), s\<lparr>sto_state := st\<rparr>)
                   | None \<Rightarrow>
                       (None, s\<lparr>sto_state := st, sto_committed := cloneState st,
                                sto_loaded := True\<rparr>)))))"

section \<open>Atomic writes\<close>

text \<open>
  \<open>writeSyncedTempFile\<close>: the temporary file is created, given its mode, written, synced and
  closed; the first error is returned and the file is removed (the flag says whether it is
  left in the directory).
\<close>

definition writeSyncedTempFile :: "io \<Rightarrow> error option \<times> bool" where
  "writeSyncedTempFile io =
     (case io_create io of Some e \<Rightarrow> (Some e, False)
      | None \<Rightarrow>
        (case and_then (and_then (io_chmod io) (io_write io)) (io_fsync io) of
           Some e \<Rightarrow> (Some e, False)
         | None \<Rightarrow> (case io_close io of Some e \<Rightarrow> (Some e, False) | None \<Rightarrow> (None, True))))"

definition writeFileAtomically ::
  "io \<Rightarrow> string \<Rightarrow> 32 word \<Rightarrow> file_obj option \<Rightarrow> (bool \<times> error option) \<times> file_obj option" where
  "writeFileAtomically io data mode file =
     (case writeSyncedTempFile io of
        (Some e, _) \<Rightarrow> ((False, Some e), file)
      | (None, _) \<Rightarrow>
          (case io_rename io of
             Some e \<Rightarrow> ((False, Some e), file)
           | None \<Rightarrow> ((True, io_syncdir io), Some \<lparr>fo_regular = True, fo_perm = mode, fo_data = data\<rparr>)))"

definition rollback :: "error \<Rightarrow> store \<Rightarrow> error option \<times> store" where
  "rollback e s = (Some e, s\<lparr>sto_state := cloneState (sto_committed s)\<rparr>)"

definition saveLocked :: "env \<Rightarrow> store \<Rightarrow> error option \<times> store" where
  "saveLocked E s =
     (case validateStateBounds (sto_state s) of
        Some e \<Rightarrow> rollback e s
      | None \<Rightarrow>
        (case io_mkdir (e_save E) of
           Some e \<Rightarrow> rollback e s
         | None \<Rightarrow>
           (case gl_marshal (e_lib E) (sto_state s) of
              Inl e \<Rightarrow> rollback e s
            | Inr data \<Rightarrow>
              if len data > maxStateFileBytes then rollback (ErrValueSize ''state'' maxStateFileBytes) s
              else
                (case writeFileAtomically (e_save E) (data @ newline) 0x180 (sto_disk s) of
                   ((committedToDisk, err), disk) \<Rightarrow>
                     let s' = s\<lparr>sto_disk := disk,
                                sto_committed := if committedToDisk then cloneState (sto_state s)
                                                 else sto_committed s\<rparr>
                     in (case err of Some e \<Rightarrow> rollback e s' | None \<Rightarrow> (None, s'))))))"

section \<open>The shape of an operation\<close>

text \<open>
  Every operation locks the store, loads it, and then fails, returns without a change, or
  changes the state and saves it. What it decides is a function of the loaded state; \<open>runtx\<close>
  is the frame all operations share.
\<close>

datatype 'r outcome = Fail error | Done 'r | Write state 'r

definition runtx :: "env \<Rightarrow> (state \<Rightarrow> 'r outcome) \<Rightarrow> store \<Rightarrow> 'r result \<times> store" where
  "runtx E body s =
     (case loadLocked E s of
        (Some e, s1) \<Rightarrow> (Inl e, s1)
      | (None, s1) \<Rightarrow>
          (case body (sto_state s1) of
             Fail e \<Rightarrow> (Inl e, s1)
           | Done r \<Rightarrow> (Inr r, s1)
           | Write st r \<Rightarrow>
               (case saveLocked E (s1\<lparr>sto_state := st\<rparr>) of
                  (Some e, s2) \<Rightarrow> (Inl e, s2)
                | (None, s2) \<Rightarrow> (Inr r, s2))))"

definition Load :: "env \<Rightarrow> store \<Rightarrow> error option \<times> store" where
  "Load E s = loadLocked E s"

definition Snapshot :: "env \<Rightarrow> store \<Rightarrow> state result \<times> store" where
  "Snapshot E = runtx E (\<lambda>st. Done (cloneState st))"

definition EnforcementSnapshot :: "env \<Rightarrow> store \<Rightarrow> state result \<times> store" where
  "EnforcementSnapshot E = runtx E (\<lambda>st. Done (cloneEnforcementState st))"

end
