(* ===== verification/StoreTx.thy ===== *)
theory StoreTx
  imports StoreBase
begin

text \<open>
  What the transactional core guarantees to every operation: memory, commit point and disk
  agree at the boundaries of an operation whatever system calls fail, and an invariant of
  states that the decision of an operation keeps is kept by the operation and survives a
  restart. The locale \<open>state_contract\<close> is the interface between the operations, which
  discharge its law, and the reachability argument over the whole store, which uses its
  lemmas.
\<close>

section \<open>Consistency of memory and commit point\<close>

definition consistent :: "store \<Rightarrow> bool" where
  "consistent s \<longleftrightarrow>
     (sto_loaded s \<longrightarrow> sto_state s = sto_committed s \<and> within_bounds (sto_state s))"

lemma loadLocked_consistent: "consistent s \<Longrightarrow> consistent (snd (loadLocked E s))"
  by (auto simp: loadLocked_def consistent_def Let_def split: reading.splits prod.splits option.splits)

lemma loadLocked_ok_loaded: "loadLocked E s = (None, s') \<Longrightarrow> sto_loaded s'"
  by (auto simp: loadLocked_def split: if_splits reading.splits prod.splits option.splits)

lemma loadLocked_loaded [simp]: "sto_loaded s \<Longrightarrow> loadLocked E s = (None, s)"
  by (simp add: loadLocked_def)

lemma loadLocked_disk [simp, frame]: "sto_disk (snd (loadLocked E s)) = sto_disk s"
  by (auto simp: loadLocked_def split: reading.splits prod.splits option.splits)

text \<open>The three ways a save can end.\<close>

lemma saveLocked_cases:
  assumes "saveLocked E s = (e, s')"
  obtains
    (rolled_back) err where "e = Some err"
      "s' = s\<lparr>sto_state := sto_committed s\<rparr>"
  | (committed) data where "within_bounds (sto_state s)"
      "gl_marshal (e_lib E) (sto_state s) = Inr data" "len data \<le> maxStateFileBytes"
      "e = io_syncdir (e_save E)"
      "s' = s\<lparr>sto_committed := sto_state s,
               sto_disk := Some \<lparr>fo_regular = True, fo_perm = 0x180, fo_data = data @ newline\<rparr>\<rparr>"
proof -
  have "(\<exists>err. e = Some err \<and> s' = s\<lparr>sto_state := sto_committed s\<rparr>) \<or>
    (\<exists>data. within_bounds (sto_state s) \<and> gl_marshal (e_lib E) (sto_state s) = Inr data \<and>
       len data \<le> maxStateFileBytes \<and> e = io_syncdir (e_save E) \<and>
       s' = s\<lparr>sto_committed := sto_state s,
              sto_disk := Some \<lparr>fo_regular = True, fo_perm = 0x180, fo_data = data @ newline\<rparr>\<rparr>)"
    using assms [symmetric]
    by (auto simp: saveLocked_def rollback_def writeFileAtomically_def Let_def not_less
        split: option.splits sum.splits if_splits prod.splits)
  with that show thesis by blast
qed

lemma saveLocked_loaded [simp, frame]: "sto_loaded (snd (saveLocked E s)) = sto_loaded s"
proof (cases "saveLocked E s")
  case (Pair e s')
  then show ?thesis by (cases rule: saveLocked_cases) (simp_all add: Pair)
qed

lemma saveLocked_consistent:
  assumes "sto_loaded s \<longrightarrow> within_bounds (sto_committed s)"
  shows "consistent (snd (saveLocked E s))"
proof (cases "saveLocked E s")
  case (Pair e s')
  then show ?thesis
    by (cases rule: saveLocked_cases) (use assms Pair in \<open>auto simp: consistent_def\<close>)
qed

text \<open>A transaction in terms of its parts.\<close>

lemma runtx_cases:
  assumes "runtx E body s = (r, s')"
  obtains
    (load_failed) e where "loadLocked E s = (Some e, s')" "r = Inl e"
  | (failed) e where "loadLocked E s = (None, s')" "body (sto_state s') = Fail e" "r = Inl e"
  | (unchanged) v where "loadLocked E s = (None, s')" "body (sto_state s') = Done v" "r = Inr v"
  | (saved) s1 st v e where "loadLocked E s = (None, s1)" "body (sto_state s1) = Write st v"
      "saveLocked E (s1\<lparr>sto_state := st\<rparr>) = (e, s')"
      "r = (case e of None \<Rightarrow> Inr v | Some err \<Rightarrow> Inl err)"
  using assms
  by (auto simp: runtx_def split: prod.splits option.splits outcome.splits)

lemma runtx_consistent: "consistent s \<Longrightarrow> consistent (snd (runtx E body s))"
proof (cases "runtx E body s")
  case (Pair r s')
  assume "consistent s"
  then have load: "consistent (snd (loadLocked E s))" by (rule loadLocked_consistent)
  from Pair show ?thesis
  proof (cases rule: runtx_cases)
    case (saved s1 st v e)
    with load have "sto_loaded s1 \<longrightarrow> within_bounds (sto_committed s1)"
      by (auto simp: consistent_def)
    then have "consistent (snd (saveLocked E (s1\<lparr>sto_state := st\<rparr>)))"
      by (intro saveLocked_consistent) simp
    with Pair saved show ?thesis by simp
  qed (use load Pair in auto)
qed

text \<open>
  What a call can do to a loaded store: leave it as it is, or commit the state its decision
  wrote. It reports success in the second case only if the directory was synced too, and a
  reported error with a committed state can only come from that last step.
\<close>

lemma runtx_atomic:
  assumes "consistent s" "sto_loaded s" "runtx E body s = (r, s')"
  shows "s' = s \<and> (\<forall>v. r = Inr v \<longrightarrow> body (sto_state s) = Done v) \<or>
    (\<exists>st v data. body (sto_state s) = Write st v \<and> sto_state s' = st \<and> sto_committed s' = st \<and>
       sto_loaded s' \<and> within_bounds st \<and> gl_marshal (e_lib E) st = Inr data \<and>
       sto_disk s' = Some \<lparr>fo_regular = True, fo_perm = 0x180, fo_data = data @ newline\<rparr> \<and>
       r = (case io_syncdir (e_save E) of None \<Rightarrow> Inr v | Some e \<Rightarrow> Inl e))"
  using assms(3)
proof (cases rule: runtx_cases)
  case (saved s1 st v e)
  with assms have s1: "s1 = s" by simp
  from saved(3) show ?thesis
  proof (cases rule: saveLocked_cases)
    case (rolled_back err)
    with saved s1 assms show ?thesis by (auto simp: consistent_def)
  next
    case (committed data)
    with saved s1 assms show ?thesis by auto
  qed
qed (use assms in auto)

lemma runtx_success:
  assumes "consistent s" "sto_loaded s" "runtx E body s = (Inr v, s')"
  obtains "body (sto_state s) = Done v" "s' = s"
  | st where "body (sto_state s) = Write st v" "sto_state s' = st" "sto_committed s' = st"
      "sto_loaded s'" "within_bounds st"
  using runtx_atomic [OF assms] by (auto split: option.splits)

section \<open>Invariants of the state and restarts\<close>

text \<open>
  The file holds the state: nothing for the empty one, else the document the marshaller
  produces for it, in a regular file that only the owner can read.
\<close>

definition disk_holds :: "golib \<Rightarrow> state \<Rightarrow> file_obj option \<Rightarrow> bool" where
  "disk_holds L st file \<longleftrightarrow>
     (case file of None \<Rightarrow> st = empty_state
      | Some f \<Rightarrow> fo_regular f \<and> fo_perm f = 0x180 \<and>
          (\<exists>data. gl_marshal L st = Inr data \<and> fo_data f = data @ newline))"

text \<open>The codec reads back the documents it writes, into the empty state.\<close>

definition codec_ok :: "golib \<Rightarrow> bool" where
  "codec_ok L \<longleftrightarrow>
     (\<forall>st data. gl_marshal L st = Inr data \<longrightarrow>
        TrimSpace (data @ newline) \<noteq> [] \<and> gl_unmarshal L (data @ newline) empty_state = (None, st))"

definition store_ok :: "golib \<Rightarrow> (state \<Rightarrow> bool) \<Rightarrow> store \<Rightarrow> bool" where
  "store_ok L I s \<longleftrightarrow>
     (\<exists>st. I st \<and> within_bounds st \<and> disk_holds L st (sto_disk s) \<and>
        (if sto_loaded s then sto_state s = st \<and> sto_committed s = st
         else sto_state s = empty_state))"

lemma store_ok_loaded: "\<lbrakk>store_ok L I s; sto_loaded s\<rbrakk> \<Longrightarrow> I (sto_state s)"
  by (auto simp: store_ok_def)

lemma store_ok_consistent: "store_ok L I s \<Longrightarrow> consistent s"
  by (auto simp: store_ok_def consistent_def)

lemma readStateFile_data:
  "readStateFile io file = ReadOK data \<Longrightarrow> \<exists>f. file = Some f \<and> fo_data f = data"
  by (auto simp: readStateFile_def split: option.splits if_splits)

lemma readStateFile_NotExist: "readStateFile io file = NotExist \<Longrightarrow> file = None"
  by (auto simp: readStateFile_def split: option.splits if_splits)

lemma loadLocked_store_ok:
  assumes codec: "codec_ok (e_lib E)" and ok: "store_ok (e_lib E) I s"
  shows "store_ok (e_lib E) I (snd (loadLocked E s))"
proof (cases "sto_loaded s")
  case True
  with ok show ?thesis by simp
next
  case False
  from ok obtain st where st: "I st" "within_bounds st" "disk_holds (e_lib E) st (sto_disk s)"
    and empty: "sto_state s = empty_state"
    by (auto simp: store_ok_def False)
  show ?thesis
  proof (cases "readStateFile (e_load E) (sto_disk s)")
    case NotExist
    then have "sto_disk s = None" by (rule readStateFile_NotExist)
    with st NotExist False show ?thesis
      by (auto simp: loadLocked_def store_ok_def disk_holds_def)
  next
    case (ReadErr e)
    with False ok show ?thesis by (simp add: loadLocked_def)
  next
    case (ReadOK data)
    then obtain f where "sto_disk s = Some f" "fo_data f = data"
      by (auto dest: readStateFile_data)
    with st codec have "TrimSpace data \<noteq> []" "gl_unmarshal (e_lib E) data empty_state = (None, st)"
      by (auto simp: disk_holds_def codec_ok_def)
    with st ReadOK False empty show ?thesis
      by (auto simp: loadLocked_def store_ok_def)
  qed
qed

lemma saveLocked_store_ok:
  assumes "store_ok (e_lib E) I s" "sto_loaded s" "I st"
  shows "store_ok (e_lib E) I (snd (saveLocked E (s\<lparr>sto_state := st\<rparr>)))"
proof (cases "saveLocked E (s\<lparr>sto_state := st\<rparr>)")
  case (Pair e s')
  then show ?thesis
    by (cases rule: saveLocked_cases)
      (use assms Pair in \<open>auto simp: store_ok_def disk_holds_def\<close>)
qed

text \<open>
  The contract of a decision: it keeps an invariant of states. A store operation built on it
  then keeps the store well-formed for that invariant.
\<close>

locale state_contract =
  fixes I :: "state \<Rightarrow> bool" and body :: "state \<Rightarrow> 'r outcome"
  assumes keeps: "\<lbrakk>I st; body st = Write st' r\<rbrakk> \<Longrightarrow> I st'"
begin

lemma runtx_ok:
  assumes codec: "codec_ok (e_lib E)" and ok: "store_ok (e_lib E) I s"
  shows "store_ok (e_lib E) I (snd (runtx E body s))"
proof (cases "runtx E body s")
  case (Pair r s')
  note load = loadLocked_store_ok [OF codec ok]
  from Pair show ?thesis
  proof (cases rule: runtx_cases)
    case (saved s1 st v e)
    with load have s1: "store_ok (e_lib E) I s1" "sto_loaded s1"
      by (auto intro: loadLocked_ok_loaded)
    from s1 saved(2) have "I st" by (metis keeps store_ok_loaded)
    with s1 saved(3) Pair show ?thesis
      using saveLocked_store_ok [of E I s1 st] by simp
  qed (use load Pair in auto)
qed

end

text \<open>A decision that never writes keeps every invariant.\<close>

definition read_only :: "(state \<Rightarrow> 'r outcome) \<Rightarrow> bool" where
  "read_only body \<longleftrightarrow> (\<forall>st st' r. body st \<noteq> Write st' r)"

lemma read_only_contract: "read_only body \<Longrightarrow> state_contract I body"
  by (auto simp: read_only_def state_contract_def)

lemma runtx_read_only:
  assumes "read_only body" "sto_loaded s"
  shows "snd (runtx E body s) = s"
  using assms by (auto simp: runtx_def read_only_def split: outcome.splits)

text \<open>
  Restarting the daemon: a new process has an unloaded store over the same file. Loading
  it gives back the state the last process had committed, as long as the file is not over
  the size the reader accepts.
\<close>

definition restart :: "store \<Rightarrow> store" where
  "restart s = New (sto_disk s) (sto_rootkey s)"

lemma restart_store_ok: "store_ok L I s \<Longrightarrow> store_ok L I (restart s)"
  by (auto simp: store_ok_def restart_def New_def)

lemma perm_0600 [simp]: "\<not> group_or_other 0x180"
  by (simp add: group_or_other_def)

lemma readStateFile_ok:
  assumes "io_open io = None" "io_stat io = None" "io_read io = None"
    and "fo_regular f" "\<not> group_or_other (fo_perm f)" "len (fo_data f) \<le> maxStateFileBytes"
  shows "readStateFile io (Some f) = ReadOK (fo_data f)"
  using assms by (simp add: readStateFile_def)

lemma restart_recovers:
  assumes "codec_ok (e_lib E)" "store_ok (e_lib E) I s" "sto_loaded s"
    and "io_open (e_load E) = None" "io_stat (e_load E) = None" "io_read (e_load E) = None"
    and "\<And>f. sto_disk s = Some f \<Longrightarrow> len (fo_data f) \<le> maxStateFileBytes"
  shows "\<exists>s'. loadLocked E (restart s) = (None, s') \<and> sto_state s' = sto_state s \<and>
    sto_committed s' = sto_state s"
proof (cases "sto_disk s")
  case None
  with assms show ?thesis
    by (auto simp: store_ok_def disk_holds_def restart_def New_def loadLocked_def
        readStateFile_def)
next
  case (Some f)
  with assms obtain data where f: "fo_regular f" "fo_perm f = 0x180" "fo_data f = data @ newline"
    and data: "gl_marshal (e_lib E) (sto_state s) = Inr data"
    and bounds: "within_bounds (sto_state s)"
    by (auto simp: store_ok_def disk_holds_def)
  from assms Some f have "readStateFile (e_load E) (Some f) = ReadOK (data @ newline)"
    using readStateFile_ok [of "e_load E" f] by simp
  with Some bounds data assms(1) show ?thesis
    by (auto simp: loadLocked_def restart_def New_def codec_ok_def)
qed

end
