(* ===== verification/RootKey.thy ===== *)
theory RootKey
  imports StoreTx
begin

text \<open>
  The root key of a node (\<^verbatim>\<open>ReadOrCreateRootKey\<close>, \<^verbatim>\<open>ValidateRootKey\<close> and the functions that
  read and publish its file): the key is read from a private regular file, created with a
  hard link if there is none, so that of two processes that create it one wins and the
  other reads the winner's key.
\<close>

section \<open>Reading and creating the key\<close>

definition rootKeyLength :: nat where "rootKeyLength = 3 + rootKeyHexBytes * 2"

text \<open>The format check of \<open>readRootKeyFile\<close>.\<close>

definition root_key_format :: "string \<Rightarrow> bool" where
  "root_key_format key \<longleftrightarrow>
     length key = rootKeyLength \<and> HasPrefix key ''rk_'' \<and> hex_decodable (drop 3 key)"

definition readRootKeyFile :: "io \<Rightarrow> file_obj option \<Rightarrow> string reading" where
  "readRootKeyFile io file =
     (case io_open io of Some e \<Rightarrow> ReadErr e
      | None \<Rightarrow>
        (case file of None \<Rightarrow> NotExist
         | Some f \<Rightarrow>
           (case io_stat io of Some e \<Rightarrow> ReadErr e
            | None \<Rightarrow>
              if \<not> fo_regular f then ReadErr (ErrNew ''root key is not a regular file'')
              else if group_or_other (fo_perm f)
                then ReadErr (ErrNew ''root key permissions allow group or other access'')
              else
                (case io_read io of Some e \<Rightarrow> ReadErr e
                 | None \<Rightarrow>
                   if length (fo_data f) > rootKeyLength + 1
                   then ReadErr (ErrNew ''root key has invalid length'')
                   else
                     let key = TrimSuffix (fo_data f) newline
                     in if root_key_format key then ReadOK key
                        else ReadErr (ErrNew ''root key has invalid format'')))))"

datatype create_result = Created | CreateExists | CreateErr error

definition createRootKeyFile ::
  "keyio \<Rightarrow> string \<Rightarrow> file_obj option \<Rightarrow> create_result \<times> file_obj option" where
  "createRootKeyFile K data file =
     (case writeSyncedTempFile (ki_temp K) of
        (Some e, _) \<Rightarrow> (CreateErr e, file)
      | (None, _) \<Rightarrow>
          (case ki_link K of
             Some e \<Rightarrow> (CreateErr e, file)
           | None \<Rightarrow>
               if file \<noteq> None then (CreateExists, file)
               else
                 let published = Some \<lparr>fo_regular = True, fo_perm = 0x180, fo_data = data\<rparr>
                 in (case and_then (ki_sync1 K) (and_then (ki_remove K) (ki_sync2 K)) of
                       Some e \<Rightarrow> (CreateErr e, published)
                     | None \<Rightarrow> (Created, published))))"

definition ReadOrCreateRootKey :: "env \<Rightarrow> store \<Rightarrow> string result \<times> store" where
  "ReadOrCreateRootKey E s =
     (let K = e_key E in
      case readRootKeyFile (ki_first K) (sto_rootkey s) of
        ReadOK key \<Rightarrow> (Inr key, s)
      | ReadErr e \<Rightarrow> (Inl e, s)
      | NotExist \<Rightarrow>
          (case ki_mkdir K of
             Some e \<Rightarrow> (Inl e, s)
           | None \<Rightarrow>
               let key = ''rk_'' @ ki_hex K;
                   present = (case ki_race K of None \<Rightarrow> sto_rootkey s | Some f \<Rightarrow> Some f)
               in (case createRootKeyFile K (key @ newline) present of
                     (Created, f) \<Rightarrow> (Inr key, s\<lparr>sto_rootkey := f\<rparr>)
                   | (CreateErr e, f) \<Rightarrow> (Inl e, s\<lparr>sto_rootkey := f\<rparr>)
                   | (CreateExists, f) \<Rightarrow>
                       (case readRootKeyFile (ki_second K) f of
                          ReadOK k \<Rightarrow> (Inr k, s\<lparr>sto_rootkey := f\<rparr>)
                        | ReadErr e \<Rightarrow> (Inl e, s\<lparr>sto_rootkey := f\<rparr>)
                        | NotExist \<Rightarrow> (Inl (ErrIO ''open''), s\<lparr>sto_rootkey := f\<rparr>)))))"

definition ValidateRootKey :: "env \<Rightarrow> string \<Rightarrow> store \<Rightarrow> bool result \<times> store" where
  "ValidateRootKey E candidate s =
     (case ReadOrCreateRootKey E s of
        (Inl e, s') \<Rightarrow> (Inl e, s')
      | (Inr key, s') \<Rightarrow>
          let a = TrimSpace candidate; b = TrimSpace key
          in (Inr (if length a \<noteq> length b then False else a = b), s'))"

text \<open>
  The guard at the head of the privileged operations: an error of the key file is
  returned, a wrong key is \<open>ErrInvalidRootKey\<close>, and only then the operation runs.
\<close>

definition with_root_key ::
  "env \<Rightarrow> string \<Rightarrow> (store \<Rightarrow> 'r result \<times> store) \<Rightarrow> store \<Rightarrow> 'r result \<times> store" where
  "with_root_key E rootKey k s =
     (case ValidateRootKey E rootKey s of
        (Inl e, s') \<Rightarrow> (Inl e, s')
      | (Inr ok, s') \<Rightarrow> if \<not> ok then (Inl ErrInvalidRootKey, s') else k s')"

section \<open>Properties\<close>

text \<open>The key file is all these operations touch.\<close>

lemma ReadOrCreateRootKey_frame [frame]:
  "ReadOrCreateRootKey E s = (r, s') \<Longrightarrow> \<exists>f. s' = s\<lparr>sto_rootkey := f\<rparr>"
  by (auto simp: ReadOrCreateRootKey_def Let_def
      split: reading.splits option.splits create_result.splits prod.splits
      intro: exI [of _ "sto_rootkey s"])

lemma ValidateRootKey_frame [frame]:
  "ValidateRootKey E k s = (r, s') \<Longrightarrow> \<exists>f. s' = s\<lparr>sto_rootkey := f\<rparr>"
  by (auto simp: ValidateRootKey_def Let_def split: sum.splits prod.splits
      dest: ReadOrCreateRootKey_frame)

lemma store_ok_rootkey [simp]: "store_ok L I (s\<lparr>sto_rootkey := f\<rparr>) = store_ok L I s"
  by (simp add: store_ok_def)

lemma consistent_rootkey [simp]: "consistent (s\<lparr>sto_rootkey := f\<rparr>) = consistent s"
  by (simp add: consistent_def)

lemma with_root_key_cases:
  assumes "with_root_key E rootKey k s = (r, s')"
  obtains (rejected) e f where "r = Inl e" "s' = s\<lparr>sto_rootkey := f\<rparr>"
  | (accepted) f where "ValidateRootKey E rootKey s = (Inr True, s\<lparr>sto_rootkey := f\<rparr>)"
      "k (s\<lparr>sto_rootkey := f\<rparr>) = (r, s')"
proof (cases "ValidateRootKey E rootKey s")
  case (Pair v s1)
  then obtain f where s1: "s1 = s\<lparr>sto_rootkey := f\<rparr>" by (auto dest: ValidateRootKey_frame)
  with assms Pair that show thesis
    by (auto simp: with_root_key_def split: sum.splits if_splits)
qed

lemma readRootKeyFile_format:
  "readRootKeyFile io file = ReadOK key \<Longrightarrow>
     root_key_format key \<and> (\<exists>f. file = Some f \<and> key = TrimSuffix (fo_data f) newline)"
  by (auto simp: readRootKeyFile_def Let_def split: option.splits if_splits)

lemma TrimSuffix_newline [simp]: "TrimSuffix (s @ newline) newline = s"
  by (simp add: TrimSuffix_def HasSuffix_def suffix_def)

lemma readRootKeyFile_published:
  assumes "root_key_format key" "io_open io = None" "io_stat io = None" "io_read io = None"
  shows "readRootKeyFile io
    (Some \<lparr>fo_regular = True, fo_perm = 0x180, fo_data = key @ newline\<rparr>) = ReadOK key"
  using assms by (simp add: readRootKeyFile_def root_key_format_def Let_def)

lemma ReadOrCreateRootKey_format:
  assumes "ReadOrCreateRootKey E s = (Inr key, s')" "root_key_format (''rk_'' @ ki_hex (e_key E))"
  shows "root_key_format key"
  using assms
  by (auto simp: ReadOrCreateRootKey_def Let_def dest: readRootKeyFile_format
      split: reading.splits option.splits create_result.splits prod.splits)

lemma createRootKeyFile_Created:
  "createRootKeyFile K data file = (Created, f) \<Longrightarrow>
     file = None \<and> f = Some \<lparr>fo_regular = True, fo_perm = 0x180, fo_data = data\<rparr>"
  by (auto simp: createRootKeyFile_def Let_def split: prod.splits option.splits if_splits)

lemma readRootKeyFile_stable:
  assumes "readRootKeyFile io file = ReadOK key"
    and "io_open io' = None" "io_stat io' = None" "io_read io' = None"
  shows "readRootKeyFile io' file = ReadOK key"
  using assms by (auto simp: readRootKeyFile_def split: option.splits if_splits)

text \<open>
  Once a call has returned a key, every later call whose reads succeed returns that key and
  leaves the file alone.
\<close>

lemma ReadOrCreateRootKey_stable:
  assumes "ReadOrCreateRootKey E s = (Inr key, s')"
    and "root_key_format (''rk_'' @ ki_hex (e_key E))"
    and "io_open (ki_first (e_key E')) = None" "io_stat (ki_first (e_key E')) = None"
      "io_read (ki_first (e_key E')) = None"
  shows "ReadOrCreateRootKey E' s' = (Inr key, s')"
proof -
  have "readRootKeyFile io_ok (Some \<lparr>fo_regular = True, fo_perm = 0x180,
      fo_data = (''rk_'' @ ki_hex (e_key E)) @ newline\<rparr>) = ReadOK (''rk_'' @ ki_hex (e_key E))"
    using assms(2) by (rule readRootKeyFile_published) (simp_all add: io_ok_def)
  with assms(1) have "\<exists>io. readRootKeyFile io (sto_rootkey s') = ReadOK key"
    by (auto simp: ReadOrCreateRootKey_def Let_def dest!: createRootKeyFile_Created
        split: reading.splits option.splits create_result.splits prod.splits)
  then have "readRootKeyFile (ki_first (e_key E')) (sto_rootkey s') = ReadOK key"
    using assms(3-5) by (blast intro: readRootKeyFile_stable)
  then show ?thesis by (simp add: ReadOrCreateRootKey_def)
qed

end
