(* ===== verification/StoreTokens.thy ===== *)
theory StoreTokens
  imports RootKey
begin

text \<open>
  Tokens of package \<^verbatim>\<open>internal/store\<close>: their modes and holders, admission limits, registration
  of claim tokens, validation of a secret, and the replacement of all tokens by the keys the
  web gateway manages.
\<close>

section \<open>Helpers\<close>

definition timeIsSet :: "time \<Rightarrow> bool" where "timeIsSet v \<longleftrightarrow> \<not> IsZero v"

definition timePtrIfSet :: "time \<Rightarrow> time option" where
  "timePtrIfSet v = (if IsZero v then None else Some v)"

definition NormalizeTokenMode :: "string \<Rightarrow> string" where
  "NormalizeTokenMode mode =
     (let m = TrimSpace (ToLower mode) in if m = [] then TokenModeClaimed else m)"

definition normalizeHolder :: "string \<Rightarrow> string" where
  "normalizeHolder holder =
     (let h = ToLower (TrimSpace holder) in if h = [] then ''anonymous'' else h)"

definition tokenExpired :: "token \<Rightarrow> time \<Rightarrow> bool" where
  "tokenExpired t now \<longleftrightarrow> timeIsSet (tok_ExpiresAt t) \<and> \<not> Before now (tok_ExpiresAt t)"

definition tokenActiveAt :: "token \<Rightarrow> time \<Rightarrow> bool" where
  "tokenActiveAt t now \<longleftrightarrow> \<not> tok_Revoked t \<and> \<not> tokenExpired t now"

lemmas token_time_defs = timeIsSet_def tokenExpired_def tokenActiveAt_def

text \<open>\<^verbatim>\<open>newToken\<close> draws the secret and the identifier; the caller stores the token.\<close>

definition newToken :: "env \<Rightarrow> string \<Rightarrow> string \<Rightarrow> time \<Rightarrow> time \<Rightarrow> string \<times> token" where
  "newToken E mode name expiresAt now =
     (let secret = ''gk_'' @ e_rnd E 0;
          tname = TrimSpace name
      in (secret,
          \<lparr>tok_ID = ''tok_'' @ e_rnd E 1, tok_Hash = HashToken E secret, tok_Secret = secret,
           tok_Name = (if tname = [] then ''anonymous'' else tname),
           tok_Mode = NormalizeTokenMode mode, tok_Version = 0, tok_Managed = False,
           tok_CreatedAt = now, tok_ExpiresAt = (if IsZero expiresAt then 0 else expiresAt),
           tok_Revoked = False\<rparr>))"

definition active_for_holder :: "token list \<Rightarrow> string \<Rightarrow> time \<Rightarrow> token list" where
  "active_for_holder ts holder now =
     filter (\<lambda>t. tokenActiveAt t now \<and> normalizeHolder (tok_Name t) = holder) ts"

definition checkTokenCapacityLocked :: "state \<Rightarrow> token \<Rightarrow> time \<Rightarrow> error option" where
  "checkTokenCapacityLocked st candidate now =
     and_then (checkTotalCapacity ''token'' (len (st_Tokens st)) 1 maxTotalTokens)
       (if \<not> tokenActiveAt candidate now then None
        else
          let holder = normalizeHolder (tok_Name candidate);
              active = len (active_for_holder (st_Tokens st) holder now)
          in if active \<ge> maxActiveTokensPerHolder
             then Some (ErrID ''active token limit reached for holder'' holder) else None)"

definition ParseTTL :: "env \<Rightarrow> string \<Rightarrow> duration \<Rightarrow> duration \<Rightarrow> duration result" where
  "ParseTTL E value def max_ttl =
     (if TrimSpace value = [] then Inr def
      else
        (case gl_parseDuration (e_lib E) value of
           Inl e \<Rightarrow> Inl e
         | Inr ttl \<Rightarrow>
             if ttl \<le> 0 then Inl (ErrNew ''ttl must be positive'')
             else if max_ttl > NoTTLMaximum \<and> ttl > max_ttl
               then Inl (ErrDuration ''ttl exceeds max'' max_ttl)
             else Inr ttl))"

section \<open>Registration\<close>

definition add_token_body :: "token \<Rightarrow> time \<Rightarrow> 'r \<Rightarrow> state \<Rightarrow> 'r outcome" where
  "add_token_body t now r st =
     (case checkTokenCapacityLocked st t now of
        Some e \<Rightarrow> Fail e
      | None \<Rightarrow> Write (st\<lparr>st_Tokens := st_Tokens st @ [t]\<rparr>) r)"

definition RegisterSoftToken ::
  "env \<Rightarrow> string \<Rightarrow> string \<Rightarrow> time \<Rightarrow> store \<Rightarrow> (string \<times> token) result \<times> store" where
  "RegisterSoftToken E rootKey name now =
     with_root_key E rootKey
       (let (secret, t) = newToken E TokenModeClaimed name 0 now
        in runtx E (add_token_body t now (secret, t)))"

definition RegisterToken ::
  "env \<Rightarrow> string \<Rightarrow> string \<Rightarrow> string \<Rightarrow> time \<Rightarrow> store \<Rightarrow> (string \<times> token) result \<times> store" where
  "RegisterToken E rootKey name ttlText now s =
     (case ParseTTL E ttlText DefaultTokenTTL MaxTokenTTL of
        Inl e \<Rightarrow> (Inl e, s)
      | Inr ttl \<Rightarrow>
          with_root_key E rootKey
            (let (secret, t) = newToken E TokenModeClaimed name (time_Add now ttl) now
             in runtx E (add_token_body t now (secret, t))) s)"

section \<open>Validation of a secret\<close>

definition lookup_token :: "state \<Rightarrow> string \<Rightarrow> time \<Rightarrow> token \<times> error option" where
  "lookup_token st hash now =
     (case find (\<lambda>t. tok_Hash t = hash) (st_Tokens st) of
        None \<Rightarrow> (zero_token, Some ErrTokenNotFound)
      | Some t \<Rightarrow>
          if tok_Revoked t then (t, Some ErrTokenRevoked)
          else
            let t' = t\<lparr>tok_Mode := NormalizeTokenMode (tok_Mode t)\<rparr>
            in if timeIsSet (tok_ExpiresAt t') \<and> \<not> Before now (tok_ExpiresAt t')
               then (t', Some ErrTokenExpired) else (t', None))"

definition ValidateToken ::
  "env \<Rightarrow> string \<Rightarrow> time \<Rightarrow> store \<Rightarrow> (token \<times> string \<times> error option) \<times> store" where
  "ValidateToken E secret now s =
     (let hash = HashToken E (TrimSpace secret)
      in case loadLocked E s of
           (Some e, s') \<Rightarrow> ((zero_token, hash, Some e), s')
         | (None, s') \<Rightarrow>
             (case lookup_token (sto_state s') hash now of (t, e) \<Rightarrow> ((t, hash, e), s')))"

definition TokenView :: "env \<Rightarrow> string \<Rightarrow> time \<Rightarrow> store \<Rightarrow> token_view result \<times> store" where
  "TokenView E secret now s =
     (case ValidateToken E secret now s of
        ((_, _, Some e), s') \<Rightarrow> (Inl e, s')
      | ((t, _, None), s') \<Rightarrow>
          (Inr \<lparr>tv_ID = tok_ID t, tv_Key = [], tv_KeyStatus = [], tv_Name = tok_Name t,
                tv_Mode = NormalizeTokenMode (tok_Mode t), tv_Version = tok_Version t,
                tv_Managed = tok_Managed t, tv_CreatedAt = tok_CreatedAt t,
                tv_ExpiresAt = timePtrIfSet (tok_ExpiresAt t), tv_Revoked = tok_Revoked t\<rparr>, s'))"

section \<open>Managed keys\<close>

record managed_key =
  mk_ID :: string
  mk_Owner :: string
  mk_Version :: int
  mk_Hash :: string

record key_snapshot =
  snap_ID :: string
  snap_Keys :: "managed_key list"

record sync_result =
  sr_SnapshotID :: string
  sr_Applied :: int
  sr_Managed :: bool

definition trim_key :: "managed_key \<Rightarrow> managed_key" where
  "trim_key k = k\<lparr>mk_ID := TrimSpace (mk_ID k), mk_Owner := normalizeHolder (mk_Owner k),
                  mk_Hash := ToLower (TrimSpace (mk_Hash k))\<rparr>"

definition managed_token :: "managed_key \<Rightarrow> time \<Rightarrow> token" where
  "managed_token k now =
     \<lparr>tok_ID = mk_ID k, tok_Hash = mk_Hash k, tok_Secret = [], tok_Name = mk_Owner k,
      tok_Mode = TokenModeManaged, tok_Version = mk_Version k, tok_Managed = True,
      tok_CreatedAt = now, tok_ExpiresAt = 0, tok_Revoked = False\<rparr>"

text \<open>The loop over the keys of a snapshot, with the tokens accepted so far.\<close>

fun sync_keys :: "time \<Rightarrow> managed_key list \<Rightarrow> token list \<Rightarrow> token list result" where
  "sync_keys now [] managed = Inr managed"
| "sync_keys now (raw # rest) managed =
     (let k = trim_key raw in
      if mk_ID k = [] \<or> mk_Owner k = [] \<or> mk_Version k < 1 \<or> length (mk_Hash k) \<noteq> 64
      then Inl (ErrNew ''managed key id, owner, positive version, and SHA-256 hash are required'')
      else if \<not> hex_decodable (mk_Hash k)
      then Inl (ErrNew ''managed key hash must be hexadecimal SHA-256'')
      else if mk_ID k \<in> tok_ID ` set managed \<or> mk_Hash k \<in> tok_Hash ` set managed
      then Inl (ErrNew ''managed key ids and hashes must be unique'')
      else if mk_Owner k \<in> tok_Name ` set managed
      then Inl (ErrNew ''each owner may have only one managed key'')
      else sync_keys now rest (managed @ [managed_token k now]))"

definition sync_reservation ::
  "env \<Rightarrow> token list \<Rightarrow> token list \<Rightarrow> nat \<Rightarrow> reservation \<Rightarrow> reservation" where
  "sync_reservation E old managed i r =
     (let g = (if res_GroupID r = [] then
                 (let old_id = the_or [] (go_map (map (\<lambda>t. (tok_Hash t, tok_ID t)) old) (res_TokenHash r))
                  in if old_id = [] then ''grp_'' @ e_rnd E i else old_id)
               else res_GroupID r);
          r' = r\<lparr>res_GroupID := g\<rparr>
      in case go_map (map (\<lambda>t. (tok_Name t, t)) managed) (normalizeHolder (res_Holder r')) of
           None \<Rightarrow> r'
         | Some t \<Rightarrow> r'\<lparr>res_TokenHash := tok_Hash t\<rparr>)"

definition sync_body ::
  "env \<Rightarrow> string \<Rightarrow> token list \<Rightarrow> state \<Rightarrow> sync_result outcome" where
  "sync_body E snapshotID managed st =
     (let result = \<lparr>sr_SnapshotID = snapshotID, sr_Applied = len managed, sr_Managed = True\<rparr> in
      if st_ManagedKeys st \<and> st_KeySnapshotID st = snapshotID then Done result
      else
        Write (st\<lparr>st_Reservations :=
                    mapi 0 (sync_reservation E (st_Tokens st) managed) (st_Reservations st),
                  st_Tokens := managed, st_ManagedKeys := True, st_KeySnapshotID := snapshotID\<rparr>)
          result)"

definition SyncManagedUserKeys ::
  "env \<Rightarrow> string \<Rightarrow> key_snapshot \<Rightarrow> time \<Rightarrow> store \<Rightarrow> sync_result result \<times> store" where
  "SyncManagedUserKeys E rootKey snapshot now =
     with_root_key E rootKey (\<lambda>s.
       let snapshotID = TrimSpace (snap_ID snapshot) in
       if snapshotID = [] then (Inl (ErrNew ''snapshot_id is required''), s)
       else if len (snap_Keys snapshot) > maxTotalTokens
       then (Inl (ErrTooMany ''managed key'' (len (snap_Keys snapshot)) maxTotalTokens), s)
       else
         (case sync_keys now (snap_Keys snapshot) [] of
            Inl e \<Rightarrow> (Inl e, s)
          | Inr managed \<Rightarrow> runtx E (sync_body E snapshotID managed) s))"

definition ManagedKeysEnabled :: "env \<Rightarrow> store \<Rightarrow> bool result \<times> store" where
  "ManagedKeysEnabled E = runtx E (\<lambda>st. Done (st_ManagedKeys st))"

definition ManagedTokenByID :: "env \<Rightarrow> string \<Rightarrow> time \<Rightarrow> store \<Rightarrow> token result \<times> store" where
  "ManagedTokenByID E i now =
     runtx E (\<lambda>st.
       case find (\<lambda>t. tok_ID t = TrimSpace i \<and> tok_Managed t \<and> \<not> tok_Revoked t \<and>
                      \<not> tokenExpired t now) (st_Tokens st) of
         Some t \<Rightarrow> Done t
       | None \<Rightarrow> Fail ErrTokenNotFound)"

section \<open>Lemmas\<close>

lemma add_token_body_Write:
  "add_token_body t now r st = Write st' r' \<Longrightarrow>
     st' = st\<lparr>st_Tokens := st_Tokens st @ [t]\<rparr> \<and> r' = r \<and> checkTokenCapacityLocked st t now = None"
  by (auto simp: add_token_body_def split: option.splits)

lemma newToken_active: "newToken E mode name 0 now = (secret, t) \<Longrightarrow> tokenActiveAt t now'"
  by (auto simp: newToken_def Let_def token_time_defs)

text \<open>
  A candidate that the capacity check lets through leaves its holder with at most
  \<open>maxActiveTokensPerHolder\<close> active tokens.
\<close>

lemma capacity_after_add:
  assumes "checkTokenCapacityLocked st t now = None" "tokenActiveAt t now"
  shows "len (active_for_holder (st_Tokens st @ [t]) (normalizeHolder (tok_Name t)) now)
    \<le> maxActiveTokensPerHolder"
  using assms
  by (auto simp: checkTokenCapacityLocked_def active_for_holder_def Let_def split: if_splits)

text \<open>The tokens a snapshot is turned into.\<close>

definition keys_ok :: "time \<Rightarrow> token list \<Rightarrow> bool" where
  "keys_ok now ts \<longleftrightarrow>
     distinct (map tok_ID ts) \<and> distinct (map tok_Hash ts) \<and> distinct (map tok_Name ts) \<and>
     (\<forall>t\<in>set ts. tok_Managed t \<and> tok_Mode t = TokenModeManaged \<and> \<not> tok_Revoked t \<and>
        tok_Secret t = [] \<and> tok_Version t \<ge> 1 \<and> length (tok_Hash t) = 64 \<and>
        hex_decodable (tok_Hash t) \<and> tokenActiveAt t now)"

lemma sync_keys_ok:
  "\<lbrakk>sync_keys now ks managed = Inr ts; keys_ok now managed\<rbrakk> \<Longrightarrow> keys_ok now ts"
proof (induction ks arbitrary: managed)
  case Nil
  then show ?case by simp
next
  case (Cons raw ks)
  let ?k = "trim_key raw"
  from Cons.prems(1) have ok: "mk_Version ?k \<ge> 1" "length (mk_Hash ?k) = 64"
      "hex_decodable (mk_Hash ?k)" "mk_ID ?k \<notin> tok_ID ` set managed"
      "mk_Hash ?k \<notin> tok_Hash ` set managed" "mk_Owner ?k \<notin> tok_Name ` set managed"
    and rest: "sync_keys now ks (managed @ [managed_token ?k now]) = Inr ts"
    by (auto simp: Let_def split: if_splits)
  from ok Cons.prems(2) have "keys_ok now (managed @ [managed_token ?k now])"
    by (auto simp: keys_ok_def managed_token_def token_time_defs)
  with rest show ?case by (rule Cons.IH)
qed

lemma sync_keys_length: "sync_keys now ks managed = Inr ts \<Longrightarrow> length ts = length ks + length managed"
  by (induction ks arbitrary: managed) (auto simp: Let_def split: if_splits)

lemma sync_reservation_calmer: "calmer r (sync_reservation E old managed i r)"
  by (auto simp: sync_reservation_def calmer_def Let_def split: option.splits)

lemma sync_reservation_live [simp]:
  "res_Active (sync_reservation E old managed i r) = res_Active r"
  "res_Revoked (sync_reservation E old managed i r) = res_Revoked r"
  "res_ID (sync_reservation E old managed i r) = res_ID r"
  "res_Holder (sync_reservation E old managed i r) = res_Holder r"
  by (auto simp: sync_reservation_def Let_def split: option.splits)

lemma sync_reservation_group: "res_GroupID (sync_reservation E old managed i r) \<noteq> []"
  by (auto simp: sync_reservation_def Let_def split: option.splits)

lemma sync_body_Write:
  "sync_body E sid managed st = Write st' r \<Longrightarrow>
     list_all2 calmer (st_Reservations st) (st_Reservations st') \<and> st_Tokens st' = managed \<and>
     st_ManagedKeys st' \<and> st_KeySnapshotID st' = sid \<and>
     st_Authorizations st' = st_Authorizations st \<and> st_Leases st' = st_Leases st \<and>
     st_SoftClaims st' = st_SoftClaims st"
  by (auto simp: sync_body_def Let_def list_all2_mapi sync_reservation_calmer split: if_splits)

lemma lookup_token_ok:
  "lookup_token st hash now = (t, None) \<Longrightarrow>
     \<exists>t0\<in>set (st_Tokens st). tok_Hash t0 = hash \<and> tokenActiveAt t0 now \<and>
        t = t0\<lparr>tok_Mode := NormalizeTokenMode (tok_Mode t0)\<rparr>"
  by (auto simp: lookup_token_def token_time_defs Let_def dest!: find_SomeD
      split: option.splits if_splits)

end
