(* ===== verification/StoreReservations.thy ===== *)
theory StoreReservations
  imports StoreTokens
begin

text \<open>
  Reservations of package \<^verbatim>\<open>internal/store\<close>: registering a group of GPUs for a window, with
  a token of its own or for a managed key, replaying a request that carries the identifier
  of an external session, and releasing a reservation. The lemmas establish that an
  accepted request never conflicts with a reservation that is already there.
\<close>

section \<open>Requests\<close>

definition sameReservationRequest ::
  "reservation list \<Rightarrow> string \<Rightarrow> string \<Rightarrow> int list \<Rightarrow> time \<Rightarrow> time \<Rightarrow> bool" where
  "sameReservationRequest existing name purpose gpus startsAt expiresAt \<longleftrightarrow>
     (if length existing \<noteq> length gpus \<or> length existing = 0 then False
      else list_all (\<lambda>r.
        \<not> (res_GPU r \<notin> set gpus \<or>
           \<not> EqualFold (TrimSpace (res_Holder r)) (TrimSpace name) \<or>
           TrimSpace (res_Purpose r) \<noteq> TrimSpace purpose \<or>
           ReservationStartsAt r \<noteq> startsAt \<or> res_ExpiresAt r \<noteq> expiresAt)) existing)"

text \<open>The loop that rejects bad and duplicate GPU indices.\<close>

fun check_gpus :: "(int \<Rightarrow> error option) \<Rightarrow> int list \<Rightarrow> int list \<Rightarrow> error option" where
  "check_gpus bad seen [] = None"
| "check_gpus bad seen (gpu # gpus) =
     (case bad gpu of Some e \<Rightarrow> Some e
      | None \<Rightarrow>
          if gpu \<in> set seen then Some (ErrGPU ''duplicate gpu'' gpu)
          else check_gpus bad (gpu # seen) gpus)"

lemma check_gpus_None:
  "check_gpus bad seen gpus = None \<longleftrightarrow>
     (\<forall>g\<in>set gpus. bad g = None) \<and> distinct gpus \<and> set seen \<inter> set gpus = {}"
  by (induction gpus arbitrary: seen) (auto split: option.splits)

definition check_window :: "time \<Rightarrow> time \<Rightarrow> time \<Rightarrow> error option" where
  "check_window startsAt expiresAt now =
     (if \<not> After expiresAt startsAt then Some (ErrNew ''reservation end must be after start'')
      else if \<not> After expiresAt now then Some (ErrNew ''reservation end must be in the future'')
      else if time_Sub expiresAt startsAt > MaxHardTTL
        then Some (ErrDuration ''reservation duration exceeds max'' MaxHardTTL)
      else None)"

definition make_reservation ::
  "string \<Rightarrow> string \<Rightarrow> string \<Rightarrow> token \<Rightarrow> string \<Rightarrow> time \<Rightarrow> time \<Rightarrow> time \<Rightarrow> int \<Rightarrow> reservation" where
  "make_reservation rid grp session t purpose startsAt expiresAt now gpu =
     \<lparr>res_ID = rid, res_GroupID = grp, res_ExternalSessionID = session, res_GPU = gpu,
      res_TokenHash = tok_Hash t, res_Holder = tok_Name t, res_Purpose = TrimSpace purpose,
      res_CreatedAt = now, res_StartsAt = startsAt, res_ExpiresAt = expiresAt,
      res_Active = True, res_Revoked = False\<rparr>"

definition check_overlaps ::
  "reservation list \<Rightarrow> reservation list \<Rightarrow> error option" where
  "check_overlaps existing requested =
     first_error (\<lambda>q. first_error (\<lambda>x.
        if res_GPU x = res_GPU q \<and> ReservationOverlaps x (res_StartsAt q) (res_ExpiresAt q)
        then Some (ErrOverlap (res_GPU q) (res_ID x)) else None) existing) requested"

definition session_reservations :: "state \<Rightarrow> string \<Rightarrow> reservation list" where
  "session_reservations st session =
     (if session \<noteq> [] then filter (\<lambda>r. res_ExternalSessionID r = session) (st_Reservations st)
      else [])"

definition scheduled_body ::
  "string \<Rightarrow> string \<Rightarrow> string \<Rightarrow> int list \<Rightarrow> time \<Rightarrow> time \<Rightarrow> time \<Rightarrow> string \<Rightarrow> token \<Rightarrow>
   reservation list \<Rightarrow> state \<Rightarrow> (string \<times> token \<times> reservation list) outcome" where
  "scheduled_body name purpose externalSessionID gpus startsAt expiresAt now secret t
      reservations st =
     (let existing = session_reservations st (TrimSpace externalSessionID) in
      if existing \<noteq> [] then
        (let existingToken =
               the_or zero_token
                 (find (\<lambda>c. tok_Hash c = res_TokenHash (hd existing)) (st_Tokens st))
         in if tok_ID existingToken = [] \<or> tok_Secret existingToken = []
            then Fail (ErrNew ''existing reservation session has no recoverable key'')
            else if \<not> sameReservationRequest existing name purpose gpus startsAt expiresAt
            then Fail (ErrNew ''external session id was already used for a different reservation'')
            else Done (tok_Secret existingToken, existingToken, existing))
      else
        (case and_then (checkTokenCapacityLocked st t now)
               (and_then
                  (checkTotalCapacity ''reservation'' (len (st_Reservations st))
                     (len reservations) maxTotalReservations)
                  (check_overlaps (st_Reservations st) reservations)) of
           Some e \<Rightarrow> Fail e
         | None \<Rightarrow>
             Write (st\<lparr>st_Tokens := st_Tokens st @ [t],
                       st_Reservations := st_Reservations st @ reservations\<rparr>)
               (secret, t, reservations)))"

definition RegisterScheduledReservationsWithSession ::
  "env \<Rightarrow> string \<Rightarrow> string \<Rightarrow> string \<Rightarrow> string \<Rightarrow> int list \<Rightarrow> time \<Rightarrow> time \<Rightarrow> time \<Rightarrow> store \<Rightarrow>
   (string \<times> token \<times> reservation list) result \<times> store" where
  "RegisterScheduledReservationsWithSession E rootKey name purpose externalSessionID gpus
      startsAt0 expiresAt now s =
     (let startsAt = (if IsZero startsAt0 then now else startsAt0) in
      case and_then (check_window startsAt expiresAt now)
          (and_then (if gpus = [] then Some (ErrNew ''at least one gpu is required'') else None)
          (and_then (checkTotalCapacity ''reservation'' 0 (len gpus) maxTotalReservations)
             (check_gpus (\<lambda>g. if g < 0 then Some (ErrGPU ''gpu must be >= 0'' g) else None)
                [] gpus))) of
        Some e \<Rightarrow> (Inl e, s)
      | None \<Rightarrow>
          with_root_key E rootKey
            (let (secret, t) = newToken E TokenModeReserved name expiresAt now;
                 reservations = mapi 0 (\<lambda>i. make_reservation (''res_'' @ e_rnd E (2 + i)) []
                   (TrimSpace externalSessionID) t purpose startsAt expiresAt now) gpus
             in runtx E (scheduled_body name purpose externalSessionID gpus startsAt expiresAt
                  now secret t reservations)) s)"

definition RegisterScheduledReservations ::
  "env \<Rightarrow> string \<Rightarrow> string \<Rightarrow> string \<Rightarrow> int list \<Rightarrow> time \<Rightarrow> time \<Rightarrow> time \<Rightarrow> store \<Rightarrow>
   (string \<times> token \<times> reservation list) result \<times> store" where
  "RegisterScheduledReservations E rootKey name purpose gpus startsAt expiresAt now =
     RegisterScheduledReservationsWithSession E rootKey name purpose [] gpus startsAt expiresAt now"

definition RegisterHardReservations ::
  "env \<Rightarrow> string \<Rightarrow> string \<Rightarrow> int list \<Rightarrow> string \<Rightarrow> time \<Rightarrow> store \<Rightarrow>
   (string \<times> token \<times> reservation list) result \<times> store" where
  "RegisterHardReservations E rootKey name gpus ttlText now s =
     (case ParseTTL E ttlText DefaultHardTTL MaxHardTTL of
        Inl e \<Rightarrow> (Inl e, s)
      | Inr ttl \<Rightarrow>
          RegisterScheduledReservations E rootKey name [] gpus now (time_Add now ttl) now s)"

section \<open>Reservations of a managed key\<close>

definition managed_body ::
  "env \<Rightarrow> string \<Rightarrow> string \<Rightarrow> string \<Rightarrow> int list \<Rightarrow> time \<Rightarrow> time \<Rightarrow> time \<Rightarrow> state \<Rightarrow>
   (token \<times> string \<times> reservation list) outcome" where
  "managed_body E userKeyID purpose externalSessionID gpus startsAt expiresAt now st =
     (if \<not> st_ManagedKeys st then Fail (ErrNew ''managed user keys are not configured'')
      else
        let t = the_or zero_token
              (find (\<lambda>c. tok_ID c = TrimSpace userKeyID \<and> tok_Managed c \<and> \<not> tok_Revoked c)
                 (st_Tokens st))
        in if tok_ID t = [] then Fail ErrTokenNotFound
           else
             let session = TrimSpace externalSessionID;
                 existing = session_reservations st session
             in if existing \<noteq> [] then
                  (if res_TokenHash (hd existing) \<noteq> tok_Hash t \<or>
                      \<not> sameReservationRequest existing (tok_Name t) purpose gpus startsAt expiresAt
                   then Fail (ErrNew ''external session id was already used for a different reservation'')
                   else Done (t, res_GroupID (hd existing), existing))
                else
                  let groupID = ''grp_'' @ e_rnd E 0;
                      reservations = mapi 0 (\<lambda>i. make_reservation (''res_'' @ e_rnd E (1 + i))
                        groupID session t purpose startsAt expiresAt now) gpus
                  in (case and_then
                        (checkTotalCapacity ''reservation'' (len (st_Reservations st)) (len gpus)
                           maxTotalReservations)
                        (check_overlaps (st_Reservations st) reservations) of
                        Some e \<Rightarrow> Fail e
                      | None \<Rightarrow>
                          Write (st\<lparr>st_Reservations := st_Reservations st @ reservations\<rparr>)
                            (t, groupID, reservations)))"

definition RegisterManagedReservations ::
  "env \<Rightarrow> string \<Rightarrow> string \<Rightarrow> string \<Rightarrow> string \<Rightarrow> int list \<Rightarrow> time \<Rightarrow> time \<Rightarrow> time \<Rightarrow> store \<Rightarrow>
   (token \<times> string \<times> reservation list) result \<times> store" where
  "RegisterManagedReservations E rootKey userKeyID purpose externalSessionID gpus startsAt0
      expiresAt now =
     with_root_key E rootKey (\<lambda>s.
       let startsAt = (if IsZero startsAt0 then now else startsAt0) in
       if \<not> After expiresAt startsAt \<or> \<not> After expiresAt now
       then (Inl (ErrNew ''reservation end must be after start and in the future''), s)
       else if time_Sub expiresAt startsAt > MaxHardTTL
       then (Inl (ErrDuration ''reservation duration exceeds max'' MaxHardTTL), s)
       else if gpus = [] then (Inl (ErrNew ''at least one gpu is required''), s)
       else
         (case check_gpus validateGPUIndex [] gpus of
            Some e \<Rightarrow> (Inl e, s)
          | None \<Rightarrow>
              runtx E (managed_body E userKeyID purpose externalSessionID gpus startsAt
                expiresAt now) s))"

section \<open>Adding and releasing one reservation\<close>

definition AddReservation :: "env \<Rightarrow> reservation \<Rightarrow> store \<Rightarrow> unit result \<times> store" where
  "AddReservation E r =
     runtx E (\<lambda>st.
       case checkTotalCapacity ''reservation'' (len (st_Reservations st)) 1 maxTotalReservations of
         Some e \<Rightarrow> Fail e
       | None \<Rightarrow> Write (st\<lparr>st_Reservations := st_Reservations st @ [r]\<rparr>) ())"

definition release_reservation_body :: "string \<Rightarrow> state \<Rightarrow> unit outcome" where
  "release_reservation_body i st =
     (if \<exists>r\<in>set (st_Reservations st). res_ID r = i
      then Write (st\<lparr>st_Reservations :=
             update_first (\<lambda>r. res_ID r = i) (\<lambda>r. r\<lparr>res_Active := False\<rparr>) (st_Reservations st)\<rparr>) ()
      else Done ())"

definition ReleaseReservation :: "env \<Rightarrow> string \<Rightarrow> store \<Rightarrow> unit result \<times> store" where
  "ReleaseReservation E i = runtx E (release_reservation_body i)"

section \<open>Exclusivity of accepted requests\<close>

lemma make_reservation_simps [simp]:
  "res_GPU (make_reservation rid grp session t p a b now g) = g"
  "res_Active (make_reservation rid grp session t p a b now g)"
  "\<not> res_Revoked (make_reservation rid grp session t p a b now g)"
  "res_StartsAt (make_reservation rid grp session t p a b now g) = a"
  "res_CreatedAt (make_reservation rid grp session t p a b now g) = now"
  "res_ExpiresAt (make_reservation rid grp session t p a b now g) = b"
  "res_TokenHash (make_reservation rid grp session t p a b now g) = tok_Hash t"
  "res_Holder (make_reservation rid grp session t p a b now g) = tok_Name t"
  by (simp_all add: make_reservation_def)

text \<open>
  The start of a window as a request computes it: never zero unless the clock is, in which
  case \<open>ReservationStartsAt\<close> falls back to the creation time, which is the same instant.
\<close>

definition window_start :: "time \<Rightarrow> time \<Rightarrow> time" where
  "window_start startsAt0 now = (if IsZero startsAt0 then now else startsAt0)"

lemma make_reservation_starts [simp]:
  "ReservationStartsAt (make_reservation rid grp session t p (window_start a now) b now g)
     = window_start a now"
  by (simp add: ReservationStartsAt_def make_reservation_def window_start_def)

lemma check_overlaps_None:
  "check_overlaps existing requested = None \<longleftrightarrow>
     (\<forall>q\<in>set requested. \<forall>x\<in>set existing.
        \<not> (res_GPU x = res_GPU q \<and> ReservationOverlaps x (res_StartsAt q) (res_ExpiresAt q)))"
  by (auto simp: check_overlaps_def split: if_splits)

lemma exclusive_distinct_gpus:
  "distinct (map res_GPU rs) \<Longrightarrow> exclusive rs"
  unfolding exclusive_def
  by (induction rs) (auto simp: conflicting_def)

lemma new_reservations_exclusive:
  assumes old: "exclusive existing" and "distinct gpus"
    and new: "requested = mapi 0 (\<lambda>i. make_reservation (f i) grp session t p
      (window_start a now) b now) gpus"
    and none: "check_overlaps existing requested = None"
  shows "exclusive (existing @ requested)"
proof -
  have "map res_GPU requested = gpus"
    unfolding new by (simp add: map_mapi_same [where h = "\<lambda>g. g"])
  with \<open>distinct gpus\<close> have "exclusive requested" by (simp add: exclusive_distinct_gpus)
  moreover have "\<not> conflicting x q" if "x \<in> set existing" "q \<in> set requested" for x q
  proof -
    from that(2) have "ReservationStartsAt q = res_StartsAt q"
      unfolding new by (auto dest!: set_mapiE)
    with that none show ?thesis by (auto simp: check_overlaps_None conflicting_def)
  qed
  ultimately show ?thesis using old by (auto simp: exclusive_append)
qed

text \<open>The decisions of this theory keep \<open>exclusive\<close>.\<close>

abbreviation exclusive_state :: "state \<Rightarrow> bool" where
  "exclusive_state st \<equiv> exclusive (st_Reservations st)"

lemma scheduled_body_Write:
  assumes "scheduled_body name p ext gpus a b now secret t rs st = Write st' r"
  shows "st' = st\<lparr>st_Tokens := st_Tokens st @ [t], st_Reservations := st_Reservations st @ rs\<rparr> \<and>
    r = (secret, t, rs) \<and> checkTokenCapacityLocked st t now = None \<and>
    check_overlaps (st_Reservations st) rs = None"
  using assms by (auto simp: scheduled_body_def Let_def split: if_splits option.splits)

lemma managed_body_Write:
  assumes "managed_body E k p ext gpus a b now st = Write st' r"
  obtains t where
    "find (\<lambda>c. tok_ID c = TrimSpace k \<and> tok_Managed c \<and> \<not> tok_Revoked c) (st_Tokens st) = Some t"
    "snd (snd r) = mapi 0 (\<lambda>i. make_reservation (''res_'' @ e_rnd E (1 + i)) (''grp_'' @ e_rnd E 0)
       (TrimSpace ext) t p a b now) gpus"
    "st' = st\<lparr>st_Reservations := st_Reservations st @ snd (snd r)\<rparr>" "fst r = t"
    "check_overlaps (st_Reservations st) (snd (snd r)) = None"
  using assms
  by (auto simp: managed_body_def Let_def zero_token_def the_or_def
      split: if_splits option.splits)

lemma scheduled_body_exclusive:
  assumes "exclusive_state st" "distinct gpus"
    and "scheduled_body name p ext gpus (window_start a now) b now secret t
      (mapi 0 (\<lambda>i. make_reservation (f i) g session t p (window_start a now) b now) gpus) st
      = Write st' r"
  shows "exclusive_state st'"
  using scheduled_body_Write [OF assms(3)] new_reservations_exclusive [OF assms(1,2) refl]
  by auto

lemma managed_body_exclusive:
  assumes "exclusive_state st" "distinct gpus"
    and "managed_body E k p ext gpus (window_start a now) b now st = Write st' r"
  shows "exclusive_state st'"
  using assms(3)
  by (rule managed_body_Write) (use new_reservations_exclusive [OF assms(1,2)] in auto)

lemma release_reservation_calmer:
  "release_reservation_body i st = Write st' r \<Longrightarrow>
     list_all2 calmer (st_Reservations st) (st_Reservations st')"
  by (auto simp: release_reservation_body_def split: if_splits
      intro!: list_all2_update_first simp: calmer_def)

text \<open>
  A request either is rejected before it reaches the store, or is the transaction of
  \<open>scheduled_body\<close> on distinct GPUs and a non-empty window of at most \<open>MaxHardTTL\<close>.
\<close>

lemma RegisterScheduled_cases:
  assumes "RegisterScheduledReservationsWithSession E rootKey name purpose ext gpus a b now s
    = (r, s')"
  obtains (rejected) e f where "r = Inl e" "s' = s\<lparr>sto_rootkey := f\<rparr>"
  | (transaction) f secret t where "distinct gpus" "\<forall>g\<in>set gpus. 0 \<le> g" "gpus \<noteq> []"
      "check_window (window_start a now) b now = None"
      "ValidateRootKey E rootKey s = (Inr True, s\<lparr>sto_rootkey := f\<rparr>)"
      "newToken E TokenModeReserved name b now = (secret, t)"
      "runtx E (scheduled_body name purpose ext gpus (window_start a now) b now secret t
        (mapi 0 (\<lambda>i. make_reservation (''res_'' @ e_rnd E (2 + i)) [] (TrimSpace ext) t purpose
          (window_start a now) b now) gpus)) (s\<lparr>sto_rootkey := f\<rparr>) = (r, s')"
proof (cases "check_window (window_start a now) b now = None \<and> gpus \<noteq> [] \<and>
    checkTotalCapacity ''reservation'' 0 (len gpus) maxTotalReservations = None \<and>
    check_gpus (\<lambda>g. if g < 0 then Some (ErrGPU ''gpu must be >= 0'' g) else None) [] gpus = None")
  case False
  with assms have "\<exists>e. r = Inl e \<and> s' = s\<lparr>sto_rootkey := sto_rootkey s\<rparr>"
    by (auto simp: RegisterScheduledReservationsWithSession_def Let_def window_start_def
        split: option.splits if_splits)
  then show thesis using rejected by blast
next
  case True
  obtain secret t where tok: "newToken E TokenModeReserved name b now = (secret, t)"
    by (cases "newToken E TokenModeReserved name b now")
  from True have gpus: "distinct gpus" "\<forall>g\<in>set gpus. 0 \<le> g"
    by (auto simp: check_gpus_None split: if_splits)
  from assms True have "with_root_key E rootKey
     (runtx E (scheduled_body name purpose ext gpus (window_start a now) b now secret t
        (mapi 0 (\<lambda>i. make_reservation (''res_'' @ e_rnd E (2 + i)) [] (TrimSpace ext) t purpose
          (window_start a now) b now) gpus))) s = (r, s')"
    unfolding RegisterScheduledReservationsWithSession_def window_start_def Let_def
    by (simp add: tok)
  then show thesis
    by (cases rule: with_root_key_cases) (use rejected transaction gpus True tok in auto)
qed

text \<open>
  The reservations an accepted request stored answer the same request again: they are found
  by the identifier of the session, with the token that was created for them.
\<close>

lemma make_reservation_same:
  assumes "r \<in> set (mapi i (\<lambda>i. make_reservation (f i) grp (TrimSpace ext) t p a b now) gpus)"
    and "tok_Name t = TrimSpace name" "a \<noteq> 0"
  shows "res_GPU r \<in> set gpus \<and> EqualFold (TrimSpace (res_Holder r)) (TrimSpace name) \<and>
    TrimSpace (res_Purpose r) = TrimSpace p \<and> ReservationStartsAt r = a \<and> res_ExpiresAt r = b \<and>
    res_ExternalSessionID r = TrimSpace ext \<and> res_TokenHash r = tok_Hash t"
  by (rule mapi_fields [OF _ assms(1)])
    (use assms(2,3) in \<open>auto simp: make_reservation_def EqualFold_def ReservationStartsAt_def\<close>)

lemma find_appended:
  "\<lbrakk>\<forall>x\<in>set xs. \<not> P x; P y\<rbrakk> \<Longrightarrow> find P (xs @ [y]) = Some y"
  by (induction xs) auto

lemma scheduled_body_replay:
  fixes name p ext gpus a b now grp t f
  defines "rs \<equiv> mapi 0 (\<lambda>i. make_reservation (f i) grp (TrimSpace ext) t p a b now) gpus"
  assumes first: "scheduled_body name p ext gpus a b now secret t rs st = Write st' r"
    and fresh: "\<forall>x\<in>set (st_Reservations st). res_ExternalSessionID x \<noteq> TrimSpace ext"
      "\<forall>x\<in>set (st_Tokens st). tok_Hash x \<noteq> tok_Hash t"
    and named: "tok_Name t = TrimSpace name" "TrimSpace ext \<noteq> []" "a \<noteq> 0" "gpus \<noteq> []"
    and t: "tok_ID t \<noteq> []" "tok_Secret t = secret" "secret \<noteq> []"
  shows "scheduled_body name p ext gpus a b now' secret' t' rs' st' = Done (secret, t, rs)"
proof -
  note same = make_reservation_same [OF _ named(1,3), of _ 0 f grp ext p b now gpus, folded rs_def]
  have st': "st_Tokens st' = st_Tokens st @ [t]" "st_Reservations st' = st_Reservations st @ rs"
    using scheduled_body_Write [OF first] by auto
  have "rs \<noteq> []" using named(4) by (cases gpus) (auto simp: rs_def)
  then have hd: "hd rs \<in> set rs" by simp
  have "filter (\<lambda>r. res_ExternalSessionID r = TrimSpace ext) rs = rs"
    using same by (simp add: filter_id_conv)
  moreover have "filter (\<lambda>r. res_ExternalSessionID r = TrimSpace ext) (st_Reservations st) = []"
    using fresh(1) by (simp add: filter_empty_conv)
  ultimately have existing: "session_reservations st' (TrimSpace ext) = rs"
    using named(2) by (simp add: session_reservations_def st')
  have "find (\<lambda>c. tok_Hash c = res_TokenHash (hd rs)) (st_Tokens st') = Some t"
    unfolding st' using fresh(2) same [OF hd] by (intro find_appended) auto
  moreover have "sameReservationRequest rs name p gpus a b"
    using \<open>rs \<noteq> []\<close> same by (auto simp: sameReservationRequest_def list_all_iff rs_def)
  ultimately show ?thesis
    using \<open>rs \<noteq> []\<close> t by (simp add: scheduled_body_def existing)
qed

end
