(* ===== verification/StoreRecords.thy ===== *)
theory StoreRecords
  imports StoreReservations
begin

text \<open>
  The remaining records of package \<^verbatim>\<open>internal/store\<close>: authorizations with their admission
  limit and the activation of a pending one, leases, soft claims, bypass rules, and the
  audit history with its log file.
\<close>

section \<open>Authorizations\<close>

definition authorizationExpired :: "authorization \<Rightarrow> time \<Rightarrow> bool" where
  "authorizationExpired a now \<longleftrightarrow> timeIsSet (auth_ExpiresAt a) \<and> \<not> Before now (auth_ExpiresAt a)"

definition authorizationActiveAt :: "authorization \<Rightarrow> time \<Rightarrow> bool" where
  "authorizationActiveAt a now \<longleftrightarrow>
     auth_Active a \<and> \<not> auth_Revoked a \<and> \<not> authorizationExpired a now"

text \<open>The number of active authorizations of a token, leaving out the one at an index.\<close>

fun count_active :: "string \<Rightarrow> time \<Rightarrow> int \<Rightarrow> int \<Rightarrow> authorization list \<Rightarrow> int" where
  "count_active hash now excl i [] = 0"
| "count_active hash now excl i (a # as) =
     (if i \<noteq> excl \<and> auth_TokenHash a = hash \<and> authorizationActiveAt a now then 1 else 0)
     + count_active hash now excl (i + 1) as"

definition checkActiveAuthorizationCapacityLocked ::
  "state \<Rightarrow> authorization \<Rightarrow> time \<Rightarrow> int \<Rightarrow> error option" where
  "checkActiveAuthorizationCapacityLocked st candidate now excludeIndex =
     (if \<not> authorizationActiveAt candidate now then None
      else if count_active (auth_TokenHash candidate) now excludeIndex 0 (st_Authorizations st)
              \<ge> maxActiveAuthorizationsPerToken
      then Some (ErrNew ''active authorization limit reached for token'') else None)"

definition add_authorization_body :: "authorization \<Rightarrow> time \<Rightarrow> state \<Rightarrow> unit outcome" where
  "add_authorization_body a now st =
     (case and_then
         (checkTotalCapacity ''authorization'' (len (st_Authorizations st)) 1 maxTotalAuthorizations)
         (checkActiveAuthorizationCapacityLocked st a now (-1)) of
        Some e \<Rightarrow> Fail e
      | None \<Rightarrow> Write (st\<lparr>st_Authorizations := st_Authorizations st @ [a]\<rparr>) ())"

definition AddAuthorization :: "env \<Rightarrow> authorization \<Rightarrow> time \<Rightarrow> store \<Rightarrow> unit result \<times> store" where
  "AddAuthorization E a now = runtx E (add_authorization_body a now)"

text \<open>The loop of \<open>UpdateAuthorization\<close>: the first row with the identifier, and its index.\<close>

fun first_index :: "('a \<Rightarrow> bool) \<Rightarrow> nat \<Rightarrow> 'a list \<Rightarrow> nat option" where
  "first_index P i [] = None"
| "first_index P i (x # xs) = (if P x then Some i else first_index P (Suc i) xs)"

definition UpdateAuthorization :: "env \<Rightarrow> authorization \<Rightarrow> time \<Rightarrow> store \<Rightarrow> unit result \<times> store" where
  "UpdateAuthorization E a now =
     runtx E (\<lambda>st.
       case first_index (\<lambda>x. auth_ID x = auth_ID a) 0 (st_Authorizations st) of
         None \<Rightarrow> Fail (ErrID ''authorization not found'' (auth_ID a))
       | Some i \<Rightarrow>
           (case checkActiveAuthorizationCapacityLocked st a now (int i) of
              Some e \<Rightarrow> Fail e
            | None \<Rightarrow> Write (st\<lparr>st_Authorizations := (st_Authorizations st)[i := a]\<rparr>) ()))"

definition activate_body :: "string \<Rightarrow> int \<Rightarrow> state \<Rightarrow> authorization outcome" where
  "activate_body i rootPID st =
     (case find (\<lambda>a. auth_ID a = i) (st_Authorizations st) of
        None \<Rightarrow> Fail (ErrID ''authorization not found'' i)
      | Some a \<Rightarrow>
          if \<not> auth_Active a \<or> auth_Revoked a
          then Fail (ErrID ''authorization was revoked before activation'' i)
          else if auth_RootPID a \<noteq> 0 then Fail (ErrID ''authorization is already active'' i)
          else Write (st\<lparr>st_Authorizations :=
                 update_first (\<lambda>a. auth_ID a = i) (\<lambda>a. a\<lparr>auth_RootPID := rootPID\<rparr>)
                   (st_Authorizations st)\<rparr>) (a\<lparr>auth_RootPID := rootPID\<rparr>))"

definition ActivateAuthorization ::
  "env \<Rightarrow> string \<Rightarrow> int \<Rightarrow> store \<Rightarrow> authorization result \<times> store" where
  "ActivateAuthorization E i rootPID s =
     (if rootPID \<le> 0 then (Inl (ErrNew ''authorization root pid must be positive''), s)
      else runtx E (activate_body i rootPID) s)"

definition release_authorization_body :: "string \<Rightarrow> state \<Rightarrow> unit outcome" where
  "release_authorization_body i st =
     (if \<exists>a\<in>set (st_Authorizations st). auth_ID a = i
      then Write (st\<lparr>st_Authorizations :=
             update_first (\<lambda>a. auth_ID a = i) (\<lambda>a. a\<lparr>auth_Active := False\<rparr>)
               (st_Authorizations st)\<rparr>) ()
      else Done ())"

definition ReleaseAuthorization :: "env \<Rightarrow> string \<Rightarrow> store \<Rightarrow> unit result \<times> store" where
  "ReleaseAuthorization E i = runtx E (release_authorization_body i)"

section \<open>Leases\<close>

definition AddLease :: "env \<Rightarrow> lease \<Rightarrow> store \<Rightarrow> unit result \<times> store" where
  "AddLease E l = runtx E (\<lambda>st. Write (st\<lparr>st_Leases := st_Leases st @ [l]\<rparr>) ())"

definition UpdateLease :: "env \<Rightarrow> lease \<Rightarrow> store \<Rightarrow> unit result \<times> store" where
  "UpdateLease E l =
     runtx E (\<lambda>st.
       if \<exists>x\<in>set (st_Leases st). lease_ID x = lease_ID l
       then Write (st\<lparr>st_Leases :=
              update_first (\<lambda>x. lease_ID x = lease_ID l) (\<lambda>_. l) (st_Leases st)\<rparr>) ()
       else Fail (ErrID ''lease not found'' (lease_ID l)))"

definition release_lease_body :: "string \<Rightarrow> state \<Rightarrow> unit outcome" where
  "release_lease_body i st =
     (if \<exists>l\<in>set (st_Leases st). lease_ID l = i
      then Write (st\<lparr>st_Leases :=
             update_first (\<lambda>l. lease_ID l = i) (\<lambda>l. l\<lparr>lease_Active := False\<rparr>) (st_Leases st)\<rparr>) ()
      else Done ())"

definition ReleaseLease :: "env \<Rightarrow> string \<Rightarrow> store \<Rightarrow> unit result \<times> store" where
  "ReleaseLease E i = runtx E (release_lease_body i)"

section \<open>Soft claims\<close>

definition same_slot :: "soft_claim \<Rightarrow> soft_claim \<Rightarrow> bool" where
  "same_slot c x \<longleftrightarrow> claim_GPU x = claim_GPU c \<and> claim_TokenHash x = claim_TokenHash c"

definition stamp_claim :: "env \<Rightarrow> soft_claim \<Rightarrow> time \<Rightarrow> soft_claim" where
  "stamp_claim E claim now =
     claim\<lparr>claim_ID := (if claim_ID claim = [] then ''claim_'' @ e_rnd E 0 else claim_ID claim),
           claim_CreatedAt := (if IsZero (claim_CreatedAt claim) then now else claim_CreatedAt claim),
           claim_UpdatedAt := now\<rparr>"

definition upsert_body :: "env \<Rightarrow> soft_claim \<Rightarrow> time \<Rightarrow> state \<Rightarrow> unit outcome" where
  "upsert_body E claim now st =
     (let c = stamp_claim E claim now
      in if \<exists>x\<in>set (st_SoftClaims st). same_slot c x
         then Write (st\<lparr>st_SoftClaims :=
                update_first (same_slot c)
                  (\<lambda>x. c\<lparr>claim_ID := claim_ID x, claim_CreatedAt := claim_CreatedAt x\<rparr>)
                  (st_SoftClaims st)\<rparr>) ()
         else Write (st\<lparr>st_SoftClaims := st_SoftClaims st @ [c]\<rparr>) ())"

definition UpsertSoftClaim :: "env \<Rightarrow> soft_claim \<Rightarrow> time \<Rightarrow> store \<Rightarrow> unit result \<times> store" where
  "UpsertSoftClaim E claim now = runtx E (upsert_body E claim now)"

definition release_claim_body :: "string \<Rightarrow> state \<Rightarrow> unit outcome" where
  "release_claim_body i st =
     (if \<not> (\<exists>c\<in>set (st_SoftClaims st). claim_ID c = i) then Done ()
      else Write (st\<lparr>st_SoftClaims := filter (\<lambda>c. claim_ID c \<noteq> i) (st_SoftClaims st)\<rparr>) ())"

definition ReleaseSoftClaim :: "env \<Rightarrow> string \<Rightarrow> store \<Rightarrow> unit result \<times> store" where
  "ReleaseSoftClaim E i = runtx E (release_claim_body i)"

section \<open>Bypass rules\<close>

definition add_bypass_body :: "bypass_rule \<Rightarrow> state \<Rightarrow> unit outcome" where
  "add_bypass_body b st =
     (case checkTotalCapacity ''bypass'' (len (st_Bypasses st)) 1 maxTotalBypasses of
        Some e \<Rightarrow> Fail e
      | None \<Rightarrow> Write (st\<lparr>st_Bypasses := st_Bypasses st @ [b]\<rparr>) ())"

definition AddBypass :: "env \<Rightarrow> bypass_rule \<Rightarrow> store \<Rightarrow> unit result \<times> store" where
  "AddBypass E b = runtx E (add_bypass_body b)"

section \<open>Audit history\<close>

definition append_audits_body :: "audit_event list \<Rightarrow> state \<Rightarrow> unit outcome" where
  "append_audits_body events st =
     (let audit = st_Audit st @ events
      in Write (st\<lparr>st_Audit :=
           (if len audit > maxAuditEvents
            then drop (length audit - nat maxAuditEvents) audit else audit)\<rparr>) ())"

text \<open>
  The log file and its one backup, with the outcome of each system call: the two
  \<^verbatim>\<open>Lstat\<close> calls, removing and creating the backup, opening the log, and a write that may
  stop after some bytes.
\<close>

record audit_log =
  al_file :: "file_obj option"
  al_backup :: "file_obj option"

record log_io =
  li_mkdir :: "error option"
  li_lstat :: "error option"
  li_lstat_backup :: "error option"
  li_remove :: "error option"
  li_rename :: "error option"
  li_chmod_backup :: "error option"
  li_syncdir_rotate :: "error option"
  li_open :: "error option"
  li_stat :: "error option"
  li_chmod :: "error option"
  li_write :: "(nat \<times> error) option"
  li_sync :: "error option"
  li_close :: "error option"
  li_syncdir :: "error option"

definition rotateAuditLogIfNeeded ::
  "log_io \<Rightarrow> int \<Rightarrow> audit_log \<Rightarrow> error option \<times> audit_log" where
  "rotateAuditLogIfNeeded io incoming log =
     (case (li_lstat io, al_file log) of
        (Some e, _) \<Rightarrow> (Some e, log)
      | (None, None) \<Rightarrow> (None, log)
      | (None, Some f) \<Rightarrow>
          if \<not> fo_regular f then (Some (ErrNew ''audit log is not a regular file''), log)
          else if len (fo_data f) \<le> maxAuditLogBytes - incoming then (None, log)
          else
            (case (li_lstat_backup io, al_backup log) of
               (Some e, _) \<Rightarrow> (Some e, log)
             | (None, b) \<Rightarrow>
                 if (case b of None \<Rightarrow> False | Some x \<Rightarrow> \<not> fo_regular x)
                 then (Some (ErrNew ''audit log backup is not a regular file''), log)
                 else
                   (case (if b \<noteq> None then li_remove io else None) of
                      Some e \<Rightarrow> (Some e, log)
                    | None \<Rightarrow>
                        let log1 = log\<lparr>al_backup := None\<rparr> in
                        (case li_rename io of
                           Some e \<Rightarrow> (Some e, log1)
                         | None \<Rightarrow>
                             let log2 = \<lparr>al_file = None, al_backup = Some f\<rparr> in
                             (case li_chmod_backup io of
                                Some e \<Rightarrow> (Some e, log2)
                              | None \<Rightarrow>
                                  (li_syncdir_rotate io,
                                   log2\<lparr>al_backup := Some (f\<lparr>fo_perm := 0x180\<rparr>)\<rparr>))))))"

fun marshal_events :: "golib \<Rightarrow> audit_event list \<Rightarrow> string result" where
  "marshal_events L [] = Inr []"
| "marshal_events L (ev # evs) =
     (case gl_eventJSON L ev of
        Inl e \<Rightarrow> Inl e
      | Inr d \<Rightarrow>
          (case marshal_events L evs of Inl e \<Rightarrow> Inl e | Inr ds \<Rightarrow> Inr (d @ newline @ ds)))"

definition appendAuditLogs ::
  "golib \<Rightarrow> log_io \<Rightarrow> string \<Rightarrow> audit_event list \<Rightarrow> audit_log \<Rightarrow> error option \<times> audit_log" where
  "appendAuditLogs L io path events log =
     (if path = [] then (None, log)
      else
        (case li_mkdir io of
           Some e \<Rightarrow> (Some e, log)
         | None \<Rightarrow>
             (case marshal_events L events of
                Inl e \<Rightarrow> (Some e, log)
              | Inr lines \<Rightarrow>
                  if len lines > maxAuditLogBytes
                  then (Some (ErrValueSize ''audit batch'' maxAuditLogBytes), log)
                  else
                    (case rotateAuditLogIfNeeded io (len lines) log of
                       (Some e, log1) \<Rightarrow> (Some e, log1)
                     | (None, log1) \<Rightarrow>
                         (case li_open io of
                            Some e \<Rightarrow> (Some e, log1)
                          | None \<Rightarrow>
                              let f = the_or \<lparr>fo_regular = True, fo_perm = 0x180, fo_data = []\<rparr>
                                        (al_file log1);
                                  opened = log1\<lparr>al_file := Some f\<rparr>
                              in (case li_stat io of
                                    Some e \<Rightarrow> (Some e, opened)
                                  | None \<Rightarrow>
                                      if \<not> fo_regular f
                                      then (Some (ErrNew ''audit log is not a regular file''), opened)
                                      else
                                        (case li_chmod io of
                                           Some e \<Rightarrow> (Some e, opened)
                                         | None \<Rightarrow>
                                             let g = f\<lparr>fo_perm := 0x180\<rparr> in
                                             (case li_write io of
                                                Some (n, e) \<Rightarrow>
                                                  (Some e, opened\<lparr>al_file :=
                                                     Some (g\<lparr>fo_data := fo_data g @ take n lines\<rparr>)\<rparr>)
                                              | None \<Rightarrow>
                                                  (and_then (li_sync io)
                                                     (and_then (li_close io) (li_syncdir io)),
                                                   opened\<lparr>al_file :=
                                                     Some (g\<lparr>fo_data := fo_data g @ lines\<rparr>)\<rparr>)))))))))"

definition AppendAudits ::
  "env \<Rightarrow> log_io \<Rightarrow> string \<Rightarrow> audit_event list \<Rightarrow> audit_log \<Rightarrow> store \<Rightarrow>
   error option \<times> audit_log \<times> store" where
  "AppendAudits E io path events log s =
     (if events = [] then (None, log, s)
      else
        (case runtx E (append_audits_body events) s of
           (Inl e, s') \<Rightarrow> (Some e, log, s')
         | (Inr _, s') \<Rightarrow>
             (case appendAuditLogs (e_lib E) io path events log of (err, log') \<Rightarrow> (err, log', s'))))"

definition AppendAudit ::
  "env \<Rightarrow> log_io \<Rightarrow> string \<Rightarrow> audit_event \<Rightarrow> audit_log \<Rightarrow> store \<Rightarrow>
   error option \<times> audit_log \<times> store" where
  "AppendAudit E io path event = AppendAudits E io path [event]"

section \<open>Lemmas\<close>

lemma count_active_nonneg: "0 \<le> count_active h now excl i as"
  by (induction as arbitrary: i) auto

lemma count_active_no_exclusion:
  "excl < i \<Longrightarrow> count_active h now excl i as =
     len (filter (\<lambda>a. auth_TokenHash a = h \<and> authorizationActiveAt a now) as)"
  by (induction as arbitrary: i) auto

lemma add_authorization_body_Write:
  "add_authorization_body a now st = Write st' r \<Longrightarrow>
     st' = st\<lparr>st_Authorizations := st_Authorizations st @ [a]\<rparr> \<and>
     (authorizationActiveAt a now \<longrightarrow>
        len (filter (\<lambda>x. auth_TokenHash x = auth_TokenHash a \<and> authorizationActiveAt x now)
               (st_Authorizations st @ [a])) \<le> maxActiveAuthorizationsPerToken)"
  by (auto simp: add_authorization_body_def checkActiveAuthorizationCapacityLocked_def
      count_active_no_exclusion split: option.splits if_splits)

lemma activate_body_Write:
  "activate_body i pid st = Write st' a' \<Longrightarrow>
     \<exists>a. find (\<lambda>a. auth_ID a = i) (st_Authorizations st) = Some a \<and> auth_Active a \<and>
       \<not> auth_Revoked a \<and> auth_RootPID a = 0 \<and> a' = a\<lparr>auth_RootPID := pid\<rparr> \<and>
       st' = st\<lparr>st_Authorizations :=
         update_first (\<lambda>a. auth_ID a = i) (\<lambda>a. a\<lparr>auth_RootPID := pid\<rparr>) (st_Authorizations st)\<rparr>"
  by (auto simp: activate_body_def split: option.splits if_splits)

lemma audit_trimmed:
  "append_audits_body events st = Write st' r \<Longrightarrow>
     len (st_Audit st') \<le> maxAuditEvents \<and> suffix (st_Audit st') (st_Audit st @ events)"
  by (auto simp: append_audits_body_def Let_def suffix_drop maxAuditEvents_def
      simp del: drop_append split: if_splits)

lemma audit_newest_kept:
  "\<lbrakk>append_audits_body events st = Write st' r; len events \<le> maxAuditEvents\<rbrakk>
   \<Longrightarrow> suffix events (st_Audit st')"
  by (auto simp: append_audits_body_def Let_def suffix_def maxAuditEvents_def
      split: if_splits)

text \<open>At most one soft claim per GPU and token, and a claim keeps its identity.\<close>

definition slots :: "soft_claim list \<Rightarrow> (int \<times> string) list" where
  "slots cs = map (\<lambda>c. (claim_GPU c, claim_TokenHash c)) cs"

lemma slots_update_first:
  "(\<And>x. P x \<Longrightarrow> same_slot x (f x)) \<Longrightarrow> slots (update_first P f cs) = slots cs"
  unfolding slots_def by (rule map_update_first) (auto simp: same_slot_def)

lemma slots_upsert [simp]:
  "slots (update_first (same_slot c)
     (\<lambda>x. c\<lparr>claim_ID := claim_ID x, claim_CreatedAt := claim_CreatedAt x\<rparr>) cs) = slots cs"
  by (rule slots_update_first) (simp add: same_slot_def)

lemma upsert_slots:
  "\<lbrakk>upsert_body E c now st = Write st' r; distinct (slots (st_SoftClaims st))\<rbrakk>
   \<Longrightarrow> distinct (slots (st_SoftClaims st'))"
  by (auto simp: upsert_body_def Let_def split: if_splits) (auto simp: slots_def same_slot_def)

text \<open>Appending keeps the log within its limit.\<close>

definition log_bounded :: "audit_log \<Rightarrow> bool" where
  "log_bounded log \<longleftrightarrow>
     (\<forall>f. al_file log = Some f \<longrightarrow> len (fo_data f) \<le> maxAuditLogBytes) \<and>
     (\<forall>f. al_backup log = Some f \<longrightarrow> len (fo_data f) \<le> maxAuditLogBytes)"

lemma rotate_bounded:
  assumes "rotateAuditLogIfNeeded io n log = (e, log')" "log_bounded log"
  shows "log_bounded log'"
  using assms
  by (auto simp: rotateAuditLogIfNeeded_def log_bounded_def Let_def
      split: option.splits prod.splits if_splits)

lemma rotate_makes_room:
  assumes "rotateAuditLogIfNeeded io n log = (None, log')" "al_file log' = Some f"
  shows "len (fo_data f) + n \<le> maxAuditLogBytes"
  using assms
  by (auto simp: rotateAuditLogIfNeeded_def Let_def split: option.splits prod.splits if_splits)

lemma append_bounded:
  assumes "appendAuditLogs L io path events log = (e, log')" "log_bounded log"
  shows "log_bounded log'"
proof (cases "path = [] \<or> li_mkdir io \<noteq> None \<or> (\<exists>x. marshal_events L events = Inl x)")
  case True
  with assms show ?thesis
    by (auto simp: appendAuditLogs_def split: option.splits if_splits)
next
  case False
  then obtain lines where lines: "marshal_events L events = Inr lines"
    by (cases "marshal_events L events") auto
  show ?thesis
  proof (cases "len lines > maxAuditLogBytes")
    case True
    with False lines assms show ?thesis by (auto simp: appendAuditLogs_def)
  next
    case small: False
    obtain e1 log1 where rot: "rotateAuditLogIfNeeded io (len lines) log = (e1, log1)"
      by (cases "rotateAuditLogIfNeeded io (len lines) log")
    with assms(2) have b: "log_bounded log1" by (simp add: rotate_bounded)
    have room: "len (fo_data f) + len lines \<le> maxAuditLogBytes"
      if "e1 = None" "al_file log1 = Some f" for f
      using rot that by (simp add: rotate_makes_room)
    have part: "len (take n lines) \<le> len lines" for n by simp
    show ?thesis
    proof (cases "al_file log1")
      case None
      with assms(1) False lines small rot b part show ?thesis
        by (auto simp: appendAuditLogs_def log_bounded_def Let_def maxAuditLogBytes_def
            split: option.splits if_splits)
    next
      case (Some f)
      have "len (fo_data f) + min (len lines) (int n) \<le> maxAuditLogBytes" if "e1 = None" for n
        using room [OF that Some] by auto
      with assms(1) False lines small rot b room Some show ?thesis
        by (auto simp: appendAuditLogs_def log_bounded_def Let_def
            split: option.splits if_splits)
    qed
  qed
qed

end
