(* ===== verification/StoreRevoke.thy ===== *)
theory StoreRevoke
  imports StoreRecords
begin

text \<open>
  \<^verbatim>\<open>Store.Revoke\<close>: a managed reservation is revoked with the whole group it belongs to; any
  other identifier or secret revokes the token it names and everything that carries the
  token's hash, or the one record it names.
\<close>

section \<open>The operation\<close>

definition effective_group :: "reservation \<Rightarrow> string" where
  "effective_group r = (if res_GroupID r = [] then res_ID r else res_GroupID r)"

definition managed_hashes :: "state \<Rightarrow> string list" where
  "managed_hashes st = map tok_Hash (filter tok_Managed (st_Tokens st))"

definition managed_group :: "string \<Rightarrow> state \<Rightarrow> string" where
  "managed_group x st =
     (case find (\<lambda>r. res_TokenHash r \<in> set (managed_hashes st) \<and>
                     (res_ID r = x \<or> effective_group r = x)) (st_Reservations st) of
        Some r \<Rightarrow> effective_group r
      | None \<Rightarrow> [])"

definition revoke_group :: "string \<Rightarrow> reservation \<Rightarrow> reservation" where
  "revoke_group g r =
     (if effective_group r = g \<and> \<not> res_Revoked r then r\<lparr>res_Revoked := True\<rparr> else r)"

text \<open>The hash an argument stands for: of a secret, of a named token, of a named reservation.\<close>

definition revoke_hash :: "env \<Rightarrow> string \<Rightarrow> state \<Rightarrow> string" where
  "revoke_hash E x st =
     (let h0 = (if HasPrefix x ''gk_'' then HashToken E x else []);
          h1 = (case find (\<lambda>t. tok_ID t = x \<or> (h0 \<noteq> [] \<and> tok_Hash t = h0)) (st_Tokens st) of
                  Some t \<Rightarrow> tok_Hash t | None \<Rightarrow> h0)
      in if h1 = [] then
           (case find (\<lambda>r. res_ID r = x) (st_Reservations st) of
              Some r \<Rightarrow> res_TokenHash r | None \<Rightarrow> [])
         else h1)"

text \<open>The loop over the tokens, which updates the hash it looks for as it goes.\<close>

fun revoke_tokens :: "string \<Rightarrow> string \<Rightarrow> token list \<Rightarrow> string \<times> bool \<times> token list" where
  "revoke_tokens x h [] = (h, False, [])"
| "revoke_tokens x h (t # ts) =
     (if tok_ID t = x \<or> (h \<noteq> [] \<and> tok_Hash t = h)
      then (case revoke_tokens x (tok_Hash t) ts of
              (h', _, ts') \<Rightarrow> (h', True, t\<lparr>tok_Revoked := True\<rparr> # ts'))
      else (case revoke_tokens x h ts of (h', c, ts') \<Rightarrow> (h', c, t # ts')))"

definition hits :: "string \<Rightarrow> string \<Rightarrow> string \<Rightarrow> string \<Rightarrow> bool" where
  "hits x h i hash \<longleftrightarrow> i = x \<or> (h \<noteq> [] \<and> hash = h)"

text \<open>Whether a row other than a token is hit, and the rows once the hit ones are marked.\<close>

definition row_hit :: "string \<Rightarrow> string \<Rightarrow> state \<Rightarrow> bool" where
  "row_hit x h st \<longleftrightarrow>
     (\<exists>r\<in>set (st_Reservations st). hits x h (res_ID r) (res_TokenHash r)) \<or>
     (\<exists>a\<in>set (st_Authorizations st). hits x h (auth_ID a) (auth_TokenHash a)) \<or>
     (\<exists>l\<in>set (st_Leases st). hits x h (lease_ID l) (lease_TokenHash l)) \<or>
     (\<exists>b\<in>set (st_Bypasses st). byp_ID b = x)"

definition mark_rows :: "string \<Rightarrow> string \<Rightarrow> (nat \<Rightarrow> time) \<Rightarrow> token list \<Rightarrow> bool \<Rightarrow> state \<Rightarrow> state" where
  "mark_rows x h clock tokens claims_seen st =
     st\<lparr>st_Tokens := tokens,
        st_Reservations := map (\<lambda>r. if hits x h (res_ID r) (res_TokenHash r)
          then r\<lparr>res_Revoked := True\<rparr> else r) (st_Reservations st),
        st_Authorizations := map (\<lambda>a. if hits x h (auth_ID a) (auth_TokenHash a)
          then a\<lparr>auth_Revoked := True\<rparr> else a) (st_Authorizations st),
        st_Leases := mapi 0 (\<lambda>i l. if hits x h (lease_ID l) (lease_TokenHash l)
          then l\<lparr>lease_ExpiresAt := clock i\<rparr> else l) (st_Leases st),
        st_Bypasses := map (\<lambda>b. if byp_ID b = x then b\<lparr>byp_Revoked := True\<rparr> else b)
          (st_Bypasses st),
        st_SoftClaims := (if claims_seen then filter (\<lambda>c. claim_ID c \<noteq> x) (st_SoftClaims st)
          else st_SoftClaims st)\<rparr>"

definition revoke_body :: "env \<Rightarrow> string \<Rightarrow> (nat \<Rightarrow> time) \<Rightarrow> state \<Rightarrow> unit outcome" where
  "revoke_body E x clock st =
     (let g = managed_group x st in
      if g \<noteq> [] then
        (if \<exists>r\<in>set (st_Reservations st). effective_group r = g \<and> \<not> res_Revoked r
         then Write (st\<lparr>st_Reservations := map (revoke_group g) (st_Reservations st)\<rparr>) ()
         else Done ())
      else
        (case revoke_tokens x (revoke_hash E x st) (st_Tokens st) of
           (h, tokens_changed, tokens) \<Rightarrow>
             let changed = (tokens_changed \<or> row_hit x h st);
                 claims_seen = (h \<noteq> [] \<or> changed);
                 claim_removed = (claims_seen \<and> (\<exists>c\<in>set (st_SoftClaims st). claim_ID c = x))
             in if \<not> (changed \<or> claim_removed) then Fail (ErrID ''not found'' x)
                else Write (mark_rows x h clock tokens claims_seen st) ()))"

definition Revoke :: "env \<Rightarrow> string \<Rightarrow> (nat \<Rightarrow> time) \<Rightarrow> store \<Rightarrow> unit result \<times> store" where
  "Revoke E idOrToken clock = runtx E (revoke_body E (TrimSpace idOrToken) clock)"

section \<open>Lemmas\<close>

lemma revoke_body_calmer:
  "revoke_body E x clock st = Write st' r \<Longrightarrow>
     list_all2 calmer (st_Reservations st) (st_Reservations st')"
  by (auto simp: revoke_body_def Let_def mark_rows_def list_all2_map2 calmer_def revoke_group_def
      split: if_splits prod.splits intro!: list.rel_refl_strong)

text \<open>
  \<open>revoke_tokens\<close> revokes every token with the identifier and, where the hash does not change
  on the way, every token with the hash; it never clears a flag.
\<close>

lemma revoke_tokens_rel:
  "list_all2 (\<lambda>t t'. t' = t \<or> t' = t\<lparr>tok_Revoked := True\<rparr>) ts (snd (snd (revoke_tokens x h ts)))"
  by (induction ts arbitrary: h) (auto simp: case_prod_unfold)

lemma revoke_tokens_agree:
  assumes "h \<noteq> []" "\<forall>t\<in>set ts. tok_ID t = x \<longrightarrow> tok_Hash t = h"
  shows "revoke_tokens x h ts =
    (h, \<exists>t\<in>set ts. tok_Hash t = h,
     map (\<lambda>t. if tok_Hash t = h then t\<lparr>tok_Revoked := True\<rparr> else t) ts)"
  using assms by (induction ts) auto

lemma revoke_hash_of_token:
  assumes "find (\<lambda>t. tok_ID t = x) (st_Tokens st) = Some t" "\<not> HasPrefix x ''gk_''"
    and "tok_Hash t \<noteq> []"
  shows "revoke_hash E x st = tok_Hash t"
  using assms by (simp add: revoke_hash_def Let_def)

lemma revoke_hash_of_secret:
  assumes "HasPrefix x ''gk_''" "HashToken E x \<noteq> []"
    and "\<forall>t\<in>set (st_Tokens st). tok_ID t \<noteq> x"
  shows "revoke_hash E x st = HashToken E x"
  using assms by (auto simp: revoke_hash_def Let_def dest: find_SomeD split: option.splits)

text \<open>
  Revoking by a hash: with no managed reservation of that name, and tokens whose identifier
  is the argument agreeing on the hash, everything that carries the hash is revoked.
\<close>

lemma revoke_body_hash_state:
  assumes "managed_group x st = []" "revoke_hash E x st \<noteq> []"
    and "\<forall>t\<in>set (st_Tokens st). tok_ID t = x \<longrightarrow> tok_Hash t = revoke_hash E x st"
    and "revoke_body E x clock st = Write st' r"
  shows "st' = mark_rows x (revoke_hash E x st) clock
    (map (\<lambda>t. if tok_Hash t = revoke_hash E x st then t\<lparr>tok_Revoked := True\<rparr> else t)
       (st_Tokens st)) True st"
proof -
  obtain h where h: "h = revoke_hash E x st" by simp
  note agree = revoke_tokens_agree [OF assms(2,3), folded h]
  from assms(4) show ?thesis
    unfolding revoke_body_def Let_def assms(1) h [symmetric] agree
    using assms(2) [folded h] by (simp split: if_split_asm)
qed

lemma revoke_body_by_hash:
  assumes "managed_group x st = []" "revoke_hash E x st \<noteq> []"
    and "\<forall>t\<in>set (st_Tokens st). tok_ID t = x \<longrightarrow> tok_Hash t = revoke_hash E x st"
    and "revoke_body E x clock st = Write st' r"
  shows "\<forall>t\<in>set (st_Tokens st'). tok_Hash t = revoke_hash E x st \<longrightarrow> tok_Revoked t"
    and "\<forall>r\<in>set (st_Reservations st'). res_TokenHash r = revoke_hash E x st \<longrightarrow> res_Revoked r"
    and "\<forall>a\<in>set (st_Authorizations st'). auth_TokenHash a = revoke_hash E x st \<longrightarrow> auth_Revoked a"
proof -
  define h where "h = revoke_hash E x st"
  note st' = revoke_body_hash_state [OF assms, folded h_def]
  have h: "h \<noteq> []" using assms(2) by (simp add: h_def)
  show "\<forall>t\<in>set (st_Tokens st'). tok_Hash t = revoke_hash E x st \<longrightarrow> tok_Revoked t"
    unfolding st' mark_rows_def h_def [symmetric] by (simp del: set_map add: ball_map_if)
  show "\<forall>r\<in>set (st_Reservations st'). res_TokenHash r = revoke_hash E x st \<longrightarrow> res_Revoked r"
    unfolding st' mark_rows_def h_def [symmetric] using h
    by (simp del: set_map add: ball_map_if hits_def)
  show "\<forall>a\<in>set (st_Authorizations st'). auth_TokenHash a = revoke_hash E x st \<longrightarrow> auth_Revoked a"
    unfolding st' mark_rows_def h_def [symmetric] using h
    by (simp del: set_map add: ball_map_if hits_def)
qed

lemma revoke_group_revokes:
  assumes "managed_group x st = g" "g \<noteq> []" "revoke_body E x clock st = Write st' r"
  shows "\<forall>r\<in>set (st_Reservations st'). effective_group r = g \<longrightarrow> res_Revoked r"
proof -
  from assms have "st' = st\<lparr>st_Reservations := map (revoke_group g) (st_Reservations st)\<rparr>"
    by (simp add: revoke_body_def split: if_split_asm)
  moreover have "effective_group (revoke_group g r) = effective_group r" for r
    by (simp add: revoke_group_def effective_group_def)
  moreover have "effective_group r = g \<longrightarrow> res_Revoked (revoke_group g r)" for r
    by (simp add: revoke_group_def)
  ultimately show ?thesis by simp
qed

text \<open>Nothing a revocation writes clears a flag or changes a hash.\<close>

lemma revoke_body_tokens:
  "revoke_body E x clock st = Write st' r \<Longrightarrow>
     list_all2 (\<lambda>t t'. t' = t \<or> t' = t\<lparr>tok_Revoked := True\<rparr>) (st_Tokens st) (st_Tokens st')"
  using revoke_tokens_rel [of "st_Tokens st" x "revoke_hash E x st"]
  by (auto simp: revoke_body_def Let_def mark_rows_def list.rel_refl split: if_splits prod.splits)

text \<open>
  The identifier of a soft claim alone is never enough: the filter of the claims runs only
  after something else was hit.
\<close>

lemma revoke_claim_not_found:
  assumes "\<forall>r\<in>set (st_Reservations st). res_ID r \<noteq> x \<and> effective_group r \<noteq> x"
    and "\<forall>t\<in>set (st_Tokens st). tok_ID t \<noteq> x" "\<forall>a\<in>set (st_Authorizations st). auth_ID a \<noteq> x"
    and "\<forall>l\<in>set (st_Leases st). lease_ID l \<noteq> x" "\<forall>b\<in>set (st_Bypasses st). byp_ID b \<noteq> x"
    and "\<not> HasPrefix x ''gk_''"
  shows "revoke_body E x clock st = Fail (ErrID ''not found'' x)"
proof -
  have g: "managed_group x st = []"
    using assms(1) by (auto simp: managed_group_def dest!: find_SomeD split: option.splits)
  have h: "revoke_hash E x st = []"
    using assms(1,2,6) by (auto simp: revoke_hash_def Let_def dest!: find_SomeD split: option.splits)
  have "revoke_tokens x [] ts = ([], False, ts)" if "\<forall>t\<in>set ts. tok_ID t \<noteq> x" for ts
    using that by (induction ts) auto
  with g h assms show ?thesis by (simp add: revoke_body_def hits_def row_hit_def)
qed

end
