(* ===== verification/StoreViews.thy ===== *)
theory StoreViews
  imports StoreRecords
begin

text \<open>
  What the store shows of its state: the snapshot an unprivileged \<^verbatim>\<open>ps\<close> request gets, the
  status of everything or of one token, and the status of the keys, which alone carries
  secrets and needs the root key. The lemmas say that a view scoped to a token holds only
  rows of that token, and that only \<open>KeyStatus\<close> shows a secret.
\<close>

section \<open>The rows of one token\<close>

definition snapshot_for :: "string \<Rightarrow> state \<Rightarrow> state" where
  "snapshot_for hash st =
     (let tokens = map (\<lambda>t. t\<lparr>tok_Secret := []\<rparr>) (filter (\<lambda>t. tok_Hash t = hash) (st_Tokens st));
          auths = map (\<lambda>a. a\<lparr>auth_Command := []\<rparr>)
            (filter (\<lambda>a. auth_TokenHash a = hash) (st_Authorizations st));
          allowed = map auth_ID auths
      in empty_state\<lparr>st_Tokens := tokens,
           st_Reservations := filter (\<lambda>r. res_TokenHash r = hash) (st_Reservations st),
           st_Authorizations := auths,
           st_SoftClaims := filter (\<lambda>c. claim_TokenHash c = hash \<and>
             claim_AuthorizationID c \<in> set allowed) (st_SoftClaims st)\<rparr>)"

definition EnforcementSnapshotForToken :: "env \<Rightarrow> string \<Rightarrow> store \<Rightarrow> state result \<times> store" where
  "EnforcementSnapshotForToken E hash s =
     (if hash = [] then (Inl (ErrNew ''token hash is required''), s)
      else runtx E (\<lambda>st. Done (snapshot_for hash st)) s)"

section \<open>Views of single rows\<close>

definition live_reservation :: "reservation \<Rightarrow> time \<Rightarrow> bool" where
  "live_reservation r now \<longleftrightarrow> res_Active r \<and> \<not> res_Revoked r \<and> Before now (res_ExpiresAt r)"

definition liveReservationTokenHashes :: "reservation list \<Rightarrow> time \<Rightarrow> string list" where
  "liveReservationTokenHashes rs now =
     map res_TokenHash (filter (\<lambda>r. live_reservation r now \<and> res_TokenHash r \<noteq> []) rs)"

text \<open>The loop of \<open>boundedViewCommand\<close>, with the number of arguments kept and the bytes left.\<close>

fun bounded_command :: "int \<Rightarrow> int \<Rightarrow> string list \<Rightarrow> string list" where
  "bounded_command n remaining [] = []"
| "bounded_command n remaining (argument # rest) =
     (if n \<ge> maxViewCommandArgs \<or> remaining \<le> 0 then []
      else
        let arg = (if len argument > remaining then take (nat remaining) argument else argument)
        in arg # bounded_command (n + 1) (remaining - len arg) rest)"

definition boundedViewCommand :: "string list \<Rightarrow> string list" where
  "boundedViewCommand command = bounded_command 0 maxViewCommandBytes command"

definition authorizationView :: "authorization \<Rightarrow> string \<Rightarrow> authorization_view" where
  "authorizationView a tokenID =
     \<lparr>av_ID = auth_ID a, av_TokenID = tokenID, av_Mode = auth_Mode a,
      av_TokenMode = NormalizeTokenMode (auth_TokenMode a), av_Holder = auth_Holder a,
      av_UID = auth_UID a, av_GID = auth_GID a, av_Username = auth_Username a,
      av_Command = boundedViewCommand (auth_Command a), av_RootPID = auth_RootPID a,
      av_ContainerID = auth_ContainerID a, av_ContainerPattern = auth_ContainerPattern a,
      av_Namespace = auth_Namespace a, av_CreatedAt = auth_CreatedAt a,
      av_ExpiresAt = timePtrIfSet (auth_ExpiresAt a), av_Active = auth_Active a,
      av_Revoked = auth_Revoked a\<rparr>"

definition reservationGroupID :: "reservation \<Rightarrow> (string \<Rightarrow> string) \<Rightarrow> string" where
  "reservationGroupID r tokenIDsByHash =
     (if res_GroupID r \<noteq> [] then res_GroupID r else tokenIDsByHash (res_TokenHash r))"

definition token_view_of :: "token \<Rightarrow> token_view" where
  "token_view_of t =
     \<lparr>tv_ID = tok_ID t, tv_Key = [], tv_KeyStatus = [], tv_Name = tok_Name t,
      tv_Mode = NormalizeTokenMode (tok_Mode t), tv_Version = tok_Version t,
      tv_Managed = tok_Managed t, tv_CreatedAt = tok_CreatedAt t,
      tv_ExpiresAt = timePtrIfSet (tok_ExpiresAt t), tv_Revoked = tok_Revoked t\<rparr>"

definition reservation_view_of :: "(string \<Rightarrow> string) \<Rightarrow> reservation \<Rightarrow> reservation_view" where
  "reservation_view_of ids r =
     \<lparr>rv_ID = res_ID r, rv_GroupID = reservationGroupID r ids,
      rv_ExternalSessionID = res_ExternalSessionID r, rv_GPU = res_GPU r,
      rv_Holder = res_Holder r, rv_Purpose = res_Purpose r, rv_CreatedAt = res_CreatedAt r,
      rv_StartsAt = ReservationStartsAt r, rv_ExpiresAt = res_ExpiresAt r,
      rv_Active = res_Active r, rv_Revoked = res_Revoked r\<rparr>"

definition claim_view_of :: "soft_claim \<Rightarrow> soft_claim_view" where
  "claim_view_of c =
     \<lparr>cv_ID = claim_ID c, cv_GPU = claim_GPU c, cv_AuthorizationID = claim_AuthorizationID c,
      cv_Holder = claim_Holder c, cv_CreatedAt = claim_CreatedAt c, cv_UpdatedAt = claim_UpdatedAt c\<rparr>"

section \<open>Status\<close>

text \<open>A token that a status shows: usable, and not a reserved one whose reservations are gone.\<close>

definition shown_token :: "state \<Rightarrow> time \<Rightarrow> token \<Rightarrow> bool" where
  "shown_token st now t \<longleftrightarrow>
     \<not> (tok_Revoked t \<or> tokenExpired t now) \<and>
     \<not> (NormalizeTokenMode (tok_Mode t) = TokenModeReserved \<and>
        tok_Hash t \<notin> set (liveReservationTokenHashes (st_Reservations st) now))"

definition ids_by_hash :: "token list \<Rightarrow> string \<Rightarrow> string" where
  "ids_by_hash ts h = the_or [] (go_map (map (\<lambda>t. (tok_Hash t, tok_ID t)) ts) h)"

definition live_bypass :: "bypass_rule \<Rightarrow> time \<Rightarrow> bool" where
  "live_bypass b now \<longleftrightarrow> \<not> (byp_Revoked b \<or> \<not> Before now (byp_ExpiresAt b))"

definition status_of :: "time \<Rightarrow> string \<Rightarrow> bool \<Rightarrow> state \<Rightarrow> status" where
  "status_of now allowed all st =
     (let mine = (\<lambda>h. all \<or> h = allowed);
          tokens = filter (\<lambda>t. mine (tok_Hash t) \<and> shown_token st now t) (st_Tokens st);
          ids = ids_by_hash tokens;
          auths = filter (\<lambda>a. mine (auth_TokenHash a) \<and> auth_Active a \<and> \<not> auth_Revoked a \<and>
            \<not> authorizationExpired a now) (st_Authorizations st)
      in \<lparr>su_Now = now,
          su_Tokens = map token_view_of tokens,
          su_Reservations = map (reservation_view_of ids)
            (filter (\<lambda>r. mine (res_TokenHash r) \<and> live_reservation r now) (st_Reservations st)),
          su_Authorizations = map (\<lambda>a. authorizationView a (ids (auth_TokenHash a))) auths,
          su_SoftClaims = map claim_view_of
            (filter (\<lambda>c. mine (claim_TokenHash c) \<and> claim_TokenHash c \<in> tok_Hash ` set tokens \<and>
               claim_AuthorizationID c \<in> auth_ID ` set auths) (st_SoftClaims st)),
          su_Leases = (if all then filter (\<lambda>l. lease_Active l \<and> Before now (lease_ExpiresAt l))
            (st_Leases st) else []),
          su_Bypasses = (if all then filter (\<lambda>b. live_bypass b now) (st_Bypasses st) else [])\<rparr>)"

definition Status :: "env \<Rightarrow> time \<Rightarrow> store \<Rightarrow> status result \<times> store" where
  "Status E now = runtx E (\<lambda>st. Done (status_of now [] True st))"

definition StatusForToken :: "env \<Rightarrow> string \<Rightarrow> time \<Rightarrow> store \<Rightarrow> status result \<times> store" where
  "StatusForToken E hash now s =
     (if hash = [] then (Inl (ErrNew ''token hash is required''), s)
      else runtx E (\<lambda>st. Done (status_of now hash False st)) s)"

definition key_view_of :: "token \<Rightarrow> token_view" where
  "key_view_of t =
     (if tok_Secret t \<noteq> []
      then (token_view_of t)\<lparr>tv_Key := tok_Secret t, tv_KeyStatus := TokenKeyStatusStored\<rparr>
      else (token_view_of t)\<lparr>tv_KeyStatus := TokenKeyStatusNotStored\<rparr>)"

definition key_status_of :: "time \<Rightarrow> state \<Rightarrow> key_status" where
  "key_status_of now st =
     (let tokens = filter (shown_token st now) (st_Tokens st);
          ids = ids_by_hash tokens
      in \<lparr>ks_Now = now,
          ks_Tokens = map key_view_of tokens,
          ks_Reservations = map (reservation_view_of ids)
            (filter (\<lambda>r. live_reservation r now) (st_Reservations st)),
          ks_Authorizations = map (\<lambda>a. authorizationView a (ids (auth_TokenHash a)))
            (filter (\<lambda>a. auth_Active a \<and> \<not> auth_Revoked a \<and> \<not> authorizationExpired a now)
               (st_Authorizations st)),
          ks_Bypasses = filter (\<lambda>b. live_bypass b now) (st_Bypasses st)\<rparr>)"

definition KeyStatus :: "env \<Rightarrow> string \<Rightarrow> time \<Rightarrow> store \<Rightarrow> key_status result \<times> store" where
  "KeyStatus E rootKey now =
     with_root_key E rootKey (runtx E (\<lambda>st. Done (key_status_of now st)))"

section \<open>Lemmas\<close>

text \<open>
  The command of a view is bounded in arguments and bytes, and each argument is a prefix of
  the argument at its position.
\<close>

lemma bounded_command_args:
  "\<lbrakk>0 \<le> n; n \<le> maxViewCommandArgs\<rbrakk> \<Longrightarrow> len (bounded_command n b xs) + n \<le> maxViewCommandArgs"
proof (induction xs arbitrary: n b)
  case Nil
  then show ?case by simp
next
  case (Cons x xs)
  show ?case
  proof (cases "n \<ge> maxViewCommandArgs \<or> b \<le> 0")
    case False
    with Cons.prems Cons.IH [of "n + 1"] show ?thesis by (simp add: Let_def algebra_simps)
  qed (use Cons.prems in simp)
qed

lemma bounded_command_bytes:
  "0 \<le> b \<Longrightarrow> sum_list (map len (bounded_command n b xs)) \<le> b"
proof (induction xs arbitrary: n b)
  case Nil
  then show ?case by simp
next
  case (Cons x xs)
  define a where "a = (if len x > b then take (nat b) x else x)"
  from Cons.prems have "len a \<le> b" by (auto simp: a_def)
  with Cons.IH [of "b - len a" "n + 1"] Cons.prems show ?case
    by (simp add: Let_def a_def [symmetric])
qed

lemma bounded_command_prefix:
  "i < length (bounded_command n b xs) \<Longrightarrow>
     i < length xs \<and> prefix (bounded_command n b xs ! i) (xs ! i)"
proof (induction xs arbitrary: n b i)
  case Nil
  then show ?case by simp
next
  case (Cons x xs)
  then show ?case
    by (cases i) (auto simp: Let_def take_is_prefix split: if_splits)
qed

lemma bounded_command_exact:
  "\<lbrakk>n + len xs \<le> maxViewCommandArgs; sum_list (map len xs) < b\<rbrakk> \<Longrightarrow> bounded_command n b xs = xs"
proof (induction xs arbitrary: n b)
  case Nil
  then show ?case by simp
next
  case (Cons x xs)
  have "0 \<le> sum_list (map len xs)" by (rule sum_list_nonneg) auto
  with Cons show ?case by (auto simp: Let_def)
qed

text \<open>A status scoped to a token shows rows of that token only.\<close>

lemma status_for_own_rows:
  "su_Leases (status_of now h False st) = []" "su_Bypasses (status_of now h False st) = []"
  "v \<in> set (su_Tokens (status_of now h False st)) \<Longrightarrow>
     \<exists>t\<in>set (st_Tokens st). tok_Hash t = h \<and> tokenActiveAt t now \<and> v = token_view_of t"
  "rv \<in> set (su_Reservations (status_of now h False st)) \<Longrightarrow>
     \<exists>r\<in>set (st_Reservations st). res_TokenHash r = h \<and> rv_ID rv = res_ID r"
  "av \<in> set (su_Authorizations (status_of now h False st)) \<Longrightarrow>
     \<exists>a\<in>set (st_Authorizations st). auth_TokenHash a = h \<and> av_ID av = auth_ID a"
  "cv \<in> set (su_SoftClaims (status_of now h False st)) \<Longrightarrow>
     \<exists>c\<in>set (st_SoftClaims st). claim_TokenHash c = h \<and> cv = claim_view_of c"
  by (auto simp: status_of_def Let_def shown_token_def tokenActiveAt_def reservation_view_of_def
      authorizationView_def)

lemma status_no_key: "v \<in> set (su_Tokens (status_of now h all st)) \<Longrightarrow> tv_Key v = []"
  by (auto simp: status_of_def Let_def token_view_of_def)

text \<open>What a scoped status shows does not depend on the rows of other tokens.\<close>

definition same_for :: "string \<Rightarrow> state \<Rightarrow> state \<Rightarrow> bool" where
  "same_for h st st' \<longleftrightarrow>
     filter (\<lambda>t. tok_Hash t = h) (st_Tokens st) = filter (\<lambda>t. tok_Hash t = h) (st_Tokens st') \<and>
     filter (\<lambda>r. res_TokenHash r = h) (st_Reservations st)
       = filter (\<lambda>r. res_TokenHash r = h) (st_Reservations st') \<and>
     filter (\<lambda>a. auth_TokenHash a = h) (st_Authorizations st)
       = filter (\<lambda>a. auth_TokenHash a = h) (st_Authorizations st') \<and>
     filter (\<lambda>c. claim_TokenHash c = h) (st_SoftClaims st)
       = filter (\<lambda>c. claim_TokenHash c = h) (st_SoftClaims st')"

lemma live_hash_filter:
  "h \<in> set (liveReservationTokenHashes rs now) \<longleftrightarrow>
   h \<in> set (liveReservationTokenHashes (filter (\<lambda>r. res_TokenHash r = h) rs) now)"
  by (auto simp: liveReservationTokenHashes_def)

lemma filter_first: "filter (\<lambda>x. P x \<and> Q x) xs = filter Q (filter P xs)"
  by (induction xs) auto

lemma snapshot_for_noninterference:
  assumes "same_for h st st'"
  shows "snapshot_for h st = snapshot_for h st'"
proof -
  have "filter (\<lambda>c. claim_TokenHash c = h \<and> claim_AuthorizationID c \<in> A) (st_SoftClaims st)
      = filter (\<lambda>c. claim_TokenHash c = h \<and> claim_AuthorizationID c \<in> A) (st_SoftClaims st')" for A
    using assms unfolding filter_first same_for_def by simp
  with assms show ?thesis by (simp only: snapshot_for_def same_for_def Let_def)
qed

lemma shown_token_cong:
  assumes "same_for h st st'" "tok_Hash t = h"
  shows "shown_token st now t = shown_token st' now t"
proof -
  have "h \<in> set (liveReservationTokenHashes (st_Reservations st) now) \<longleftrightarrow>
        h \<in> set (liveReservationTokenHashes (st_Reservations st') now)"
    using assms(1) live_hash_filter [of h "st_Reservations st" now]
      live_hash_filter [of h "st_Reservations st'" now]
    by (simp only: same_for_def)
  with assms(2) show ?thesis by (simp add: shown_token_def)
qed

lemma status_for_noninterference:
  assumes "same_for h st st'"
  shows "status_of now h False st = status_of now h False st'"
proof -
  have tokens: "filter (\<lambda>t. tok_Hash t = h \<and> shown_token st now t) (st_Tokens st)
      = filter (\<lambda>t. tok_Hash t = h \<and> shown_token st' now t) (st_Tokens st')"
  proof -
    have "filter (\<lambda>t. tok_Hash t = h \<and> shown_token st now t) (st_Tokens st)
        = filter (\<lambda>t. tok_Hash t = h \<and> shown_token st' now t) (st_Tokens st)"
      using shown_token_cong [OF assms] by (auto intro: filter_cong)
    also have "\<dots> = filter (shown_token st' now) (filter (\<lambda>t. tok_Hash t = h) (st_Tokens st'))"
      using assms by (simp only: filter_first same_for_def)
    finally show ?thesis by (simp only: filter_first)
  qed
  have rest: "filter (\<lambda>r. res_TokenHash r = h \<and> P r) (st_Reservations st)
      = filter (\<lambda>r. res_TokenHash r = h \<and> P r) (st_Reservations st')"
    "filter (\<lambda>a. auth_TokenHash a = h \<and> Q a) (st_Authorizations st)
      = filter (\<lambda>a. auth_TokenHash a = h \<and> Q a) (st_Authorizations st')"
    "filter (\<lambda>c. claim_TokenHash c = h \<and> R c) (st_SoftClaims st)
      = filter (\<lambda>c. claim_TokenHash c = h \<and> R c) (st_SoftClaims st')" for P Q R
    using assms by (simp_all only: filter_first same_for_def)
  show ?thesis
    by (simp only: status_of_def Let_def simp_thms if_False tokens rest)
qed

end
