(* ===== verification/StorePrune.thy ===== *)
theory StorePrune
  imports StoreViews
begin

text \<open>
  Garbage collection of the store: \<^verbatim>\<open>Prune\<close>, which removes what is revoked, expired, released
  or orphaned once the daemon had the chance to evict the processes concerned, and the two
  narrower operations that run while the GPU telemetry is unavailable.
\<close>

section \<open>Prune\<close>

definition stale_token :: "state \<Rightarrow> time \<Rightarrow> token \<Rightarrow> bool" where
  "stale_token st now t \<longleftrightarrow>
     tok_Revoked t \<or> tokenExpired t now \<or>
     (NormalizeTokenMode (tok_Mode t) = TokenModeReserved \<and>
      tok_Hash t \<notin> set (liveReservationTokenHashes (st_Reservations st) now))"

definition expired_hashes :: "state \<Rightarrow> time \<Rightarrow> string list" where
  "expired_hashes st now =
     filter (\<lambda>h. h \<noteq> []) (map tok_Hash (filter (stale_token st now) (st_Tokens st)))"

definition stale_reservation :: "string list \<Rightarrow> time \<Rightarrow> reservation \<Rightarrow> bool" where
  "stale_reservation gone now r \<longleftrightarrow>
     res_Revoked r \<or> \<not> res_Active r \<or> \<not> Before now (res_ExpiresAt r) \<or> res_TokenHash r \<in> set gone"

definition stale_authorization :: "string list \<Rightarrow> time \<Rightarrow> authorization \<Rightarrow> bool" where
  "stale_authorization gone now a \<longleftrightarrow>
     auth_Revoked a \<or> \<not> auth_Active a \<or> authorizationExpired a now \<or> auth_TokenHash a \<in> set gone"

definition stale_lease :: "string list \<Rightarrow> time \<Rightarrow> lease \<Rightarrow> bool" where
  "stale_lease gone now l \<longleftrightarrow>
     \<not> lease_Active l \<or> \<not> Before now (lease_ExpiresAt l) \<or> lease_TokenHash l \<in> set gone"

definition stale_bypass :: "time \<Rightarrow> bypass_rule \<Rightarrow> bool" where
  "stale_bypass now b \<longleftrightarrow> byp_Revoked b \<or> \<not> Before now (byp_ExpiresAt b)"

definition stale_claim :: "string list \<Rightarrow> authorization list \<Rightarrow> soft_claim \<Rightarrow> bool" where
  "stale_claim gone kept c \<longleftrightarrow>
     claim_TokenHash c \<in> set gone \<or> claim_AuthorizationID c \<notin> auth_ID ` set kept"

definition pruneExpiredLocked :: "time \<Rightarrow> state \<Rightarrow> bool \<times> state" where
  "pruneExpiredLocked now st =
     (let gone = expired_hashes st now;
          auths = filter (\<lambda>a. \<not> stale_authorization gone now a) (st_Authorizations st);
          removed =
            ((\<exists>t\<in>set (st_Tokens st). stale_token st now t) \<or>
             (\<exists>r\<in>set (st_Reservations st). stale_reservation gone now r) \<or>
             (\<exists>a\<in>set (st_Authorizations st). stale_authorization gone now a) \<or>
             (\<exists>l\<in>set (st_Leases st). stale_lease gone now l) \<or>
             (\<exists>b\<in>set (st_Bypasses st). stale_bypass now b));
          sweep = (gone \<noteq> [] \<or> removed);
          changed = (removed \<or> (sweep \<and> (\<exists>c\<in>set (st_SoftClaims st). stale_claim gone auths c)))
      in (changed,
          st\<lparr>st_Tokens := filter (\<lambda>t. \<not> stale_token st now t) (st_Tokens st),
             st_Reservations := filter (\<lambda>r. \<not> stale_reservation gone now r) (st_Reservations st),
             st_Authorizations := auths,
             st_Leases := filter (\<lambda>l. \<not> stale_lease gone now l) (st_Leases st),
             st_Bypasses := filter (\<lambda>b. \<not> stale_bypass now b) (st_Bypasses st),
             st_SoftClaims := (if sweep
               then filter (\<lambda>c. \<not> stale_claim gone auths c) (st_SoftClaims st)
               else st_SoftClaims st)\<rparr>))"

definition prune_body :: "time \<Rightarrow> state \<Rightarrow> unit outcome" where
  "prune_body now st =
     (case pruneExpiredLocked now st of
        (False, _) \<Rightarrow> Done ()
      | (True, st') \<Rightarrow> Write st' ())"

definition Prune :: "env \<Rightarrow> time \<Rightarrow> store \<Rightarrow> unit result \<times> store" where
  "Prune E now = runtx E (prune_body now)"

section \<open>The narrow operations\<close>

definition scopes_body :: "string list \<Rightarrow> string list \<Rightarrow> state \<Rightarrow> unit outcome" where
  "scopes_body authorizationIDs leaseIDs st =
     (let drop_a = (\<lambda>a. auth_ID a \<in> set authorizationIDs \<and> \<not> auth_Active a \<and> auth_CgroupPath a \<noteq> []);
          drop_l = (\<lambda>l. lease_ID l \<in> set leaseIDs \<and> \<not> lease_Active l \<and> lease_CgroupPath l \<noteq> [])
      in if (\<exists>a\<in>set (st_Authorizations st). drop_a a) \<or> (\<exists>l\<in>set (st_Leases st). drop_l l)
         then Write (st\<lparr>st_Authorizations := filter (\<lambda>a. \<not> drop_a a) (st_Authorizations st),
                        st_Leases := filter (\<lambda>l. \<not> drop_l l) (st_Leases st)\<rparr>) ()
         else Done ())"

definition PruneInactiveManagedScopes ::
  "env \<Rightarrow> string list \<Rightarrow> string list \<Rightarrow> store \<Rightarrow> unit result \<times> store" where
  "PruneInactiveManagedScopes E authorizationIDs leaseIDs s =
     (if authorizationIDs = [] \<and> leaseIDs = [] then (Inr (), s)
      else runtx E (scopes_body authorizationIDs leaseIDs) s)"

definition referenced_hashes :: "state \<Rightarrow> string list" where
  "referenced_hashes st =
     map auth_TokenHash (filter (\<lambda>a. auth_CgroupPath a = [] \<and> auth_TokenHash a \<noteq> [])
       (st_Authorizations st)) @
     map lease_TokenHash (filter (\<lambda>l. lease_CgroupPath l = [] \<and> lease_TokenHash l \<noteq> [])
       (st_Leases st))"

definition token_valid :: "state \<Rightarrow> time \<Rightarrow> string \<Rightarrow> bool" where
  "token_valid st now h =
     the_or False (go_map (map (\<lambda>t. (tok_Hash t, \<not> tok_Revoked t \<and>
       (IsZero (tok_ExpiresAt t) \<or> Before now (tok_ExpiresAt t)))) (st_Tokens st)) h)"

definition invalid_reservation :: "state \<Rightarrow> time \<Rightarrow> reservation \<Rightarrow> bool" where
  "invalid_reservation st now r \<longleftrightarrow>
     \<not> res_Active r \<or> res_Revoked r \<or> \<not> Before now (res_ExpiresAt r) \<or>
     \<not> token_valid st now (res_TokenHash r)"

definition entitlements_body :: "time \<Rightarrow> state \<Rightarrow> unit outcome" where
  "entitlements_body now st =
     (let needed = set (referenced_hashes st);
          drop_r = (\<lambda>r. invalid_reservation st now r \<and> res_TokenHash r \<notin> needed);
          drop_t = (\<lambda>t. \<not> token_valid st now (tok_Hash t) \<and> tok_Hash t \<notin> needed)
      in if (\<exists>r\<in>set (st_Reservations st). drop_r r) \<or> (\<exists>t\<in>set (st_Tokens st). drop_t t)
         then Write (st\<lparr>st_Reservations := filter (\<lambda>r. \<not> drop_r r) (st_Reservations st),
                        st_Tokens := filter (\<lambda>t. \<not> drop_t t) (st_Tokens st)\<rparr>) ()
         else Done ())"

definition PruneUnreferencedInvalidEntitlements :: "env \<Rightarrow> time \<Rightarrow> store \<Rightarrow> unit result \<times> store" where
  "PruneUnreferencedInvalidEntitlements E now = runtx E (entitlements_body now)"

section \<open>Lemmas\<close>

lemma prune_body_Write:
  "prune_body now st = Write st' r \<Longrightarrow> pruneExpiredLocked now st = (True, st')"
  by (auto simp: prune_body_def split: prod.splits bool.splits)

lemma prune_exclusive: "exclusive_state st \<Longrightarrow> exclusive_state (snd (pruneExpiredLocked now st))"
  by (simp add: pruneExpiredLocked_def Let_def exclusive_filter)

lemma prune_sub:
  "set (st_Tokens (snd (pruneExpiredLocked now st))) \<subseteq> set (st_Tokens st)"
  "set (st_Reservations (snd (pruneExpiredLocked now st))) \<subseteq> set (st_Reservations st)"
  by (auto simp: pruneExpiredLocked_def Let_def)

text \<open>
  With one token per hash a live reservation of a token that stays is kept, so a reserved
  token is never orphaned by the same pass and a second pass finds nothing.
\<close>

lemma expired_hash_stale:
  assumes "distinct (map tok_Hash (st_Tokens st))" "t \<in> set (st_Tokens st)"
    and "tok_Hash t \<in> set (expired_hashes st now)"
  shows "stale_token st now t"
  using assms by (auto simp: expired_hashes_def distinct_map inj_on_def)

lemma live_hash_iff:
  "h \<in> set (liveReservationTokenHashes rs now) \<longleftrightarrow>
     h \<noteq> [] \<and> (\<exists>r\<in>set rs. live_reservation r now \<and> res_TokenHash r = h)"
  by (auto simp: liveReservationTokenHashes_def)

lemma stale_reservation_live:
  "stale_reservation gone now r \<longleftrightarrow> \<not> live_reservation r now \<or> res_TokenHash r \<in> set gone"
  by (auto simp: stale_reservation_def live_reservation_def)

lemma prune_keeps_tokens_fresh:
  assumes "distinct (map tok_Hash (st_Tokens st))"
    and "t \<in> set (st_Tokens (snd (pruneExpiredLocked now st)))"
  shows "\<not> stale_token (snd (pruneExpiredLocked now st)) now t"
proof -
  from assms(2) have t: "t \<in> set (st_Tokens st)" "\<not> stale_token st now t"
    by (auto simp: pruneExpiredLocked_def Let_def)
  with expired_hash_stale [OF assms(1)] have gone: "tok_Hash t \<notin> set (expired_hashes st now)"
    by blast
  have "tok_Hash t \<in> set (liveReservationTokenHashes
      (st_Reservations (snd (pruneExpiredLocked now st))) now)"
    if "tok_Hash t \<in> set (liveReservationTokenHashes (st_Reservations st) now)"
    using that gone
    by (auto simp: live_hash_iff pruneExpiredLocked_def Let_def stale_reservation_live)
  with t show ?thesis by (auto simp: stale_token_def)
qed

lemma prune_no_gone:
  assumes "distinct (map tok_Hash (st_Tokens st))"
  shows "expired_hashes (snd (pruneExpiredLocked now st)) now = []"
  using prune_keeps_tokens_fresh [OF assms] by (simp add: expired_hashes_def)

lemma prune_result_rows:
  assumes "st' = snd (pruneExpiredLocked now st)"
  shows "r \<in> set (st_Reservations st') \<Longrightarrow> \<not> stale_reservation [] now r"
    and "a \<in> set (st_Authorizations st') \<Longrightarrow> \<not> stale_authorization [] now a"
    and "l \<in> set (st_Leases st') \<Longrightarrow> \<not> stale_lease [] now l"
    and "b \<in> set (st_Bypasses st') \<Longrightarrow> \<not> stale_bypass now b"
  unfolding assms
  by (simp_all add: pruneExpiredLocked_def Let_def stale_reservation_def stale_authorization_def
      stale_lease_def)

lemma prune_fixpoint:
  assumes "distinct (map tok_Hash (st_Tokens st))"
  shows "\<not> fst (pruneExpiredLocked now (snd (pruneExpiredLocked now st)))"
proof -
  obtain st' where st': "st' = snd (pruneExpiredLocked now st)" by simp
  note rows = prune_result_rows [OF st']
  from prune_keeps_tokens_fresh [OF assms] have tok: "\<forall>t\<in>set (st_Tokens st'). \<not> stale_token st' now t"
    by (simp add: st')
  from prune_no_gone [OF assms] have gone: "expired_hashes st' now = []" by (simp add: st')
  show ?thesis
    unfolding st' [symmetric] unfolding pruneExpiredLocked_def Let_def gone
    using tok rows by auto
qed

text \<open>An unchanged state is really unchanged, so skipping the save loses nothing.\<close>

lemma prune_unchanged:
  assumes "\<not> fst (pruneExpiredLocked now st)"
  shows "snd (pruneExpiredLocked now st) = st"
proof -
  from assms have "\<forall>t\<in>set (st_Tokens st). \<not> stale_token st now t"
    by (simp add: pruneExpiredLocked_def Let_def)
  then have gone: "expired_hashes st now = []" by (simp add: expired_hashes_def)
  from assms show ?thesis
    unfolding pruneExpiredLocked_def Let_def gone by (simp add: filter_id_conv)
qed

text \<open>The narrow operations leave active scopes and needed entitlements alone.\<close>

lemma scopes_body_keeps_active:
  assumes "scopes_body as ls st = Write st' r"
  shows "\<lbrakk>a \<in> set (st_Authorizations st); auth_Active a \<or> auth_CgroupPath a = []\<rbrakk>
      \<Longrightarrow> a \<in> set (st_Authorizations st')"
    and "\<lbrakk>l \<in> set (st_Leases st); lease_Active l \<or> lease_CgroupPath l = []\<rbrakk>
      \<Longrightarrow> l \<in> set (st_Leases st')"
  using assms by (auto simp: scopes_body_def Let_def split: if_splits)

lemma scopes_body_frame:
  assumes "scopes_body as ls st = Write st' r"
  shows "st_Reservations st' = st_Reservations st" "st_Tokens st' = st_Tokens st"
  using assms by (auto simp: scopes_body_def Let_def split: if_splits)

lemma entitlements_body_Write:
  assumes "entitlements_body now st = Write st' r"
  shows "st_Reservations st' = filter (\<lambda>r. \<not> (invalid_reservation st now r \<and>
       res_TokenHash r \<notin> set (referenced_hashes st))) (st_Reservations st)"
    and "st_Tokens st' = filter (\<lambda>t. \<not> (\<not> token_valid st now (tok_Hash t) \<and>
       tok_Hash t \<notin> set (referenced_hashes st))) (st_Tokens st)"
  using assms by (auto simp: entitlements_body_def Let_def split: if_splits)

end
