(* ===== verification/StoreSystem.thy ===== *)
theory StoreSystem
  imports StoreRevoke StorePrune
begin

text \<open>
  The store as a transition system: any operation the package exports, with any arguments,
  clock and pattern of I/O failures, and a restart of the daemon at any point. The decision
  of each operation satisfies the interface \<open>state_contract\<close> for the invariant \<open>sound_state\<close>, so
  the invariant holds in every reachable store. \<^verbatim>\<open>AddReservation\<close>, which appends an arbitrary
  row and which only tests call, is the one exported operation left out.
\<close>

section \<open>The invariant\<close>

text \<open>
  No two live reservations of a GPU overlap, every reservation has a non-empty window of at
  most \<open>MaxHardTTL\<close>, and there is at most one soft claim per GPU and token.
\<close>

definition window_ok :: "reservation \<Rightarrow> bool" where
  "window_ok r \<longleftrightarrow> Before (ReservationStartsAt r) (res_ExpiresAt r) \<and>
     time_Sub (res_ExpiresAt r) (ReservationStartsAt r) \<le> MaxHardTTL"

definition sound_state :: "state \<Rightarrow> bool" where
  "sound_state st \<longleftrightarrow> exclusive_state st \<and> (\<forall>r\<in>set (st_Reservations st). window_ok r) \<and>
     distinct (slots (st_SoftClaims st))"

lemma sound_empty [simp]: "sound_state empty_state"
  by (simp add: sound_state_def empty_state_def slots_def)

lemma calmer_window: "calmer r r' \<Longrightarrow> window_ok r' = window_ok r"
  by (auto simp: calmer_def window_ok_def ReservationStartsAt_def)

lemma sound_calmer:
  assumes "sound_state st" "list_all2 calmer (st_Reservations st) (st_Reservations st')"
    and "distinct (slots (st_SoftClaims st'))"
  shows "sound_state st'"
proof -
  have "window_ok r'" if r': "r' \<in> set (st_Reservations st')" for r'
  proof -
    from r' assms(2) obtain r where "r \<in> set (st_Reservations st)" "calmer r r'"
      by (metis in_set_conv_nth list_all2_conv_all_nth)
    with assms(1) show ?thesis by (auto simp: sound_state_def calmer_window)
  qed
  with assms show ?thesis by (auto simp: sound_state_def intro: exclusive_calmer)
qed

lemma sound_frame [simp]:
  "sound_state (st\<lparr>st_Tokens := ts\<rparr>) = sound_state st"
  "sound_state (st\<lparr>st_Authorizations := as\<rparr>) = sound_state st"
  "sound_state (st\<lparr>st_Leases := ls\<rparr>) = sound_state st"
  "sound_state (st\<lparr>st_Bypasses := bs\<rparr>) = sound_state st"
  "sound_state (st\<lparr>st_Audit := es\<rparr>) = sound_state st"
  by (simp_all add: sound_state_def)

lemma distinct_slots_filter: "distinct (slots cs) \<Longrightarrow> distinct (slots (filter P cs))"
  by (induction cs) (auto simp: slots_def)

lemma sound_sub:
  assumes "sound_state st" "st_Reservations st' = filter P (st_Reservations st)"
    and "st_SoftClaims st' = st_SoftClaims st \<or> st_SoftClaims st' = filter Q (st_SoftClaims st)"
  shows "sound_state st'"
  using assms by (auto simp: sound_state_def exclusive_filter distinct_slots_filter)

lemma sound_slots: "sound_state st \<Longrightarrow> distinct (slots (st_SoftClaims st))"
  by (simp add: sound_state_def)

section \<open>Every decision keeps it\<close>

text \<open>Decisions that touch neither reservations nor claims.\<close>

interpretation add_token: state_contract sound_state "add_token_body t now r" for t now r
  by unfold_locales (auto dest!: add_token_body_Write)

interpretation add_authorization: state_contract sound_state "add_authorization_body a now" for a now
  by unfold_locales (auto dest!: add_authorization_body_Write)

interpretation activate: state_contract sound_state "activate_body i pid" for i pid
  by unfold_locales (auto dest!: activate_body_Write)

interpretation release_authorization: state_contract sound_state "release_authorization_body i" for i
  by unfold_locales
    (auto simp: release_authorization_body_def split: if_splits)

interpretation release_lease: state_contract sound_state "release_lease_body i" for i
  by unfold_locales (auto simp: release_lease_body_def split: if_splits)

interpretation add_bypass: state_contract sound_state "add_bypass_body b" for b
  by unfold_locales (auto simp: add_bypass_body_def split: option.splits)

interpretation append_audits: state_contract sound_state "append_audits_body events" for events
  by unfold_locales (auto simp: append_audits_body_def Let_def)

interpretation scopes: state_contract sound_state "scopes_body as ls" for as ls
  by unfold_locales
    (auto simp: scopes_body_def Let_def split: if_splits)

text \<open>Decisions on claims and in-place changes of reservations.\<close>

interpretation upsert: state_contract sound_state "upsert_body E c now" for E c now
proof unfold_locales
  fix st st' r
  assume "sound_state st" "upsert_body E c now st = Write st' r"
  then show "sound_state st'"
    using upsert_slots [of E c now st st' r]
    by (auto simp: sound_state_def upsert_body_def Let_def split: if_splits)
qed

interpretation release_claim: state_contract sound_state "release_claim_body i" for i
  by unfold_locales
    (auto simp: release_claim_body_def sound_state_def distinct_slots_filter split: if_splits)

interpretation release_reservation: state_contract sound_state "release_reservation_body i" for i
proof unfold_locales
  fix st st' r
  assume *: "sound_state st" "release_reservation_body i st = Write st' r"
  then have "st_SoftClaims st' = st_SoftClaims st"
    by (auto simp: release_reservation_body_def split: if_splits)
  with * sound_calmer [OF *(1) release_reservation_calmer [OF *(2)]] show "sound_state st'"
    by (simp add: sound_slots)
qed

interpretation sync: state_contract sound_state "sync_body E sid managed" for E sid managed
proof unfold_locales
  fix st st' r
  assume *: "sound_state st" "sync_body E sid managed st = Write st' r"
  note w = sync_body_Write [OF *(2)]
  with *(1) show "sound_state st'" by (intro sound_calmer [OF *(1)]) (auto simp: sound_slots)
qed

lemma revoke_body_claims:
  "revoke_body E x clock st = Write st' r \<Longrightarrow>
     st_SoftClaims st' = st_SoftClaims st \<or>
     st_SoftClaims st' = filter (\<lambda>c. claim_ID c \<noteq> x) (st_SoftClaims st)"
  by (auto simp: revoke_body_def Let_def mark_rows_def split: if_splits prod.splits)

interpretation revoke: state_contract sound_state "revoke_body E x clock" for E x clock
proof unfold_locales
  fix st st' r
  assume *: "sound_state st" "revoke_body E x clock st = Write st' r"
  from * have "distinct (slots (st_SoftClaims st'))"
    by (auto dest!: revoke_body_claims simp: sound_slots distinct_slots_filter)
  with sound_calmer [OF *(1) revoke_body_calmer [OF *(2)]] show "sound_state st'" .
qed

text \<open>Removals.\<close>

lemma prune_claims:
  "st_SoftClaims (snd (pruneExpiredLocked now st)) = st_SoftClaims st \<or>
   (\<exists>Q. st_SoftClaims (snd (pruneExpiredLocked now st)) = filter Q (st_SoftClaims st))"
  by (auto simp: pruneExpiredLocked_def Let_def)

lemma sound_prune:
  assumes "sound_state st"
  shows "sound_state (snd (pruneExpiredLocked now st))"
proof -
  have "distinct (slots (st_SoftClaims (snd (pruneExpiredLocked now st))))"
    using prune_claims [of now st] assms by (auto simp: sound_slots distinct_slots_filter)
  with assms prune_exclusive [of st now] prune_sub(2) [of now st] show ?thesis
    by (auto simp: sound_state_def)
qed

interpretation prune: state_contract sound_state "prune_body now" for now
proof unfold_locales
  fix st st' r
  assume "sound_state st" "prune_body now st = Write st' r"
  then show "sound_state st'" using sound_prune [of st now] prune_body_Write [of now st st' r] by simp
qed

interpretation entitlements: state_contract sound_state "entitlements_body now" for now
proof unfold_locales
  fix st st' r
  assume *: "sound_state st" "entitlements_body now st = Write st' r"
  then have "st_SoftClaims st' = st_SoftClaims st"
    by (auto simp: entitlements_body_def Let_def split: if_splits)
  with sound_sub [OF *(1) entitlements_body_Write(1) [OF *(2)]] show "sound_state st'" by simp
qed

text \<open>Registrations, whose contract needs what the guards before them checked.\<close>

lemma new_windows:
  assumes "After b (window_start a now)" "time_Sub b (window_start a now) \<le> MaxHardTTL"
    and "q \<in> set (mapi 0 (\<lambda>i. make_reservation (f i) grp session t p (window_start a now) b now) gpus)"
  shows "window_ok q"
  using assms by (auto dest!: set_mapiE simp: window_ok_def)

lemma check_window_None:
  "check_window a b now = None \<longleftrightarrow> After b a \<and> After b now \<and> time_Sub b a \<le> MaxHardTTL"
  by (auto simp: check_window_def)

lemma scheduled_contract:
  assumes "distinct gpus" "check_window (window_start a now) b now = None"
  shows "state_contract sound_state (scheduled_body name p ext gpus (window_start a now) b now secret t
      (mapi 0 (\<lambda>i. make_reservation (f i) g session t p (window_start a now) b now) gpus))"
proof (unfold_locales)
  fix st st' r
  assume st: "sound_state st" and w: "scheduled_body name p ext gpus (window_start a now) b now secret t
      (mapi 0 (\<lambda>i. make_reservation (f i) g session t p (window_start a now) b now) gpus) st = Write st' r"
  from st w assms(1) have "exclusive_state st'"
    by (auto simp: sound_state_def intro: scheduled_body_exclusive)
  moreover from assms(2) have "After b (window_start a now)"
    "time_Sub b (window_start a now) \<le> MaxHardTTL" by (simp_all add: check_window_None)
  note new_windows [OF this]
  ultimately show "sound_state st'"
    using st scheduled_body_Write [OF w] by (auto simp: sound_state_def)
qed

lemma managed_contract:
  assumes "distinct gpus" "After b (window_start a now)"
    and "time_Sub b (window_start a now) \<le> MaxHardTTL"
  shows "state_contract sound_state (managed_body E k p ext gpus (window_start a now) b now)"
proof (unfold_locales)
  fix st st' r
  assume st: "sound_state st" and w: "managed_body E k p ext gpus (window_start a now) b now st = Write st' r"
  from st w assms(1) have "exclusive_state st'"
    by (auto simp: sound_state_def intro: managed_body_exclusive)
  with st w new_windows [OF assms(2,3)] show "sound_state st'"
    by (auto simp: sound_state_def elim!: managed_body_Write)
qed

section \<open>The transition system\<close>

text \<open>
  One rule per exported operation. The library \<open>L\<close> is fixed, since a daemon reads what an
  earlier one wrote with the same codec; everything else of an environment may change from
  call to call.
\<close>

inductive step :: "golib \<Rightarrow> store \<Rightarrow> store \<Rightarrow> bool" for L where
  restart: "step L s (restart s)"
| load: "e_lib E = L \<Longrightarrow> step L s (snd (Load E s))"
| root_key: "e_lib E = L \<Longrightarrow> step L s (snd (ReadOrCreateRootKey E s))"
| validate_root_key: "e_lib E = L \<Longrightarrow> step L s (snd (ValidateRootKey E k s))"
| sync: "e_lib E = L \<Longrightarrow> step L s (snd (SyncManagedUserKeys E k snap now s))"
| managed_enabled: "e_lib E = L \<Longrightarrow> step L s (snd (ManagedKeysEnabled E s))"
| managed_token: "e_lib E = L \<Longrightarrow> step L s (snd (ManagedTokenByID E i now s))"
| snapshot: "e_lib E = L \<Longrightarrow> step L s (snd (Snapshot E s))"
| enforcement: "e_lib E = L \<Longrightarrow> step L s (snd (EnforcementSnapshot E s))"
| enforcement_for: "e_lib E = L \<Longrightarrow> step L s (snd (EnforcementSnapshotForToken E h s))"
| soft_token: "e_lib E = L \<Longrightarrow> step L s (snd (RegisterSoftToken E k name now s))"
| token: "e_lib E = L \<Longrightarrow> step L s (snd (RegisterToken E k name ttl now s))"
| scheduled: "e_lib E = L \<Longrightarrow> step L s (snd (RegisterScheduledReservationsWithSession E k name
    purpose ext gpus a b now s))"
| hard: "e_lib E = L \<Longrightarrow> step L s (snd (RegisterHardReservations E k name gpus ttl now s))"
| managed: "e_lib E = L \<Longrightarrow> step L s (snd (RegisterManagedReservations E k key purpose ext gpus a b now s))"
| validate_token: "e_lib E = L \<Longrightarrow> step L s (snd (ValidateToken E secret now s))"
| token_view: "e_lib E = L \<Longrightarrow> step L s (snd (TokenView E secret now s))"
| add_lease: "e_lib E = L \<Longrightarrow> step L s (snd (AddLease E l s))"
| update_lease: "e_lib E = L \<Longrightarrow> step L s (snd (UpdateLease E l s))"
| release_lease: "e_lib E = L \<Longrightarrow> step L s (snd (ReleaseLease E i s))"
| release_reservation: "e_lib E = L \<Longrightarrow> step L s (snd (ReleaseReservation E i s))"
| add_authorization: "e_lib E = L \<Longrightarrow> step L s (snd (AddAuthorization E a now s))"
| update_authorization: "e_lib E = L \<Longrightarrow> step L s (snd (UpdateAuthorization E a now s))"
| activate_authorization: "e_lib E = L \<Longrightarrow> step L s (snd (ActivateAuthorization E i pid s))"
| release_authorization: "e_lib E = L \<Longrightarrow> step L s (snd (ReleaseAuthorization E i s))"
| upsert_claim: "e_lib E = L \<Longrightarrow> step L s (snd (UpsertSoftClaim E c now s))"
| release_claim: "e_lib E = L \<Longrightarrow> step L s (snd (ReleaseSoftClaim E i s))"
| add_bypass: "e_lib E = L \<Longrightarrow> step L s (snd (AddBypass E b s))"
| revoke: "e_lib E = L \<Longrightarrow> step L s (snd (Revoke E x clock s))"
| audits: "e_lib E = L \<Longrightarrow> step L s (snd (snd (AppendAudits E io path events log s)))"
| status: "e_lib E = L \<Longrightarrow> step L s (snd (Status E now s))"
| status_for: "e_lib E = L \<Longrightarrow> step L s (snd (StatusForToken E h now s))"
| key_status: "e_lib E = L \<Longrightarrow> step L s (snd (KeyStatus E k now s))"
| prune: "e_lib E = L \<Longrightarrow> step L s (snd (Prune E now s))"
| prune_scopes: "e_lib E = L \<Longrightarrow> step L s (snd (PruneInactiveManagedScopes E as ls s))"
| prune_entitlements: "e_lib E = L \<Longrightarrow> step L s (snd (PruneUnreferencedInvalidEntitlements E now s))"

text \<open>The stores a node can be in: a fresh one, and what the operations make of it.\<close>

inductive reachable :: "golib \<Rightarrow> store \<Rightarrow> bool" for L where
  fresh: "reachable L (New None rootkey)"
| more: "\<lbrakk>reachable L s; step L s s'\<rbrakk> \<Longrightarrow> reachable L s'"

inductive_cases stepE: "step L s s'"

section \<open>The invariant over the system\<close>

lemma with_root_key_ok:
  assumes "store_ok L I s" "\<And>f. store_ok L I (snd (k (s\<lparr>sto_rootkey := f\<rparr>)))"
  shows "store_ok L I (snd (with_root_key E key k s))"
proof (cases "with_root_key E key k s")
  case (Pair r s')
  then show ?thesis
  proof (cases rule: with_root_key_cases)
    case (accepted f)
    with assms(2) [of f] Pair show ?thesis by simp
  qed (use assms(1) Pair in auto)
qed

lemma root_key_ok:
  "store_ok L I s \<Longrightarrow> store_ok L I (snd (ReadOrCreateRootKey E s))"
  "store_ok L I s \<Longrightarrow> store_ok L I (snd (ValidateRootKey E k s))"
  using ReadOrCreateRootKey_frame [of E s] ValidateRootKey_frame [of E k s]
  by (metis prod.collapse store_ok_rootkey)+

lemma read_ok:
  assumes "codec_ok (e_lib E)" "store_ok (e_lib E) I s" "read_only body"
  shows "store_ok (e_lib E) I (snd (runtx E body s))"
  using state_contract.runtx_ok [OF read_only_contract [OF assms(3)] assms(1,2)] .

lemma read_only_Done [simp]: "read_only (\<lambda>st. Done (f st))"
  by (simp add: read_only_def)

lemma runtx_sound:
  assumes "codec_ok (e_lib E)" "store_ok (e_lib E) sound_state s"
    and "\<And>st st' r. body st = Write st' r \<Longrightarrow>
      st_Reservations st' = st_Reservations st \<and> st_SoftClaims st' = st_SoftClaims st"
  shows "store_ok (e_lib E) sound_state (snd (runtx E body s))"
proof -
  have "state_contract sound_state body"
  proof (unfold_locales)
    fix st st' r
    assume "sound_state st" "body st = Write st' r"
    with assms(3) [of st st' r] show "sound_state st'" by (simp add: sound_state_def)
  qed
  then show ?thesis using assms(1,2) by (rule state_contract.runtx_ok)
qed

lemma scheduled_ok:
  assumes "codec_ok (e_lib E)" "store_ok (e_lib E) sound_state s"
  shows "store_ok (e_lib E) sound_state
    (snd (RegisterScheduledReservationsWithSession E k name p ext gpus a b now s))"
proof (cases "RegisterScheduledReservationsWithSession E k name p ext gpus a b now s")
  case (Pair r s')
  then show ?thesis
  proof (cases rule: RegisterScheduled_cases)
    case (transaction f secret t)
    note c = scheduled_contract [OF transaction(1,4)]
    from state_contract.runtx_ok [OF c assms(1)] assms(2) transaction(7) Pair show ?thesis
      by (metis snd_conv store_ok_rootkey)
  qed (use assms(2) Pair in auto)
qed

lemma managed_ok:
  assumes "codec_ok (e_lib E)" "store_ok (e_lib E) sound_state s"
  shows "store_ok (e_lib E) sound_state
    (snd (RegisterManagedReservations E k key p ext gpus a b now s))"
  unfolding RegisterManagedReservations_def window_start_def [symmetric] Let_def
proof (rule with_root_key_ok [OF assms(2)])
  fix f
  have "store_ok (e_lib E) sound_state (snd (runtx E
      (managed_body E key p ext gpus (window_start a now) b now) (s\<lparr>sto_rootkey := f\<rparr>)))"
    if "distinct gpus" "After b (window_start a now)" "time_Sub b (window_start a now) \<le> MaxHardTTL"
    using state_contract.runtx_ok [OF managed_contract [OF that] assms(1)] assms(2) by simp
  with assms(2) show "store_ok (e_lib E) sound_state (snd
     (if \<not> After b (window_start a now) \<or> \<not> After b now
      then (Inl (ErrNew ''reservation end must be after start and in the future''),
            s\<lparr>sto_rootkey := f\<rparr>)
      else if time_Sub b (window_start a now) > MaxHardTTL
      then (Inl (ErrDuration ''reservation duration exceeds max'' MaxHardTTL), s\<lparr>sto_rootkey := f\<rparr>)
      else if gpus = [] then (Inl (ErrNew ''at least one gpu is required''), s\<lparr>sto_rootkey := f\<rparr>)
      else case check_gpus validateGPUIndex [] gpus of
             Some e \<Rightarrow> (Inl e, s\<lparr>sto_rootkey := f\<rparr>)
           | None \<Rightarrow> runtx E (managed_body E key p ext gpus (window_start a now) b now)
               (s\<lparr>sto_rootkey := f\<rparr>)))"
    by (auto simp: check_gpus_None split: option.splits)
qed

lemma sync_ok:
  assumes "codec_ok (e_lib E)" "store_ok (e_lib E) sound_state s"
  shows "store_ok (e_lib E) sound_state (snd (SyncManagedUserKeys E k snap now s))"
  unfolding SyncManagedUserKeys_def
  by (rule with_root_key_ok [OF assms(2)])
    (use assms in \<open>auto simp: Let_def split: sum.splits intro: sync.runtx_ok\<close>)

text \<open>The operations that need no guard of their own, and the ones built from two parts.\<close>

lemma plain_ok:
  assumes "codec_ok (e_lib E)" "store_ok (e_lib E) sound_state s"
  shows "store_ok (e_lib E) sound_state (snd (AddAuthorization E a now s))"
    and "store_ok (e_lib E) sound_state (snd (ReleaseAuthorization E i s))"
    and "store_ok (e_lib E) sound_state (snd (ReleaseLease E i s))"
    and "store_ok (e_lib E) sound_state (snd (ReleaseReservation E i s))"
    and "store_ok (e_lib E) sound_state (snd (UpsertSoftClaim E c now s))"
    and "store_ok (e_lib E) sound_state (snd (ReleaseSoftClaim E i s))"
    and "store_ok (e_lib E) sound_state (snd (AddBypass E b s))"
    and "store_ok (e_lib E) sound_state (snd (Revoke E x clock s))"
    and "store_ok (e_lib E) sound_state (snd (Prune E now s))"
    and "store_ok (e_lib E) sound_state (snd (PruneUnreferencedInvalidEntitlements E now s))"
  unfolding AddAuthorization_def ReleaseAuthorization_def ReleaseLease_def ReleaseReservation_def
    UpsertSoftClaim_def ReleaseSoftClaim_def AddBypass_def Revoke_def Prune_def
    PruneUnreferencedInvalidEntitlements_def
  using assms
  by (auto intro: add_authorization.runtx_ok release_authorization.runtx_ok release_lease.runtx_ok
      release_reservation.runtx_ok upsert.runtx_ok release_claim.runtx_ok add_bypass.runtx_ok
      revoke.runtx_ok prune.runtx_ok entitlements.runtx_ok)

lemma guarded_ok:
  assumes "codec_ok (e_lib E)" "store_ok (e_lib E) sound_state s"
  shows "store_ok (e_lib E) sound_state (snd (ActivateAuthorization E i pid s))"
    and "store_ok (e_lib E) sound_state (snd (PruneInactiveManagedScopes E as ls s))"
    and "store_ok (e_lib E) sound_state (snd (RegisterSoftToken E k name now s))"
    and "store_ok (e_lib E) sound_state (snd (RegisterToken E k name ttl now s))"
    and "store_ok (e_lib E) sound_state (snd (RegisterHardReservations E k name gpus ttl now s))"
  unfolding ActivateAuthorization_def PruneInactiveManagedScopes_def RegisterSoftToken_def
    RegisterToken_def RegisterHardReservations_def RegisterScheduledReservations_def
  using assms
  by (auto simp: Let_def split: sum.splits prod.splits
      intro!: with_root_key_ok activate.runtx_ok scopes.runtx_ok add_token.runtx_ok scheduled_ok)

lemma rows_ok:
  assumes "codec_ok (e_lib E)" "store_ok (e_lib E) sound_state s"
  shows "store_ok (e_lib E) sound_state (snd (AddLease E l s))"
    and "store_ok (e_lib E) sound_state (snd (UpdateLease E l s))"
    and "store_ok (e_lib E) sound_state (snd (UpdateAuthorization E a now s))"
    and "store_ok (e_lib E) sound_state (snd (snd (AppendAudits E io path events log s)))"
proof -
  show "store_ok (e_lib E) sound_state (snd (AddLease E l s))"
    unfolding AddLease_def by (rule runtx_sound [OF assms]) auto
  show "store_ok (e_lib E) sound_state (snd (UpdateLease E l s))"
    unfolding UpdateLease_def by (rule runtx_sound [OF assms]) (auto split: if_splits)
  show "store_ok (e_lib E) sound_state (snd (UpdateAuthorization E a now s))"
    unfolding UpdateAuthorization_def by (rule runtx_sound [OF assms]) (auto split: option.splits)
  have "store_ok (e_lib E) sound_state (snd (runtx E (append_audits_body events) s))"
    using assms by (rule append_audits.runtx_ok)
  then show "store_ok (e_lib E) sound_state (snd (snd (AppendAudits E io path events log s)))"
    using assms(2) by (auto simp: AppendAudits_def split: sum.splits prod.splits)
qed

lemma reads_ok:
  assumes "codec_ok (e_lib E)" "store_ok (e_lib E) sound_state s"
  shows "store_ok (e_lib E) sound_state (snd (Load E s))"
    and "store_ok (e_lib E) sound_state (snd (ManagedKeysEnabled E s))"
    and "store_ok (e_lib E) sound_state (snd (ManagedTokenByID E i now s))"
    and "store_ok (e_lib E) sound_state (snd (Snapshot E s))"
    and "store_ok (e_lib E) sound_state (snd (EnforcementSnapshot E s))"
    and "store_ok (e_lib E) sound_state (snd (EnforcementSnapshotForToken E h s))"
    and "store_ok (e_lib E) sound_state (snd (Status E now s))"
    and "store_ok (e_lib E) sound_state (snd (StatusForToken E h now s))"
    and "store_ok (e_lib E) sound_state (snd (KeyStatus E k now s))"
  using assms
  by (auto simp: Load_def ManagedKeysEnabled_def ManagedTokenByID_def Snapshot_def
      EnforcementSnapshot_def EnforcementSnapshotForToken_def Status_def StatusForToken_def
      KeyStatus_def read_only_def loadLocked_store_ok split: option.splits
      intro!: read_ok with_root_key_ok)

lemma token_reads_ok:
  assumes "codec_ok (e_lib E)" "store_ok (e_lib E) sound_state s"
  shows "store_ok (e_lib E) sound_state (snd (ValidateToken E secret now s))"
    and "store_ok (e_lib E) sound_state (snd (TokenView E secret now s))"
proof -
  have same: "snd (ValidateToken E secret now s) = snd (loadLocked E s)"
    by (auto simp: ValidateToken_def Let_def split: prod.splits option.splits)
  with loadLocked_store_ok [OF assms] show 1: "store_ok (e_lib E) sound_state (snd (ValidateToken E secret now s))"
    by simp
  have "snd (TokenView E secret now s) = snd (ValidateToken E secret now s)"
    by (auto simp: TokenView_def split: prod.splits option.splits)
  with 1 show "store_ok (e_lib E) sound_state (snd (TokenView E secret now s))" by simp
qed

lemmas operations_ok = root_key_ok scheduled_ok managed_ok sync_ok plain_ok guarded_ok rows_ok
  reads_ok token_reads_ok

lemma step_ok:
  assumes "step L s s'" "codec_ok L" "store_ok L sound_state s"
  shows "store_ok L sound_state s'"
  using assms by (cases rule: step.cases) (auto intro: operations_ok restart_store_ok)

lemma reachable_ok:
  assumes "reachable L s" "codec_ok L"
  shows "store_ok L sound_state s"
  using assms
proof (induction rule: reachable.induct)
  case (fresh rootkey)
  have "sound_state empty_state" "within_bounds empty_state" "disk_holds L empty_state None"
    by (simp_all add: disk_holds_def)
  then show ?case by (auto simp: store_ok_def New_def intro!: exI [of _ empty_state])
next
  case (more s s')
  then show ?case by (auto intro: step_ok)
qed

end
