(* ===== verification/Fixtures.thy ===== *)
theory Fixtures
  imports StoreSystem
begin

text \<open>
  Concrete environments and stores on which the theorems of the store are instantiated: a
  library whose codec knows two states, a root key on disk, and a node on which alice holds
  GPUs 0 and 1 from 100 to 200 and bob holds GPU 0 from 200 to 300.
\<close>

section \<open>A library and an environment\<close>

definition demo_lib :: "state \<Rightarrow> state \<Rightarrow> golib" where
  "demo_lib a b =
     \<lparr>gl_sha256hex = (\<lambda>s. ''h'' @ s),
      gl_marshal = (\<lambda>st. if st = a then Inr ''A'' else if st = b then Inr ''B''
                         else Inl (ErrNew ''unsupported'')),
      gl_unmarshal = (\<lambda>data _. (None, if hd data = CHR ''A'' then a else b)),
      gl_parseDuration = (\<lambda>_. Inr Hour),
      gl_eventJSON = (\<lambda>_. Inr ''{}'')\<rparr>"

lemma demo_codec: "codec_ok (demo_lib a b)"
proof -
  have "TrimSpace (''A'' @ newline) \<noteq> []" "TrimSpace (''B'' @ newline) \<noteq> []" by code_simp+
  then show ?thesis by (auto simp: codec_ok_def demo_lib_def split: if_splits)
qed

definition demo_key :: string where "demo_key = ''rk_'' @ replicate 64 (CHR ''0'')"

definition demo_keyfile :: file_obj where
  "demo_keyfile = \<lparr>fo_regular = True, fo_perm = 0x180, fo_data = demo_key @ newline\<rparr>"

definition demo_keyio :: keyio where
  "demo_keyio = \<lparr>ki_first = io_ok, ki_mkdir = None, ki_temp = io_ok, ki_race = None, ki_link = None,
     ki_sync1 = None, ki_remove = None, ki_sync2 = None, ki_second = io_ok,
     ki_hex = replicate 64 (CHR ''0'')\<rparr>"

definition demo_env :: "state \<Rightarrow> state \<Rightarrow> nat \<Rightarrow> env" where
  "demo_env a b seed = \<lparr>e_lib = demo_lib a b, e_load = io_ok, e_save = io_ok, e_key = demo_keyio,
     e_rnd = (\<lambda>n. nat_text (seed + n))\<rparr>"

lemma demo_env_simps [simp]:
  "e_lib (demo_env a b n) = demo_lib a b" "e_load (demo_env a b n) = io_ok"
  "e_save (demo_env a b n) = io_ok" "e_key (demo_env a b n) = demo_keyio"
  by (simp_all add: demo_env_def)

lemma io_ok_simps [simp]:
  "io_open io_ok = None" "io_stat io_ok = None" "io_read io_ok = None" "io_syncdir io_ok = None"
  by (simp_all add: io_ok_def)

section \<open>A node with reservations\<close>

definition alice_token :: token where
  "alice_token = \<lparr>tok_ID = ''tok_1'', tok_Hash = ''hgk_0'', tok_Secret = ''gk_0'', tok_Name = ''alice'',
     tok_Mode = ''reserved'', tok_Version = 0, tok_Managed = False, tok_CreatedAt = 50,
     tok_ExpiresAt = 200, tok_Revoked = False\<rparr>"

definition bob_token :: token where
  "bob_token = \<lparr>tok_ID = ''tok_11'', tok_Hash = ''hgk_10'', tok_Secret = ''gk_10'', tok_Name = ''bob'',
     tok_Mode = ''reserved'', tok_Version = 0, tok_Managed = False, tok_CreatedAt = 60,
     tok_ExpiresAt = 300, tok_Revoked = False\<rparr>"

definition alice_reservation :: "string \<Rightarrow> int \<Rightarrow> reservation" where
  "alice_reservation rid gpu = \<lparr>res_ID = rid, res_GroupID = [], res_ExternalSessionID = ''s1'',
     res_GPU = gpu, res_TokenHash = ''hgk_0'', res_Holder = ''alice'', res_Purpose = ''train'',
     res_CreatedAt = 50, res_StartsAt = 100, res_ExpiresAt = 200, res_Active = True,
     res_Revoked = False\<rparr>"

definition bob_reservation :: reservation where
  "bob_reservation = \<lparr>res_ID = ''res_12'', res_GroupID = [], res_ExternalSessionID = [],
     res_GPU = 0, res_TokenHash = ''hgk_10'', res_Holder = ''bob'', res_Purpose = ''eval'',
     res_CreatedAt = 60, res_StartsAt = 200, res_ExpiresAt = 300, res_Active = True,
     res_Revoked = False\<rparr>"

definition alice_reservations :: "reservation list" where
  "alice_reservations = [alice_reservation ''res_2'' 0, alice_reservation ''res_3'' 1]"

definition demo_state1 :: state where
  "demo_state1 = empty_state\<lparr>st_Tokens := [alice_token], st_Reservations := alice_reservations\<rparr>"

definition demo_state2 :: state where
  "demo_state2 = empty_state\<lparr>st_Tokens := [alice_token, bob_token],
     st_Reservations := alice_reservations @ [bob_reservation]\<rparr>"

definition demo_store :: "state \<Rightarrow> string \<Rightarrow> store" where
  "demo_store st data = \<lparr>sto_state = st, sto_committed = st, sto_loaded = True,
     sto_disk = Some \<lparr>fo_regular = True, fo_perm = 0x180, fo_data = data @ newline\<rparr>,
     sto_rootkey = Some demo_keyfile\<rparr>"

abbreviation demo1 :: store where "demo1 \<equiv> demo_store demo_state1 ''A''"
abbreviation demo2 :: store where "demo2 \<equiv> demo_store demo_state2 ''B''"
abbreviation demoE :: "nat \<Rightarrow> env" where "demoE \<equiv> demo_env demo_state1 demo_state2"
abbreviation demoL :: golib where "demoL \<equiv> demo_lib demo_state1 demo_state2"
abbreviation fresh_node :: store where "fresh_node \<equiv> New None (Some demo_keyfile)"

lemma demo_store_simps [simp]:
  "sto_state (demo_store st d) = st" "sto_committed (demo_store st d) = st"
  "sto_loaded (demo_store st d)"
  "sto_disk (demo_store st d) = Some \<lparr>fo_regular = True, fo_perm = 0x180, fo_data = d @ newline\<rparr>"
  by (simp_all add: demo_store_def)

lemma alice_registers:
  "RegisterScheduledReservationsWithSession (demoE 0) demo_key ''alice'' ''train'' ''s1''
     [0, 1] 100 200 50 fresh_node = (Inr (''gk_0'', alice_token, alice_reservations), demo1)"
  by code_simp

lemma bob_registers:
  "RegisterScheduledReservationsWithSession (demoE 10) demo_key ''bob'' ''eval'' []
     [0] 200 300 60 demo1 = (Inr (''gk_10'', bob_token, [bob_reservation]), demo2)"
  by code_simp

lemma demo1_reachable: "reachable demoL demo1"
proof -
  have "step demoL fresh_node
    (snd (RegisterScheduledReservationsWithSession (demoE 0) demo_key ''alice'' ''train'' ''s1''
       [0, 1] 100 200 50 fresh_node))"
    by (rule step.scheduled) simp
  then show ?thesis unfolding alice_registers snd_conv by (rule reachable.more [OF reachable.fresh])
qed

lemma demo2_reachable: "reachable demoL demo2"
proof -
  have "step demoL demo1
    (snd (RegisterScheduledReservationsWithSession (demoE 10) demo_key ''bob'' ''eval'' [] [0] 200 300 60 demo1))"
    by (rule step.scheduled) simp
  then show ?thesis unfolding bob_registers snd_conv by (rule reachable.more [OF demo1_reachable])
qed

lemma demo_consistent: "consistent demo1" "consistent demo2"
  using store_ok_consistent reachable_ok demo1_reachable demo2_reachable demo_codec by blast+

end
