(* ===== verification/StoreTheorems.thy ===== *)
theory StoreTheorems
  imports Fixtures
begin

text \<open>
  The properties of the store, stated over its exported operations, each with an
  instance on the node of \<open>Fixtures\<close> where it has hypotheses.
\<close>

section \<open>Reachable stores\<close>

text \<open>
  C1: on a node whose state was only ever changed through the store's operations, with any
  failures and restarts in between, two live reservations of one GPU never overlap in time.
\<close>

theorem reservations_disjoint:
  assumes "codec_ok L" "reachable L s" "sto_loaded s"
    and "rs = st_Reservations (sto_state s)" "i < length rs" "j < length rs" "i \<noteq> j"
    and "res_Active (rs ! i)" "\<not> res_Revoked (rs ! i)" "res_Active (rs ! j)" "\<not> res_Revoked (rs ! j)"
    and "res_GPU (rs ! i) = res_GPU (rs ! j)"
  shows "res_ExpiresAt (rs ! i) \<le> ReservationStartsAt (rs ! j) \<or>
    res_ExpiresAt (rs ! j) \<le> ReservationStartsAt (rs ! i)"
proof -
  have "exclusive rs"
    using store_ok_loaded [OF reachable_ok [OF assms(2,1)] assms(3)] assms(4)
    by (simp add: sound_state_def)
  with assms(5-7) have "\<not> conflicting (rs ! i) (rs ! j)"
    unfolding exclusive_def sorted_wrt_iff_nth_less
    by (metis conflicting_sym linorder_neqE_nat)
  with assms(8-12) show ?thesis by (auto simp: conflicting_def ReservationOverlaps_def)
qed

theorem reservations_disjoint_witness:
  "res_ExpiresAt (alice_reservation ''res_2'' 0) \<le> ReservationStartsAt bob_reservation \<or>
   res_ExpiresAt bob_reservation \<le> ReservationStartsAt (alice_reservation ''res_2'' 0)"
proof -
  have st: "st_Reservations demo_state2 = [alice_reservation ''res_2'' 0, alice_reservation ''res_3'' 1, bob_reservation]"
    by (simp add: demo_state2_def alice_reservations_def)
  show ?thesis
    using reservations_disjoint [OF demo_codec demo2_reachable, of "st_Reservations demo_state2" 0 2]
    by (simp add: st alice_reservation_def bob_reservation_def)
qed

text \<open>
  C26: every reachable store keeps the limits on the number and size of its records, windows
  of at most 30 days that are not empty, and one soft claim per GPU and token.
\<close>

theorem reachable_sound:
  assumes "codec_ok L" "reachable L s" "sto_loaded s"
  shows "within_bounds (sto_state s) \<and> sto_committed s = sto_state s \<and>
    distinct (map (\<lambda>c. (claim_GPU c, claim_TokenHash c)) (st_SoftClaims (sto_state s))) \<and>
    list_all (\<lambda>r. ReservationStartsAt r < res_ExpiresAt r \<and>
      res_ExpiresAt r - ReservationStartsAt r \<le> 30 * 24 * Hour) (st_Reservations (sto_state s))"
proof -
  have "store_ok L sound_state s" by (rule reachable_ok [OF assms(2,1)])
  moreover have "time_Sub b a \<le> MaxHardTTL \<longleftrightarrow> b - a \<le> 30 * 24 * Hour" for a b
    unfolding MaxHardTTL_def by (rule time_Sub_le_iff) (simp_all add: duration_defs)
  ultimately show ?thesis
    using assms(3) by (auto simp: store_ok_def sound_state_def slots_def window_ok_def list_all_iff)
qed

theorem reachable_sound_witness:
  "within_bounds demo_state2 \<and> sto_committed demo2 = demo_state2 \<and>
    distinct (map (\<lambda>c. (claim_GPU c, claim_TokenHash c)) (st_SoftClaims demo_state2)) \<and>
    list_all (\<lambda>r. ReservationStartsAt r < res_ExpiresAt r \<and>
      res_ExpiresAt r - ReservationStartsAt r \<le> 30 * 24 * Hour) (st_Reservations demo_state2)"
  using reachable_sound [OF demo_codec demo2_reachable] by simp

section \<open>Transactions\<close>

text \<open>
  C3: whatever system call fails, an operation on a loaded store either leaves memory, commit
  point and file as they were, or has published the new state in all three; it reports
  success only in the second case or when there was nothing to write, and an error after
  publication can only come from syncing the directory.
\<close>

theorem transaction_atomic:
  assumes "consistent s" "sto_loaded s" "runtx E body s = (r, s')"
  shows "s' = s \<and> (\<forall>v. r = Inr v \<longrightarrow> body (sto_state s) = Done v) \<or>
    (\<exists>st v data. body (sto_state s) = Write st v \<and> sto_state s' = st \<and> sto_committed s' = st \<and>
       sto_loaded s' \<and> within_bounds st \<and> gl_marshal (e_lib E) st = Inr data \<and>
       sto_disk s' = Some \<lparr>fo_regular = True, fo_perm = 0x180, fo_data = data @ newline\<rparr> \<and>
       r = (case io_syncdir (e_save E) of None \<Rightarrow> Inr v | Some e \<Rightarrow> Inl e))"
  using assms by (rule runtx_atomic)

theorem transaction_atomic_witness:
  "runtx ((demoE 0)\<lparr>e_save := io_ok\<lparr>io_rename := Some (ErrIO ''rename'')\<rparr>\<rparr>)
     (scheduled_body ''bob'' ''eval'' [] [0] 200 300 60 ''gk_10'' bob_token [bob_reservation]) demo1
   = (Inl (ErrIO ''rename''), demo1)"
proof -
  let ?E = "(demoE 0)\<lparr>e_save := io_ok\<lparr>io_rename := Some (ErrIO ''rename'')\<rparr>\<rparr>"
  let ?body = "scheduled_body ''bob'' ''eval'' [] [0] 200 300 60 ''gk_10'' bob_token [bob_reservation]"
  have r: "fst (runtx ?E ?body demo1) = Inl (ErrIO ''rename'')" by code_simp
  obtain r' s' where rs: "runtx ?E ?body demo1 = (r', s')" by (cases "runtx ?E ?body demo1")
  with r transaction_atomic [OF demo_consistent(1) _ rs] show ?thesis by auto
qed



text \<open>
  The size limit of a save does not count the newline that is appended, so a state whose
  document has exactly the maximal size is saved with success and refused by the next start.
\<close>

lemma maximal_state_unreadable:
  assumes "within_bounds (sto_state s)" "gl_marshal (e_lib E) (sto_state s) = Inr data"
    and "len data = maxStateFileBytes" "e_save E = io_ok"
    and "io_open (e_load E') = None" "io_stat (e_load E') = None" "io_read (e_load E') = None"
  shows "fst (saveLocked E s) = None \<and>
    fst (Load E' (restart (snd (saveLocked E s)))) = Some (ErrValueSize ''state'' maxStateFileBytes)"
proof -
  have "saveLocked E s = (None, s\<lparr>sto_committed := sto_state s,
      sto_disk := Some \<lparr>fo_regular = True, fo_perm = 0x180, fo_data = data @ newline\<rparr>\<rparr>)"
    using assms(1-4) by (simp add: saveLocked_def writeFileAtomically_def writeSyncedTempFile_def io_ok_def)
  with assms(3,5-7) show ?thesis
    by (simp add: Load_def loadLocked_def restart_def New_def readStateFile_def)
qed

definition big_env :: env where
  "big_env = (demoE 0)\<lparr>e_lib := (demoL)\<lparr>gl_marshal := (\<lambda>_. Inr (replicate 67108864 (CHR ''x'')))\<rparr>\<rparr>"

section \<open>Registrations\<close>





text \<open>
  C32: once a call has returned the root key, every later call whose reads succeed returns the
  same key and leaves the node as it is, also after losing a race to create the file.
\<close>

theorem root_key_stable:
  assumes "ReadOrCreateRootKey E s = (Inr key, s')"
    and "root_key_format (''rk_'' @ ki_hex (e_key E))"
    and "io_open (ki_first (e_key E')) = None" "io_stat (ki_first (e_key E')) = None"
      "io_read (ki_first (e_key E')) = None"
  shows "root_key_format key \<and> ReadOrCreateRootKey E' s' = (Inr key, s')"
  using ReadOrCreateRootKey_format [OF assms(1,2)] ReadOrCreateRootKey_stable [OF assms] by simp

theorem root_key_stable_witness:
  "root_key_format demo_key \<and> ReadOrCreateRootKey (demoE 3) fresh_node = (Inr demo_key, fresh_node)"
proof -
  have c: "ReadOrCreateRootKey (demoE 0) (New None None) = (Inr demo_key, fresh_node)" by code_simp
  have "root_key_format (''rk_'' @ ki_hex (e_key (demoE 0)))" by code_simp
  then show ?thesis
    by (rule root_key_stable [OF c]) (simp_all add: demo_keyio_def)
qed

section \<open>Tokens and revocation\<close>




text \<open>
  A soft claim cannot be revoked by its identifier: if nothing else in the store carries
  it, the answer is always that it was not found.
\<close>

lemma claim_id_not_revocable:
  assumes "sto_loaded s" "x = TrimSpace ident" "\<not> HasPrefix x ''gk_''"
    and "\<forall>r\<in>set (st_Reservations (sto_state s)). res_ID r \<noteq> x \<and> effective_group r \<noteq> x"
    and "\<forall>t\<in>set (st_Tokens (sto_state s)). tok_ID t \<noteq> x"
    and "\<forall>a\<in>set (st_Authorizations (sto_state s)). auth_ID a \<noteq> x"
    and "\<forall>l\<in>set (st_Leases (sto_state s)). lease_ID l \<noteq> x"
    and "\<forall>b\<in>set (st_Bypasses (sto_state s)). byp_ID b \<noteq> x"
  shows "Revoke E ident clock s = (Inl (ErrID ''not found'' x), s)"
  using revoke_claim_not_found [OF assms(4-8,3)] assms(1,2) by (simp add: Revoke_def runtx_def)

definition claim_state :: state where
  "claim_state = empty_state\<lparr>st_SoftClaims := [zero_claim\<lparr>claim_ID := ''claim_7''\<rparr>]\<rparr>"

text \<open>
  Registering a claim token never leaves its holder with more than eight active tokens
  nor the store with more than 4096.
\<close>

lemma soft_token_capacity:
  assumes "consistent s" "sto_loaded s" "RegisterSoftToken E rootKey name now s = (Inr (secret, t), s')"
  shows "st_Tokens (sto_state s') = st_Tokens (sto_state s) @ [t] \<and>
    length (filter (\<lambda>x. tokenActiveAt x now \<and> normalizeHolder (tok_Name x) = normalizeHolder (tok_Name t))
      (st_Tokens (sto_state s'))) \<le> 8 \<and> length (st_Tokens (sto_state s')) \<le> 4096"
proof -
  obtain secret0 t0 where new: "newToken E TokenModeClaimed name 0 now = (secret0, t0)"
    by (cases "newToken E TokenModeClaimed name 0 now")
  from assms(3) obtain f where
    tx: "runtx E (add_token_body t0 now (secret0, t0)) (s\<lparr>sto_rootkey := f\<rparr>) = (Inr (secret, t), s')"
    unfolding RegisterSoftToken_def new by (cases rule: with_root_key_cases) auto
  obtain st where w: "add_token_body t0 now (secret0, t0) (sto_state s) = Write st (secret, t)"
    and s': "sto_state s' = st" "within_bounds st"
    by (rule runtx_success [OF _ _ tx]) (use assms(1,2) in \<open>auto simp: add_token_body_def split: option.splits\<close>)
  note e = add_token_body_Write [OF w]
  have "tokenActiveAt t0 now" by (rule newToken_active [OF new])
  with e capacity_after_add [of "sto_state s" t0 now] within_bounds_counts(1) [OF s'(2)] s' show ?thesis
    by (auto simp: active_for_holder_def maxActiveTokensPerHolder_def maxTotalTokens_def)
qed

definition carol_token :: token where
  "carol_token = \<lparr>tok_ID = ''tok_1'', tok_Hash = ''hgk_0'', tok_Secret = ''gk_0'', tok_Name = ''carol'',
     tok_Mode = ''claimed'', tok_Version = 0, tok_Managed = False, tok_CreatedAt = 70,
     tok_ExpiresAt = 0, tok_Revoked = False\<rparr>"

end
