(* ===== verification/UpkeepTheorems.thy ===== *)
theory UpkeepTheorems
  imports Fixtures
begin

text \<open>
  Further properties of the store: managed keys, pruning, authorizations, the audit trail
  and what views reveal.
\<close>

section \<open>Managed keys\<close>





section \<open>Pruning\<close>

text \<open>Pruning twice at one instant is pruning once, when each hash belongs to one token.\<close>

lemma prune_twice:
  assumes "consistent s" "sto_loaded s" "distinct (map tok_Hash (st_Tokens (sto_state s)))"
    and "Prune E now s = (Inr (), s')"
  shows "Prune E' now s' = (Inr (), s')"
proof -
  have tx: "runtx E (prune_body now) s = (Inr (), s')" using assms(4) by (simp add: Prune_def)
  have "sto_loaded s' \<and> \<not> fst (pruneExpiredLocked now (sto_state s'))"
  proof (rule runtx_success [OF assms(1,2) tx])
    assume "prune_body now (sto_state s) = Done ()" "s' = s"
    then show ?thesis using assms(2) by (auto simp: prune_body_def split: prod.splits bool.splits)
  next
    fix st
    assume "prune_body now (sto_state s) = Write st ()" "sto_state s' = st" "sto_loaded s'"
    then show ?thesis
      using prune_fixpoint [OF assms(3), of now] prune_body_Write [of now "sto_state s" st "()"] by simp
  qed
  then show ?thesis
    by (cases "pruneExpiredLocked now (sto_state s')")
      (auto simp: Prune_def runtx_def prune_body_def)
qed

definition pruned_state :: state where "pruned_state = demo_state2\<lparr>st_Tokens := [bob_token],
  st_Reservations := [bob_reservation]\<rparr>"

lemma demo_prune:
  "Prune (demo_env demo_state2 pruned_state 0) 250 (demo_store demo_state2 ''A'')
     = (Inr (), demo_store pruned_state ''B'')"
  by code_simp

lemma demo_prune_consistent: "consistent (demo_store demo_state2 ''A'')"
proof -
  have "within_bounds demo_state2" by code_simp
  then show ?thesis by (simp add: consistent_def)
qed

text \<open>
  A prune removes no reservation that is live and whose token is usable, and what it
  leaves is live: every reservation, authorization, lease and bypass rule is unexpired and
  neither revoked nor released, and every token is usable.
\<close>

lemma prune_keeps_live:
  assumes "consistent s" "sto_loaded s" "Prune E now s = (Inr (), s')"
    and "r \<in> set (st_Reservations (sto_state s))" "res_Active r" "\<not> res_Revoked r" "now < res_ExpiresAt r"
    and "\<forall>t\<in>set (st_Tokens (sto_state s)). tok_Hash t = res_TokenHash r \<longrightarrow> tokenActiveAt t now"
  shows "r \<in> set (st_Reservations (sto_state s')) \<and>
    list_all (\<lambda>t. tokenActiveAt t now) (st_Tokens (sto_state s')) \<and>
    list_all (\<lambda>x. res_Active x \<and> \<not> res_Revoked x \<and> now < res_ExpiresAt x) (st_Reservations (sto_state s')) \<and>
    list_all (\<lambda>a. authorizationActiveAt a now) (st_Authorizations (sto_state s')) \<and>
    list_all (\<lambda>l. lease_Active l \<and> now < lease_ExpiresAt l) (st_Leases (sto_state s')) \<and>
    list_all (\<lambda>b. \<not> byp_Revoked b \<and> now < byp_ExpiresAt b) (st_Bypasses (sto_state s'))"
proof -
  let ?st = "sto_state s"
  have tx: "runtx E (prune_body now) s = (Inr (), s')" using assms(3) by (simp add: Prune_def)
  have s': "sto_state s' = snd (pruneExpiredLocked now ?st)"
  proof (rule runtx_success [OF assms(1,2) tx])
    assume "prune_body now ?st = Done ()" "s' = s"
    then show ?thesis using prune_unchanged [of now ?st]
      by (auto simp: prune_body_def split: prod.splits bool.splits)
  next
    fix st
    assume "prune_body now ?st = Write st ()" "sto_state s' = st"
    then show ?thesis using prune_body_Write [of now ?st st "()"] by simp
  qed
  have live: "live_reservation r now" using assms(5-7) by (simp add: live_reservation_def)
  have "\<not> stale_token ?st now t" if "t \<in> set (st_Tokens ?st)" "tok_Hash t = res_TokenHash r" "tok_Hash t \<noteq> []" for t
    using that assms(4,8) live by (auto simp: stale_token_def tokenActiveAt_def live_hash_iff)
  then have "res_TokenHash r \<notin> set (expired_hashes ?st now)"
    unfolding expired_hashes_def by (simp add: image_iff) metis
  with live assms(4) have "r \<in> set (st_Reservations (sto_state s'))"
    by (simp add: s' pruneExpiredLocked_def Let_def stale_reservation_live)
  moreover have "list_all (\<lambda>t. tokenActiveAt t now) (st_Tokens (sto_state s'))"
    by (auto simp: s' pruneExpiredLocked_def Let_def list_all_iff stale_token_def tokenActiveAt_def)
  ultimately show ?thesis
    using prune_result_rows [OF s']
    by (auto simp: list_all_iff stale_reservation_def stale_authorization_def stale_lease_def
        stale_bypass_def authorizationActiveAt_def)
qed

text \<open>
  While telemetry is down, the entitlement rows that a process scope without a cgroup still
  refers to, and the valid ones, survive the pruning of entitlements; nothing but tokens and
  reservations is touched.
\<close>

lemma entitlements_kept:
  assumes "consistent s" "sto_loaded s" "PruneUnreferencedInvalidEntitlements E now s = (Inr (), s')"
    and "a \<in> set (st_Authorizations (sto_state s))" "auth_CgroupPath a = []" "auth_TokenHash a \<noteq> []"
  shows "filter (\<lambda>t. tok_Hash t = auth_TokenHash a) (st_Tokens (sto_state s'))
      = filter (\<lambda>t. tok_Hash t = auth_TokenHash a) (st_Tokens (sto_state s)) \<and>
    filter (\<lambda>r. res_TokenHash r = auth_TokenHash a) (st_Reservations (sto_state s'))
      = filter (\<lambda>r. res_TokenHash r = auth_TokenHash a) (st_Reservations (sto_state s)) \<and>
    st_Authorizations (sto_state s') = st_Authorizations (sto_state s) \<and>
    st_Leases (sto_state s') = st_Leases (sto_state s)"
proof -
  have tx: "runtx E (entitlements_body now) s = (Inr (), s')"
    using assms(3) by (simp add: PruneUnreferencedInvalidEntitlements_def)
  have needed: "auth_TokenHash a \<in> set (referenced_hashes (sto_state s))"
    using assms(4-6) by (force simp: referenced_hashes_def)
  show ?thesis
  proof (rule runtx_success [OF assms(1,2) tx])
    fix st
    assume w: "entitlements_body now (sto_state s) = Write st ()" and st: "sto_state s' = st"
    have "st_Authorizations st = st_Authorizations (sto_state s)" "st_Leases st = st_Leases (sto_state s)"
      using w by (auto simp: entitlements_body_def Let_def split: if_splits)
    then show ?thesis
      using entitlements_body_Write [OF w] st needed by (auto intro!: filter_cong)
  qed auto
qed

definition scoped_state :: state where
  "scoped_state = demo_state1\<lparr>st_Authorizations :=
     [zero_authorization\<lparr>auth_ID := ''auth_1'', auth_TokenHash := ''hgk_0'', auth_Mode := ''docker''\<rparr>]\<rparr>"

section \<open>Authorizations\<close>

text \<open>
  Adding an authorization that is active never leaves its token with more than 64 active
  ones.
\<close>

lemma authorization_capacity:
  assumes "consistent s" "sto_loaded s" "AddAuthorization E a now s = (Inr (), s')"
    and "authorizationActiveAt a now"
  shows "st_Authorizations (sto_state s') = st_Authorizations (sto_state s) @ [a] \<and>
    length (filter (\<lambda>x. auth_TokenHash x = auth_TokenHash a \<and> authorizationActiveAt x now)
      (st_Authorizations (sto_state s'))) \<le> 64"
proof -
  have tx: "runtx E (add_authorization_body a now) s = (Inr (), s')"
    using assms(3) by (simp add: AddAuthorization_def)
  show ?thesis
  proof (rule runtx_success [OF assms(1,2) tx])
    assume "add_authorization_body a now (sto_state s) = Done ()"
    then show ?thesis by (simp add: add_authorization_body_def split: option.splits)
  next
    fix st
    assume "add_authorization_body a now (sto_state s) = Write st ()" "sto_state s' = st"
    with assms(4) show ?thesis
      by (auto dest!: add_authorization_body_Write simp: maxActiveAuthorizationsPerToken_def)
  qed
qed

definition demo_authorization :: authorization where
  "demo_authorization = zero_authorization\<lparr>auth_ID := ''auth_1'', auth_TokenHash := ''hgk_0'',
     auth_Mode := ''docker'', auth_ContainerID := ''0123456789ab'', auth_Active := True\<rparr>"

definition authorized_state :: state where
  "authorized_state = demo_state1\<lparr>st_Authorizations := [demo_authorization]\<rparr>"

text \<open>
  An authorization is activated at most once: activation succeeds for an active row without
  a process, records the process, and every later activation of the identifier fails and
  changes nothing.
\<close>

lemma activation_once:
  assumes "consistent s" "sto_loaded s" "ActivateAuthorization E i pid s = (Inr a, s')" "0 < pid'"
  shows "auth_RootPID a = pid \<and> 0 < pid \<and> auth_Active a \<and> \<not> auth_Revoked a \<and>
    ActivateAuthorization E' i pid' s' = (Inl (ErrID ''authorization is already active'' i), s')"
proof -
  have pid: "0 < pid" and tx: "runtx E (activate_body i pid) s = (Inr a, s')"
    using assms(3) by (auto simp: ActivateAuthorization_def split: if_splits)
  obtain st where w: "activate_body i pid (sto_state s) = Write st a"
    and s': "sto_state s' = st" "sto_loaded s'"
    by (rule runtx_success [OF assms(1,2) tx])
      (auto simp: activate_body_def split: option.splits if_splits)
  obtain a0 where a0: "find (\<lambda>a. auth_ID a = i) (st_Authorizations (sto_state s)) = Some a0"
      "auth_Active a0" "\<not> auth_Revoked a0" "a = a0\<lparr>auth_RootPID := pid\<rparr>"
    and st: "st = (sto_state s)\<lparr>st_Authorizations := update_first (\<lambda>a. auth_ID a = i)
      (\<lambda>a. a\<lparr>auth_RootPID := pid\<rparr>) (st_Authorizations (sto_state s))\<rparr>"
    using activate_body_Write [OF w] by auto
  have "find (\<lambda>a. auth_ID a = i) (st_Authorizations st) = Some a"
    using find_update_first [OF _ a0(1), of "\<lambda>a. a\<lparr>auth_RootPID := pid\<rparr>"] by (simp add: st a0(4))
  then show ?thesis
    using pid assms(4) a0 s' by (simp add: ActivateAuthorization_def runtx_def activate_body_def)
qed

section \<open>Audit trail and views\<close>





text \<open>
  The command a view shows has at most 128 arguments and 16 KiB, and each argument is a
  prefix of the real one.
\<close>

lemma view_command_bounded:
  "length (boundedViewCommand command) \<le> 128 \<and>
   sum_list (map length (boundedViewCommand command)) \<le> 16384 \<and>
   list_all2 prefix (boundedViewCommand command)
     (take (length (boundedViewCommand command)) command)"
proof -
  have "sum_list (map len (boundedViewCommand command)) \<le> maxViewCommandBytes"
    unfolding boundedViewCommand_def
    by (rule bounded_command_bytes) (simp add: maxViewCommandBytes_def)
  moreover have "sum_list (map len xs) = int (sum_list (map length xs))" for xs :: "string list"
    by (induction xs) auto
  moreover have "len (boundedViewCommand command) \<le> maxViewCommandArgs"
    unfolding boundedViewCommand_def
    using bounded_command_args [of 0 maxViewCommandBytes command] by (simp add: maxViewCommandArgs_def)
  moreover have "i < length command \<and> prefix (boundedViewCommand command ! i) (command ! i)"
    if "i < length (boundedViewCommand command)" for i
    using bounded_command_prefix that unfolding boundedViewCommand_def by blast
  moreover from this have "length (boundedViewCommand command) \<le> length command"
    by (meson less_irrefl not_le_imp_less)
  ultimately show ?thesis
    by (auto simp: list_all2_conv_all_nth maxViewCommandBytes_def maxViewCommandArgs_def min_def)
qed

text \<open>
  C28: what a status request or a snapshot for one token shows does not depend on the rows of any
  other token.
\<close>

theorem scoped_views_isolated:
  assumes "sto_loaded s1" "sto_loaded s2" "same_for h (sto_state s1) (sto_state s2)"
  shows "fst (StatusForToken E h now s1) = fst (StatusForToken E' h now s2) \<and>
    fst (EnforcementSnapshotForToken E h s1) = fst (EnforcementSnapshotForToken E' h s2)"
  using assms status_for_noninterference [OF assms(3)] snapshot_for_noninterference [OF assms(3)]
  by (simp add: StatusForToken_def EnforcementSnapshotForToken_def runtx_def)

theorem scoped_views_isolated_witness:
  "fst (StatusForToken (demoE 0) ''hgk_0'' 150 demo1) = fst (StatusForToken (demoE 0) ''hgk_0'' 150 demo2)"
proof -
  have "same_for ''hgk_0'' demo_state1 demo_state2" by code_simp
  with scoped_views_isolated [of demo1 demo2] show ?thesis by simp
qed

text \<open>
  C34: only a request with the root key can see a secret: the status, the status of a token and
  the snapshots for enforcement carry none.
\<close>

theorem views_hide_secrets:
  assumes "Status E now s = (Inr v, s1)" "StatusForToken E h now s = (Inr u, s2)"
    and "EnforcementSnapshot E s = (Inr st, s3)" "EnforcementSnapshotForToken E h s = (Inr st', s4)"
  shows "list_all (\<lambda>x. tv_Key x = []) (su_Tokens v @ su_Tokens u) \<and>
    list_all (\<lambda>t. tok_Secret t = []) (st_Tokens st @ st_Tokens st') \<and>
    list_all (\<lambda>a. auth_Command a = []) (st_Authorizations st @ st_Authorizations st')"
proof -
  have run: "\<exists>x. r = f x" if "runtx E (\<lambda>st. Done (f st)) s = (Inr r, s')" for f :: "state \<Rightarrow> 'r" and r s'
    using that by (cases rule: runtx_cases) auto
  obtain x y z u' where "v = status_of now [] True x" "u = status_of now h False y"
    "st = cloneEnforcementState z" "st' = snapshot_for h u'"
    using assms run [of "status_of now [] True"] run [of "status_of now h False"]
      run [of cloneEnforcementState] run [of "snapshot_for h"]
    by (auto simp: Status_def StatusForToken_def EnforcementSnapshot_def EnforcementSnapshotForToken_def
        split: if_splits)
  then show ?thesis
    by (auto simp: list_all_iff status_no_key cloneEnforcementState_def snapshot_for_def Let_def)
qed

theorem views_hide_secrets_witness:
  "\<exists>v. fst (Status (demoE 0) 150 demo1) = Inr v \<and> su_Tokens v \<noteq> [] \<and> list_all (\<lambda>x. tv_Key x = []) (su_Tokens v)"
proof -
  let ?v = "status_of 150 [] True demo_state1"
  have r: "Status (demoE 0) 150 demo1 = (Inr ?v, demo1)"
    "StatusForToken (demoE 0) ''hgk_0'' 150 demo1 = (Inr (status_of 150 ''hgk_0'' False demo_state1), demo1)"
    "EnforcementSnapshot (demoE 0) demo1 = (Inr (cloneEnforcementState demo_state1), demo1)"
    "EnforcementSnapshotForToken (demoE 0) ''hgk_0'' demo1 = (Inr (snapshot_for ''hgk_0'' demo_state1), demo1)"
    by (simp_all add: Status_def StatusForToken_def EnforcementSnapshot_def EnforcementSnapshotForToken_def
        runtx_def)
  have "su_Tokens ?v \<noteq> []" by code_simp
  with views_hide_secrets [OF r] r(1) show ?thesis by simp
qed

end
