(* ===== verification/Scopes.thy ===== *)
theory Scopes
  imports StoreRecords
begin

text \<open>
  Package \<^verbatim>\<open>internal/enforce\<close>, the pure part: patterns, container identifiers and cgroup paths
  that a scope is matched by, bypass rules, and the selection of the rows that govern a GPU.
  The pattern matcher is shown equal to the definition of a glob.
\<close>

section \<open>Patterns\<close>

text \<open>The loop over the parts after the first star, with the position reached.\<close>

fun wildcard_loop :: "string \<Rightarrow> nat \<Rightarrow> string list \<Rightarrow> bool" where
  "wildcard_loop val pos [] = True"
| "wildcard_loop val pos (part # parts) =
     (if part = [] then wildcard_loop val pos parts
      else (case str_Index (drop pos val) part of
              None \<Rightarrow> False
            | Some index \<Rightarrow> wildcard_loop val (pos + (index + length part)) parts))"

definition wildcardMatch :: "string \<Rightarrow> string \<Rightarrow> bool" where
  "wildcardMatch pattern0 value0 =
     (let pattern = TrimSpace pattern0; val = TrimSpace value0 in
      if pattern = [] then False
      else if \<not> str_Contains pattern ''*'' then pattern = val
      else if pattern = ''*'' then True
      else
        let parts = Split pattern (CHR ''*'') in
        if hd parts \<noteq> [] \<and> \<not> HasPrefix val (hd parts) then False
        else wildcard_loop val (length (hd parts)) (tl parts) \<and>
             (last parts = [] \<or> HasSuffix val (last parts)))"

text \<open>A glob: a star stands for any string, any other character for itself.\<close>

fun glob :: "string \<Rightarrow> string \<Rightarrow> bool" where
  "glob [] v = (v = [])"
| "glob (c # p) v =
     (if c = CHR ''*'' then (\<exists>k\<in>{0..length v}. glob p (drop k v))
      else (case v of [] \<Rightarrow> False | d # ds \<Rightarrow> c = d \<and> glob p ds))"

text \<open>A glob by its parts: what follows a star may be preceded by anything.\<close>

fun after_star :: "string list \<Rightarrow> string \<Rightarrow> bool" where
  "after_star [] v = False"
| "after_star [p] v = suffix p v"
| "after_star (p # q # ps) v = (\<exists>a b. v = a @ p @ b \<and> after_star (q # ps) b)"

definition parts_match :: "string list \<Rightarrow> string \<Rightarrow> bool" where
  "parts_match ps v =
     (case ps of [] \<Rightarrow> False | [p] \<Rightarrow> v = p
      | p # q # rest \<Rightarrow> (\<exists>b. v = p @ b \<and> after_star (q # rest) b))"

lemma after_star_mono: "after_star ps b \<Longrightarrow> after_star ps (a @ b)"
proof (induction ps b arbitrary: a rule: after_star.induct)
  case (2 p v)
  then show ?case by (simp add: suffix_appendI)
next
  case (3 p q ps v)
  then obtain x y where "v = x @ p @ y" "after_star (q # ps) y" by auto
  then show ?case by (auto intro: exI [of _ "a @ x"])
qed simp

lemma after_star_iff:
  assumes "ps \<noteq> []"
  shows "after_star ps v \<longleftrightarrow> (\<exists>a b. v = a @ b \<and> parts_match ps b)"
proof (cases ps)
  case (Cons p qs)
  then show ?thesis by (cases qs) (auto simp: parts_match_def suffix_def)
qed (use assms in simp)

lemma parts_match_Nil_Cons:
  "ps \<noteq> [] \<Longrightarrow> parts_match ([] # ps) v \<longleftrightarrow> after_star ps v"
  by (cases ps) (auto simp: parts_match_def)

lemma parts_match_Cons:
  "parts_match ((c # p) # ps) v \<longleftrightarrow> (\<exists>w. v = c # w \<and> parts_match (p # ps) w)"
  by (cases ps) (auto simp: parts_match_def)

lemma glob_parts: "glob p v \<longleftrightarrow> parts_match (Split p (CHR ''*'')) v"
proof (induction p arbitrary: v)
  case Nil
  then show ?case by (simp add: parts_match_def)
next
  case (Cons c p)
  show ?case
  proof (cases "c = CHR ''*''")
    case True
    have "(\<exists>k\<in>{0..length v}. glob p (drop k v)) \<longleftrightarrow> (\<exists>a b. v = a @ b \<and> glob p b)"
    proof
      assume "\<exists>k\<in>{0..length v}. glob p (drop k v)"
      then show "\<exists>a b. v = a @ b \<and> glob p b" by (metis append_take_drop_id)
    next
      assume "\<exists>a b. v = a @ b \<and> glob p b"
      then obtain a b where "v = a @ b" "glob p b" by auto
      then show "\<exists>k\<in>{0..length v}. glob p (drop k v)" by (intro bexI [of _ "length a"]) auto
    qed
    with True Cons.IH show ?thesis by (simp add: parts_match_Nil_Cons after_star_iff)
  next
    case False
    obtain q qs where s: "Split p (CHR ''*'') = q # qs" by (cases "Split p (CHR ''*'')") auto
    with False Cons.IH show ?thesis by (auto simp: parts_match_Cons split: list.splits)
  qed
qed

text \<open>The leftmost occurrence is always a good choice.\<close>

lemma index_split:
  "str_Index v p = Some k \<Longrightarrow> v = take k v @ p @ drop (k + length p) v"
  using str_Index_Some [of v p k] by (metis append_take_drop_id add.commute drop_drop prefix_def same_append_eq append_eq_conv_conj)

lemma index_leftmost:
  assumes "v = a @ p @ b"
  obtains k c where "str_Index v p = Some k" "k \<le> length a" "drop (k + length p) v = c @ b"
proof -
  have at: "prefix p (drop (length a) v)" using assms by simp
  have "length a \<le> length v" using assms by simp
  with at have "str_Index v p \<noteq> None" using str_Index_None [of v p] by blast
  then obtain k where k: "str_Index v p = Some k" by blast
  have le: "k \<le> length a"
    using str_Index_Some [OF k] at by (meson not_le_imp_less)
  then have "drop (k + length p) v = drop (k + length p) (a @ p) @ b" using assms by simp
  with k le that show thesis by blast
qed

lemma index_occurs: "str_Index v p = None \<Longrightarrow> v \<noteq> a @ p @ b"
  by (metis index_leftmost option.distinct(1))

lemma wildcard_loop_correct:
  assumes "ps \<noteq> []"
  shows "wildcard_loop v pos ps \<and> (last ps = [] \<or> suffix (last ps) v) \<and> pos \<le> length v \<longleftrightarrow>
    after_star ps (drop pos v) \<and> pos \<le> length v"
  using assms
proof (induction ps arbitrary: pos rule: induct_list012)
  case (2 p)
  show ?case
  proof (cases "p = []")
    case False
    have suf: "suffix p v \<longleftrightarrow> suffix p (drop pos v)" if "length p \<le> length (drop pos v)"
    proof
      assume "suffix p v"
      then show "suffix p (drop pos v)" using suffix_drop that by (rule suffix_length_suffix)
    next
      assume "suffix p (drop pos v)"
      then show "suffix p v" using suffix_drop by (rule suffix_order.trans)
    qed
    show ?thesis
    proof (cases "str_Index (drop pos v) p")
      case None
      then have "\<not> suffix p (drop pos v)"
        using index_occurs [OF None, of _ "[]"] by (simp add: suffix_def)
      with None False show ?thesis by simp
    next
      case (Some k)
      then have "length p \<le> length (drop pos v)" using str_Index_Some by fastforce
      with Some False suf show ?thesis by simp
    qed
  qed simp
next
  case (3 p q ps)
  show ?case
  proof (cases "p = []")
    case True
    have "after_star ([] # q # ps) (drop pos v) \<longleftrightarrow> after_star (q # ps) (drop pos v)"
      using after_star_mono by auto
    with True 3(2) show ?thesis by simp
  next
    case False
    show ?thesis
    proof (cases "str_Index (drop pos v) p")
      case None
      then have "\<not> after_star (p # q # ps) (drop pos v)"
        using index_occurs by simp
      with None False show ?thesis by simp
    next
      case (Some k)
      note sp = index_split [OF Some]
      have bound: "pos + (k + length p) \<le> length v" if "pos \<le> length v"
        using str_Index_Some [OF Some] that by auto
      have "after_star (p # q # ps) (drop pos v) \<longleftrightarrow> after_star (q # ps) (drop (pos + (k + length p)) v)"
      proof
        assume "after_star (p # q # ps) (drop pos v)"
        then obtain a b where v: "drop pos v = a @ p @ b" and b: "after_star (q # ps) b" by auto
        from v show "after_star (q # ps) (drop (pos + (k + length p)) v)"
        proof (rule index_leftmost)
          fix j c
          assume "str_Index (drop pos v) p = Some j" "drop (j + length p) (drop pos v) = c @ b"
          with Some have "drop (pos + (k + length p)) v = c @ b" by (simp add: add.commute)
          with b show ?thesis by (simp add: after_star_mono)
        qed
      next
        assume "after_star (q # ps) (drop (pos + (k + length p)) v)"
        with sp show "after_star (p # q # ps) (drop pos v)"
          by (metis after_star.simps(3) add.commute drop_drop)
      qed
      with 3(2) [of "pos + (k + length p)"] Some False bound show ?thesis by auto
    qed
  qed
qed simp

lemma contains_char: "str_Contains s [c] \<longleftrightarrow> c \<in> set s"
  unfolding str_Contains_def by (induction s) auto

lemma Split_single: "Split s c = [p] \<longleftrightarrow> c \<notin> set s \<and> p = s"
proof (induction s arbitrary: p)
  case Nil
  then show ?case by auto
next
  case (Cons x s)
  obtain q qs where "Split s c = q # qs" by (cases "Split s c") auto
  with Cons.IH [of q] Cons.IH [of s] show ?case by auto
qed

lemma glob_star: "glob ''*'' v"
  by (auto intro: bexI [of _ "length v"])

lemma wildcard_glob:
  "wildcardMatch p v \<longleftrightarrow> TrimSpace p \<noteq> [] \<and> glob (TrimSpace p) (TrimSpace v)"
proof -
  define pat val where "pat = TrimSpace p" and "val = TrimSpace v"
  obtain h t where parts: "Split pat (CHR ''*'') = h # t" by (cases "Split pat (CHR ''*'')") auto
  show ?thesis
  proof (cases "CHR ''*'' \<in> set pat")
    case False
    then have "Split pat (CHR ''*'') = [pat]" by (simp add: Split_single)
    then have "glob pat val \<longleftrightarrow> val = pat" by (simp add: glob_parts parts_match_def)
    with False show ?thesis
      by (auto simp: wildcardMatch_def contains_char pat_def [symmetric] val_def [symmetric] Let_def)
  next
    case True
    then have t: "t \<noteq> []" and pat: "pat \<noteq> []" using parts Split_single [of pat "CHR ''*''" h] by auto
    have "glob pat val \<longleftrightarrow> prefix h val \<and> after_star t (drop (length h) val)"
      using t by (cases t) (auto simp: glob_parts parts parts_match_def prefix_def)
    also have "\<dots> \<longleftrightarrow> prefix h val \<and> wildcard_loop val (length h) t \<and> (last t = [] \<or> suffix (last t) val)"
      using wildcard_loop_correct [OF t, of val "length h"] by (auto dest: prefix_length_le)
    finally have g: "glob pat val \<longleftrightarrow> (h = [] \<or> prefix h val) \<and> wildcard_loop val (length h) t \<and>
        (last t = [] \<or> suffix (last t) val)"
      by auto
    have "wildcardMatch p v \<longleftrightarrow> pat = ''*'' \<or> glob pat val"
      unfolding wildcardMatch_def pat_def [symmetric] val_def [symmetric] Let_def parts g
      using True pat t by (simp add: contains_char HasPrefix_def HasSuffix_def)
    with pat glob_star [of val] show ?thesis by (auto simp: pat_def val_def)
  qed
qed

section \<open>Containers and cgroups\<close>

definition sameContainer :: "string \<Rightarrow> string \<Rightarrow> bool" where
  "sameContainer a0 b0 =
     (let a = ToLower (TrimSpace a0); b = ToLower (TrimSpace b0) in
      if a = [] \<or> b = [] then False
      else if a = b then True
      else
        let (shorter, longer) = (if length a > length b then (b, a) else (a, b))
        in length shorter \<ge> 12 \<and> HasPrefix longer shorter)"

definition normalizeCgroupPath :: "string \<Rightarrow> string" where
  "normalizeCgroupPath value0 =
     (let v = TrimSpace value0 in
      if v = [] then []
      else path_Clean (if \<not> HasPrefix v ''/'' then ''/'' @ v else v))"

definition normalizeCgroupMountPath :: "string \<Rightarrow> string" where
  "normalizeCgroupMountPath value0 =
     (let v = TrimSpace value0; mount = ''/sys/fs/cgroup'' in
      if v = mount then ''/''
      else normalizeCgroupPath (if HasPrefix v (mount @ ''/'') then TrimPrefix v mount else v))"

text \<open>The path of a line of \<^verbatim>\<open>/proc/<pid>/cgroup\<close>: what follows its second colon.\<close>

definition cgroup_line_path :: "string \<Rightarrow> string" where
  "cgroup_line_path line =
     (let candidate = TrimSpace line in
      case Cut candidate (CHR '':'') of
        (_, rest, True) \<Rightarrow>
          (case Cut rest (CHR '':'') of (_, path, True) \<Rightarrow> path | _ \<Rightarrow> candidate)
      | _ \<Rightarrow> candidate)"

definition under_target :: "string \<Rightarrow> string \<Rightarrow> bool" where
  "under_target actual target \<longleftrightarrow>
     actual = target \<or> HasPrefix actual (target @ ''/'') \<or> target = ''/''"

definition bareCgroupMatches :: "string \<Rightarrow> string \<Rightarrow> string \<Rightarrow> bool" where
  "bareCgroupMatches raw relative absolute =
     (let targets = filter (\<lambda>t. t \<noteq> []) [normalizeCgroupPath relative, normalizeCgroupMountPath absolute]
      in if targets = [] then False
         else \<exists>line\<in>set (Split raw (CHR 0x0A)).
           (let actual = normalizeCgroupPath (cgroup_line_path line)
            in actual \<noteq> [] \<and> (\<exists>target\<in>set targets. under_target actual target)))"

lemma prefix_same_length: "\<lbrakk>prefix a b; length b \<le> length a\<rbrakk> \<Longrightarrow> a = b"
  by (auto simp: prefix_def)

lemma sameContainer_iff:
  "sameContainer a b \<longleftrightarrow>
     (let x = ToLower (TrimSpace a); y = ToLower (TrimSpace b) in
      x \<noteq> [] \<and> y \<noteq> [] \<and>
      (x = y \<or> min (length x) (length y) \<ge> 12 \<and> (prefix x y \<or> prefix y x)))"
proof -
  define x y where "x = ToLower (TrimSpace a)" and "y = ToLower (TrimSpace b)"
  have "prefix x y \<longrightarrow> length x \<le> length y" "prefix y x \<longrightarrow> length y \<le> length x"
    by (auto dest: prefix_length_le)
  then show ?thesis
    unfolding sameContainer_def x_def [symmetric] y_def [symmetric] Let_def
    using prefix_same_length [of x y] prefix_same_length [of y x]
    by (auto simp: HasPrefix_def)
qed

lemma sameContainer_sym: "sameContainer a b = sameContainer b a"
  by (auto simp: sameContainer_iff Let_def min.commute)

lemma sameContainer_short:
  "\<lbrakk>sameContainer a b; length (TrimSpace a) < 12 \<or> length (TrimSpace b) < 12\<rbrakk> \<Longrightarrow>
     EqualFold (TrimSpace a) (TrimSpace b)"
  by (auto simp: sameContainer_def EqualFold_def Let_def split: if_splits)

section \<open>Bypass rules\<close>

definition BypassMatch :: "bypass_rule list \<Rightarrow> proc_info \<Rightarrow> time \<Rightarrow> string \<Rightarrow> bool" where
  "BypassMatch rules info now bootID \<longleftrightarrow>
     (\<exists>rule\<in>set rules.
        if byp_Revoked rule \<or> \<not> Before now (byp_ExpiresAt rule) then False
        else if byp_Type rule = BypassPID then
          bootID \<noteq> [] \<and> byp_BootID rule = bootID \<and> byp_PID rule = pi_PID info \<and>
          byp_StartTime rule \<noteq> 0 \<and> byp_StartTime rule = pi_StartTime info
        else if byp_Type rule = BypassCommand then
          byp_UID rule = 0 \<and> pi_UID info = 0 \<and> byp_Command rule \<noteq> [] \<and>
          byp_Command rule = pi_CommandPath info
        else False)"

section \<open>The rows that govern a GPU\<close>

definition usesGPUResources :: "gpu_process \<Rightarrow> bool" where
  "usesGPUResources p \<longleftrightarrow> gp_MemBytesUnknown p \<or> gp_MemBytes p > 0"

definition activeReservationsForGPU :: "reservation list \<Rightarrow> int \<Rightarrow> time \<Rightarrow> reservation list" where
  "activeReservationsForGPU rs gpu now =
     filter (\<lambda>r. res_GPU r = gpu \<and> ReservationActiveAt r now) rs"

definition activeLeasesForGPU :: "lease list \<Rightarrow> int \<Rightarrow> time \<Rightarrow> lease list" where
  "activeLeasesForGPU ls gpu now =
     filter (\<lambda>l. lease_GPU l = gpu \<and> lease_Active l \<and> Before now (lease_ExpiresAt l)) ls"

definition activeTokenByHash :: "token list \<Rightarrow> string \<Rightarrow> time \<Rightarrow> token option" where
  "activeTokenByHash ts hash now =
     map_option (\<lambda>t. t\<lparr>tok_Mode := NormalizeTokenMode (tok_Mode t)\<rparr>)
       (find (\<lambda>t. \<not> (tok_Hash t \<noteq> hash \<or> tok_Revoked t) \<and>
                  \<not> (timeIsSet (tok_ExpiresAt t) \<and> \<not> Before now (tok_ExpiresAt t))) ts)"

definition activeSoftClaimsForGPU :: "state \<Rightarrow> int \<Rightarrow> time \<Rightarrow> soft_claim list" where
  "activeSoftClaimsForGPU st gpu now =
     filter (\<lambda>c. claim_GPU c = gpu \<and>
       (case activeTokenByHash (st_Tokens st) (claim_TokenHash c) now of
          None \<Rightarrow> False
        | Some t \<Rightarrow> NormalizeTokenMode (tok_Mode t) = TokenModeClaimed \<or>
                    NormalizeTokenMode (tok_Mode t) = TokenModeManaged)) (st_SoftClaims st)"

definition holder_text :: "string \<Rightarrow> (string \<times> string) list \<Rightarrow> string" where
  "holder_text label rows =
     (if rows = [] then ''unknown''
      else str_Join (map (\<lambda>(i, h).
        let holder = (if TrimSpace h = [] then ''unknown'' else TrimSpace h)
        in if i \<noteq> [] then holder @ '' ('' @ label @ ''='' @ i @ '')'' else holder) rows) '', '')"

definition reservationHolder :: "reservation list \<Rightarrow> string" where
  "reservationHolder rs = holder_text ''reservation'' (map (\<lambda>r. (res_ID r, res_Holder r)) rs)"

definition leaseHolder :: "lease list \<Rightarrow> string" where
  "leaseHolder ls = holder_text ''lease'' (map (\<lambda>l. (lease_ID l, lease_Holder l)) ls)"

definition firstReservationID :: "reservation list \<Rightarrow> string" where
  "firstReservationID rs = (case rs of [] \<Rightarrow> [] | r # _ \<Rightarrow> res_ID r)"

definition firstLeaseID :: "lease list \<Rightarrow> string" where
  "firstLeaseID ls = (case ls of [] \<Rightarrow> [] | l # _ \<Rightarrow> lease_ID l)"

definition tokenHashForReservations :: "reservation list \<Rightarrow> string" where
  "tokenHashForReservations rs = (case rs of [] \<Rightarrow> [] | r # _ \<Rightarrow> res_TokenHash r)"

lemma activeTokenByHash_Some:
  "activeTokenByHash ts h now = Some t \<Longrightarrow>
     \<exists>t0\<in>set ts. tok_Hash t0 = h \<and> tokenActiveAt t0 now \<and>
       t = t0\<lparr>tok_Mode := NormalizeTokenMode (tok_Mode t0)\<rparr>"
  by (auto simp: activeTokenByHash_def token_time_defs dest!: find_SomeD)

text \<open>In an exclusive state at most one reservation governs a GPU.\<close>

lemma exclusive_one_governs:
  assumes "exclusive rs"
  shows "length (activeReservationsForGPU rs gpu now) \<le> 1"
proof (rule ccontr)
  assume "\<not> ?thesis"
  then have two: "0 < length (activeReservationsForGPU rs gpu now)"
      "1 < length (activeReservationsForGPU rs gpu now)" by auto
  let ?xs = "activeReservationsForGPU rs gpu now"
  have ex: "exclusive ?xs" using assms by (simp add: activeReservationsForGPU_def exclusive_filter)
  have "?xs ! 0 \<in> set ?xs" "?xs ! 1 \<in> set ?xs" using two by (auto intro: nth_mem)
  then have "ReservationActiveAt (?xs ! 0) now" "ReservationActiveAt (?xs ! 1) now"
      "res_GPU (?xs ! 0) = res_GPU (?xs ! 1)"
    by (simp_all add: activeReservationsForGPU_def)
  with exclusive_active_unique [OF ex two] show False by simp
qed

end
