(* ===== verification/Authorize.thy ===== *)
theory Authorize
  imports Scopes
begin

text \<open>
  Package \<^verbatim>\<open>internal/enforce\<close>, the matching of processes with authorizations, leases and soft
  claims. What a pass observes of the outside (a cancelled context, processes, container
  runtimes, user names, the outcome of a kill) may change from one call to the next, so every
  call site reads an observation of its own: a \<open>world\<close> maps the path of a call site, a list
  of loop positions, to an observation. The theorems hold for every world.
\<close>

section \<open>Observations\<close>

record obs =
  ob_ctx :: "error option"
  ob_Exists :: "int \<Rightarrow> bool"
  ob_Info :: "int \<Rightarrow> proc_info result"
  ob_DockerName :: "string \<Rightarrow> string result"
  ob_Namespace :: "string \<Rightarrow> string result"
  ob_Username :: "int \<Rightarrow> string result"
  ob_ValidateKill :: "gpu_process \<Rightarrow> error option"
  ob_Kill :: "proc_info \<Rightarrow> string \<Rightarrow> error option"

type_synonym world = "nat list \<Rightarrow> obs"

definition sub :: "world \<Rightarrow> nat \<Rightarrow> world" where "sub w i = (\<lambda>p. w (i # p))"

text \<open>The part of a world below a call site.\<close>

definition at_site :: "world \<Rightarrow> nat list \<Rightarrow> world" where "at_site w p = (\<lambda>q. w (p @ q))"

lemma at_site_simps [simp]:
  "at_site w [] = w" "at_site (sub w i) p = at_site w (i # p)"
  "at_site (at_site w p) q = at_site w (p @ q)"
  by (simp_all add: at_site_def sub_def)

lemma sub_at_site: "sub w i = at_site w [i]"
  by (simp add: at_site_def sub_def)

text \<open>
  An \<^verbatim>\<open>Authorizer\<close>: which of its optional collaborators are set, and the token table and the
  list of pending kills that \<^verbatim>\<open>Enforce\<close> gives its planner. \<open>az_errText\<close> is the text of an
  error.
\<close>

record authorizer =
  az_Proc :: bool
  az_Runtime :: bool
  az_Killer :: bool
  az_ValidateKill :: bool
  az_BootID :: string
  az_Now :: time
  az_DryRun :: bool
  az_pendingKills :: bool
  az_activeTokens :: "(string \<Rightarrow> token option) option"
  az_errText :: "error \<Rightarrow> string"

record process_view =
  vw_Process :: gpu_process
  vw_Info :: proc_info
  vw_Bypassed :: bool

section \<open>Scopes\<close>

definition authorizationScopeMatchesForEviction ::
  "authorizer \<Rightarrow> obs \<Rightarrow> authorization \<Rightarrow> proc_info \<Rightarrow> bool result" where
  "authorizationScopeMatchesForEviction az ob a info =
     (if auth_Mode a = ModeBare then
        Inr (bareCgroupMatches (pi_Cgroup info) (auth_CgroupRel a) (auth_CgroupPath a))
      else if auth_Mode a = ModeDocker then
        (if auth_ContainerPattern a \<noteq> [] then
           (if pi_ContainerID info = [] then Inr False
            else if \<not> az_Runtime az
            then Inl (ErrID ''resolve docker scope: runtime resolver is unavailable'' (auth_ID a))
            else
              (case ob_DockerName ob (pi_ContainerID info) of
                 Inl e \<Rightarrow> if errors_Is e ErrNotFound then Inr False
                          else Inl (ErrWrap ''resolve docker scope for authorization'' (auth_ID a) e)
               | Inr name \<Rightarrow> Inr (wildcardMatch (auth_ContainerPattern a) name)))
         else Inr (sameContainer (pi_ContainerID info) (auth_ContainerID a)))
      else if auth_Mode a = ModeK8s then
        (if pi_ContainerID info = [] then Inr False
         else if \<not> az_Runtime az
         then Inl (ErrID ''resolve k8s scope: runtime resolver is unavailable'' (auth_ID a))
         else
           (case ob_Namespace ob (pi_ContainerID info) of
              Inl e \<Rightarrow> if errors_Is e ErrNotFound then Inr False
                       else Inl (ErrWrap ''resolve k8s scope for authorization'' (auth_ID a) e)
            | Inr ns \<Rightarrow> Inr (wildcardMatch (auth_Namespace a) ns)))
      else if auth_Mode a = ModeUser then
        (if pi_UID info < 0
         then Inl (ErrID ''resolve user scope: process uid is unavailable'' (auth_ID a))
         else if auth_UID a \<ge> 0 then Inr (pi_UID info = auth_UID a)
         else
           (case (if pi_Username info = [] then ob_Username ob (pi_UID info)
                  else Inr (pi_Username info)) of
              Inl e \<Rightarrow> Inl (ErrWrap ''resolve user scope for authorization'' (auth_ID a) e)
            | Inr username \<Rightarrow>
                Inr (auth_Username a \<noteq> [] \<and> wildcardMatch (auth_Username a) username)))
      else Inr False)"

definition authorizationMatchesChecked ::
  "authorizer \<Rightarrow> obs \<Rightarrow> authorization \<Rightarrow> int \<Rightarrow> proc_info \<Rightarrow> time \<Rightarrow> bool result" where
  "authorizationMatchesChecked az ob a gpu info now =
     (if \<not> auth_Active a \<or> auth_Revoked a \<or> authorizationExpired a now then Inr False
      else authorizationScopeMatchesForEviction az ob a info)"

definition leaseScopeMatchesForEviction ::
  "authorizer \<Rightarrow> obs \<Rightarrow> lease \<Rightarrow> proc_info \<Rightarrow> bool result" where
  "leaseScopeMatchesForEviction az ob l info =
     (if lease_Mode l = ModeBare then
        Inr (bareCgroupMatches (pi_Cgroup info) (lease_CgroupRel l) (lease_CgroupPath l))
      else if lease_Mode l = ModeDocker then
        Inr (sameContainer (pi_ContainerID info) (lease_ContainerID l))
      else if lease_Mode l = ModeK8s then
        (if pi_ContainerID info = [] then Inr False
         else if \<not> az_Runtime az
         then Inl (ErrID ''resolve k8s scope: runtime resolver is unavailable'' (lease_ID l))
         else
           (case ob_Namespace ob (pi_ContainerID info) of
              Inl e \<Rightarrow> if errors_Is e ErrNotFound then Inr False
                       else Inl (ErrWrap ''resolve k8s scope for lease'' (lease_ID l) e)
            | Inr ns \<Rightarrow> Inr (ns = lease_Namespace l)))
      else Inr False)"

definition leaseMatchesChecked ::
  "authorizer \<Rightarrow> obs \<Rightarrow> lease \<Rightarrow> proc_info \<Rightarrow> time \<Rightarrow> bool result" where
  "leaseMatchesChecked az ob l info now =
     (if \<not> lease_Active l \<or> \<not> Before now (lease_ExpiresAt l) then Inr False
      else leaseScopeMatchesForEviction az ob l info)"

section \<open>Matching one process\<close>

text \<open>
  The three outcomes of \<^verbatim>\<open>(value, ok, err)\<close>: a match, no match, and no match because
  something could not be resolved.
\<close>

datatype 'a matching = Matched 'a | NoMatch | Unresolved error

definition no_match :: "error list \<Rightarrow> 'a matching" where
  "no_match errs =
     (case errors_Join (map Some errs) of None \<Rightarrow> NoMatch | Some e \<Rightarrow> Unresolved e)"

text \<open>
  The checks of \<^verbatim>\<open>matchAnyAuthorization\<close> before the scope is looked at: the authorization is
  active, its token passes the filter and is usable, of the version the authorization was
  issued for if it is managed, and of an accepted mode.
\<close>

definition token_of :: "authorizer \<Rightarrow> state \<Rightarrow> string \<Rightarrow> time \<Rightarrow> token option" where
  "token_of az st h now =
     (case az_activeTokens az of
        None \<Rightarrow> activeTokenByHash (st_Tokens st) h now
      | Some m \<Rightarrow> m h)"

definition candidate ::
  "authorizer \<Rightarrow> state \<Rightarrow> string list option \<Rightarrow> string \<Rightarrow> time \<Rightarrow> authorization \<Rightarrow>
   authorization option" where
  "candidate az st tokenFilter tokenMode now a =
     (if \<not> auth_Active a \<or> auth_Revoked a \<or> authorizationExpired a now then None
      else if (case tokenFilter of None \<Rightarrow> False | Some hs \<Rightarrow> auth_TokenHash a \<notin> set hs) then None
      else
        (case token_of az st (auth_TokenHash a) now of
           None \<Rightarrow> None
         | Some t \<Rightarrow>
             if tok_Revoked t \<or> (timeIsSet (tok_ExpiresAt t) \<and> \<not> Before now (tok_ExpiresAt t)) then None
             else if tok_Managed t \<and> auth_TokenVersion a \<noteq> tok_Version t then None
             else
               let mode = NormalizeTokenMode (tok_Mode t) in
               if tokenMode \<noteq> [] \<and> mode \<noteq> tokenMode \<and>
                  \<not> (tokenMode = TokenModeClaimed \<and> mode = TokenModeManaged) then None
               else Some (a\<lparr>auth_TokenMode := mode\<rparr>)))"

fun match_authorizations ::
  "authorizer \<Rightarrow> world \<Rightarrow> state \<Rightarrow> int \<Rightarrow> proc_info \<Rightarrow> string list option \<Rightarrow> string \<Rightarrow> time \<Rightarrow>
   nat \<Rightarrow> error list \<Rightarrow> authorization list \<Rightarrow> authorization matching" where
  "match_authorizations az w st gpu info filt mode now i errs [] = no_match errs"
| "match_authorizations az w st gpu info filt mode now i errs (a # as) =
     (case ob_ctx (w [i]) of
        Some e \<Rightarrow> no_match (errs @ [e])
      | None \<Rightarrow>
          (case candidate az st filt mode now a of
             None \<Rightarrow> match_authorizations az w st gpu info filt mode now (Suc i) errs as
           | Some a' \<Rightarrow>
               (case authorizationMatchesChecked az (w [i]) a' gpu info now of
                  Inl e \<Rightarrow> match_authorizations az w st gpu info filt mode now (Suc i) (errs @ [e]) as
                | Inr ok \<Rightarrow>
                    if ok then Matched a'
                    else match_authorizations az w st gpu info filt mode now (Suc i) errs as)))"

definition matchAnyAuthorization ::
  "authorizer \<Rightarrow> world \<Rightarrow> state \<Rightarrow> int \<Rightarrow> proc_info \<Rightarrow> string list option \<Rightarrow> string \<Rightarrow> time \<Rightarrow>
   authorization matching" where
  "matchAnyAuthorization az w st gpu info filt mode now =
     match_authorizations az w st gpu info filt mode now 0 [] (st_Authorizations st)"

fun match_leases ::
  "authorizer \<Rightarrow> world \<Rightarrow> proc_info \<Rightarrow> time \<Rightarrow> nat \<Rightarrow> error list \<Rightarrow> lease list \<Rightarrow> string matching" where
  "match_leases az w info now i errs [] = no_match errs"
| "match_leases az w info now i errs (l # ls) =
     (case ob_ctx (w [i]) of
        Some e \<Rightarrow> no_match (errs @ [e])
      | None \<Rightarrow>
          (case leaseMatchesChecked az (w [i]) l info now of
             Inl e \<Rightarrow> match_leases az w info now (Suc i) (errs @ [e]) ls
           | Inr ok \<Rightarrow>
               if ok then Matched (lease_ID l) else match_leases az w info now (Suc i) errs ls))"

definition matchesAnyLease ::
  "authorizer \<Rightarrow> world \<Rightarrow> lease list \<Rightarrow> proc_info \<Rightarrow> time \<Rightarrow> string matching" where
  "matchesAnyLease az w leases info now = match_leases az w info now 0 [] leases"

fun claim_views ::
  "authorizer \<Rightarrow> world \<Rightarrow> state \<Rightarrow> soft_claim \<Rightarrow> time \<Rightarrow> nat \<Rightarrow> process_view list \<Rightarrow> bool result" where
  "claim_views az w st claim now i [] = Inr False"
| "claim_views az w st claim now i (v # vs) =
     (case ob_ctx (w [i]) of
        Some e \<Rightarrow> Inl e
      | None \<Rightarrow>
          if vw_Bypassed v then claim_views az w st claim now (Suc i) vs
          else
            (case matchAnyAuthorization az (sub w i) st (claim_GPU claim) (vw_Info v)
                    (Some [claim_TokenHash claim]) TokenModeClaimed now of
               Unresolved e \<Rightarrow> Inl e
             | Matched _ \<Rightarrow> Inr True
             | NoMatch \<Rightarrow> claim_views az w st claim now (Suc i) vs))"

definition claimHasMatchingProcess ::
  "authorizer \<Rightarrow> world \<Rightarrow> state \<Rightarrow> soft_claim \<Rightarrow> process_view list \<Rightarrow> time \<Rightarrow> bool result" where
  "claimHasMatchingProcess az w st claim views now =
     (if claim_TokenHash claim = [] then Inr False else claim_views az w st claim now 0 views)"

section \<open>What a match means\<close>

lemma no_match_Nil [simp]: "no_match [] = NoMatch"
  by (simp add: no_match_def)

lemma no_match_Cons [simp]: "no_match (e # es) = Unresolved (ErrJoined (e # es))"
  by (simp add: no_match_def errors_Join_def map_filter_simps List.map_filter_def)

lemma no_match_not_Matched [simp]: "no_match es \<noteq> Matched a"
  by (cases es) auto

lemma no_match_NoMatch [simp]: "no_match es = NoMatch \<longleftrightarrow> es = []"
  by (cases es) auto

text \<open>An authorization that lets a process through.\<close>

definition authorizes ::
  "authorizer \<Rightarrow> state \<Rightarrow> string list option \<Rightarrow> string \<Rightarrow> time \<Rightarrow> obs \<Rightarrow> int \<Rightarrow> proc_info \<Rightarrow>
   authorization \<Rightarrow> authorization \<Rightarrow> bool" where
  "authorizes az st filt mode now ob gpu info a a' \<longleftrightarrow>
     candidate az st filt mode now a = Some a' \<and>
     authorizationMatchesChecked az ob a' gpu info now = Inr True"

lemma match_authorizations_Matched:
  "match_authorizations az w st gpu info filt mode now i errs as = Matched a' \<Longrightarrow>
     \<exists>a j. a \<in> set as \<and> authorizes az st filt mode now (w [j]) gpu info a a'"
proof (induction as arbitrary: i errs)
  case (Cons a as)
  then show ?case
    by (fastforce simp: authorizes_def split: option.splits sum.splits if_splits)
qed simp

lemma match_authorizations_NoMatch:
  "match_authorizations az w st gpu info filt mode now i errs as = NoMatch \<Longrightarrow>
     errs = [] \<and> (\<forall>j<length as. ob_ctx (w [i + j]) = None \<and>
       (\<forall>a'. candidate az st filt mode now (as ! j) = Some a' \<longrightarrow>
          authorizationMatchesChecked az (w [i + j]) a' gpu info now = Inr False))"
proof (induction as arbitrary: i errs)
  case (Cons a as)
  have "errs = [] \<and> ob_ctx (w [i]) = None \<and>
      (\<forall>a'. candidate az st filt mode now a = Some a' \<longrightarrow>
         authorizationMatchesChecked az (w [i]) a' gpu info now = Inr False) \<and>
      (\<forall>j<length as. ob_ctx (w [Suc i + j]) = None \<and>
       (\<forall>a'. candidate az st filt mode now (as ! j) = Some a' \<longrightarrow>
          authorizationMatchesChecked az (w [Suc i + j]) a' gpu info now = Inr False))"
    using Cons.prems by (auto split: option.splits sum.splits if_splits dest!: Cons.IH)
  then show ?case by (auto simp: less_Suc_eq_0_disj)
qed simp

lemma matchAny_Matched:
  assumes "matchAnyAuthorization az w st gpu info filt mode now = Matched a'"
  shows "\<exists>a\<in>set (st_Authorizations st). \<exists>j. authorizes az st filt mode now (w [j]) gpu info a a'"
  using match_authorizations_Matched [OF assms [unfolded matchAnyAuthorization_def]] by blast

lemma matchAny_NoMatch:
  assumes "matchAnyAuthorization az w st gpu info filt mode now = NoMatch"
    and "a \<in> set (st_Authorizations st)" "candidate az st filt mode now a = Some a'"
  shows "\<exists>j. authorizationMatchesChecked az (w [j]) a' gpu info now = Inr False"
  using match_authorizations_NoMatch [OF assms(1) [unfolded matchAnyAuthorization_def]] assms(2,3)
  by (metis in_set_conv_nth)

text \<open>
  In a world that does not change during the search, with no cancellation and no resolution
  failure, the search finds a match exactly when there is one.
\<close>

definition steady :: "world \<Rightarrow> obs \<Rightarrow> bool" where
  "steady w ob \<longleftrightarrow> (\<forall>p. w p = ob) \<and> ob_ctx ob = None"

lemma steady_sub [simp]: "steady w ob \<Longrightarrow> steady (sub w i) ob"
  by (simp add: steady_def sub_def)

lemma match_authorizations_steady:
  assumes "steady w ob"
    and "\<And>a a'. \<lbrakk>a \<in> set as; candidate az st filt mode now a = Some a'\<rbrakk> \<Longrightarrow>
      \<exists>b. authorizationMatchesChecked az ob a' gpu info now = Inr b"
  shows "match_authorizations az w st gpu info filt mode now i [] as =
    (case find (\<lambda>a. \<exists>a'. candidate az st filt mode now a = Some a' \<and>
            authorizationMatchesChecked az ob a' gpu info now = Inr True) as of
       None \<Rightarrow> NoMatch
     | Some a \<Rightarrow> Matched (the (candidate az st filt mode now a)))"
  using assms(2)
proof (induction as arbitrary: i)
  case (Cons a as)
  have w: "w [i] = ob" "ob_ctx ob = None" using assms(1) by (auto simp: steady_def)
  have IH: "match_authorizations az w st gpu info filt mode now (Suc i) [] as =
    (case find (\<lambda>a. \<exists>a'. candidate az st filt mode now a = Some a' \<and>
            authorizationMatchesChecked az ob a' gpu info now = Inr True) as of
       None \<Rightarrow> NoMatch
     | Some a \<Rightarrow> Matched (the (candidate az st filt mode now a)))"
    by (rule Cons.IH) (auto intro: Cons.prems)
  show ?case
  proof (cases "candidate az st filt mode now a")
    case None
    with w IH show ?thesis by simp
  next
    case (Some a')
    then obtain b where "authorizationMatchesChecked az ob a' gpu info now = Inr b"
      using Cons.prems [of a a'] by auto
    with Some w IH show ?thesis by (cases b) auto
  qed
qed simp

text \<open>The candidate filter: what it demands of the authorization and its token.\<close>

lemma candidate_Some:
  assumes "candidate az st filt mode now a = Some a'"
  obtains t where "authorizationActiveAt a now" "token_of az st (auth_TokenHash a) now = Some t"
    "tokenActiveAt t now" "tok_Managed t \<longrightarrow> auth_TokenVersion a = tok_Version t"
    "\<And>hs. filt = Some hs \<Longrightarrow> auth_TokenHash a \<in> set hs"
    "a' = a\<lparr>auth_TokenMode := NormalizeTokenMode (tok_Mode t)\<rparr>"
    "mode \<noteq> [] \<longrightarrow> auth_TokenMode a' = mode \<or> (mode = TokenModeClaimed \<and> auth_TokenMode a' = TokenModeManaged)"
  using assms
  by (auto simp: candidate_def authorizationActiveAt_def token_time_defs Let_def
      split: if_splits option.splits)

lemma authorizationMatches_TokenMode [simp]:
  "authorizationMatchesChecked az ob (a\<lparr>auth_TokenMode := m\<rparr>) gpu info now =
   authorizationMatchesChecked az ob a gpu info now"
  by (simp add: authorizationMatchesChecked_def authorizationScopeMatchesForEviction_def
      authorizationExpired_def cong: sum.case_cong if_cong)

end
