(* ===== verification/Enforce.thy ===== *)
theory Enforce
  imports Authorize
begin

text \<open>
  One enforcement pass (\<^verbatim>\<open>Authorizer.Enforce\<close>): sample the processes, decide GPU by GPU on the
  reservation, lease or soft claim that governs it, plan at most eight kills, and carry them
  out. A pass threads the decisions it made, the processes it targeted, the kills it planned,
  the audit events it emitted and the calls it made to the killer.
\<close>

section \<open>Passes\<close>

record decision =
  de_Process :: gpu_process
  de_Info :: proc_info
  de_Action :: string
  de_Reason :: string
  de_LeaseID :: string
  de_AuthID :: string
  de_ClaimID :: string
  de_Holder :: string
  de_TokenHash :: string
  de_Claim :: soft_claim

definition zero_decision :: decision where
  "zero_decision = \<lparr>de_Process = zero_process, de_Info = zero_info, de_Action = [], de_Reason = [],
     de_LeaseID = [], de_AuthID = [], de_ClaimID = [], de_Holder = [], de_TokenHash = [],
     de_Claim = zero_claim\<rparr>"

record pending_kill =
  pk_view :: process_view
  pk_reason :: string
  pk_leaseID :: string
  pk_authID :: string
  pk_holder :: string
  pk_tokenHash :: string
  pk_now :: time

record pass =
  pa_decisions :: "decision list"
  pa_targeted :: "int list"
  pa_pending :: "pending_kill list"
  pa_audits :: "audit_event list"
  pa_calls :: "(proc_info \<times> string) list"

definition new_pass :: pass where
  "new_pass = \<lparr>pa_decisions = [], pa_targeted = [], pa_pending = [], pa_audits = [], pa_calls = []\<rparr>"

definition maxKillsPerEnforcementPass :: nat where "maxKillsPerEnforcementPass = 8"

definition decide :: "decision \<Rightarrow> pass \<Rightarrow> pass" where
  "decide d pa = pa\<lparr>pa_decisions := pa_decisions pa @ [d]\<rparr>"

definition audit :: "audit_event \<Rightarrow> pass \<Rightarrow> pass" where
  "audit ev pa = pa\<lparr>pa_audits := pa_audits pa @ [ev]\<rparr>"

definition view_decision :: "process_view \<Rightarrow> string \<Rightarrow> string \<Rightarrow> decision" where
  "view_decision v action reason =
     zero_decision\<lparr>de_Process := vw_Process v, de_Info := vw_Info v, de_Action := action,
                   de_Reason := reason\<rparr>"

abbreviation view_pid :: "process_view \<Rightarrow> int" where "view_pid v \<equiv> gp_PID (vw_Process v)"

section \<open>Kills\<close>

definition kill_message :: "pending_kill \<Rightarrow> string" where
  "kill_message rq = ''gpuardian killed pid='' @ int_text (view_pid (pk_view rq)) @ '' on gpu='' @
     int_text (gp_GPU (vw_Process (pk_view rq))) @ '': '' @ pk_reason rq"

definition performKill :: "authorizer \<Rightarrow> obs \<Rightarrow> pending_kill \<Rightarrow> pass \<Rightarrow> error option \<times> pass" where
  "performKill az ob rq pa =
     (if az_DryRun az \<or> \<not> az_Killer az then (None, pa)
      else
        (case (if az_ValidateKill az then ob_ValidateKill ob (vw_Process (pk_view rq)) else None) of
           Some e \<Rightarrow> (Some (ErrWrap ''revalidate GPU process before kill'' [] e), pa)
         | None \<Rightarrow>
             (ob_Kill ob (vw_Info (pk_view rq)) (kill_message rq),
              pa\<lparr>pa_calls := pa_calls pa @ [(vw_Info (pk_view rq), kill_message rq)]\<rparr>)))"

definition auditKill :: "authorizer \<Rightarrow> pending_kill \<Rightarrow> error option \<Rightarrow> pass \<Rightarrow> pass" where
  "auditKill az rq killErr =
     (let event = \<lparr>ev_Time = pk_now rq, ev_Kind = [], ev_Message = pk_reason rq,
                   ev_GPU = gp_GPU (vw_Process (pk_view rq)), ev_PID = view_pid (pk_view rq),
                   ev_LeaseID = pk_leaseID rq, ev_User = pk_holder rq\<rparr>
      in if az_DryRun az then audit (event\<lparr>ev_Kind := ''kill_dry_run''\<rparr>)
         else
           (case killErr of
              Some e \<Rightarrow> audit (event\<lparr>ev_Kind := ''kill_failed'',
                                     ev_Message := pk_reason rq @ '': '' @ az_errText az e\<rparr>)
            | None \<Rightarrow> audit (event\<lparr>ev_Kind := ''kill''\<rparr>)))"

definition kill ::
  "authorizer \<Rightarrow> obs \<Rightarrow> process_view \<Rightarrow> string \<Rightarrow> string \<Rightarrow> string \<Rightarrow> string \<Rightarrow> string \<Rightarrow> time \<Rightarrow> pass \<Rightarrow>
   error option \<times> pass" where
  "kill az ob v reason leaseID authID holder tokenHash now pa =
     (let d = (view_decision v ''kill'' reason)
                \<lparr>de_LeaseID := leaseID, de_AuthID := authID, de_Holder := holder,
                 de_TokenHash := tokenHash\<rparr>;
          planning = (az_pendingKills az \<and> \<not> az_DryRun az)
      in if planning \<and> length (pa_pending pa) \<ge> maxKillsPerEnforcementPass
         then (None, decide (d\<lparr>de_Action := ''skip'',
                 de_Reason := ''kill budget exhausted; retry on next enforcement pass''\<rparr>) pa)
         else
           let rq = \<lparr>pk_view = v, pk_reason = reason, pk_leaseID = leaseID, pk_authID = authID,
                     pk_holder = holder, pk_tokenHash = tokenHash, pk_now = now\<rparr>;
               pa1 = decide d pa
           in if planning then (None, pa1\<lparr>pa_pending := pa_pending pa1 @ [rq]\<rparr>)
              else (case performKill az ob rq pa1 of (e, pa2) \<Rightarrow> (e, auditKill az rq e pa2)))"

definition killOnce ::
  "authorizer \<Rightarrow> obs \<Rightarrow> process_view \<Rightarrow> string \<Rightarrow> string \<Rightarrow> string \<Rightarrow> string \<Rightarrow> string \<Rightarrow> time \<Rightarrow> pass \<Rightarrow>
   error option \<times> pass" where
  "killOnce az ob v reason leaseID authID holder tokenHash now pa =
     (if view_pid v \<in> set (pa_targeted pa)
      then (None, decide (view_decision v ''skip'' ''pid already targeted by enforcement'') pa)
      else kill az ob v reason leaseID authID holder tokenHash now
             (pa\<lparr>pa_targeted := view_pid v # pa_targeted pa\<rparr>))"

text \<open>
  \<open>executePendingKills\<close>: every request is performed unless the context is done, by the calling
  goroutine or by up to eight workers; the results are then audited in the order of the
  requests. Workers share nothing but the result slots, so the order among them shows in
  none of the results; the log of calls lists them by request.
\<close>

fun run_kills ::
  "authorizer \<Rightarrow> world \<Rightarrow> nat \<Rightarrow> pending_kill list \<Rightarrow> pass \<Rightarrow> error option list \<times> pass" where
  "run_kills az w i [] pa = ([], pa)"
| "run_kills az w i (rq # rqs) pa =
     (case (case ob_ctx (w [i]) of Some e \<Rightarrow> (Some e, pa) | None \<Rightarrow> performKill az (w [i]) rq pa) of
        (r, pa1) \<Rightarrow> (case run_kills az w (Suc i) rqs pa1 of (rs, pa2) \<Rightarrow> (r # rs, pa2)))"

definition executePendingKills ::
  "authorizer \<Rightarrow> world \<Rightarrow> pending_kill list \<Rightarrow> pass \<Rightarrow> error option \<times> pass" where
  "executePendingKills az w pending pa =
     (if pending = [] then (None, pa)
      else
        (case run_kills az w 0 pending pa of
           (results, pa1) \<Rightarrow>
             (errors_Join results,
              fold (\<lambda>(rq, r). auditKill az rq r) (zip pending results) pa1)))"

section \<open>GPUs under a reservation or a lease\<close>

definition join_with :: "error list \<Rightarrow> error option" where
  "join_with errs = errors_Join (map Some errs)"

definition add_error :: "error list \<Rightarrow> error option \<Rightarrow> error list" where
  "add_error errs e = (case e of None \<Rightarrow> errs | Some x \<Rightarrow> errs @ [x])"

definition access_reason :: "int \<Rightarrow> process_view \<Rightarrow> string \<Rightarrow> string" where
  "access_reason gpu v suffix_text =
     ''unauthorized GPU access on gpu='' @ int_text gpu @ '' pid='' @ int_text (view_pid v) @
     ''; gpu is '' @ suffix_text"

fun hard_views ::
  "authorizer \<Rightarrow> world \<Rightarrow> state \<Rightarrow> int \<Rightarrow> reservation list \<Rightarrow> time \<Rightarrow> nat \<Rightarrow> error list \<Rightarrow>
   process_view list \<Rightarrow> pass \<Rightarrow> error option \<times> pass" where
  "hard_views az w st gpu rs now i errs [] pa = (join_with errs, pa)"
| "hard_views az w st gpu rs now i errs (v # vs) pa =
     (case ob_ctx (w [i]) of
        Some e \<Rightarrow> (join_with (errs @ [e]), pa)
      | None \<Rightarrow>
          if vw_Bypassed v then hard_views az w st gpu rs now (Suc i) errs vs pa
          else
            (case matchAnyAuthorization az (sub w i) st gpu (vw_Info v)
                    (Some (map res_TokenHash rs)) [] now of
               Unresolved e \<Rightarrow>
                 hard_views az w st gpu rs now (Suc i) (errs @ [e]) vs
                   (decide (view_decision v ''skip'' ''authorization resolution unavailable'') pa)
             | Matched a \<Rightarrow>
                 hard_views az w st gpu rs now (Suc i) errs vs
                   (decide ((view_decision v ''allow'' ''authorization'')
                      \<lparr>de_AuthID := auth_ID a, de_Holder := auth_Holder a,
                       de_TokenHash := auth_TokenHash a\<rparr>) pa)
             | NoMatch \<Rightarrow>
                 (case killOnce az (w [i, 0]) v
                         (access_reason gpu v (''reserved by '' @ reservationHolder rs))
                         (firstReservationID rs) [] (reservationHolder rs)
                         (tokenHashForReservations rs) now pa of
                    (e, pa1) \<Rightarrow> hard_views az w st gpu rs now (Suc i) (add_error errs e) vs pa1)))"

definition enforceHard ::
  "authorizer \<Rightarrow> world \<Rightarrow> state \<Rightarrow> int \<Rightarrow> reservation list \<Rightarrow> process_view list \<Rightarrow> time \<Rightarrow> pass \<Rightarrow>
   error option \<times> pass" where
  "enforceHard az w st gpu rs views now pa = hard_views az w st gpu rs now 0 [] views pa"

fun lease_views ::
  "authorizer \<Rightarrow> world \<Rightarrow> int \<Rightarrow> lease list \<Rightarrow> time \<Rightarrow> nat \<Rightarrow> error list \<Rightarrow>
   process_view list \<Rightarrow> pass \<Rightarrow> error option \<times> pass" where
  "lease_views az w gpu ls now i errs [] pa = (join_with errs, pa)"
| "lease_views az w gpu ls now i errs (v # vs) pa =
     (case ob_ctx (w [i]) of
        Some e \<Rightarrow> (join_with (errs @ [e]), pa)
      | None \<Rightarrow>
          if vw_Bypassed v then lease_views az w gpu ls now (Suc i) errs vs pa
          else
            (case matchesAnyLease az (sub w i) ls (vw_Info v) now of
               Unresolved e \<Rightarrow>
                 lease_views az w gpu ls now (Suc i) (errs @ [e]) vs
                   (decide (view_decision v ''skip'' ''lease resolution unavailable'') pa)
             | Matched leaseID \<Rightarrow>
                 lease_views az w gpu ls now (Suc i) errs vs
                   (decide ((view_decision v ''allow'' ''lease'')
                      \<lparr>de_LeaseID := leaseID, de_Holder := leaseHolder ls\<rparr>) pa)
             | NoMatch \<Rightarrow>
                 (case killOnce az (w [i, 0]) v
                         (access_reason gpu v (''held by '' @ leaseHolder ls))
                         (firstLeaseID ls) [] (leaseHolder ls) [] now pa of
                    (e, pa1) \<Rightarrow> lease_views az w gpu ls now (Suc i) (add_error errs e) vs pa1)))"

definition enforceLegacyLeases ::
  "authorizer \<Rightarrow> world \<Rightarrow> state \<Rightarrow> int \<Rightarrow> lease list \<Rightarrow> process_view list \<Rightarrow> time \<Rightarrow> pass \<Rightarrow>
   error option \<times> pass" where
  "enforceLegacyLeases az w st gpu ls views now pa = lease_views az w gpu ls now 0 [] views pa"

section \<open>GPUs under a soft claim\<close>

text \<open>The processes of a GPU whose claim is still backed by one of them.\<close>

fun claimed_views ::
  "authorizer \<Rightarrow> world \<Rightarrow> state \<Rightarrow> int \<Rightarrow> soft_claim \<Rightarrow> time \<Rightarrow> nat \<Rightarrow> error list \<Rightarrow>
   process_view list \<Rightarrow> pass \<Rightarrow> error option \<times> pass" where
  "claimed_views az w st gpu claim now i errs [] pa = (join_with errs, pa)"
| "claimed_views az w st gpu claim now i errs (v # vs) pa =
     (case ob_ctx (w [i]) of
        Some e \<Rightarrow> (join_with (errs @ [e]), pa)
      | None \<Rightarrow>
          if vw_Bypassed v then claimed_views az w st gpu claim now (Suc i) errs vs pa
          else
            (case matchAnyAuthorization az (sub w i) st gpu (vw_Info v)
                    (Some [claim_TokenHash claim]) TokenModeClaimed now of
               Unresolved e \<Rightarrow> (Some e, pa)
             | Matched a \<Rightarrow>
                 claimed_views az w st gpu claim now (Suc i) errs vs
                   (decide ((view_decision v ''allow'' ''claimed'')
                      \<lparr>de_AuthID := auth_ID a, de_ClaimID := claim_ID claim,
                       de_Holder := auth_Holder a, de_TokenHash := auth_TokenHash a\<rparr>) pa)
             | NoMatch \<Rightarrow>
                 (case killOnce az (w [i, 0]) v
                         (access_reason gpu v (''claimed by '' @ claim_Holder claim))
                         [] (claim_AuthorizationID claim) (claim_Holder claim)
                         (claim_TokenHash claim) now pa of
                    (e, pa1) \<Rightarrow> claimed_views az w st gpu claim now (Suc i) (add_error errs e) vs pa1)))"

text \<open>The processes of a GPU without one, split by whether a claim token authorizes them.\<close>

fun split_views ::
  "authorizer \<Rightarrow> world \<Rightarrow> state \<Rightarrow> int \<Rightarrow> time \<Rightarrow> nat \<Rightarrow> (process_view \<times> authorization) list \<Rightarrow>
   process_view list \<Rightarrow> process_view list \<Rightarrow>
   ((process_view \<times> authorization) list \<times> process_view list) result" where
  "split_views az w st gpu now i auths others [] = Inr (auths, others)"
| "split_views az w st gpu now i auths others (v # vs) =
     (case ob_ctx (w [i]) of
        Some e \<Rightarrow> Inl (ErrJoined [e])
      | None \<Rightarrow>
          if vw_Bypassed v then split_views az w st gpu now (Suc i) auths others vs
          else
            (case matchAnyAuthorization az (sub w i) st gpu (vw_Info v) None TokenModeClaimed now of
               Unresolved e \<Rightarrow> Inl e
             | Matched a \<Rightarrow> split_views az w st gpu now (Suc i) (auths @ [(v, a)]) others vs
             | NoMatch \<Rightarrow> split_views az w st gpu now (Suc i) auths (others @ [v]) vs))"

text \<open>A run of kills whose errors are collected.\<close>

fun kill_all ::
  "(nat \<Rightarrow> 'a \<Rightarrow> pass \<Rightarrow> error option \<times> pass) \<Rightarrow> nat \<Rightarrow> error list \<Rightarrow> 'a list \<Rightarrow> pass \<Rightarrow>
   error list \<times> pass" where
  "kill_all f i errs [] pa = (errs, pa)"
| "kill_all f i errs (x # xs) pa =
     (case f i x pa of (e, pa1) \<Rightarrow> kill_all f (Suc i) (add_error errs e) xs pa1)"

definition soft_reject ::
  "authorizer \<Rightarrow> world \<Rightarrow> int \<Rightarrow> time \<Rightarrow> (process_view \<times> authorization) list \<Rightarrow> process_view list \<Rightarrow>
   pass \<Rightarrow> error option \<times> pass" where
  "soft_reject az w gpu now authorized unauthorized pa =
     (let pa1 = audit \<lparr>ev_Time = now, ev_Kind = ''claim_rejected'',
            ev_Message = ''claimed-mode authorization rejected on gpu='' @ int_text gpu @
              '' because non-authorized GPU processes are already present'',
            ev_GPU = gpu, ev_PID = 0, ev_LeaseID = [],
            ev_User = auth_Holder (snd (hd authorized))\<rparr> pa;
          pa2 = fold (\<lambda>v. decide (view_decision v ''skip'' ''gpu already has non-authorized process''))
            unauthorized pa1
      in case kill_all (\<lambda>i (v, a). killOnce az (w [i]) v
                (''claimed GPU access rejected on gpu='' @ int_text gpu @ '' pid='' @
                 int_text (view_pid v) @ ''; gpu already has non-authorized process'')
                [] (auth_ID a) ''existing GPU process'' (auth_TokenHash a) now)
              0 [] authorized pa2 of
           (errs, pa3) \<Rightarrow> (join_with errs, pa3))"

definition soft_claim_gpu ::
  "authorizer \<Rightarrow> world \<Rightarrow> int \<Rightarrow> time \<Rightarrow> (process_view \<times> authorization) list \<Rightarrow> process_view list \<Rightarrow>
   pass \<Rightarrow> error option \<times> pass" where
  "soft_claim_gpu az w gpu now authorized unauthorized pa =
     (let claimAuth = snd (hd authorized);
          claim = zero_claim\<lparr>claim_GPU := gpu, claim_TokenHash := auth_TokenHash claimAuth,
            claim_AuthorizationID := auth_ID claimAuth, claim_Holder := auth_Holder claimAuth,
            claim_CreatedAt := now, claim_UpdatedAt := now\<rparr>;
          pa1 = decide (zero_decision\<lparr>de_Action := ''claim'', de_Reason := ''claimed'',
            de_AuthID := auth_ID claimAuth, de_Holder := auth_Holder claimAuth,
            de_TokenHash := auth_TokenHash claimAuth, de_Claim := claim\<rparr>) pa;
          pa2 = audit \<lparr>ev_Time = now, ev_Kind = ''claim'', ev_Message = ''GPU claimed'',
            ev_GPU = gpu, ev_PID = 0, ev_LeaseID = [], ev_User = auth_Holder claimAuth\<rparr> pa1;
          stop = (\<lambda>i v. killOnce az (w [i]) v
            (access_reason gpu v (''claimed by '' @ auth_Holder claimAuth))
            [] (auth_ID claimAuth) (auth_Holder claimAuth) (auth_TokenHash claimAuth) now)
      in case kill_all (\<lambda>i (v, a) q.
                if auth_TokenHash a = auth_TokenHash claimAuth
                then (None, decide ((view_decision v ''allow'' ''claimed'')
                       \<lparr>de_AuthID := auth_ID a, de_Holder := auth_Holder a,
                        de_TokenHash := auth_TokenHash a\<rparr>) q)
                else stop i v q) 0 [] authorized pa2 of
           (errs1, pa3) \<Rightarrow>
             (case kill_all stop (length authorized) errs1 unauthorized pa3 of
                (errs2, pa4) \<Rightarrow> (join_with errs2, pa4)))"

definition enforceSoft ::
  "authorizer \<Rightarrow> world \<Rightarrow> state \<Rightarrow> int \<Rightarrow> process_view list \<Rightarrow> time \<Rightarrow> pass \<Rightarrow> error option \<times> pass" where
  "enforceSoft az w st gpu views now pa =
     (let claims = activeSoftClaimsForGPU st gpu now in
      case (if claims = [] then Inr False
            else claimHasMatchingProcess az (sub w 0) st (hd claims) views now) of
        Inl e \<Rightarrow> (Some e, pa)
      | Inr claimMatches \<Rightarrow>
          if claims \<noteq> [] \<and> claimMatches
          then claimed_views az (sub w 1) st gpu (hd claims) now 0 [] views pa
          else
            (case split_views az (sub w 2) st gpu now 0 [] [] views of
               Inl e \<Rightarrow> (Some e, pa)
             | Inr (authorized, unauthorized) \<Rightarrow>
                 if authorized = []
                 then (None, fold (\<lambda>v. decide (view_decision v ''skip''
                         ''gpu has no active claimed authorization'')) unauthorized pa)
                 else if unauthorized \<noteq> []
                 then soft_reject az (sub w 3) gpu now authorized unauthorized pa
                 else soft_claim_gpu az (sub w 4) gpu now authorized unauthorized pa))"

section \<open>The pass\<close>

text \<open>Sampling: the loop over the processes; \<open>Inl\<close> is the early return of a cancelled context.\<close>

fun sample ::
  "authorizer \<Rightarrow> world \<Rightarrow> state \<Rightarrow> time \<Rightarrow> nat \<Rightarrow> gpu_process list \<Rightarrow> process_view list \<Rightarrow> pass \<Rightarrow>
   process_view list result \<times> pass" where
  "sample az w st now i [] views pa = (Inr views, pa)"
| "sample az w st now i (p # ps) views pa =
     (case ob_ctx (w [i]) of
        Some e \<Rightarrow> (Inl (ErrJoined [e]), pa)
      | None \<Rightarrow>
          let skip = (\<lambda>reason. sample az w st now (Suc i) ps views
                (decide (zero_decision\<lparr>de_Process := p, de_Action := ''skip'', de_Reason := reason\<rparr>) pa))
          in if \<not> usesGPUResources p then skip ''no gpu resource usage''
             else if \<not> az_Proc az \<or> \<not> ob_Exists (w [i]) (gp_PID p) then skip ''stale pid''
             else
               (case ob_Info (w [i]) (gp_PID p) of
                  Inl _ \<Rightarrow> skip ''proc info unavailable''
                | Inr info \<Rightarrow>
                    if BypassMatch (st_Bypasses st) info now (az_BootID az)
                    then sample az w st now (Suc i) ps
                           (views @ [\<lparr>vw_Process = p, vw_Info = info, vw_Bypassed = True\<rparr>])
                           (decide (zero_decision\<lparr>de_Process := p, de_Info := info,
                              de_Action := ''allow'', de_Reason := ''bypass''\<rparr>) pa)
                    else sample az w st now (Suc i) ps
                           (views @ [\<lparr>vw_Process = p, vw_Info = info, vw_Bypassed = False\<rparr>]) pa))"

abbreviation view_gpu :: "process_view \<Rightarrow> int" where "view_gpu v \<equiv> gp_GPU (vw_Process v)"

definition views_on :: "process_view list \<Rightarrow> int \<Rightarrow> process_view list" where
  "views_on views gpu = filter (\<lambda>v. view_gpu v = gpu) views"

definition enforce_gpu ::
  "authorizer \<Rightarrow> world \<Rightarrow> state \<Rightarrow> int \<Rightarrow> process_view list \<Rightarrow> time \<Rightarrow> pass \<Rightarrow> error option \<times> pass" where
  "enforce_gpu az w st gpu views now pa =
     (let rs = activeReservationsForGPU (st_Reservations st) gpu now;
          ls = activeLeasesForGPU (st_Leases st) gpu now
      in if rs \<noteq> [] then enforceHard az w st gpu rs views now pa
         else if ls \<noteq> [] then enforceLegacyLeases az w st gpu ls views now pa
         else enforceSoft az w st gpu views now pa)"

text \<open>
  The loop over the GPUs, in the order Go iterates over the map; the flag says whether the
  context stopped it.
\<close>

fun gpu_loop ::
  "authorizer \<Rightarrow> world \<Rightarrow> state \<Rightarrow> time \<Rightarrow> nat \<Rightarrow> error list \<Rightarrow> process_view list \<Rightarrow> int list \<Rightarrow>
   pass \<Rightarrow> bool \<times> error list \<times> pass" where
  "gpu_loop az w st now i errs views [] pa = (False, errs, pa)"
| "gpu_loop az w st now i errs views (gpu # gpus) pa =
     (case ob_ctx (w [i]) of
        Some e \<Rightarrow> (True, errs @ [e], pa)
      | None \<Rightarrow>
          (case enforce_gpu az (sub w i) st gpu (views_on views gpu) now pa of
             (e, pa1) \<Rightarrow> gpu_loop az w st now (Suc i) (add_error errs e) views gpus pa1))"

fun claim_loop ::
  "authorizer \<Rightarrow> world \<Rightarrow> state \<Rightarrow> time \<Rightarrow> nat \<Rightarrow> error list \<Rightarrow> process_view list \<Rightarrow> soft_claim list \<Rightarrow>
   pass \<Rightarrow> error list \<times> pass" where
  "claim_loop az w st now i errs views [] pa = (errs, pa)"
| "claim_loop az w st now i errs views (c # cs) pa =
     (case ob_ctx (w [i]) of
        Some e \<Rightarrow> (errs @ [e], pa)
      | None \<Rightarrow>
          (case claimHasMatchingProcess az (sub w i) st c (views_on views (claim_GPU c)) now of
             Inl e \<Rightarrow> claim_loop az w st now (Suc i) (errs @ [e]) views cs pa
           | Inr True \<Rightarrow> claim_loop az w st now (Suc i) errs views cs pa
           | Inr False \<Rightarrow>
               claim_loop az w st now (Suc i) errs views cs
                 (audit \<lparr>ev_Time = now, ev_Kind = ''claim_released'',
                    ev_Message = ''claimed GPU released after authorized process disappeared'',
                    ev_GPU = claim_GPU c, ev_PID = 0, ev_LeaseID = [], ev_User = claim_Holder c\<rparr>
                   (decide (zero_decision\<lparr>de_Action := ''release_claim'', de_ClaimID := claim_ID c,
                      de_Reason := ''claimed GPU has no matching process''\<rparr>) pa))))"

definition enforce ::
  "authorizer \<Rightarrow> world \<Rightarrow> (int list \<Rightarrow> int list) \<Rightarrow> state \<Rightarrow> gpu_process list \<Rightarrow> pass \<Rightarrow>
   error option \<times> pass" where
  "enforce az w order st processes pa =
     (let now = az_Now az in
      case sample az (sub w 0) st now 0 processes [] pa of
        (Inl e, pa1) \<Rightarrow> (Some e, pa1)
      | (Inr views, pa1) \<Rightarrow>
          (case gpu_loop az (sub w 1) st now 0 [] views (order (remdups (map view_gpu views))) pa1 of
             (True, errs, pa2) \<Rightarrow> (join_with errs, pa2)
           | (False, errs, pa2) \<Rightarrow>
               (case claim_loop az (sub w 2) st now 0 errs views (st_SoftClaims st) pa2 of
                  (errs', pa3) \<Rightarrow> (join_with errs', pa3))))"

definition planner :: "authorizer \<Rightarrow> state \<Rightarrow> authorizer" where
  "planner az st = az\<lparr>az_activeTokens := Some (go_map (map (\<lambda>t. (tok_Hash t, t)) (st_Tokens st))),
                     az_pendingKills := (if az_DryRun az then az_pendingKills az else True)\<rparr>"

definition Enforce ::
  "authorizer \<Rightarrow> world \<Rightarrow> (int list \<Rightarrow> int list) \<Rightarrow> state \<Rightarrow> gpu_process list \<Rightarrow>
   error option \<times> pass" where
  "Enforce az w order st processes =
     (case enforce (planner az st) (sub w 0) order st processes new_pass of
        (planningErr, pa) \<Rightarrow>
          (case executePendingKills az (sub w 1) (pa_pending pa) pa of
             (killErr, pa') \<Rightarrow> (errors_Join [planningErr, killErr], pa')))"

end
