(* ===== verification/EnforceProps.thy ===== *)
theory EnforceProps
  imports Enforce
begin

text \<open>
  Properties of an enforcement pass. The locale \<open>pass_contract\<close> is the interface between the
  bookkeeping of a pass (recording a decision, an audit event or a kill) and the code that
  decides: an invariant that the bookkeeping keeps is kept by the whole pass, provided kills
  are only asked for processes the deciding code may kill. Its interpretations give the kill
  budget, the absence of kills of bypassed or unsampled processes, and dry runs.
\<close>

section \<open>Matches found on the way\<close>

lemma claim_views_True:
  "claim_views az w st c now i vs = Inr True \<Longrightarrow>
     \<exists>v\<in>set vs. \<not> vw_Bypassed v \<and> (\<exists>p a. matchAnyAuthorization az (at_site w p) st (claim_GPU c)
       (vw_Info v) (Some [claim_TokenHash c]) TokenModeClaimed now = Matched a)"
  by (induction vs arbitrary: i)
    (fastforce split: option.splits if_splits matching.splits simp: sub_at_site)+

lemma claimHasMatchingProcess_True:
  "claimHasMatchingProcess az w st c vs now = Inr True \<Longrightarrow>
     \<exists>v\<in>set vs. \<not> vw_Bypassed v \<and> (\<exists>p a. matchAnyAuthorization az (at_site w p) st (claim_GPU c)
       (vw_Info v) (Some [claim_TokenHash c]) TokenModeClaimed now = Matched a)"
  by (auto simp: claimHasMatchingProcess_def dest: claim_views_True split: if_splits)

definition split_ok ::
  "authorizer \<Rightarrow> world \<Rightarrow> state \<Rightarrow> int \<Rightarrow> time \<Rightarrow> process_view list \<Rightarrow> (process_view \<times> authorization) list \<Rightarrow>
   process_view list \<Rightarrow> bool" where
  "split_ok az w st gpu now vs auths others \<longleftrightarrow>
     (\<forall>(v, a)\<in>set auths. v \<in> set vs \<and> \<not> vw_Bypassed v \<and>
        (\<exists>p. matchAnyAuthorization az (at_site w p) st gpu (vw_Info v) None TokenModeClaimed now = Matched a)) \<and>
     (\<forall>v\<in>set others. v \<in> set vs \<and> \<not> vw_Bypassed v \<and>
        (\<exists>p. matchAnyAuthorization az (at_site w p) st gpu (vw_Info v) None TokenModeClaimed now = NoMatch))"

lemma split_views_ok:
  "\<lbrakk>split_views az w st gpu now i auths others vs = Inr (auths', others');
    split_ok az w st gpu now all auths others; set vs \<subseteq> set all\<rbrakk>
   \<Longrightarrow> split_ok az w st gpu now all auths' others'"
proof (induction vs arbitrary: i auths others)
  case (Cons v vs)
  show ?case
  proof (cases "vw_Bypassed v")
    case True
    with Cons show ?thesis by (auto split: option.splits)
  next
    case False
    show ?thesis
    proof (cases "matchAnyAuthorization az (sub w i) st gpu (vw_Info v) None TokenModeClaimed now")
      case (Matched a)
      with False Cons.prems have "split_ok az w st gpu now all (auths @ [(v, a)]) others"
        by (auto simp: split_ok_def sub_at_site)
      with Cons False Matched show ?thesis by (auto split: option.splits)
    next
      case NoMatch
      with False Cons.prems have "split_ok az w st gpu now all auths (others @ [v])"
        by (auto simp: split_ok_def sub_at_site)
      with Cons False NoMatch show ?thesis by (auto split: option.splits)
    qed (use Cons.prems False in \<open>auto split: option.splits\<close>)
  qed
qed simp

lemma split_views_auths:
  assumes "split_views az w st gpu now 0 [] [] vs = Inr (auths, others)" "(v, a) \<in> set auths"
  shows "v \<in> set vs \<and> \<not> vw_Bypassed v \<and>
    (\<exists>p. matchAnyAuthorization az (at_site w p) st gpu (vw_Info v) None TokenModeClaimed now = Matched a)"
proof -
  have "split_ok az w st gpu now vs auths others"
    by (rule split_views_ok [OF assms(1)]) (auto simp: split_ok_def)
  with assms(2) show ?thesis by (auto simp: split_ok_def)
qed

text \<open>A view that sampling produced, and a reason that lets the pass kill its process.\<close>

definition sampled ::
  "authorizer \<Rightarrow> world \<Rightarrow> state \<Rightarrow> time \<Rightarrow> gpu_process list \<Rightarrow> process_view \<Rightarrow> bool" where
  "sampled az w st now processes v \<longleftrightarrow>
     vw_Process v \<in> set processes \<and> usesGPUResources (vw_Process v) \<and>
     (\<exists>p. ob_Exists (w p) (view_pid v) \<and> ob_Info (w p) (view_pid v) = Inr (vw_Info v)) \<and>
     vw_Bypassed v = BypassMatch (st_Bypasses st) (vw_Info v) now (az_BootID az)"

definition justified ::
  "authorizer \<Rightarrow> world \<Rightarrow> state \<Rightarrow> time \<Rightarrow> gpu_process list \<Rightarrow> process_view \<Rightarrow> bool" where
  "justified az w st now processes v \<longleftrightarrow>
     (let gpu = view_gpu v; rs = activeReservationsForGPU (st_Reservations st) gpu now;
          ls = activeLeasesForGPU (st_Leases st) gpu now
      in if rs \<noteq> [] then
           (\<exists>p. matchAnyAuthorization az (at_site w p) st gpu (vw_Info v)
              (Some (map res_TokenHash rs)) [] now = NoMatch)
         else if ls \<noteq> [] then (\<exists>p. matchesAnyLease az (at_site w p) ls (vw_Info v) now = NoMatch)
         else (\<exists>v' p filt a. sampled az w st now processes v' \<and> \<not> vw_Bypassed v' \<and> view_gpu v' = gpu \<and>
           matchAnyAuthorization az (at_site w p) st gpu (vw_Info v') filt TokenModeClaimed now
             = Matched a))"

lemma sampled_at_site: "sampled az (at_site w p) st now ps v \<Longrightarrow> sampled az w st now ps v"
  by (auto simp: sampled_def at_site_def)

lemma sampled_more: "\<lbrakk>sampled az w st now ps v; set ps \<subseteq> set qs\<rbrakk> \<Longrightarrow> sampled az w st now qs v"
  by (auto simp: sampled_def)

lemma sample_views:
  "\<lbrakk>sample az w st now i ps views pa = (Inr views', pa'); v \<in> set views'\<rbrakk> \<Longrightarrow>
     v \<in> set views \<or> sampled az w st now ps v"
proof (induction ps arbitrary: i views pa)
  case (Cons q qs)
  have tail: "sampled az w st now (q # qs) v" if "sampled az w st now qs v"
    using that by (auto simp: sampled_def)
  show ?case
  proof (cases "ob_ctx (w [i]) \<noteq> None \<or> \<not> usesGPUResources q \<or> \<not> az_Proc az \<or>
      \<not> ob_Exists (w [i]) (gp_PID q) \<or> (\<exists>e. ob_Info (w [i]) (gp_PID q) = Inl e)")
    case True
    with Cons.prems(1) obtain pa1 where
      "sample az w st now (Suc i) qs views pa1 = (Inr views', pa')"
      by (auto simp: Let_def split: option.splits if_splits)
    from Cons.IH [OF this Cons.prems(2)] tail show ?thesis by auto
  next
    case False
    then obtain info where info: "ob_Info (w [i]) (gp_PID q) = Inr info"
      by (cases "ob_Info (w [i]) (gp_PID q)") auto
    have new: "sampled az w st now (q # qs) \<lparr>vw_Process = q, vw_Info = info,
        vw_Bypassed = BypassMatch (st_Bypasses st) info now (az_BootID az)\<rparr>"
      using False info by (auto simp: sampled_def)
    obtain pa1 where "sample az w st now (Suc i) qs (views @ [\<lparr>vw_Process = q, vw_Info = info,
        vw_Bypassed = BypassMatch (st_Bypasses st) info now (az_BootID az)\<rparr>]) pa1 = (Inr views', pa')"
      using Cons.prems(1) False info by (auto simp: Let_def split: if_splits)
    from Cons.IH [OF this Cons.prems(2)] new tail show ?thesis by auto
  qed
qed simp

text \<open>The decision that lets a process run on a reserved GPU, and the views it may be for.\<close>

definition allowed :: "process_view \<Rightarrow> authorization \<Rightarrow> decision" where
  "allowed v a = (view_decision v ''allow'' ''authorization'')
     \<lparr>de_AuthID := auth_ID a, de_Holder := auth_Holder a, de_TokenHash := auth_TokenHash a\<rparr>"

definition admitted ::
  "authorizer \<Rightarrow> world \<Rightarrow> state \<Rightarrow> time \<Rightarrow> process_view \<Rightarrow> authorization \<Rightarrow> bool" where
  "admitted az w st now v a \<longleftrightarrow>
     (let rs = activeReservationsForGPU (st_Reservations st) (view_gpu v) now
      in rs \<noteq> [] \<and> (\<exists>p. matchAnyAuthorization az (at_site w p) st (view_gpu v) (vw_Info v)
           (Some (map res_TokenHash rs)) [] now = Matched a))"

section \<open>The interface\<close>

locale pass_contract =
  fixes az :: authorizer and ok :: "process_view \<Rightarrow> bool" and good :: "decision \<Rightarrow> bool"
    and I :: "pass \<Rightarrow> bool"
  assumes decide_I: "\<lbrakk>I pa; de_Action d \<noteq> ''kill''; de_Reason d = ''authorization'' \<Longrightarrow> good d\<rbrakk>
      \<Longrightarrow> I (decide d pa)"
    and audit_I: "I pa \<Longrightarrow> I (audit ev pa)"
    and kill_I: "\<lbrakk>I pa; ok v; \<not> vw_Bypassed v\<rbrakk> \<Longrightarrow>
      I (snd (killOnce az ob v reason leaseID authID holder tokenHash now pa))"
begin

lemma killOnce_I:
  "\<lbrakk>killOnce az ob v reason leaseID authID holder tokenHash now pa = (e, pa'); I pa; ok v;
    \<not> vw_Bypassed v\<rbrakk> \<Longrightarrow> I pa'"
  using kill_I [of pa v ob reason leaseID authID holder tokenHash now] by simp

lemma after_kill_I:
  assumes "I pa" "ok v" "\<not> vw_Bypassed v" "\<And>e pa'. I pa' \<Longrightarrow> I (snd (k e pa'))"
  shows "I (snd (case killOnce az ob v reason leaseID authID holder tokenHash now pa of
    (e, pa') \<Rightarrow> k e pa'))"
  using assms by (auto split: prod.split dest: killOnce_I)

lemma view_decide_I:
  "\<lbrakk>I pa; action \<noteq> ''kill''; reason \<noteq> ''authorization''\<rbrakk> \<Longrightarrow> I (decide (view_decision v action reason) pa)"
  by (rule decide_I) (simp_all add: view_decision_def)

lemma allow_I:
  "I pa \<Longrightarrow> I (decide ((view_decision v ''allow'' ''claimed'')
     \<lparr>de_AuthID := a, de_Holder := h, de_TokenHash := t\<rparr>) pa)"
  "I pa \<Longrightarrow> I (decide ((view_decision v ''allow'' ''claimed'')
     \<lparr>de_AuthID := a, de_ClaimID := c, de_Holder := h, de_TokenHash := t\<rparr>) pa)"
  "I pa \<Longrightarrow> I (decide ((view_decision v ''allow'' ''lease'')\<lparr>de_LeaseID := l, de_Holder := h\<rparr>) pa)"
  "\<lbrakk>I pa; good (allowed v auth)\<rbrakk> \<Longrightarrow> I (decide (allowed v auth) pa)"
  by (auto intro!: decide_I simp: view_decision_def allowed_def)

lemma fold_skip_I: "\<lbrakk>I pa; reason \<noteq> ''authorization''\<rbrakk> \<Longrightarrow> I (fold (\<lambda>v. decide (view_decision v ''skip'' reason)) vs pa)"
  by (induction vs arbitrary: pa) (auto simp: view_decide_I)

lemma hard_I:
  assumes "\<And>v p. \<lbrakk>v \<in> set vs; \<not> vw_Bypassed v;
      matchAnyAuthorization az (at_site w p) st gpu (vw_Info v) (Some (map res_TokenHash rs)) [] now = NoMatch\<rbrakk>
      \<Longrightarrow> ok v"
    and "\<And>v p a. \<lbrakk>v \<in> set vs; \<not> vw_Bypassed v; matchAnyAuthorization az (at_site w p) st gpu (vw_Info v)
      (Some (map res_TokenHash rs)) [] now = Matched a\<rbrakk> \<Longrightarrow> good (allowed v a)"
    and "I pa"
  shows "I (snd (hard_views az w st gpu rs now i errs vs pa))"
  using assms
proof (induction vs arbitrary: i errs pa)
  case (Cons v vs)
  show ?case
  proof (cases "ob_ctx (w [i])")
    case None
    show ?thesis
    proof (cases "vw_Bypassed v")
      case True
      with None Cons show ?thesis by simp
    next
      case False
      show ?thesis
      proof (cases "matchAnyAuthorization az (sub w i) st gpu (vw_Info v) (Some (map res_TokenHash rs)) [] now")
        case NoMatch
        with False Cons.prems(1) [of v "[i]"] have okv: "ok v" by (simp add: sub_at_site)
        show ?thesis
          by (simp add: None False NoMatch)
            (rule after_kill_I [OF Cons.prems(3) okv False], rule Cons.IH, auto intro: Cons.prems(1,2))
      next
        case (Matched a)
        with False Cons.prems(2) [of v "[i]" a] Cons.prems(3) have "I (decide (allowed v a) pa)"
          by (simp add: sub_at_site allow_I)
        with None False Matched Cons show ?thesis by (simp add: allowed_def)
      qed (use None False Cons in \<open>auto simp: view_decide_I\<close>)
    qed
  qed (use Cons.prems in simp)
qed simp

lemma lease_I:
  assumes "\<And>v p. \<lbrakk>v \<in> set vs; \<not> vw_Bypassed v; matchesAnyLease az (at_site w p) ls (vw_Info v) now = NoMatch\<rbrakk>
      \<Longrightarrow> ok v"
    and "I pa"
  shows "I (snd (lease_views az w gpu ls now i errs vs pa))"
  using assms
proof (induction vs arbitrary: i errs pa)
  case (Cons v vs)
  show ?case
  proof (cases "ob_ctx (w [i])")
    case None
    show ?thesis
    proof (cases "vw_Bypassed v")
      case True
      with None Cons show ?thesis by simp
    next
      case False
      show ?thesis
      proof (cases "matchesAnyLease az (sub w i) ls (vw_Info v) now")
        case NoMatch
        with False Cons.prems(1) [of v "[i]"] have okv: "ok v" by (simp add: sub_at_site)
        show ?thesis
          by (simp add: None False NoMatch)
            (rule after_kill_I [OF Cons.prems(2) okv False], rule Cons.IH, auto intro: Cons.prems(1))
      qed (use None False Cons in \<open>auto simp: view_decide_I allow_I\<close>)
    qed
  qed (use Cons.prems in simp)
qed simp

lemma claimed_I:
  assumes "\<And>v p. \<lbrakk>v \<in> set vs; \<not> vw_Bypassed v;
      matchAnyAuthorization az (at_site w p) st gpu (vw_Info v) (Some [claim_TokenHash c]) TokenModeClaimed now
        = NoMatch\<rbrakk> \<Longrightarrow> ok v"
    and "I pa"
  shows "I (snd (claimed_views az w st gpu c now i errs vs pa))"
  using assms
proof (induction vs arbitrary: i errs pa)
  case (Cons v vs)
  show ?case
  proof (cases "ob_ctx (w [i])")
    case None
    show ?thesis
    proof (cases "vw_Bypassed v")
      case True
      with None Cons show ?thesis by simp
    next
      case False
      show ?thesis
      proof (cases "matchAnyAuthorization az (sub w i) st gpu (vw_Info v) (Some [claim_TokenHash c]) TokenModeClaimed now")
        case NoMatch
        with False Cons.prems(1) [of v "[i]"] have okv: "ok v" by (simp add: sub_at_site)
        show ?thesis
          by (simp add: None False NoMatch)
            (rule after_kill_I [OF Cons.prems(2) okv False], rule Cons.IH, auto intro: Cons.prems(1))
      qed (use None False Cons in \<open>auto simp: view_decide_I allow_I\<close>)
    qed
  qed (use Cons.prems in simp)
qed simp

lemma kill_all_I:
  assumes "\<And>i x pa. \<lbrakk>x \<in> set xs; I pa\<rbrakk> \<Longrightarrow> I (snd (f i x pa))" and "I pa"
  shows "I (snd (kill_all f i errs xs pa))"
  using assms
proof (induction xs arbitrary: i errs pa)
  case (Cons x xs)
  obtain e pa1 where f: "f i x pa = (e, pa1)" by (cases "f i x pa")
  with Cons.prems(1) [of x pa i] Cons.prems(2) have "I pa1" by simp
  with Cons.IH [of pa1 "Suc i" "add_error errs e"] Cons.prems(1) f show ?case by simp
qed simp

lemma kill_all_once_I:
  assumes "\<And>x. x \<in> set xs \<Longrightarrow> ok (view x) \<and> \<not> vw_Bypassed (view x)" and "I pa"
  shows "I (snd (kill_all (\<lambda>i x. killOnce az (w [i]) (view x) (reason x) [] (authID x) holder
    (tokenHash x) now) i errs xs pa))"
  by (rule kill_all_I [OF _ assms(2)]) (auto intro: kill_I simp: assms(1))

lemma soft_reject_I:
  assumes "\<And>v a. (v, a) \<in> set auths \<Longrightarrow> ok v \<and> \<not> vw_Bypassed v" and "I pa"
  shows "I (snd (soft_reject az w gpu now auths others pa))"
proof -
  have "I (fold (\<lambda>v. decide (view_decision v ''skip'' ''gpu already has non-authorized process''))
      others (audit ev pa))" for ev
    by (rule fold_skip_I [OF audit_I [OF assms(2)]]) simp
  then show ?thesis
    unfolding soft_reject_def Let_def case_prod_unfold snd_conv
    by (intro kill_all_once_I) (use assms(1) in auto)
qed

lemma soft_claim_I:
  assumes "\<And>v a. (v, a) \<in> set auths \<Longrightarrow> ok v \<and> \<not> vw_Bypassed v"
    and "\<And>v. v \<in> set others \<Longrightarrow> ok v \<and> \<not> vw_Bypassed v" and "I pa"
  shows "I (snd (soft_claim_gpu az w gpu now auths others pa))"
  unfolding soft_claim_gpu_def Let_def case_prod_unfold snd_conv
  by (intro kill_all_I audit_I decide_I)
    (use assms in \<open>auto intro: kill_I allow_I simp: zero_decision_def\<close>)

lemma soft_I:
  assumes "\<And>v v' p filt a. \<lbrakk>v \<in> set vs; v' \<in> set vs; \<not> vw_Bypassed v; \<not> vw_Bypassed v';
      matchAnyAuthorization az (at_site w p) st gpu (vw_Info v') filt TokenModeClaimed now = Matched a\<rbrakk>
      \<Longrightarrow> ok v"
    and "I pa"
  shows "I (snd (enforceSoft az w st gpu vs now pa))"
proof -
  let ?claims = "activeSoftClaimsForGPU st gpu now"
  have gpu: "claim_GPU (hd ?claims) = gpu" if "?claims \<noteq> []"
    using hd_in_set [OF that] by (auto simp: activeSoftClaimsForGPU_def)
  have claimed: "I (snd (claimed_views az (sub w 1) st gpu (hd ?claims) now 0 [] vs pa))"
    if "?claims \<noteq> []" "claimHasMatchingProcess az (sub w 0) st (hd ?claims) vs now = Inr True"
    by (rule claimed_I [OF _ assms(2)])
      (use claimHasMatchingProcess_True [OF that(2)] gpu [OF that(1)] assms(1) in fastforce)
  have "I (snd (soft_reject az (sub w 3) gpu now auths others pa)) \<and>
      I (snd (soft_claim_gpu az (sub w 4) gpu now auths [] pa))"
    if s: "split_views az (sub w 2) st gpu now 0 [] [] vs = Inr (auths, others)" for auths others
  proof -
    have *: "ok v \<and> \<not> vw_Bypassed v" if "(v, a) \<in> set auths" for v a
      using split_views_auths [OF s, of v a] that assms(1) by fastforce
    show ?thesis
      by (intro conjI soft_reject_I soft_claim_I) (use * assms(2) in auto)
  qed
  with claimed assms(2) show ?thesis
    unfolding enforceSoft_def Let_def
    by (auto split: sum.splits bool.splits prod.splits simp: fold_skip_I)
qed

lemma sample_I: "I pa \<Longrightarrow> I (snd (sample az w st now i ps views pa))"
proof (induction ps arbitrary: i views pa)
  case (Cons q qs)
  have d: "I (decide (zero_decision\<lparr>de_Process := q, de_Action := ''skip'', de_Reason := r\<rparr>) pa)"
    "I (decide (zero_decision\<lparr>de_Process := q, de_Info := info, de_Action := ''allow'',
       de_Reason := r\<rparr>) pa)" if "r \<noteq> ''authorization''" for r info
    using Cons.prems that by (auto intro!: decide_I)
  show ?case
    by (auto simp: Let_def Cons.IH d Cons.prems split: option.split sum.split)
qed simp

lemma gpu_I:
  assumes "\<And>v. \<lbrakk>sampled az w0 st now ps v; \<not> vw_Bypassed v; justified az w0 st now ps v\<rbrakk> \<Longrightarrow> ok v"
    and good: "\<And>v a. \<lbrakk>sampled az w0 st now ps v; \<not> vw_Bypassed v; admitted az w0 st now v a\<rbrakk> \<Longrightarrow> good (allowed v a)"
    and vs: "\<And>v. v \<in> set vs \<Longrightarrow> sampled az w0 st now ps v \<and> view_gpu v = gpu"
    and pa: "I pa"
  shows "I (snd (enforce_gpu az (at_site w0 p) st gpu vs now pa))"
proof -
  let ?rs = "activeReservationsForGPU (st_Reservations st) gpu now"
  let ?ls = "activeLeasesForGPU (st_Leases st) gpu now"
  consider "?rs \<noteq> []" | "?rs = []" "?ls \<noteq> []" | "?rs = []" "?ls = []" by blast
  then show ?thesis
  proof cases
    case 1
    then have "I (snd (enforceHard az (at_site w0 p) st gpu ?rs vs now pa))"
      unfolding enforceHard_def
      by (intro hard_I [OF _ _ pa] assms(1) good) (use vs in \<open>auto simp: justified_def admitted_def Let_def\<close>)
    with 1 show ?thesis by (simp add: enforce_gpu_def)
  next
    case 2
    then have "I (snd (enforceLegacyLeases az (at_site w0 p) st gpu ?ls vs now pa))"
      unfolding enforceLegacyLeases_def
      by (intro lease_I [OF _ pa] assms(1)) (use vs in \<open>auto simp: justified_def Let_def\<close>)
    with 2 show ?thesis by (simp add: enforce_gpu_def)
  next
    case 3
    have "I (snd (enforceSoft az (at_site w0 p) st gpu vs now pa))"
    proof (rule soft_I [OF _ pa])
      fix v v' q filt a
      assume v: "v \<in> set vs" "v' \<in> set vs" "\<not> vw_Bypassed v" "\<not> vw_Bypassed v'"
        and m: "matchAnyAuthorization az (at_site (at_site w0 p) q) st gpu (vw_Info v') filt
          TokenModeClaimed now = Matched a"
      from v m vs 3 have "justified az w0 st now ps v"
        unfolding justified_def Let_def by simp blast
      with v assms(1) vs show "ok v" by blast
    qed
    with 3 show ?thesis by (simp add: enforce_gpu_def)
  qed
qed

lemma gpu_loop_I:
  assumes "\<And>v. \<lbrakk>sampled az w0 st now ps v; \<not> vw_Bypassed v; justified az w0 st now ps v\<rbrakk> \<Longrightarrow> ok v"
    and good: "\<And>v a. \<lbrakk>sampled az w0 st now ps v; \<not> vw_Bypassed v; admitted az w0 st now v a\<rbrakk> \<Longrightarrow> good (allowed v a)"
    and views: "\<And>v. v \<in> set views \<Longrightarrow> sampled az w0 st now ps v"
    and pa: "I pa"
  shows "I (snd (snd (gpu_loop az (at_site w0 p) st now i errs views gpus pa)))"
  using pa
proof (induction gpus arbitrary: i errs pa)
  case (Cons gpu gpus)
  have "I (snd (enforce_gpu az (at_site w0 (p @ [i])) st gpu (views_on views gpu) now pa))"
    by (rule gpu_I [OF assms(1) good _ Cons.prems]) (auto simp: views_on_def views)
  with Cons show ?case by (auto split: option.split prod.split simp: sub_at_site)
qed simp

lemma claim_loop_I: "I pa \<Longrightarrow> I (snd (claim_loop az w st now i errs views cs pa))"
proof (induction cs arbitrary: i errs pa)
  case (Cons c cs)
  have "I (audit ev (decide (zero_decision\<lparr>de_Action := ''release_claim'', de_ClaimID := x,
      de_Reason := y\<rparr>) pa))" if "y \<noteq> ''authorization''" for ev x y
    using Cons.prems that by (intro audit_I decide_I) auto
  with Cons show ?case by (auto split: option.split sum.split bool.split)
qed simp

lemma enforce_I:
  assumes "\<And>v. \<lbrakk>sampled az w st (az_Now az) ps v; \<not> vw_Bypassed v;
      justified az w st (az_Now az) ps v\<rbrakk> \<Longrightarrow> ok v"
    and good: "\<And>v a. \<lbrakk>sampled az w st (az_Now az) ps v; \<not> vw_Bypassed v; admitted az w st (az_Now az) v a\<rbrakk> \<Longrightarrow> good (allowed v a)"
    and pa: "I pa"
  shows "I (snd (enforce az w order st ps pa))"
proof (cases "sample az (sub w 0) st (az_Now az) 0 ps [] pa")
  case (Pair r pa1)
  have pa1: "I pa1" using sample_I [OF pa, of "sub w 0"] Pair by (metis snd_conv)
  show ?thesis
  proof (cases r)
    case (Inl e)
    with Pair pa1 show ?thesis by (simp add: enforce_def)
  next
    case (Inr views)
    have views: "sampled az w st (az_Now az) ps v" if "v \<in> set views" for v
      using sample_views [OF Pair [unfolded Inr] that] sampled_at_site [of az w "[0]"]
      by (auto simp: sub_at_site)
    obtain b errs pa2 where g: "gpu_loop az (sub w 1) st (az_Now az) 0 [] views
        (order (remdups (map view_gpu views))) pa1 = (b, errs, pa2)"
      by (cases "gpu_loop az (sub w 1) st (az_Now az) 0 [] views
        (order (remdups (map view_gpu views))) pa1") auto
    have "I pa2"
      using gpu_loop_I [OF assms(1) good views pa1, where views = views and p = "[1]" and i = 0
          and errs = "[]" and gpus = "order (remdups (map view_gpu views))"] g
      by (simp add: sub_at_site)
    then have "I (snd (claim_loop az (sub w 2) st (az_Now az) 0 errs views (st_SoftClaims st) pa2))"
      by (rule claim_loop_I)
    with \<open>I pa2\<close> Pair Inr g show ?thesis
      by (auto simp: enforce_def Let_def split: bool.split prod.split)
  qed
qed

end

section \<open>Planned kills\<close>

text \<open>
  While kills are planned: at most eight, of different processes that were marked as
  targeted, each of a view the deciding code was allowed to kill, one for each decision
  \<^verbatim>\<open>kill\<close>, and no call to the killer yet.
\<close>

abbreviation planning :: "authorizer \<Rightarrow> bool" where
  "planning az \<equiv> az_pendingKills az \<and> \<not> az_DryRun az"

definition kill_processes :: "decision list \<Rightarrow> (gpu_process \<times> proc_info) list" where
  "kill_processes ds = map (\<lambda>d. (de_Process d, de_Info d)) (filter (\<lambda>d. de_Action d = ''kill'') ds)"

definition planned :: "authorizer \<Rightarrow> (process_view \<Rightarrow> bool) \<Rightarrow> pass \<Rightarrow> bool" where
  "planned az ok pa \<longleftrightarrow>
     (planning az \<longrightarrow>
        length (pa_pending pa) \<le> maxKillsPerEnforcementPass \<and>
        distinct (map (view_pid \<circ> pk_view) (pa_pending pa)) \<and>
        set (map (view_pid \<circ> pk_view) (pa_pending pa)) \<subseteq> set (pa_targeted pa) \<and>
        (\<forall>rq\<in>set (pa_pending pa). ok (pk_view rq) \<and> \<not> vw_Bypassed (pk_view rq)) \<and>
        kill_processes (pa_decisions pa) =
          map (\<lambda>rq. (vw_Process (pk_view rq), vw_Info (pk_view rq))) (pa_pending pa) \<and>
        pa_calls pa = [])"

lemma planned_new [simp]: "planned az ok new_pass"
  by (simp add: planned_def new_pass_def kill_processes_def)

lemma kill_processes_append [simp]:
  "kill_processes (ds @ [d]) = kill_processes ds @ 
     (if de_Action d = ''kill'' then [(de_Process d, de_Info d)] else [])"
  by (simp add: kill_processes_def)

lemma planned_kill:
  assumes "planned az ok pa" "ok v" "\<not> vw_Bypassed v"
  shows "planned az ok (snd (killOnce az ob v reason l a h t now pa))"
proof (cases "planning az")
  case True
  show ?thesis
  proof (cases "view_pid v \<in> set (pa_targeted pa)")
    case targeted: True
    with True assms show ?thesis
      by (simp add: planned_def killOnce_def decide_def view_decision_def)
  next
    case False
    with True assms have "view_pid v \<notin> set (map (view_pid \<circ> pk_view) (pa_pending pa))"
      by (auto simp: planned_def)
    with True False assms show ?thesis
      by (auto simp: planned_def killOnce_def kill_def decide_def view_decision_def Let_def)
  qed
next
  case False
  then show ?thesis unfolding planned_def by blast
qed

interpretation planned: pass_contract az ok good "planned az ok" for az ok good
  by unfold_locales (auto simp: planned_kill, auto simp: planned_def decide_def audit_def)

text \<open>A dry run plans nothing and calls nothing.\<close>

definition harmless :: "authorizer \<Rightarrow> pass \<Rightarrow> bool" where
  "harmless az pa \<longleftrightarrow> (az_DryRun az \<longrightarrow> pa_pending pa = [] \<and> pa_calls pa = [])"

interpretation harmless: pass_contract az ok good "harmless az" for az ok good
  by unfold_locales
    (auto simp: harmless_def decide_def audit_def killOnce_def kill_def performKill_def
      auditKill_def Let_def)

text \<open>A kill takes exactly one decision.\<close>

lemma performKill_plan [simp]:
  "pa_decisions (snd (performKill az ob rq pa)) = pa_decisions pa"
  "pa_pending (snd (performKill az ob rq pa)) = pa_pending pa"
  by (auto simp: performKill_def split: option.split)

lemma auditKill_plan [simp]:
  "pa_decisions (auditKill az rq e pa) = pa_decisions pa" "pa_pending (auditKill az rq e pa) = pa_pending pa"
  by (simp_all add: auditKill_def audit_def Let_def split: option.split)

lemma kill_one_decision:
  "\<exists>d. pa_decisions (snd (kill az ob v reason l a h t now pa)) = pa_decisions pa @ [d] \<and>
     de_Process d = vw_Process v \<and> de_Info d = vw_Info v \<and> de_Action d \<in> {''kill'', ''skip''}"
proof -
  have "pa_decisions (snd (performKill az ob rq q)) = pa_decisions q" for rq q by simp
  then show ?thesis
    by (auto simp: kill_def Let_def decide_def view_decision_def case_prod_unfold)
qed

lemma killOnce_one_decision:
  "\<exists>d. pa_decisions (snd (killOnce az ob v reason l a h t now pa)) = pa_decisions pa @ [d] \<and>
     de_Process d = vw_Process v \<and> de_Info d = vw_Info v \<and> de_Action d \<in> {''kill'', ''skip''}"
  using kill_one_decision [of az ob v reason l a h t now "pa\<lparr>pa_targeted := view_pid v # pa_targeted pa\<rparr>"]
  by (auto simp: killOnce_def decide_def view_decision_def)

text \<open>Whoever is let onto a reserved GPU was admitted by an authorization of its reservation.\<close>

definition governed :: "(decision \<Rightarrow> bool) \<Rightarrow> pass \<Rightarrow> bool" where
  "governed good pa \<longleftrightarrow> (\<forall>d\<in>set (pa_decisions pa).
     de_Action d = ''allow'' \<and> de_Reason d = ''authorization'' \<longrightarrow> good d)"

lemma governed_kill:
  assumes "governed good pa"
  shows "governed good (snd (killOnce az ob v reason l a h t now pa))"
proof -
  obtain d where "pa_decisions (snd (killOnce az ob v reason l a h t now pa)) = pa_decisions pa @ [d]"
    "de_Action d \<in> {''kill'', ''skip''}"
    using killOnce_one_decision by blast
  with assms show ?thesis by (auto simp: governed_def)
qed

interpretation governed: pass_contract az ok good "governed good" for az ok good
  by unfold_locales (simp_all add: governed_kill, auto simp: governed_def decide_def audit_def)

section \<open>Execution\<close>

lemma audit_calls [simp]: "pa_calls (audit ev pa) = pa_calls pa"
  by (simp add: audit_def)

lemma auditKill_calls [simp]: "pa_calls (auditKill az rq e pa) = pa_calls pa"
  by (simp add: auditKill_def Let_def split: option.split)

lemma fold_auditKill_calls [simp]:
  "pa_calls (fold (\<lambda>(rq, r). auditKill az rq r) rs pa) = pa_calls pa"
  by (induction rs arbitrary: pa) auto

text \<open>The killer is called for planned requests only, at most once for each, in their order.\<close>

lemma run_kills_calls:
  "\<exists>qs. subseq qs rqs \<and> pa_calls (snd (run_kills az w i rqs pa)) =
     pa_calls pa @ map (\<lambda>rq. (vw_Info (pk_view rq), kill_message rq)) qs"
proof (induction rqs arbitrary: i pa)
  case (Cons rq rqs)
  obtain r pa1 where step: "(case ob_ctx (w [i]) of Some e \<Rightarrow> (Some e, pa)
      | None \<Rightarrow> performKill az (w [i]) rq pa) = (r, pa1)" by fastforce
  obtain qs where qs: "subseq qs rqs" "pa_calls (snd (run_kills az w (Suc i) rqs pa1)) =
      pa_calls pa1 @ map (\<lambda>rq. (vw_Info (pk_view rq), kill_message rq)) qs"
    using Cons.IH by blast
  have result: "snd (run_kills az w i (rq # rqs) pa) = snd (run_kills az w (Suc i) rqs pa1)"
    using step by (simp split: prod.split)
  have "pa_calls pa1 = pa_calls pa \<or>
      pa_calls pa1 = pa_calls pa @ [(vw_Info (pk_view rq), kill_message rq)]"
    using step by (auto simp: performKill_def split: option.splits if_splits)
  then show ?case
  proof
    assume "pa_calls pa1 = pa_calls pa"
    with qs result show ?thesis by (intro exI [of _ qs]) auto
  next
    assume "pa_calls pa1 = pa_calls pa @ [(vw_Info (pk_view rq), kill_message rq)]"
    with qs result show ?thesis by (intro exI [of _ "rq # qs"]) auto
  qed
qed simp

lemma run_kills_length: "length (fst (run_kills az w i rqs pa)) = length rqs"
  by (induction rqs arbitrary: i pa) (simp_all add: case_prod_unfold)

lemma executePendingKills_calls:
  "\<exists>qs. subseq qs rqs \<and> pa_calls (snd (executePendingKills az w rqs pa)) =
     pa_calls pa @ map (\<lambda>rq. (vw_Info (pk_view rq), kill_message rq)) qs"
  using run_kills_calls [of rqs az w 0 pa]
  by (auto simp: executePendingKills_def split: prod.split)

section \<open>The whole pass\<close>

lemma planner_simps [simp]:
  "az_DryRun (planner az st) = az_DryRun az" "az_Now (planner az st) = az_Now az"
  "az_BootID (planner az st) = az_BootID az"
  "\<not> az_DryRun az \<Longrightarrow> az_pendingKills (planner az st)"
  by (simp_all add: planner_def)

text \<open>What a pass has planned when planning ends.\<close>

lemma enforce_planned:
  "planned (planner az st)
     (\<lambda>v. sampled (planner az st) w st (az_Now az) ps v \<and> justified (planner az st) w st (az_Now az) ps v)
     (snd (enforce (planner az st) w order st ps new_pass))"
  by (rule planned.enforce_I [where good = "\<lambda>_. True"]) simp_all

lemma Enforce_calls:
  assumes "\<not> az_DryRun az" "Enforce az w order st ps = (e, pa)"
  obtains rqs where "length rqs \<le> maxKillsPerEnforcementPass"
    "distinct (map (view_pid \<circ> pk_view) rqs)"
    "pa_calls pa = map (\<lambda>rq. (vw_Info (pk_view rq), kill_message rq)) rqs"
    "\<And>rq. rq \<in> set rqs \<Longrightarrow> \<not> vw_Bypassed (pk_view rq) \<and>
       sampled (planner az st) (sub w 0) st (az_Now az) ps (pk_view rq) \<and>
       justified (planner az st) (sub w 0) st (az_Now az) ps (pk_view rq)"
proof -
  obtain e1 pa1 where plan: "enforce (planner az st) (sub w 0) order st ps new_pass = (e1, pa1)"
    by (cases "enforce (planner az st) (sub w 0) order st ps new_pass")
  have p: "planned (planner az st) (\<lambda>v. sampled (planner az st) (sub w 0) st (az_Now az) ps v \<and>
      justified (planner az st) (sub w 0) st (az_Now az) ps v) pa1"
    using enforce_planned [of az st "sub w 0" ps order] plan by simp
  obtain qs where qs: "subseq qs (pa_pending pa1)"
    "pa_calls pa = pa_calls pa1 @ map (\<lambda>rq. (vw_Info (pk_view rq), kill_message rq)) qs"
    using executePendingKills_calls [of "pa_pending pa1" az "sub w 1" pa1] assms(2) plan
    by (auto simp: Enforce_def split: prod.splits)
  have "length qs \<le> length (pa_pending pa1)" "set qs \<subseteq> set (pa_pending pa1)"
    "distinct (map (view_pid \<circ> pk_view) (pa_pending pa1)) \<Longrightarrow> distinct (map (view_pid \<circ> pk_view) qs)"
    using qs(1) by (auto dest: list_emb_length subseq_set simp: subseq_distinct_map)
  with p qs(2) assms(1) show thesis by (intro that [of qs]) (auto simp: planned_def)
qed

text \<open>Executing the kills leaves the decisions and the plan as they are.\<close>

lemma run_kills_plan:
  "pa_decisions (snd (run_kills az w i rqs pa)) = pa_decisions pa \<and>
   pa_pending (snd (run_kills az w i rqs pa)) = pa_pending pa"
  by (induction rqs arbitrary: i pa) (auto simp: case_prod_unfold split: option.split)

lemma fold_auditKill_plan [simp]:
  "pa_decisions (fold (\<lambda>(rq, r). auditKill az rq r) rs pa) = pa_decisions pa \<and>
   pa_pending (fold (\<lambda>(rq, r). auditKill az rq r) rs pa) = pa_pending pa"
  by (induction rs arbitrary: pa) auto

lemma executePendingKills_plan [simp]:
  "pa_decisions (snd (executePendingKills az w rqs pa)) = pa_decisions pa"
  "pa_pending (snd (executePendingKills az w rqs pa)) = pa_pending pa"
  using run_kills_plan [of az w 0 rqs pa]
  by (auto simp: executePendingKills_def split: prod.split)

lemma Enforce_kill_decision:
  assumes "\<not> az_DryRun az" "Enforce az w order st ps = (e, pa)"
    and "d \<in> set (pa_decisions pa)" "de_Action d = ''kill''"
  obtains v where "vw_Process v = de_Process d" "vw_Info v = de_Info d" "\<not> vw_Bypassed v"
    "sampled (planner az st) (sub w 0) st (az_Now az) ps v"
    "justified (planner az st) (sub w 0) st (az_Now az) ps v"
proof -
  let ?az = "planner az st"
  obtain e1 pa1 where plan: "enforce ?az (sub w 0) order st ps new_pass = (e1, pa1)"
    by (cases "enforce ?az (sub w 0) order st ps new_pass")
  have p: "planned ?az (\<lambda>v. sampled ?az (sub w 0) st (az_Now az) ps v \<and>
      justified ?az (sub w 0) st (az_Now az) ps v) pa1"
    using enforce_planned [of az st "sub w 0" ps order] plan by simp
  have same: "pa_decisions pa = pa_decisions pa1"
  proof -
    obtain ke where "executePendingKills az (sub w 1) (pa_pending pa1) pa1 = (ke, pa)"
      using assms(2) plan by (auto simp: Enforce_def split: prod.splits)
    then show ?thesis by (metis executePendingKills_plan(1) snd_conv)
  qed
  have "(de_Process d, de_Info d) \<in> set (kill_processes (pa_decisions pa1))"
    using assms(3,4) same by (auto simp: kill_processes_def)
  with p assms(1) obtain rq where "rq \<in> set (pa_pending pa1)"
    "de_Process d = vw_Process (pk_view rq)" "de_Info d = vw_Info (pk_view rq)"
    by (auto simp: planned_def)
  with p assms(1) show thesis by (intro that [of "pk_view rq"]) (auto simp: planned_def)
qed

text \<open>In a dry run nothing is planned or called.\<close>

lemma Enforce_dry:
  assumes "az_DryRun az" "Enforce az w order st ps = (e, pa)"
  shows "pa_calls pa = [] \<and> pa_pending pa = []"
proof -
  have "harmless (planner az st) (snd (enforce (planner az st) (sub w 0) order st ps new_pass))"
    by (rule harmless.enforce_I [where ok = "\<lambda>_. True" and good = "\<lambda>_. True"]) (simp_all add: harmless_def new_pass_def)
  with assms show ?thesis
    by (auto simp: harmless_def Enforce_def executePendingKills_def split: prod.splits)
qed

lemma Enforce_allowed:
  assumes "Enforce az w order st ps = (e, pa)"
    and "d \<in> set (pa_decisions pa)" "de_Action d = ''allow''" "de_Reason d = ''authorization''"
  obtains v a where "d = allowed v a" "sampled (planner az st) (sub w 0) st (az_Now az) ps v"
    "\<not> vw_Bypassed v" "admitted (planner az st) (sub w 0) st (az_Now az) v a"
proof -
  let ?az = "planner az st"
  let ?good = "\<lambda>d. \<exists>v a. d = allowed v a \<and> sampled ?az (sub w 0) st (az_Now az) ps v \<and>
    \<not> vw_Bypassed v \<and> admitted ?az (sub w 0) st (az_Now az) v a"
  have "governed ?good (snd (enforce ?az (sub w 0) order st ps new_pass))"
    by (rule governed.enforce_I [where ok = "\<lambda>_. True"]) (auto simp: governed_def new_pass_def)
  moreover have "pa_decisions pa = pa_decisions (snd (enforce ?az (sub w 0) order st ps new_pass))"
    using assms(1) by (auto simp: Enforce_def case_prod_unfold)
  ultimately show thesis using assms(2-4) that by (auto simp: governed_def)
qed

section \<open>Every process of a reserved GPU is decided\<close>

text \<open>The decision for one view, by what the search for an authorization found.\<close>

definition hard_decision ::
  "authorizer \<Rightarrow> world \<Rightarrow> state \<Rightarrow> int \<Rightarrow> reservation list \<Rightarrow> time \<Rightarrow> process_view \<Rightarrow> decision \<Rightarrow> bool" where
  "hard_decision az w st gpu rs now v d \<longleftrightarrow>
     de_Process d = vw_Process v \<and> de_Info d = vw_Info v \<and>
     (\<exists>p. case matchAnyAuthorization az (at_site w p) st gpu (vw_Info v)
               (Some (map res_TokenHash rs)) [] now of
            Matched a \<Rightarrow> de_Action d = ''allow'' \<and> de_AuthID d = auth_ID a
          | Unresolved _ \<Rightarrow> de_Action d = ''skip''
          | NoMatch \<Rightarrow> de_Action d = ''kill'' \<or> de_Action d = ''skip'')"

lemma hard_views_complete:
  assumes "\<And>p. ob_ctx (w p) = None"
  shows "\<exists>ds. pa_decisions (snd (hard_views az w st gpu rs now i errs vs pa)) = pa_decisions pa @ ds \<and>
    list_all2 (hard_decision az w st gpu rs now) (filter (\<lambda>v. \<not> vw_Bypassed v) vs) ds"
proof (induction vs arbitrary: i errs pa)
  case (Cons v vs)
  show ?case
  proof (cases "vw_Bypassed v")
    case True
    with Cons assms show ?thesis by simp
  next
    case False
    let ?m = "matchAnyAuthorization az (at_site w [i]) st gpu (vw_Info v) (Some (map res_TokenHash rs)) [] now"
    obtain errs' pa1 d where step: "snd (hard_views az w st gpu rs now i errs (v # vs) pa) =
        snd (hard_views az w st gpu rs now (Suc i) errs' vs pa1)"
      and d: "pa_decisions pa1 = pa_decisions pa @ [d]" "hard_decision az w st gpu rs now v d"
    proof (cases ?m)
      case (Matched a)
      show thesis
        by (rule that) (use False Matched assms in \<open>auto simp: sub_at_site decide_def hard_decision_def
          view_decision_def zero_decision_def intro!: exI [of _ "[i]"]\<close>)
    next
      case NoMatch
      let ?k = "killOnce az (w [i, 0]) v (access_reason gpu v (''reserved by '' @ reservationHolder rs))
        (firstReservationID rs) [] (reservationHolder rs) (tokenHashForReservations rs) now pa"
      obtain d where k: "pa_decisions (snd ?k) = pa_decisions pa @ [d]" "de_Process d = vw_Process v"
        "de_Info d = vw_Info v" "de_Action d \<in> {''kill'', ''skip''}"
        using killOnce_one_decision by blast
      then have "hard_decision az w st gpu rs now v d"
        using NoMatch by (auto simp: hard_decision_def intro!: exI [of _ "[i]"])
      with k(1) show thesis
        by (intro that [of "add_error errs (fst ?k)" "snd ?k" d])
          (use False NoMatch assms in \<open>auto simp: sub_at_site case_prod_unfold\<close>)
    next
      case (Unresolved x)
      show thesis
        by (rule that) (use False Unresolved assms in \<open>auto simp: sub_at_site decide_def hard_decision_def
          view_decision_def zero_decision_def intro!: exI [of _ "[i]"]\<close>)
    qed
    obtain ds where "pa_decisions (snd (hard_views az w st gpu rs now (Suc i) errs' vs pa1)) = pa_decisions pa1 @ ds"
      "list_all2 (hard_decision az w st gpu rs now) (filter (\<lambda>v. \<not> vw_Bypassed v) vs) ds"
      using Cons.IH by blast
    with False step d show ?thesis by (intro exI [of _ "d # ds"]) simp
  qed
qed simp

end
