(* ===== verification/Evict.thy ===== *)
theory Evict
  imports EnforceProps
begin

text \<open>
  Eviction of processes whose entitlement is gone (\<^verbatim>\<open>EvictExpiredReservedProcesses\<close>): a
  process that still matches the scope of an authorization or lease that expired, was revoked
  or lost its token is killed, unless a valid scope matches it too, a bypass rule covers it, or
  something could not be resolved. The assessment tells the daemon which stale scopes were
  seen to be quiet, so that it may forget them.
\<close>

section \<open>Entitlements\<close>

type_synonym tokens = "string \<Rightarrow> token option"
type_synonym gpu_keys = "(int \<times> string) list"

definition authorizationGloballyValid :: "authorization \<Rightarrow> tokens \<Rightarrow> time \<Rightarrow> bool" where
  "authorizationGloballyValid a tokens now =
     (if \<not> auth_Active a \<or> auth_Revoked a \<or> authorizationExpired a now then False
      else
        (case tokens (auth_TokenHash a) of
           None \<Rightarrow> False
         | Some t \<Rightarrow> \<not> tok_Revoked t \<and> (\<not> tok_Managed t \<or> auth_TokenVersion a = tok_Version t) \<and>
                     (\<not> timeIsSet (tok_ExpiresAt t) \<or> Before now (tok_ExpiresAt t))))"

definition authorizationEvictionMode :: "authorization \<Rightarrow> tokens \<Rightarrow> string" where
  "authorizationEvictionMode a tokens =
     (case tokens (auth_TokenHash a) of
        Some t \<Rightarrow> NormalizeTokenMode (tok_Mode t)
      | None \<Rightarrow> NormalizeTokenMode (auth_TokenMode a))"

definition authorizationEvictionState ::
  "authorization \<Rightarrow> int \<Rightarrow> tokens \<Rightarrow> gpu_keys \<Rightarrow> gpu_keys \<Rightarrow> time \<Rightarrow> bool \<times> bool" where
  "authorizationEvictionState a gpu tokens valid stale now =
     (let globallyValid = authorizationGloballyValid a tokens now;
          mode = authorizationEvictionMode a tokens;
          key = (gpu, auth_TokenHash a)
      in if mode = TokenModeReserved then
           (if globallyValid then
              (if key \<in> set valid then (True, False) else (False, key \<in> set stale))
            else (False, key \<in> set valid \<or> key \<in> set stale))
         else if mode = TokenModeClaimed then (globallyValid, \<not> globallyValid)
         else if mode = TokenModeManaged then
           (if key \<in> set valid then (globallyValid, \<not> globallyValid)
            else (globallyValid, \<not> globallyValid \<or> key \<in> set stale))
         else (False, False))"

definition tokenHasKnownReservation :: "gpu_keys \<Rightarrow> string \<Rightarrow> bool" where
  "tokenHasKnownReservation keys h \<longleftrightarrow> (\<exists>k\<in>set keys. snd k = h)"

definition leaseEntitledOnGPU :: "lease \<Rightarrow> int \<Rightarrow> tokens \<Rightarrow> time \<Rightarrow> bool" where
  "leaseEntitledOnGPU l gpu tokens now =
     (if \<not> lease_Active l \<or> lease_GPU l \<noteq> gpu \<or> \<not> Before now (lease_ExpiresAt l) then False
      else if lease_TokenHash l = [] then True
      else
        (case tokens (lease_TokenHash l) of
           None \<Rightarrow> False
         | Some t \<Rightarrow> \<not> tok_Revoked t \<and> (\<not> timeIsSet (tok_ExpiresAt t) \<or> Before now (tok_ExpiresAt t))))"

definition leaseEvictionState :: "lease \<Rightarrow> int \<Rightarrow> tokens \<Rightarrow> time \<Rightarrow> bool \<times> bool" where
  "leaseEvictionState l gpu tokens now =
     (if lease_GPU l \<noteq> gpu then (False, False)
      else let entitled = leaseEntitledOnGPU l gpu tokens now in (entitled, \<not> entitled))"

section \<open>Tables and the first assessment\<close>

definition tokens_by_hash :: "state \<Rightarrow> tokens" where
  "tokens_by_hash st = go_map (map (\<lambda>t. (tok_Hash t, t)) (st_Tokens st))"

definition res_key :: "reservation \<Rightarrow> int \<times> string" where
  "res_key r = (res_GPU r, res_TokenHash r)"

definition reservation_token_valid :: "state \<Rightarrow> time \<Rightarrow> reservation \<Rightarrow> bool" where
  "reservation_token_valid st now r =
     (case tokens_by_hash st (res_TokenHash r) of
        None \<Rightarrow> False
      | Some t \<Rightarrow> \<not> tok_Revoked t \<and> NormalizeTokenMode (tok_Mode t) = TokenModeReserved \<and>
                  (\<not> timeIsSet (tok_ExpiresAt t) \<or> Before now (tok_ExpiresAt t)))"

definition validReservations :: "state \<Rightarrow> time \<Rightarrow> gpu_keys" where
  "validReservations st now =
     map res_key (filter (\<lambda>r. res_TokenHash r \<noteq> [] \<and> reservation_token_valid st now r \<and>
       ReservationActiveAt r now) (st_Reservations st))"

definition staleReservations :: "state \<Rightarrow> time \<Rightarrow> gpu_keys" where
  "staleReservations st now =
     map res_key (filter (\<lambda>r. res_TokenHash r \<noteq> [] \<and>
       \<not> (reservation_token_valid st now r \<and> ReservationActiveAt r now) \<and>
       (\<not> reservation_token_valid st now r \<or> \<not> res_Active r \<or> res_Revoked r \<or>
        \<not> Before now (res_ExpiresAt r))) (st_Reservations st))"

definition reservationIDs :: "state \<Rightarrow> int \<times> string \<Rightarrow> string" where
  "reservationIDs st key =
     (case find (\<lambda>r. res_TokenHash r \<noteq> [] \<and> res_key r = key \<and> res_ID r \<noteq> []) (st_Reservations st) of
        None \<Rightarrow> [] | Some r \<Rightarrow> res_ID r)"

record assessment =
  as_Authorizations :: "string \<Rightarrow> bool option"
  as_Leases :: "string \<Rightarrow> bool option"

definition tracked_authorization :: "state \<Rightarrow> time \<Rightarrow> authorization \<Rightarrow> bool" where
  "tracked_authorization st now a \<longleftrightarrow>
     (let tokens = tokens_by_hash st; mode = authorizationEvictionMode a tokens in
      \<not> (auth_Mode a = ModeBare \<or> auth_CgroupPath a \<noteq> [] \<or> authorizationGloballyValid a tokens now) \<and>
      (mode = TokenModeClaimed \<or> mode = TokenModeManaged \<or>
       tokenHasKnownReservation (staleReservations st now) (auth_TokenHash a) \<or>
       tokenHasKnownReservation (validReservations st now) (auth_TokenHash a)))"

definition tracked_lease :: "state \<Rightarrow> time \<Rightarrow> lease \<Rightarrow> bool" where
  "tracked_lease st now l \<longleftrightarrow>
     \<not> (lease_Mode l = ModeBare \<or> lease_CgroupPath l \<noteq> [] \<or>
        leaseEntitledOnGPU l (lease_GPU l) (tokens_by_hash st) now)"

definition first_assessment :: "state \<Rightarrow> time \<Rightarrow> assessment" where
  "first_assessment st now =
     \<lparr>as_Authorizations = map_of (map (\<lambda>a. (auth_ID a, True))
        (filter (tracked_authorization st now) (st_Authorizations st))),
      as_Leases = map_of (map (\<lambda>l. (lease_ID l, True))
        (filter (tracked_lease st now) (st_Leases st)))\<rparr>"

definition markEvictionAssessmentUncertain :: "assessment \<Rightarrow> assessment" where
  "markEvictionAssessmentUncertain q =
     \<lparr>as_Authorizations = map_option (\<lambda>_. False) \<circ> as_Authorizations q,
      as_Leases = map_option (\<lambda>_. False) \<circ> as_Leases q\<rparr>"

definition mark_busy :: "authorization list \<Rightarrow> lease list \<Rightarrow> assessment \<Rightarrow> assessment" where
  "mark_busy auths ls q =
     \<lparr>as_Authorizations = fold (\<lambda>a m. m(auth_ID a \<mapsto> False)) auths (as_Authorizations q),
      as_Leases = fold (\<lambda>l m. m(lease_ID l \<mapsto> False)) ls (as_Leases q)\<rparr>"

section \<open>One process\<close>

datatype 'a scan = ScanFailed error | ScanValid | ScanInvalid 'a

fun scan_authorizations ::
  "authorizer \<Rightarrow> world \<Rightarrow> state \<Rightarrow> time \<Rightarrow> int \<Rightarrow> proc_info \<Rightarrow> nat \<Rightarrow> authorization list \<Rightarrow>
   authorization list \<Rightarrow> authorization list scan" where
  "scan_authorizations az w st now gpu info i invalid [] = ScanInvalid invalid"
| "scan_authorizations az w st now gpu info i invalid (a # as) =
     (case ob_ctx (w [i]) of
        Some e \<Rightarrow> ScanFailed e
      | None \<Rightarrow>
          (case authorizationEvictionState a gpu (tokens_by_hash st) (validReservations st now)
                  (staleReservations st now) now of
             (entitled, staleRelevant) \<Rightarrow>
               if \<not> entitled \<and> \<not> staleRelevant
               then scan_authorizations az w st now gpu info (Suc i) invalid as
               else
                 (case authorizationScopeMatchesForEviction az (w [i]) a info of
                    Inl e \<Rightarrow> ScanFailed e
                  | Inr matches \<Rightarrow>
                      if \<not> matches then scan_authorizations az w st now gpu info (Suc i) invalid as
                      else if entitled then ScanValid
                      else scan_authorizations az w st now gpu info (Suc i) (invalid @ [a]) as)))"

fun scan_leases ::
  "authorizer \<Rightarrow> world \<Rightarrow> state \<Rightarrow> time \<Rightarrow> int \<Rightarrow> proc_info \<Rightarrow> nat \<Rightarrow> lease list \<Rightarrow> lease list \<Rightarrow>
   lease list scan" where
  "scan_leases az w st now gpu info i invalid [] = ScanInvalid invalid"
| "scan_leases az w st now gpu info i invalid (l # ls) =
     (case ob_ctx (w [i]) of
        Some e \<Rightarrow> ScanFailed e
      | None \<Rightarrow>
          (case leaseEvictionState l gpu (tokens_by_hash st) now of
             (entitled, staleRelevant) \<Rightarrow>
               if \<not> entitled \<and> \<not> staleRelevant
               then scan_leases az w st now gpu info (Suc i) invalid ls
               else
                 (case leaseScopeMatchesForEviction az (w [i]) l info of
                    Inl e \<Rightarrow> ScanFailed e
                  | Inr matches \<Rightarrow>
                      if \<not> matches then scan_leases az w st now gpu info (Suc i) invalid ls
                      else if entitled then ScanValid
                      else scan_leases az w st now gpu info (Suc i) (invalid @ [l]) ls)))"

text \<open>Both scans: the leases are looked at unless the authorizations settled the matter.\<close>

definition scan_process ::
  "authorizer \<Rightarrow> world \<Rightarrow> state \<Rightarrow> time \<Rightarrow> int \<Rightarrow> proc_info \<Rightarrow> (authorization list \<times> lease list) scan" where
  "scan_process az w st now gpu info =
     (case scan_authorizations az (sub w 0) st now gpu info 0 [] (st_Authorizations st) of
        ScanFailed e \<Rightarrow> ScanFailed e
      | ScanValid \<Rightarrow> ScanValid
      | ScanInvalid auths \<Rightarrow>
          (case scan_leases az (sub w 1) st now gpu info 0 [] (st_Leases st) of
             ScanFailed e \<Rightarrow> ScanFailed e
           | ScanValid \<Rightarrow> ScanValid
           | ScanInvalid ls \<Rightarrow> ScanInvalid (auths, ls)))"

record evict_state =
  es_cache :: "(int \<times> proc_info option) list"
  es_killed :: "int list"
  es_assessment :: assessment
  es_errors :: "error list"
  es_pass :: pass

definition evict_fail :: "error \<Rightarrow> evict_state \<Rightarrow> evict_state" where
  "evict_fail e s = s\<lparr>es_assessment := markEvictionAssessmentUncertain (es_assessment s),
                      es_errors := es_errors s @ [e]\<rparr>"

definition evict_reason :: "gpu_process \<Rightarrow> string" where
  "evict_reason p = ''GPU entitlement expired or was revoked on gpu='' @ int_text (gp_GPU p) @
     '' pid='' @ int_text (gp_PID p)"

text \<open>The end of the loop body: the process is killed in the name of the first invalid scope.\<close>

definition evict_kill ::
  "authorizer \<Rightarrow> obs \<Rightarrow> state \<Rightarrow> time \<Rightarrow> gpu_process \<Rightarrow> proc_info \<Rightarrow> authorization list \<Rightarrow> lease list \<Rightarrow>
   evict_state \<Rightarrow> evict_state" where
  "evict_kill az ob st now p info auths ls s =
     (let a = (case auths of [] \<Rightarrow> zero_authorization | a # _ \<Rightarrow> a);
          l = (case ls of [] \<Rightarrow> zero_lease | l # _ \<Rightarrow> l);
          leaseID = (if auth_ID a \<noteq> [] then reservationIDs st (gp_GPU p, auth_TokenHash a)
                     else lease_ID l);
          holder = (if auth_ID a \<noteq> [] then auth_Holder a else lease_Holder l);
          tokenHash = (if auth_ID a \<noteq> [] then auth_TokenHash a else lease_TokenHash l)
      in case kill az ob \<lparr>vw_Process = p, vw_Info = info, vw_Bypassed = False\<rparr> (evict_reason p)
                leaseID (auth_ID a) holder tokenHash now (es_pass s) of
           (e, pa) \<Rightarrow>
             let s1 = s\<lparr>es_killed := gp_PID p # es_killed s, es_pass := pa\<rparr>
             in (case e of None \<Rightarrow> s1 | Some x \<Rightarrow> evict_fail x s1))"

definition evict_process ::
  "authorizer \<Rightarrow> world \<Rightarrow> state \<Rightarrow> time \<Rightarrow> gpu_process \<Rightarrow> proc_info \<Rightarrow> evict_state \<Rightarrow> evict_state" where
  "evict_process az w st now p info s =
     (case scan_process az w st now (gp_GPU p) info of
        ScanFailed e \<Rightarrow> evict_fail e s
      | ScanValid \<Rightarrow> s
      | ScanInvalid (auths, ls) \<Rightarrow>
          if auths = [] \<and> ls = [] then s
          else
            let s1 = s\<lparr>es_assessment := mark_busy auths ls (es_assessment s)\<rparr>
            in if BypassMatch (st_Bypasses st) info now (az_BootID az) then s1
               else evict_kill az (w []) st now p info auths ls s1)"

section \<open>The loop over the sample\<close>

fun evict_loop ::
  "authorizer \<Rightarrow> world \<Rightarrow> state \<Rightarrow> time \<Rightarrow> nat \<Rightarrow> gpu_process list \<Rightarrow> evict_state \<Rightarrow> evict_state" where
  "evict_loop az w st now i [] s = s"
| "evict_loop az w st now i (p # ps) s =
     (case ob_ctx (w [i]) of
        Some e \<Rightarrow> evict_fail e s
      | None \<Rightarrow>
          if gp_PID p \<le> 0 \<or> gp_PID p \<in> set (es_killed s) then evict_loop az w st now (Suc i) ps s
          else
            (case map_of (es_cache s) (gp_PID p) of
               Some None \<Rightarrow> evict_loop az w st now (Suc i) ps s
             | Some (Some info) \<Rightarrow>
                 evict_loop az w st now (Suc i) ps (evict_process az (sub w i) st now p info s)
             | None \<Rightarrow>
                 (case ob_Info (w [i]) (gp_PID p) of
                    Inl e \<Rightarrow>
                      if e = ErrNotExist
                      then evict_loop az w st now (Suc i) ps
                             (s\<lparr>es_cache := (gp_PID p, None) # es_cache s\<rparr>)
                      else evict_loop az w st now (Suc i) ps
                             (evict_fail (ErrWrap ''inspect sampled pid before stale-scope eviction''
                                (int_text (gp_PID p)) e) s)
                  | Inr info \<Rightarrow>
                      evict_loop az w st now (Suc i) ps
                        (evict_process az (sub w i) st now p info
                           (s\<lparr>es_cache := (gp_PID p, Some info) # es_cache s\<rparr>)))))"

definition evictExpiredReservedProcesses ::
  "authorizer \<Rightarrow> world \<Rightarrow> state \<Rightarrow> gpu_process list \<Rightarrow> error option \<times> assessment \<times> pass" where
  "evictExpiredReservedProcesses az w st processes =
     (let now = az_Now az in
      if \<not> az_Proc az
      then (None, \<lparr>as_Authorizations = Map.empty, as_Leases = Map.empty\<rparr>, new_pass)
      else
        let s = evict_loop az w st now 0 processes
                  \<lparr>es_cache = [], es_killed = [], es_assessment = first_assessment st now,
                   es_errors = [], es_pass = new_pass\<rparr>
        in (join_with (es_errors s), es_assessment s, es_pass s))"

definition eviction_planner :: "authorizer \<Rightarrow> authorizer" where
  "eviction_planner az =
     az\<lparr>az_pendingKills := (if az_DryRun az then az_pendingKills az else True)\<rparr>"

definition EvictExpiredReservedProcesses ::
  "authorizer \<Rightarrow> world \<Rightarrow> state \<Rightarrow> gpu_process list \<Rightarrow> error option \<times> assessment \<times> pass" where
  "EvictExpiredReservedProcesses az w st processes =
     (case evictExpiredReservedProcesses (eviction_planner az) (sub w 0) st processes of
        (planningErr, q, pa) \<Rightarrow>
          (case executePendingKills az (sub w 1) (pa_pending pa) pa of
             (killErr, pa') \<Rightarrow>
               (errors_Join [planningErr, killErr],
                (if killErr \<noteq> None then markEvictionAssessmentUncertain q else q), pa')))"

section \<open>What a scan means\<close>

lemma scan_authorizations_Invalid:
  "scan_authorizations az w st now gpu info i bad as = ScanInvalid bad' \<Longrightarrow>
     (\<forall>a\<in>set bad'. a \<in> set bad \<or> (a \<in> set as \<and>
        authorizationEvictionState a gpu (tokens_by_hash st) (validReservations st now)
          (staleReservations st now) now = (False, True) \<and>
        (\<exists>p. authorizationScopeMatchesForEviction az (w p) a info = Inr True))) \<and>
     (\<forall>a\<in>set as. fst (authorizationEvictionState a gpu (tokens_by_hash st) (validReservations st now)
          (staleReservations st now) now) \<longrightarrow>
        (\<exists>p. authorizationScopeMatchesForEviction az (w p) a info = Inr False))"
proof (induction as arbitrary: i bad)
  case (Cons a as)
  obtain ent stl where es: "authorizationEvictionState a gpu (tokens_by_hash st)
      (validReservations st now) (staleReservations st now) now = (ent, stl)" by fastforce
  have ctx: "ob_ctx (w [i]) = None" using Cons.prems by (cases "ob_ctx (w [i])") auto
  show ?case
  proof (cases "\<not> ent \<and> \<not> stl")
    case True
    with Cons es ctx show ?thesis by fastforce
  next
    case False
    with Cons.prems es ctx obtain m where
      m: "authorizationScopeMatchesForEviction az (w [i]) a info = Inr m"
      by (auto split: sum.splits)
    show ?thesis
    proof (cases m)
      case True
      with Cons.prems es ctx m False have "\<not> ent" "stl"
        "scan_authorizations az w st now gpu info (Suc i) (bad @ [a]) as = ScanInvalid bad'"
        by (auto split: if_splits)
      with Cons.IH [of "Suc i" "bad @ [a]"] es m True show ?thesis by fastforce
    next
      case no: False
      with Cons.prems es ctx m False
      have "scan_authorizations az w st now gpu info (Suc i) bad as = ScanInvalid bad'"
        by (auto split: if_splits)
      with Cons.IH [of "Suc i" bad] es m no show ?thesis by fastforce
    qed
  qed
qed simp

lemma scan_leases_Invalid:
  "scan_leases az w st now gpu info i bad ls = ScanInvalid bad' \<Longrightarrow>
     (\<forall>l\<in>set bad'. l \<in> set bad \<or> (l \<in> set ls \<and>
        leaseEvictionState l gpu (tokens_by_hash st) now = (False, True) \<and>
        (\<exists>p. leaseScopeMatchesForEviction az (w p) l info = Inr True))) \<and>
     (\<forall>l\<in>set ls. fst (leaseEvictionState l gpu (tokens_by_hash st) now) \<longrightarrow>
        (\<exists>p. leaseScopeMatchesForEviction az (w p) l info = Inr False))"
proof (induction ls arbitrary: i bad)
  case (Cons l ls)
  obtain ent stl where es: "leaseEvictionState l gpu (tokens_by_hash st) now = (ent, stl)"
    by fastforce
  have ctx: "ob_ctx (w [i]) = None" using Cons.prems by (cases "ob_ctx (w [i])") auto
  show ?case
  proof (cases "\<not> ent \<and> \<not> stl")
    case True
    with Cons es ctx show ?thesis by fastforce
  next
    case False
    with Cons.prems es ctx obtain m where
      m: "leaseScopeMatchesForEviction az (w [i]) l info = Inr m"
      by (auto split: sum.splits)
    show ?thesis
    proof (cases m)
      case True
      with Cons.prems es ctx m False have "\<not> ent" "stl"
        "scan_leases az w st now gpu info (Suc i) (bad @ [l]) ls = ScanInvalid bad'"
        by (auto split: if_splits)
      with Cons.IH [of "Suc i" "bad @ [l]"] es m True show ?thesis by fastforce
    next
      case no: False
      with Cons.prems es ctx m False
      have "scan_leases az w st now gpu info (Suc i) bad ls = ScanInvalid bad'"
        by (auto split: if_splits)
      with Cons.IH [of "Suc i" bad] es m no show ?thesis by fastforce
    qed
  qed
qed simp

text \<open>
  A process that may be evicted: a stale scope matches it, and every valid scope was seen
  not to.
\<close>

definition evictable ::
  "authorizer \<Rightarrow> world \<Rightarrow> state \<Rightarrow> time \<Rightarrow> int \<Rightarrow> proc_info \<Rightarrow> bool" where
  "evictable az w st now gpu info \<longleftrightarrow>
     ((\<exists>a\<in>set (st_Authorizations st).
         authorizationEvictionState a gpu (tokens_by_hash st) (validReservations st now)
           (staleReservations st now) now = (False, True) \<and>
         (\<exists>p. authorizationScopeMatchesForEviction az (w p) a info = Inr True)) \<or>
      (\<exists>l\<in>set (st_Leases st). leaseEvictionState l gpu (tokens_by_hash st) now = (False, True) \<and>
         (\<exists>p. leaseScopeMatchesForEviction az (w p) l info = Inr True))) \<and>
     (\<forall>a\<in>set (st_Authorizations st).
        fst (authorizationEvictionState a gpu (tokens_by_hash st) (validReservations st now)
          (staleReservations st now) now) \<longrightarrow>
        (\<exists>p. authorizationScopeMatchesForEviction az (w p) a info = Inr False)) \<and>
     (\<forall>l\<in>set (st_Leases st). fst (leaseEvictionState l gpu (tokens_by_hash st) now) \<longrightarrow>
        (\<exists>p. leaseScopeMatchesForEviction az (w p) l info = Inr False))"

lemma scan_process_Invalid:
  assumes "scan_process az (at_site w p) st now gpu info = ScanInvalid (auths, ls)"
    and "\<not> (auths = [] \<and> ls = [])"
  shows "evictable az w st now gpu info"
proof -
  have a: "scan_authorizations az (at_site w (p @ [0])) st now gpu info 0 [] (st_Authorizations st)
      = ScanInvalid auths"
    and l: "scan_leases az (at_site w (p @ [1])) st now gpu info 0 [] (st_Leases st) = ScanInvalid ls"
    using assms(1) by (auto simp: scan_process_def sub_at_site split: scan.splits)
  note A = scan_authorizations_Invalid [OF a] and L = scan_leases_Invalid [OF l]
  from assms(2) consider x where "x \<in> set auths" | y where "y \<in> set ls"
    by (metis hd_in_set)
  then show ?thesis
  proof cases
    case 1
    with A L show ?thesis unfolding evictable_def at_site_def by simp blast
  next
    case 2
    with A L show ?thesis unfolding evictable_def at_site_def by simp blast
  qed
qed

section \<open>Invariants of the loop\<close>

text \<open>
  The interface of the loop: what it may do to its state. An invariant that survives a
  failure, a change of the cache, the marking of busy scopes and the eviction of an evictable
  process survives the loop.
\<close>

locale evict_contract =
  fixes az :: authorizer and w :: world and st :: state and now :: time
    and sampled_ps :: "gpu_process list" and Q :: "evict_state \<Rightarrow> bool"
  assumes fail_Q: "Q s \<Longrightarrow> Q (evict_fail e s)"
    and cache_Q: "Q s \<Longrightarrow> Q (s\<lparr>es_cache := c\<rparr>)"
    and busy_Q: "\<lbrakk>Q s; \<not> (auths = [] \<and> ls = [])\<rbrakk> \<Longrightarrow>
      Q (s\<lparr>es_assessment := mark_busy auths ls (es_assessment s)\<rparr>)"
    and kill_Q: "\<lbrakk>Q s; p \<in> set sampled_ps; 0 < gp_PID p; gp_PID p \<notin> set (es_killed s);
      \<exists>q. ob_Info (w q) (gp_PID p) = Inr info; evictable az w st now (gp_GPU p) info;
      \<not> (auths = [] \<and> ls = []); \<not> BypassMatch (st_Bypasses st) info now (az_BootID az)\<rbrakk> \<Longrightarrow>
      Q (evict_kill az ob st now p info auths ls
        (s\<lparr>es_assessment := mark_busy auths ls (es_assessment s)\<rparr>))"
begin

lemma process_Q:
  assumes "Q s" "p \<in> set sampled_ps" "0 < gp_PID p" "gp_PID p \<notin> set (es_killed s)"
    and "\<exists>q. ob_Info (w q) (gp_PID p) = Inr info"
  shows "Q (evict_process az (at_site w site) st now p info s)"
proof (cases "scan_process az (at_site w site) st now (gp_GPU p) info")
  case (ScanInvalid found)
  obtain auths ls where found: "found = (auths, ls)" by (cases found)
  show ?thesis
  proof (cases "auths = [] \<and> ls = []")
    case True
    with ScanInvalid found assms(1) show ?thesis by (simp add: evict_process_def)
  next
    case False
    with ScanInvalid found have "evictable az w st now (gp_GPU p) info"
      by (auto intro: scan_process_Invalid)
    note kill_Q [OF assms(1-4) assms(5) this False]
    with False ScanInvalid found busy_Q [OF assms(1) False] show ?thesis
      by (auto simp: evict_process_def Let_def)
  qed
qed (use assms(1) in \<open>auto simp: evict_process_def fail_Q\<close>)

end

definition cache_ok :: "world \<Rightarrow> evict_state \<Rightarrow> bool" where
  "cache_ok w s \<longleftrightarrow> (\<forall>pid info. map_of (es_cache s) pid = Some (Some info) \<longrightarrow>
     (\<exists>q. ob_Info (w q) pid = Inr info))"

lemma evict_fail_cache [simp]: "es_cache (evict_fail e s) = es_cache s"
  by (simp add: evict_fail_def)

lemma evict_kill_cache [simp]: "es_cache (evict_kill az ob st now p info auths ls s) = es_cache s"
  by (simp add: evict_kill_def Let_def split: prod.split option.split)

lemma evict_process_cache [simp]: "es_cache (evict_process az w st now p info s) = es_cache s"
  by (simp add: evict_process_def Let_def split: scan.split prod.split)

context evict_contract
begin

lemma loop_Q:
  assumes "Q s" "cache_ok w s" "set ps \<subseteq> set sampled_ps"
  shows "Q (evict_loop az (at_site w site) st now i ps s)"
  using assms
proof (induction ps arbitrary: i s)
  case (Cons p ps)
  let ?w = "at_site w site"
  let ?step = "\<lambda>info s. evict_process az (sub ?w i) st now p info s"
  have here: "?w [i] = w (site @ [i])" by (simp add: at_site_def)
  have step: "Q (?step info s1) \<and> cache_ok w (?step info s1)"
    if "Q s1" "cache_ok w s1" "0 < gp_PID p" "gp_PID p \<notin> set (es_killed s1)"
      "\<exists>q. ob_Info (w q) (gp_PID p) = Inr info" for s1 info
    using that Cons.prems(3) process_Q [of s1 p info "site @ [i]"]
    by (auto simp: sub_at_site cache_ok_def)
  show ?case
  proof (cases "ob_ctx (?w [i]) \<noteq> None \<or> gp_PID p \<le> 0 \<or> gp_PID p \<in> set (es_killed s)")
    case True
    with Cons show ?thesis by (auto simp: fail_Q split: option.split)
  next
    case False
    show ?thesis
    proof (cases "map_of (es_cache s) (gp_PID p)")
      case (Some c)
      then show ?thesis
      proof (cases c)
        case info: (Some info)
        with Some Cons.prems(2) have "\<exists>q. ob_Info (w q) (gp_PID p) = Inr info"
          by (auto simp: cache_ok_def)
        with False Cons step [of s info] Some info show ?thesis by auto
      qed (use Some False Cons in auto)
    next
      case None
      show ?thesis
      proof (cases "ob_Info (?w [i]) (gp_PID p)")
        case (Inl e)
        have "cache_ok w (s\<lparr>es_cache := (gp_PID p, None) # es_cache s\<rparr>)" "cache_ok w (evict_fail x s)" for x
          using Cons.prems(2) by (auto simp: cache_ok_def)
        with Inl None False Cons show ?thesis by (auto simp: fail_Q cache_Q)
      next
        case (Inr info)
        define s1 where "s1 = s\<lparr>es_cache := (gp_PID p, Some info) # es_cache s\<rparr>"
        have q: "\<exists>q. ob_Info (w q) (gp_PID p) = Inr info" using Inr here by metis
        then have "cache_ok w s1" using Cons.prems(2) by (auto simp: cache_ok_def s1_def)
        with q False Cons.prems(1) have "Q (?step info s1)" "cache_ok w (?step info s1)"
          using step [of s1 info] by (auto simp: s1_def cache_Q)
        with Inr None False Cons show ?thesis by (auto simp: s1_def)
      qed
    qed
  qed
qed simp

end

text \<open>The budget of an eviction pass, and what it may target.\<close>

definition eviction_target ::
  "authorizer \<Rightarrow> world \<Rightarrow> state \<Rightarrow> time \<Rightarrow> gpu_process list \<Rightarrow> process_view \<Rightarrow> bool" where
  "eviction_target az w st now ps v \<longleftrightarrow>
     vw_Process v \<in> set ps \<and> 0 < view_pid v \<and>
     (\<exists>q. ob_Info (w q) (view_pid v) = Inr (vw_Info v)) \<and>
     evictable az w st now (view_gpu v) (vw_Info v) \<and>
     \<not> BypassMatch (st_Bypasses st) (vw_Info v) now (az_BootID az)"

definition evict_planned ::
  "authorizer \<Rightarrow> world \<Rightarrow> state \<Rightarrow> time \<Rightarrow> gpu_process list \<Rightarrow> evict_state \<Rightarrow> bool" where
  "evict_planned az w st now ps s \<longleftrightarrow>
     (planning az \<longrightarrow>
        length (pa_pending (es_pass s)) \<le> maxKillsPerEnforcementPass \<and>
        distinct (map (view_pid \<circ> pk_view) (pa_pending (es_pass s))) \<and>
        set (map (view_pid \<circ> pk_view) (pa_pending (es_pass s))) \<subseteq> set (es_killed s) \<and>
        (\<forall>rq\<in>set (pa_pending (es_pass s)). eviction_target az w st now ps (pk_view rq)) \<and>
        pa_calls (es_pass s) = [])"

text \<open>In planning mode a kill never fails and only adds a request, if there is room.\<close>

lemma kill_planning:
  assumes "planning az" "kill az ob v reason l a h t now pa = (e, pa')"
  shows "e = None" "pa_calls pa' = pa_calls pa" "pa_targeted pa' = pa_targeted pa"
    "pa_pending pa' = (if length (pa_pending pa) \<ge> maxKillsPerEnforcementPass then pa_pending pa
       else pa_pending pa @ [\<lparr>pk_view = v, pk_reason = reason, pk_leaseID = l, pk_authID = a,
         pk_holder = h, pk_tokenHash = t, pk_now = now\<rparr>])"
  using assms by (auto simp: kill_def Let_def decide_def split: if_splits)

lemma evict_kill_cases:
  obtains l h t e pa where
    "kill az ob \<lparr>vw_Process = p, vw_Info = info, vw_Bypassed = False\<rparr> (evict_reason p) l
       (case auths of [] \<Rightarrow> [] | a # _ \<Rightarrow> auth_ID a) h t now (es_pass s) = (e, pa)"
    "evict_kill az ob st now p info auths ls s =
       (let s1 = s\<lparr>es_killed := gp_PID p # es_killed s, es_pass := pa\<rparr>
        in case e of None \<Rightarrow> s1 | Some x \<Rightarrow> evict_fail x s1)"
proof -
  have "auth_ID (case auths of [] \<Rightarrow> zero_authorization | a # _ \<Rightarrow> a) =
      (case auths of [] \<Rightarrow> [] | a # _ \<Rightarrow> auth_ID a)"
    by (simp add: zero_authorization_def split: list.split)
  note a = this
  obtain e pa where k: "kill az ob \<lparr>vw_Process = p, vw_Info = info, vw_Bypassed = False\<rparr>
      (evict_reason p) l (case auths of [] \<Rightarrow> [] | a # _ \<Rightarrow> auth_ID a) h t now (es_pass s) = (e l h t, pa l h t)"
    for l h t
    by (rule that [of "\<lambda>l h t. fst (kill az ob \<lparr>vw_Process = p, vw_Info = info, vw_Bypassed = False\<rparr>
        (evict_reason p) l (case auths of [] \<Rightarrow> [] | a # _ \<Rightarrow> auth_ID a) h t now (es_pass s))"
        "\<lambda>l h t. snd (kill az ob \<lparr>vw_Process = p, vw_Info = info, vw_Bypassed = False\<rparr>
        (evict_reason p) l (case auths of [] \<Rightarrow> [] | a # _ \<Rightarrow> auth_ID a) h t now (es_pass s))"]) simp
  show thesis
    by (rule that [OF k]) (simp add: evict_kill_def Let_def a k)
qed

lemma evict_kill_planning:
  assumes "planning az"
  shows "es_errors (evict_kill az ob st now p info auths ls s) = es_errors s \<and>
    es_assessment (evict_kill az ob st now p info auths ls s) = es_assessment s \<and>
    es_killed (evict_kill az ob st now p info auths ls s) = gp_PID p # es_killed s \<and>
    pa_calls (es_pass (evict_kill az ob st now p info auths ls s)) = pa_calls (es_pass s) \<and>
    (pa_pending (es_pass (evict_kill az ob st now p info auths ls s)) = pa_pending (es_pass s) \<or>
     (length (pa_pending (es_pass s)) < maxKillsPerEnforcementPass \<and>
      (\<exists>rq. pa_pending (es_pass (evict_kill az ob st now p info auths ls s)) =
          pa_pending (es_pass s) @ [rq] \<and>
        pk_view rq = \<lparr>vw_Process = p, vw_Info = info, vw_Bypassed = False\<rparr> \<and>
        pk_authID rq = (case auths of [] \<Rightarrow> [] | a # _ \<Rightarrow> auth_ID a))))"
proof (cases rule: evict_kill_cases [of az ob p info auths now s st ls])
  case (1 l h t e pa)
  note k = kill_planning [OF assms 1(1)]
  from k(1,2,4) 1(2) show ?thesis by (auto simp: Let_def)
qed

interpretation evict_plan: evict_contract az w st now ps "evict_planned az w st now ps"
  for az w st now ps
proof unfold_locales
  fix s p info auths ls ob
  assume Q: "evict_planned az w st now ps s" and p: "p \<in> set ps" "0 < gp_PID p"
    "gp_PID p \<notin> set (es_killed s)" "\<exists>q. ob_Info (w q) (gp_PID p) = Inr info"
    "evictable az w st now (gp_GPU p) info" "\<not> BypassMatch (st_Bypasses st) info now (az_BootID az)"
  let ?s = "s\<lparr>es_assessment := mark_busy auths ls (es_assessment s)\<rparr>"
  show "evict_planned az w st now ps (evict_kill az ob st now p info auths ls ?s)"
  proof (cases "planning az")
    case True
    have "eviction_target az w st now ps \<lparr>vw_Process = p, vw_Info = info, vw_Bypassed = False\<rparr>"
      using p by (simp add: eviction_target_def)
    with Q p(3) True evict_kill_planning [OF True, of ob st now p info auths ls ?s] show ?thesis
      unfolding evict_planned_def by (elim disjE conjE exE) auto
  next
    case False
    then show ?thesis unfolding evict_planned_def by blast
  qed
qed (auto simp: evict_planned_def evict_fail_def)

text \<open>After a failure no scope counts as quiet.\<close>

definition uncertain_after_error :: "evict_state \<Rightarrow> bool" where
  "uncertain_after_error s \<longleftrightarrow>
     (es_errors s \<noteq> [] \<longrightarrow> (\<forall>i. as_Authorizations (es_assessment s) i \<noteq> Some True \<and>
        as_Leases (es_assessment s) i \<noteq> Some True))"

lemma fold_upd_False:
  "fold (\<lambda>x m. m(f x \<mapsto> False)) xs m i = (if i \<in> f ` set xs then Some False else m i)"
  by (induction xs arbitrary: m) auto

lemma mark_uncertain [simp]:
  "as_Authorizations (markEvictionAssessmentUncertain q) i \<noteq> Some True"
  "as_Leases (markEvictionAssessmentUncertain q) i \<noteq> Some True"
  by (auto simp: markEvictionAssessmentUncertain_def)

lemma uncertain_fail [simp]: "uncertain_after_error (evict_fail e s)"
  by (simp add: uncertain_after_error_def evict_fail_def)

lemma uncertain_busy:
  "uncertain_after_error s \<Longrightarrow>
   uncertain_after_error (s\<lparr>es_assessment := mark_busy auths ls (es_assessment s)\<rparr>)"
  by (auto simp: uncertain_after_error_def mark_busy_def fold_upd_False)

lemma uncertain_kill:
  "uncertain_after_error s \<Longrightarrow> uncertain_after_error (evict_kill az ob st now p info auths ls s)"
  by (cases rule: evict_kill_cases [of az ob p info auths now s st ls])
    (auto simp: Let_def uncertain_after_error_def evict_fail_def split: option.split)

interpretation uncertain: evict_contract az w st now ps uncertain_after_error for az w st now ps
  by unfold_locales (auto simp: uncertain_busy uncertain_kill, auto simp: uncertain_after_error_def)

text \<open>A scope in whose name a process is killed does not count as quiet.\<close>

definition blamed_busy :: "authorizer \<Rightarrow> evict_state \<Rightarrow> bool" where
  "blamed_busy az s \<longleftrightarrow>
     (planning az \<longrightarrow> (\<forall>rq\<in>set (pa_pending (es_pass s)). pk_authID rq \<noteq> [] \<longrightarrow>
        as_Authorizations (es_assessment s) (pk_authID rq) = Some False))"

lemma blamed_busy_mark:
  "blamed_busy az s \<Longrightarrow>
   blamed_busy az (s\<lparr>es_assessment := mark_busy auths ls (es_assessment s)\<rparr>)"
  by (auto simp: blamed_busy_def mark_busy_def fold_upd_False)

interpretation blamed: evict_contract az w st now ps "blamed_busy az" for az w st now ps
proof unfold_locales
  fix s p info auths ls ob
  assume Q: "blamed_busy az s"
  let ?s = "s\<lparr>es_assessment := mark_busy auths ls (es_assessment s)\<rparr>"
  have "as_Authorizations (es_assessment ?s) (auth_ID a) = Some False" if "a \<in> set auths" for a
    using that by (auto simp: mark_busy_def fold_upd_False)
  then show "blamed_busy az (evict_kill az ob st now p info auths ls ?s)"
    using evict_kill_planning [of az ob st now p info auths ls ?s] blamed_busy_mark [OF Q, of auths ls]
    by (auto simp: blamed_busy_def split: list.splits)
next
  fix s e
  assume "blamed_busy az s"
  then show "blamed_busy az (evict_fail e s)"
    by (auto simp: blamed_busy_def evict_fail_def markEvictionAssessmentUncertain_def)
qed (auto simp: blamed_busy_mark, auto simp: blamed_busy_def)

section \<open>The whole eviction pass\<close>

lemma evictExpired_inv:
  assumes "evict_contract az w st (az_Now az) ps Q"
    and "Q \<lparr>es_cache = [], es_killed = [], es_assessment = first_assessment st (az_Now az),
           es_errors = [], es_pass = new_pass\<rparr>"
    and "az_Proc az" "evictExpiredReservedProcesses az w st ps = (e, q, pa)"
  obtains s where "Q s" "e = join_with (es_errors s)" "q = es_assessment s" "pa = es_pass s"
  using evict_contract.loop_Q [OF assms(1,2), of ps "[]" 0] assms(3,4)
  by (auto simp: evictExpiredReservedProcesses_def Let_def cache_ok_def)

lemma eviction_planner_simps [simp]:
  "az_DryRun (eviction_planner az) = az_DryRun az" "az_Now (eviction_planner az) = az_Now az"
  "az_Proc (eviction_planner az) = az_Proc az" "az_BootID (eviction_planner az) = az_BootID az"
  "\<not> az_DryRun az \<Longrightarrow> az_pendingKills (eviction_planner az)"
  by (simp_all add: eviction_planner_def)

lemma Evict_calls:
  assumes "\<not> az_DryRun az" "EvictExpiredReservedProcesses az w st ps = (e, q, pa)"
  obtains rqs where "length rqs \<le> maxKillsPerEnforcementPass"
    "distinct (map (view_pid \<circ> pk_view) rqs)"
    "pa_calls pa = map (\<lambda>rq. (vw_Info (pk_view rq), kill_message rq)) rqs"
    "\<And>rq. rq \<in> set rqs \<Longrightarrow>
       eviction_target (eviction_planner az) (sub w 0) st (az_Now az) ps (pk_view rq)"
proof -
  let ?az = "eviction_planner az"
  obtain e1 q1 pa1 where plan: "evictExpiredReservedProcesses ?az (sub w 0) st ps = (e1, q1, pa1)"
    by (cases "evictExpiredReservedProcesses ?az (sub w 0) st ps") auto
  have ok: "length (pa_pending pa1) \<le> maxKillsPerEnforcementPass \<and>
      distinct (map (view_pid \<circ> pk_view) (pa_pending pa1)) \<and> pa_calls pa1 = [] \<and>
      (\<forall>rq\<in>set (pa_pending pa1). eviction_target ?az (sub w 0) st (az_Now az) ps (pk_view rq))"
  proof (cases "az_Proc az")
    case False
    with plan show ?thesis by (auto simp: evictExpiredReservedProcesses_def new_pass_def)
  next
    case True
    obtain s where "evict_planned ?az (sub w 0) st (az_Now az) ps s" "pa1 = es_pass s"
      by (rule evictExpired_inv [OF evict_plan.evict_contract_axioms _ _ plan])
        (use True in \<open>auto simp: evict_planned_def new_pass_def\<close>)
    with assms(1) show ?thesis by (simp add: evict_planned_def)
  qed
  obtain qs where qs: "subseq qs (pa_pending pa1)"
    "pa_calls pa = pa_calls pa1 @ map (\<lambda>rq. (vw_Info (pk_view rq), kill_message rq)) qs"
    using executePendingKills_calls [of "pa_pending pa1" az "sub w 1" pa1] assms(2) plan
    by (auto simp: EvictExpiredReservedProcesses_def split: prod.splits)
  have "length qs \<le> length (pa_pending pa1)" "set qs \<subseteq> set (pa_pending pa1)"
    "distinct (map (view_pid \<circ> pk_view) (pa_pending pa1)) \<Longrightarrow> distinct (map (view_pid \<circ> pk_view) qs)"
    using qs(1) by (auto dest: list_emb_length subseq_set simp: subseq_distinct_map)
  with ok qs(2) show thesis by (intro that [of qs]) auto
qed

lemma join_with_None [simp]: "join_with es = None \<longleftrightarrow> es = []"
  by (cases es) (auto simp: join_with_def)

lemma Evict_uncertain:
  assumes "EvictExpiredReservedProcesses az w st ps = (Some e, q, pa)"
  shows "as_Authorizations q i \<noteq> Some True \<and> as_Leases q i \<noteq> Some True"
proof -
  let ?az = "eviction_planner az"
  obtain e1 q1 pa1 where plan: "evictExpiredReservedProcesses ?az (sub w 0) st ps = (e1, q1, pa1)"
    by (cases "evictExpiredReservedProcesses ?az (sub w 0) st ps") auto
  have u: "as_Authorizations q1 i \<noteq> Some True \<and> as_Leases q1 i \<noteq> Some True" if "e1 \<noteq> None"
  proof (cases "az_Proc az")
    case False
    with plan that show ?thesis by (auto simp: evictExpiredReservedProcesses_def)
  next
    case True
    obtain s where "uncertain_after_error s" "e1 = join_with (es_errors s)" "q1 = es_assessment s"
      by (rule evictExpired_inv [OF uncertain.evict_contract_axioms _ _ plan])
        (use True in \<open>auto simp: uncertain_after_error_def\<close>)
    with that show ?thesis by (simp add: uncertain_after_error_def)
  qed
  obtain ke pa' where k: "executePendingKills az (sub w 1) (pa_pending pa1) pa1 = (ke, pa')"
    by (cases "executePendingKills az (sub w 1) (pa_pending pa1) pa1")
  from assms plan k have "errors_Join [e1, ke] = Some e"
    "q = (if ke \<noteq> None then markEvictionAssessmentUncertain q1 else q1)"
    by (auto simp: EvictExpiredReservedProcesses_def)
  then show ?thesis using u by (cases "ke = None"; cases "e1 = None")
    (simp_all add: errors_Join_def map_filter_simps)
qed

end
