(* ===== verification/Killer.thy ===== *)
theory Killer
  imports GoLib Model
begin

text \<open>
  \<^verbatim>\<open>RealKiller.Kill\<close> of package \<^verbatim>\<open>internal/enforce\<close>: the identity of the process is checked
  against the start time it was sampled with before every signal, the process gets a grace
  period between \<^verbatim>\<open>SIGTERM\<close> and \<^verbatim>\<open>SIGKILL\<close>, and success means that it was seen to be gone.
\<close>

section \<open>The killer\<close>

datatype signal = SIGTERM | SIGKILL

text \<open>
  What one call sees: the outcome of opening a process descriptor (unless a signal function
  is injected), what \<^verbatim>\<open>/proc\<close> says of the process before each of the two signals, the outcome of
  sending them, and for each of the two waits the polls of the process and the readings of
  the clock.
\<close>

record killer_obs =
  ko_injected :: bool
  ko_open :: "error option"
  ko_info1 :: "proc_info result"
  ko_info2 :: "proc_info result"
  ko_term :: "error option"
  ko_kill :: "error option"
  ko_alive1 :: "nat \<Rightarrow> bool"
  ko_alive2 :: "nat \<Rightarrow> bool"
  ko_clock1 :: "nat \<Rightarrow> time"
  ko_clock2 :: "nat \<Rightarrow> time"

definition isNoSuchProcess :: "error \<Rightarrow> bool" where
  "isNoSuchProcess e \<longleftrightarrow> e = ErrNoSuchProcess"

definition validateIdentity :: "proc_info \<Rightarrow> proc_info result \<Rightarrow> error option" where
  "validateIdentity info current =
     (if pi_PID info \<le> 0 \<or> pi_StartTime info = 0
      then Some (ErrPid ''refusing to signal: process identity is unverifiable'' (pi_PID info))
      else
        (case current of
           Inl e \<Rightarrow> Some (ErrWrap ''refusing to signal: revalidate process identity'' [] e)
         | Inr cur \<Rightarrow>
             if pi_PID cur \<noteq> pi_PID info \<or> pi_StartTime cur = 0 \<or> pi_StartTime cur \<noteq> pi_StartTime info
             then Some (ErrPid ''refusing to signal: process identity changed'' (pi_PID info))
             else None))"

text \<open>
  The polling loop of \<open>waitForProcessExitWith\<close>. Nothing in it bounds the number of turns but
  the clock, so not returning is a possible value.
\<close>

partial_function (option) wait_polls ::
  "(nat \<Rightarrow> bool) \<Rightarrow> (nat \<Rightarrow> time) \<Rightarrow> time \<Rightarrow> nat \<Rightarrow> bool option" where
  "wait_polls alive clock deadline n =
     (if \<not> alive n then Some True
      else if deadline - clock (Suc n) \<le> 0 then Some False
      else wait_polls alive clock deadline (Suc n))"

definition waitForProcessExitWith ::
  "(nat \<Rightarrow> bool) \<Rightarrow> (nat \<Rightarrow> time) \<Rightarrow> duration \<Rightarrow> bool option" where
  "waitForProcessExitWith alive clock timeout =
     wait_polls alive clock (time_Add (clock 0) timeout) 0"

definition grace_period :: "duration \<Rightarrow> duration" where
  "grace_period g = (if g \<le> 0 then 2 * Second else g)"

definition Kill :: "duration \<Rightarrow> killer_obs \<Rightarrow> proc_info \<Rightarrow> (error option \<times> signal list) option" where
  "Kill grace K info =
     (if pi_PID info \<le> 0 \<or> pi_StartTime info = 0
      then Some (Some (ErrPid ''refusing to signal: process identity is unverifiable'' (pi_PID info)), [])
      else
        (case (if ko_injected K then None else ko_open K) of
           Some e \<Rightarrow> Some (Some (ErrWrap ''open pidfd'' (int_text (pi_PID info)) e), [])
         | None \<Rightarrow>
             (case validateIdentity info (ko_info1 K) of
                Some e \<Rightarrow> Some (Some e, [])
              | None \<Rightarrow>
                  (if (case ko_term K of None \<Rightarrow> False | Some e \<Rightarrow> \<not> isNoSuchProcess e)
                   then Some (ko_term K, [SIGTERM])
                   else
                     (case waitForProcessExitWith (ko_alive1 K) (ko_clock1 K) (grace_period grace) of
                        None \<Rightarrow> None
                      | Some True \<Rightarrow> Some (None, [SIGTERM])
                      | Some False \<Rightarrow>
                          (case validateIdentity info (ko_info2 K) of
                             Some e \<Rightarrow> Some (Some e, [SIGTERM])
                           | None \<Rightarrow>
                               if (case ko_kill K of None \<Rightarrow> False | Some e \<Rightarrow> \<not> isNoSuchProcess e)
                               then Some (ko_kill K, [SIGTERM, SIGKILL])
                               else
                                 (case waitForProcessExitWith (ko_alive2 K) (ko_clock2 K)
                                         (500 * Millisecond) of
                                    None \<Rightarrow> None
                                  | Some True \<Rightarrow> Some (None, [SIGTERM, SIGKILL])
                                  | Some False \<Rightarrow>
                                      Some (Some (ErrPid ''did not exit after SIGKILL'' (pi_PID info)),
                                            [SIGTERM, SIGKILL]))))))))"

section \<open>Waiting ends\<close>

text \<open>
  \<^verbatim>\<open>time.Sleep\<close> pauses for at least the duration it is given, here the smaller of 100
  milliseconds and what remains, so from one poll to the next the clock advances by at
  least that much.
\<close>

definition sleeps :: "(nat \<Rightarrow> time) \<Rightarrow> time \<Rightarrow> bool" where
  "sleeps clock deadline \<longleftrightarrow>
     (\<forall>n. clock (Suc (Suc n)) \<ge> clock (Suc n) + min (100 * Millisecond) (deadline - clock (Suc n)))"

lemma wait_polls_fuel:
  assumes "sleeps clock deadline"
    and "deadline - clock (Suc n) \<le> int k * (100 * Millisecond)"
  shows "\<exists>b. wait_polls alive clock deadline n = Some b"
  using assms(2)
proof (induction k arbitrary: n)
  case 0
  then show ?case by (subst wait_polls.simps) auto
next
  case (Suc k)
  show ?case
  proof (cases "\<not> alive n \<or> deadline - clock (Suc n) \<le> 0")
    case True
    then show ?thesis by (subst wait_polls.simps) auto
  next
    case False
    from assms(1) have "clock (Suc (Suc n)) \<ge> clock (Suc n) + min (100 * Millisecond) (deadline - clock (Suc n))"
      by (simp add: sleeps_def)
    with Suc.prems have "deadline - clock (Suc (Suc n)) \<le> int k * (100 * Millisecond)"
      by (auto simp: min_def Millisecond_def split: if_splits)
    with Suc.IH [of "Suc n"] False show ?thesis by (subst wait_polls.simps) auto
  qed
qed

lemma wait_polls_total:
  assumes "sleeps clock deadline"
  shows "\<exists>b. wait_polls alive clock deadline n = Some b"
proof (rule wait_polls_fuel [OF assms])
  show "deadline - clock (Suc n) \<le> int (nat (deadline - clock (Suc n))) * (100 * Millisecond)"
    by (auto simp: Millisecond_def)
qed

lemma wait_polls_True:
  assumes "wait_polls alive clock deadline n = Some b"
  shows "b \<longrightarrow> (\<exists>m\<ge>n. \<not> alive m)"
proof (rule wait_polls.raw_induct [where P = "\<lambda>alive clock deadline n b. b \<longrightarrow> (\<exists>m\<ge>n. \<not> alive m)",
      OF _ assms])
  fix wp :: "(nat \<Rightarrow> bool) \<Rightarrow> (nat \<Rightarrow> time) \<Rightarrow> time \<Rightarrow> nat \<Rightarrow> bool option" and alive clock deadline n b
  assume IH: "\<And>alive clock deadline n b. wp alive clock deadline n = Some b \<Longrightarrow>
      b \<longrightarrow> (\<exists>m\<ge>n. \<not> alive m)"
    and "(if \<not> alive n then Some True else if deadline - clock (Suc n) \<le> 0 then Some False
      else wp alive clock deadline (Suc n)) = Some b"
  then show "b \<longrightarrow> (\<exists>m\<ge>n. \<not> alive m)"
    by (auto split: if_splits dest!: IH intro: Suc_leD)
qed

section \<open>Signals\<close>

definition same_process :: "proc_info \<Rightarrow> proc_info result \<Rightarrow> bool" where
  "same_process info current \<longleftrightarrow>
     (\<exists>cur. current = Inr cur \<and> pi_PID cur = pi_PID info \<and> pi_StartTime cur = pi_StartTime info \<and>
        pi_StartTime info \<noteq> 0 \<and> 0 < pi_PID info)"

lemma validateIdentity_None: "validateIdentity info current = None \<longleftrightarrow> same_process info current"
  by (auto simp: validateIdentity_def same_process_def split: sum.splits)

lemma Kill_signals:
  assumes "Kill grace K info = Some (e, signals)"
  shows "(SIGTERM \<in> set signals \<longrightarrow> same_process info (ko_info1 K)) \<and>
    (SIGKILL \<in> set signals \<longrightarrow> same_process info (ko_info1 K) \<and> same_process info (ko_info2 K) \<and>
       waitForProcessExitWith (ko_alive1 K) (ko_clock1 K) (grace_period grace) = Some False)"
  using assms
  by (auto simp: Kill_def validateIdentity_None [symmetric]
      split: if_splits option.splits bool.splits)

lemma Kill_success:
  assumes "Kill grace K info = Some (None, signals)"
  shows "(\<exists>n. \<not> ko_alive1 K n) \<or> (\<exists>n. \<not> ko_alive2 K n)"
  using assms
  by (auto simp: Kill_def waitForProcessExitWith_def split: if_splits option.splits bool.splits
      dest!: wait_polls_True)

end
