(* ===== verification/Busy.thy ===== *)
theory Busy
  imports Enforce
begin

text \<open>
  The idleness checks of package \<^verbatim>\<open>internal/enforce\<close>: the processes that stand in the way of a
  reservation of a GPU (\<^verbatim>\<open>BusyProcessesForGPU\<close>) or of a lease (\<^verbatim>\<open>BusyProcessesForLease\<close>).
\<close>

section \<open>Operations\<close>

definition busy_decision :: "gpu_process \<Rightarrow> proc_info \<Rightarrow> decision" where
  "busy_decision p info =
     zero_decision\<lparr>de_Process := p, de_Info := info, de_Action := ''busy'',
                   de_Reason := ''gpu already has non-bypassed process''\<rparr>"

fun busy_gpu ::
  "authorizer \<Rightarrow> world \<Rightarrow> state \<Rightarrow> time \<Rightarrow> int \<Rightarrow> nat \<Rightarrow> decision list \<Rightarrow> gpu_process list \<Rightarrow>
   decision list \<times> error option" where
  "busy_gpu az w st now gpu i busy [] = (busy, None)"
| "busy_gpu az w st now gpu i busy (p # ps) =
     (case ob_ctx (w [i]) of
        Some e \<Rightarrow> (busy, Some e)
      | None \<Rightarrow>
          if gp_GPU p \<noteq> gpu \<or> \<not> usesGPUResources p \<or> \<not> az_Proc az \<or>
             \<not> ob_Exists (w [i]) (gp_PID p)
          then busy_gpu az w st now gpu (Suc i) busy ps
          else
            (case ob_Info (w [i]) (gp_PID p) of
               Inl _ \<Rightarrow> busy_gpu az w st now gpu (Suc i) busy ps
             | Inr info \<Rightarrow>
                 if BypassMatch (st_Bypasses st) info now (az_BootID az)
                 then busy_gpu az w st now gpu (Suc i) busy ps
                 else busy_gpu az w st now gpu (Suc i) (busy @ [busy_decision p info]) ps))"

definition BusyProcessesForGPU ::
  "authorizer \<Rightarrow> world \<Rightarrow> state \<Rightarrow> gpu_process list \<Rightarrow> int \<Rightarrow> decision list \<times> error option" where
  "BusyProcessesForGPU az w st processes gpu = busy_gpu az w st (az_Now az) gpu 0 [] processes"

fun busy_lease ::
  "authorizer \<Rightarrow> world \<Rightarrow> state \<Rightarrow> time \<Rightarrow> lease \<Rightarrow> nat \<Rightarrow> decision list \<Rightarrow> gpu_process list \<Rightarrow>
   decision list \<times> error option" where
  "busy_lease az w st now l i busy [] = (busy, None)"
| "busy_lease az w st now l i busy (p # ps) =
     (case ob_ctx (w [i]) of
        Some e \<Rightarrow> (busy, Some e)
      | None \<Rightarrow>
          if gp_GPU p \<noteq> lease_GPU l \<or> \<not> usesGPUResources p \<or> \<not> az_Proc az \<or>
             \<not> ob_Exists (w [i]) (gp_PID p)
          then busy_lease az w st now l (Suc i) busy ps
          else
            (case ob_Info (w [i]) (gp_PID p) of
               Inl _ \<Rightarrow> busy_lease az w st now l (Suc i) busy ps
             | Inr info \<Rightarrow>
                 if BypassMatch (st_Bypasses st) info now (az_BootID az)
                 then busy_lease az w st now l (Suc i) busy ps
                 else
                   (case (if lease_Mode l \<noteq> [] then leaseMatchesChecked az (w [i]) l info now
                          else Inr False) of
                      Inl e \<Rightarrow> (busy, Some e)
                    | Inr matches \<Rightarrow>
                        if matches then busy_lease az w st now l (Suc i) busy ps
                        else busy_lease az w st now l (Suc i) (busy @ [busy_decision p info]) ps)))"

definition BusyProcessesForLease ::
  "authorizer \<Rightarrow> world \<Rightarrow> state \<Rightarrow> gpu_process list \<Rightarrow> lease option \<Rightarrow> decision list \<times> error option" where
  "BusyProcessesForLease az w st processes tentative =
     (case tentative of
        None \<Rightarrow> ([], None)
      | Some l \<Rightarrow> busy_lease az w st (az_Now az) l 0 [] processes)"

section \<open>What an empty answer means\<close>

text \<open>A process that was seen to use a GPU with no bypass rule for it.\<close>

definition occupies ::
  "authorizer \<Rightarrow> obs \<Rightarrow> state \<Rightarrow> time \<Rightarrow> int \<Rightarrow> gpu_process \<Rightarrow> bool" where
  "occupies az ob st now gpu p \<longleftrightarrow>
     gp_GPU p = gpu \<and> usesGPUResources p \<and> az_Proc az \<and> ob_Exists ob (gp_PID p) \<and>
     (\<exists>info. ob_Info ob (gp_PID p) = Inr info \<and>
        \<not> BypassMatch (st_Bypasses st) info now (az_BootID az))"

lemma busy_gpu_idle:
  "busy_gpu az w st now gpu i busy ps = ([], None) \<Longrightarrow>
     busy = [] \<and> (\<forall>j<length ps. \<not> occupies az (w [i + j]) st now gpu (ps ! j))"
proof (induction ps arbitrary: i busy)
  case (Cons p ps)
  then have ctx: "ob_ctx (w [i]) = None" by (cases "ob_ctx (w [i])") auto
  have "\<not> occupies az (w [i]) st now gpu p \<and> busy_gpu az w st now gpu (Suc i) busy ps = ([], None)"
  proof (cases "occupies az (w [i]) st now gpu p")
    case True
    then obtain info where "busy_gpu az w st now gpu i busy (p # ps) =
        busy_gpu az w st now gpu (Suc i) (busy @ [busy_decision p info]) ps"
      using ctx by (auto simp: occupies_def)
    with Cons.prems Cons.IH [of "Suc i" "busy @ [busy_decision p info]"] show ?thesis by simp
  next
    case False
    with Cons.prems ctx show ?thesis
      by (auto simp: occupies_def split: if_splits sum.splits)
  qed
  with Cons.IH [of "Suc i" busy] show ?case
    by (auto simp: nth_Cons' less_Suc_eq_0_disj)
qed simp

lemma busy_gpu_sound:
  "\<lbrakk>busy_gpu az w st now gpu i busy ps = (ds, e); d \<in> set ds\<rbrakk> \<Longrightarrow>
     d \<in> set busy \<or> (\<exists>p\<in>set ps. \<exists>j. occupies az (w [j]) st now gpu p \<and> de_Process d = p)"
proof (induction ps arbitrary: i busy)
  case (Cons p ps)
  show ?case
  proof (cases "ob_ctx (w [i])")
    case None
    show ?thesis
    proof (cases "occupies az (w [i]) st now gpu p")
      case True
      then obtain info where "busy_gpu az w st now gpu i busy (p # ps) =
          busy_gpu az w st now gpu (Suc i) (busy @ [busy_decision p info]) ps"
        using None by (auto simp: occupies_def)
      with Cons.prems Cons.IH [of "Suc i" "busy @ [busy_decision p info]"] True show ?thesis
        by (fastforce simp: busy_decision_def)
    next
      case False
      with Cons.prems(1) None have "busy_gpu az w st now gpu (Suc i) busy ps = (ds, e)"
        by (auto simp: occupies_def split: if_splits sum.splits)
      with Cons.IH [of "Suc i" busy] Cons.prems(2) show ?thesis by auto
    qed
  qed (use Cons.prems in auto)
qed simp

end
