(* ===== verification/EnforceTheorems.thy ===== *)
theory EnforceTheorems
  imports Evict Killer Busy Fixtures
begin

text \<open>
  The properties of enforcement, stated over the exported operations of package
  \<^verbatim>\<open>internal/enforce\<close>, with instances on a node where GPU 0 is reserved for alice, whose
  container runs there with pid 41, and an unknown process runs there with pid 42.
\<close>

section \<open>A node under enforcement\<close>

definition alice_auth :: authorization where
  "alice_auth = zero_authorization\<lparr>auth_ID := ''auth_1'', auth_TokenHash := ''hgk_0'', auth_Mode := ''docker'',
     auth_Holder := ''alice'', auth_ContainerID := ''0123456789ab'', auth_Active := True\<rparr>"

definition guard_state :: state where
  "guard_state = demo_state1\<lparr>st_Authorizations := [alice_auth]\<rparr>"

definition proc_of :: "int \<Rightarrow> proc_info" where
  "proc_of pid = zero_info\<lparr>pi_PID := pid, pi_StartTime := 7, pi_UID := 1000,
     pi_ContainerID := (if pid = 41 then ''0123456789abcdef'' else [])\<rparr>"

definition gpu_proc :: "int \<Rightarrow> int \<Rightarrow> gpu_process" where
  "gpu_proc gpu pid = zero_process\<lparr>gp_GPU := gpu, gp_PID := pid, gp_MemBytes := 4096\<rparr>"

definition calm_obs :: obs where
  "calm_obs = \<lparr>ob_ctx = None, ob_Exists = (\<lambda>_. True), ob_Info = (\<lambda>pid. Inr (proc_of pid)),
     ob_DockerName = (\<lambda>_. Inl ErrNotFound), ob_Namespace = (\<lambda>_. Inl ErrNotFound),
     ob_Username = (\<lambda>_. Inl (ErrIO ''lookup'')), ob_ValidateKill = (\<lambda>_. None), ob_Kill = (\<lambda>_ _. None)\<rparr>"

definition calm_world :: world where "calm_world = (\<lambda>_. calm_obs)"

lemma calm_sub [simp]: "sub calm_world i = calm_world" "at_site calm_world p = calm_world"
  "calm_world p = calm_obs"
  by (simp_all add: calm_world_def sub_def at_site_def)

definition guard :: "time \<Rightarrow> authorizer" where
  "guard now = \<lparr>az_Proc = True, az_Runtime = True, az_Killer = True, az_ValidateKill = True,
     az_BootID = ''boot'', az_Now = now, az_DryRun = False, az_pendingKills = False,
     az_activeTokens = None, az_errText = (\<lambda>_. ''error'')\<rparr>"

definition guard_procs :: "gpu_process list" where
  "guard_procs = [gpu_proc 0 41, gpu_proc 0 42]"

text \<open>At 150 the reservation holds: alice's container is let through, the other process dies.\<close>

definition guard_pass :: pass where
  "guard_pass = snd (Enforce (guard 150) calm_world (\<lambda>gs. gs) guard_state guard_procs)"

lemma guard_run:
  "fst (Enforce (guard 150) calm_world (\<lambda>gs. gs) guard_state guard_procs) = None"
  "map (\<lambda>d. (gp_PID (de_Process d), de_Action d)) (pa_decisions guard_pass)
     = [(41, ''allow''), (42, ''kill'')]"
  "map (pi_PID \<circ> fst) (pa_calls guard_pass) = [42]"
  by code_simp+

lemma guard_enforce:
  "Enforce (guard 150) calm_world (\<lambda>gs. gs) guard_state guard_procs = (None, guard_pass)"
  by (metis guard_pass_def guard_run(1) prod.collapse)

lemma guard_not_dry [simp]: "\<not> az_DryRun (guard now)" "az_Proc (guard now)" "az_Now (guard now) = now"
  by (simp_all add: guard_def)

section \<open>Enforcement\<close>



text \<open>
  C4: on a reserved GPU, a process for which an authorization of a reservation's token is valid
  and matches in every observation of the pass is never killed.
\<close>

theorem reserved_holder_safe:
  assumes "\<not> az_DryRun az" "Enforce az w order st ps = (e, pa)"
    and "rs = activeReservationsForGPU (st_Reservations st) gpu (az_Now az)" "rs \<noteq> []"
    and "a \<in> set (st_Authorizations st)"
    and "candidate (planner az st) st (Some (map res_TokenHash rs)) [] (az_Now az) a = Some a'"
    and "\<And>p. authorizationMatchesChecked (planner az st) (w p) a' gpu info (az_Now az) = Inr True"
    and "d \<in> set (pa_decisions pa)" "gp_GPU (de_Process d) = gpu" "de_Info d = info"
  shows "de_Action d \<noteq> ''kill''"
proof
  assume "de_Action d = ''kill''"
  with assms(1,2,8) obtain v where v: "vw_Process v = de_Process d" "vw_Info v = de_Info d"
    "justified (planner az st) (sub w 0) st (az_Now az) ps v"
    by (rule Enforce_kill_decision)
  then obtain p where "matchAnyAuthorization (planner az st) (at_site (sub w 0) p) st gpu info
      (Some (map res_TokenHash rs)) [] (az_Now az) = NoMatch"
    using assms(3,4,9,10) by (auto simp: justified_def Let_def)
  from matchAny_NoMatch [OF this assms(5,6)] assms(7) show False
    by (auto simp: at_site_def sub_def)
qed

theorem reserved_holder_safe_witness:
  "\<exists>d\<in>set (pa_decisions guard_pass). gp_PID (de_Process d) = 41 \<and> de_Action d \<noteq> ''kill''"
proof -
  have one: "map (\<lambda>d. (gp_PID (de_Process d), gp_GPU (de_Process d), de_Info d)) (pa_decisions guard_pass)
      = [(41, 0, proc_of 41), (42, 0, proc_of 42)]" by code_simp
  have "(41, 0, proc_of 41) \<in> set (map (\<lambda>d. (gp_PID (de_Process d), gp_GPU (de_Process d), de_Info d))
      (pa_decisions guard_pass))" unfolding one by simp
  then obtain d where d: "d \<in> set (pa_decisions guard_pass)" "gp_PID (de_Process d) = 41"
    "gp_GPU (de_Process d) = 0" "de_Info d = proc_of 41" by auto
  have rs: "activeReservationsForGPU (st_Reservations guard_state) 0 150 = [alice_reservation ''res_2'' 0]"
    by code_simp
  have c: "candidate (planner (guard 150) guard_state) guard_state (Some [''hgk_0'']) [] 150 alice_auth
      = Some (alice_auth\<lparr>auth_TokenMode := ''reserved''\<rparr>)" by code_simp
  have m: "authorizationMatchesChecked (planner (guard 150) guard_state) calm_obs
      (alice_auth\<lparr>auth_TokenMode := ''reserved''\<rparr>) 0 (proc_of 41) 150 = Inr True" by code_simp
  have "alice_auth \<in> set (st_Authorizations guard_state)" by (simp add: guard_state_def)
  then have "de_Action d \<noteq> ''kill''"
    using reserved_holder_safe [OF _ guard_enforce, of _ 0 alice_auth _ "proc_of 41" d] rs c m d
    by (simp add: alice_reservation_def)
  with d show ?thesis by blast
qed

text \<open>
  C10: one pass calls the killer at most eight times, and at most once per process, if what is
  read of a process carries its pid.
\<close>

theorem enforce_budget:
  assumes "\<not> az_DryRun az" "Enforce az w order st ps = (e, pa)"
    and "\<And>p pid info. ob_Info (w p) pid = Inr info \<Longrightarrow> pi_PID info = pid"
  shows "length (pa_calls pa) \<le> 8 \<and> distinct (map (pi_PID \<circ> fst) (pa_calls pa))"
proof -
  obtain rqs where rqs: "length rqs \<le> maxKillsPerEnforcementPass" "distinct (map (view_pid \<circ> pk_view) rqs)"
    "pa_calls pa = map (\<lambda>rq. (vw_Info (pk_view rq), kill_message rq)) rqs"
    "\<And>rq. rq \<in> set rqs \<Longrightarrow> sampled (planner az st) (sub w 0) st (az_Now az) ps (pk_view rq)"
    by (rule Enforce_calls [OF assms(1,2)]) blast
  have "pi_PID (vw_Info (pk_view rq)) = view_pid (pk_view rq)" if "rq \<in> set rqs" for rq
    using rqs(4) [OF that] assms(3) by (auto simp: sampled_def sub_def)
  then have pids: "map (pi_PID \<circ> fst) (pa_calls pa) = map (view_pid \<circ> pk_view) rqs"
    by (simp add: rqs(3))
  show ?thesis
    unfolding pids using rqs(1,2) by (simp add: rqs(3) maxKillsPerEnforcementPass_def)
qed

theorem enforce_budget_witness:
  "length (pa_calls guard_pass) \<le> 8 \<and> distinct (map (pi_PID \<circ> fst) (pa_calls guard_pass)) \<and>
   pa_calls guard_pass \<noteq> []"
  using enforce_budget [OF _ guard_enforce] guard_run(3)
  by (auto simp: calm_obs_def proc_of_def)

text \<open>
  On a reserved GPU, if the context is not cancelled, the pass takes exactly one decision for
  each process that is not bypassed, in order: allowed if an authorization was found, skipped if
  one could not be resolved, and else killed (or skipped: already targeted, or over budget).
\<close>

lemma hard_decides_all:
  assumes "\<And>p. ob_ctx (w p) = None" "enforceHard az w st gpu rs views now pa = (e, pa')"
  shows "\<exists>ds. pa_decisions pa' = pa_decisions pa @ ds \<and>
    list_all2 (hard_decision az w st gpu rs now) (filter (\<lambda>v. \<not> vw_Bypassed v) views) ds"
  using hard_views_complete [where w = w and az = az and st = st and gpu = gpu and rs = rs and now = now
      and i = 0 and errs = "[]" and vs = views and pa = pa, OF assms(1)] assms(2)
  by (simp add: enforceHard_def)

text \<open>A dry run plans no kill and never calls the killer.\<close>

lemma dry_run_harmless:
  assumes "az_DryRun az" "Enforce az w order st ps = (e, pa)"
  shows "pa_calls pa = [] \<and> pa_pending pa = []"
  using assms by (rule Enforce_dry)

text \<open>
  C9: the pattern matcher, which searches leftmost occurrences part by part, decides exactly
  whether the trimmed value is an instance of the trimmed pattern, a star standing for any
  string; an empty pattern matches nothing.
\<close>

theorem wildcard_is_glob:
  "wildcardMatch pattern text \<longleftrightarrow> TrimSpace pattern \<noteq> [] \<and> glob (TrimSpace pattern) (TrimSpace text)"
  by (rule wildcard_glob)

section \<open>Eviction\<close>

text \<open>
  C7: every process an eviction pass has killed is a sampled one that was inspected, that no
  bypass rule covers, that matches the scope of an authorization or lease whose entitlement is
  gone, and that matched no valid one; there are at most eight of them, all different.
\<close>

theorem evictions_justified:
  assumes "\<not> az_DryRun az" "EvictExpiredReservedProcesses az w st ps = (e, q, pa)"
  shows "length (pa_calls pa) \<le> 8 \<and>
    (\<exists>vs. map fst (pa_calls pa) = map vw_Info vs \<and> distinct (map view_pid vs) \<and>
       list_all (eviction_target (eviction_planner az) (sub w 0) st (az_Now az) ps) vs)"
proof -
  obtain rqs where rqs: "length rqs \<le> maxKillsPerEnforcementPass" "distinct (map (view_pid \<circ> pk_view) rqs)"
    "pa_calls pa = map (\<lambda>rq. (vw_Info (pk_view rq), kill_message rq)) rqs"
    "\<And>rq. rq \<in> set rqs \<Longrightarrow> eviction_target (eviction_planner az) (sub w 0) st (az_Now az) ps (pk_view rq)"
    by (rule Evict_calls [OF assms]) blast
  then show ?thesis
    by (intro conjI exI [of _ "map pk_view rqs"])
      (auto simp: maxKillsPerEnforcementPass_def list_all_iff)
qed

text \<open>At 250 alice's window is over: her container is still there and is evicted.\<close>

definition evict_result :: "error option \<times> assessment \<times> pass" where
  "evict_result = EvictExpiredReservedProcesses (guard 250) calm_world guard_state guard_procs"

lemma evict_run:
  "fst evict_result = None" "map (pi_PID \<circ> fst) (pa_calls (snd (snd evict_result))) = [41]"
  "as_Authorizations (fst (snd evict_result)) ''auth_1'' = Some False"
  "map pk_authID (pa_pending (snd (snd evict_result))) = [''auth_1'']"
  by code_simp+

lemma evict_eq:
  "EvictExpiredReservedProcesses (guard 250) calm_world guard_state guard_procs =
     (None, fst (snd evict_result), snd (snd evict_result))"
  using evict_run(1) by (simp add: evict_result_def prod_eq_iff)

theorem evictions_justified_witness:
  "\<exists>v. vw_Info v = proc_of 41 \<and>
     eviction_target (eviction_planner (guard 250)) calm_world guard_state 250 guard_procs v"
proof -
  obtain vs where "map fst (pa_calls (snd (snd evict_result))) = map vw_Info vs"
    "list_all (eviction_target (eviction_planner (guard 250)) calm_world guard_state 250 guard_procs) vs"
    using evictions_justified [OF _ evict_eq] by auto
  moreover have "map fst (pa_calls (snd (snd evict_result))) = [proc_of 41]" by code_simp
  ultimately show ?thesis by (auto simp: list_all_iff intro!: exI [of _ "hd vs"])
qed

text \<open>
  An authorization in whose name an eviction pass planned a kill is assessed as busy, so the
  daemon keeps its scope.
\<close>

lemma blamed_scope_busy:
  assumes "\<not> az_DryRun az" "EvictExpiredReservedProcesses az w st ps = (e, q, pa)"
    and "rq \<in> set (pa_pending pa)" "pk_authID rq \<noteq> []"
  shows "as_Authorizations q (pk_authID rq) = Some False"
proof -
  let ?az = "eviction_planner az"
  obtain e1 q1 pa1 where plan: "evictExpiredReservedProcesses ?az (sub w 0) st ps = (e1, q1, pa1)"
    by (cases "evictExpiredReservedProcesses ?az (sub w 0) st ps") auto
  obtain ke where k: "executePendingKills az (sub w 1) (pa_pending pa1) pa1 = (ke, pa)"
    and q: "q = (if ke \<noteq> None then markEvictionAssessmentUncertain q1 else q1)"
    using assms(2) plan by (auto simp: EvictExpiredReservedProcesses_def split: prod.splits)
  have same: "pa_pending pa = pa_pending pa1" using k by (metis executePendingKills_plan(2) snd_conv)
  have "as_Authorizations q1 (pk_authID rq) = Some False"
  proof (cases "az_Proc az")
    case False
    with plan same assms(3) show ?thesis by (auto simp: evictExpiredReservedProcesses_def new_pass_def)
  next
    case True
    obtain s where "blamed_busy ?az s" "q1 = es_assessment s" "pa1 = es_pass s"
      by (rule evictExpired_inv [OF blamed.evict_contract_axioms _ _ plan])
        (use True in \<open>auto simp: blamed_busy_def new_pass_def\<close>)
    with same assms(1,3,4) show ?thesis by (simp add: blamed_busy_def)
  qed
  then show ?thesis by (simp add: q markEvictionAssessmentUncertain_def)
qed

section \<open>The killer\<close>


definition stubborn :: killer_obs where
  "stubborn = \<lparr>ko_injected = False, ko_open = None, ko_info1 = Inr (proc_of 42), ko_info2 = Inr (proc_of 42),
     ko_term = None, ko_kill = None, ko_alive1 = (\<lambda>_. True), ko_alive2 = (\<lambda>n. n = 0),
     ko_clock1 = (\<lambda>n. int n * (3 * Second)), ko_clock2 = (\<lambda>n. int n * (100 * Millisecond))\<rparr>"



text \<open>
  C30: a kill always returns, provided sleeping takes at least the time asked for.
\<close>

theorem kill_returns:
  assumes "sleeps (ko_clock1 K) (ko_clock1 K 0 + grace_period grace)"
    and "sleeps (ko_clock2 K) (ko_clock2 K 0 + 500 * Millisecond)"
  shows "\<exists>r. Kill grace K info = Some r"
proof -
  have "\<exists>b. waitForProcessExitWith (ko_alive1 K) (ko_clock1 K) (grace_period grace) = Some b"
    "\<exists>b. waitForProcessExitWith (ko_alive2 K) (ko_clock2 K) (500 * Millisecond) = Some b"
    unfolding waitForProcessExitWith_def time_Add_def by (rule wait_polls_total, rule assms)+
  then show ?thesis
    by (auto simp: Kill_def split: option.split bool.split)
qed

theorem kill_returns_witness: "\<exists>r. Kill 0 stubborn (proc_of 42) = Some r"
  by (rule kill_returns) (simp_all add: sleeps_def stubborn_def grace_period_def duration_defs)

text \<open>A kill that reports success has seen the process gone.\<close>

lemma kill_success_gone:
  assumes "Kill grace K info = Some (None, signals)"
  shows "(\<exists>n. \<not> ko_alive1 K n) \<or> (\<exists>n. \<not> ko_alive2 K n)"
  using assms by (rule Kill_success)

end
