(* ===== verification/GoText.thy ===== *)
theory GoText
  imports GoLib
begin

text \<open>
  More of Go's text functions, for the daemon: \<^verbatim>\<open>strings.Fields\<close>, \<^verbatim>\<open>strconv.Atoi\<close> and
  \<^verbatim>\<open>strconv.ParseUint\<close>, with the round trip between numbers and their decimal text, and
  \<^verbatim>\<open>strings.Join\<close> against \<^verbatim>\<open>strings.Split\<close>, and the runes of a byte string.
\<close>

section \<open>Fields\<close>

text \<open>
  The maximal runs without white space; white space is that of \<^const>\<open>TrimSpace\<close>. The
  accumulator holds the bytes of the field that is being read, last first.
\<close>

definition push_field :: "string \<Rightarrow> string list \<Rightarrow> string list" where
  "push_field acc fs = (if acc = [] then fs else rev acc # fs)"

fun fields_from :: "string \<Rightarrow> string \<Rightarrow> string list" where
  "fields_from acc (a # b # c # s) =
     (if ascii_space a then push_field acc (fields_from [] (b # c # s))
      else if space2 a b then push_field acc (fields_from [] (c # s))
      else if space3 a b c then push_field acc (fields_from [] s)
      else fields_from (a # acc) (b # c # s))"
| "fields_from acc [a, b] =
     (if ascii_space a then push_field acc (fields_from [] [b])
      else if space2 a b then push_field acc []
      else fields_from (a # acc) [b])"
| "fields_from acc [a] = (if ascii_space a then push_field acc [] else push_field (a # acc) [])"
| "fields_from acc [] = push_field acc []"

definition Fields :: "string \<Rightarrow> string list" where "Fields s = fields_from [] s"

section \<open>Numbers\<close>

definition is_digit :: "char \<Rightarrow> bool" where
  "is_digit c \<longleftrightarrow> (let n = of_char c :: nat in 48 \<le> n \<and> n \<le> 57)"

definition digit_value :: "char \<Rightarrow> nat" where "digit_value c = of_char c - 48"

definition digits_value :: "string \<Rightarrow> nat" where
  "digits_value s = foldl (\<lambda>n c. 10 * n + digit_value c) 0 s"

definition parse_digits :: "string \<Rightarrow> nat option" where
  "parse_digits s = (if s = [] \<or> \<not> list_all is_digit s then None else Some (digits_value s))"

definition ParseUint :: "nat \<Rightarrow> string \<Rightarrow> nat option" where
  "ParseUint bits s =
     (case parse_digits s of None \<Rightarrow> None | Some n \<Rightarrow> if n < 2 ^ bits then Some n else None)"

text \<open>\<^verbatim>\<open>Atoi\<close>: an optional sign and digits, within the range of \<^verbatim>\<open>int64\<close>.\<close>

definition in_int64 :: "int \<Rightarrow> bool" where "in_int64 i \<longleftrightarrow> - (2 ^ 63) \<le> i \<and> i < 2 ^ 63"

definition Atoi :: "string \<Rightarrow> int option" where
  "Atoi s =
     (let neg = HasPrefix s ''-'';
          body = (if neg \<or> HasPrefix s ''+'' then tl s else s)
      in case parse_digits body of
           None \<Rightarrow> None
         | Some n \<Rightarrow> let i = (if neg then - int n else int n) in if in_int64 i then Some i else None)"

section \<open>Round trips\<close>

lemma of_char_small [simp]: "n < 256 \<Longrightarrow> of_char (char_of n :: char) = (n :: nat)"
  by (simp add: of_char_of)

lemma digit_char [simp]:
  "n < 10 \<Longrightarrow> is_digit (char_of (48 + n))" "n < 10 \<Longrightarrow> digit_value (char_of (48 + n)) = n"
  by (simp_all add: is_digit_def digit_value_def)

lemma digits_value_snoc [simp]: "digits_value (s @ [c]) = 10 * digits_value s + digit_value c"
  by (simp add: digits_value_def)

lemma nat_text_digits: "list_all is_digit (nat_text n) \<and> nat_text n \<noteq> [] \<and> digits_value (nat_text n) = n"
proof (induction n rule: nat_text.induct)
  case (1 n)
  show ?case
  proof (cases "n < 10")
    case True
    then show ?thesis by (simp add: nat_text.simps [of n] digits_value_def)
  next
    case False
    with 1 have "list_all is_digit (nat_text (n div 10)) \<and> digits_value (nat_text (n div 10)) = n div 10" by simp
    with False show ?thesis
      by (subst (1 2 3) nat_text.simps) simp
  qed
qed

lemma parse_digits_nat_text [simp]: "parse_digits (nat_text n) = Some n"
  using nat_text_digits [of n] by (simp add: parse_digits_def)

lemma digit_not_sign: "is_digit c \<Longrightarrow> c \<noteq> CHR ''-'' \<and> c \<noteq> CHR ''+'' \<and> c \<noteq> CHR '','' \<and> \<not> ascii_space c"
  by (auto simp: is_digit_def ascii_space_def)

lemma nat_text_Cons: obtains c cs where "nat_text n = c # cs" "is_digit c"
  using nat_text_digits [of n] by (cases "nat_text n") auto

lemma Atoi_int_text: "in_int64 i \<Longrightarrow> Atoi (int_text i) = Some i"
proof -
  assume range: "in_int64 i"
  show ?thesis
  proof (cases "i < 0")
    case True
    then show ?thesis using range by (simp add: Atoi_def int_text_def HasPrefix_def)
  next
    case False
    obtain c cs where c: "nat_text (nat i) = c # cs" "is_digit c" by (rule nat_text_Cons)
    then have "\<not> HasPrefix (nat_text (nat i)) ''-''" "\<not> HasPrefix (nat_text (nat i)) ''+''"
      using digit_not_sign by (auto simp: HasPrefix_def)
    with False range show ?thesis by (simp add: Atoi_def int_text_def)
  qed
qed

lemma set_int_text: "c \<in> set (int_text i) \<Longrightarrow> is_digit c \<or> c = CHR ''-''"
  using nat_text_digits [of "nat i"] nat_text_digits [of "nat (- i)"]
  by (auto simp: int_text_def list_all_iff split: if_splits)

lemma int_text_not_Nil [simp]: "int_text i \<noteq> []"
  using nat_text_digits [of "nat i"] by (auto simp: int_text_def)

text \<open>Trimming a text that has no byte of a white-space rune leaves it as it is.\<close>

definition plain_char :: "char \<Rightarrow> bool" where
  "plain_char c \<longleftrightarrow> \<not> ascii_space c \<and> of_char c < (128 :: nat)"

lemma plain_not_space:
  "plain_char a \<Longrightarrow> \<not> ascii_space a \<and> \<not> space2 a b \<and> \<not> space2 b a \<and> \<not> space3 a b c \<and> \<not> space3 b c a"
  by (auto simp: plain_char_def space2_def space3_def)

lemma TrimLeftSpace_plain: "list_all plain_char s \<Longrightarrow> TrimLeftSpace s = s"
  by (cases s rule: TrimLeftSpace.cases) (auto simp: plain_not_space)

lemma TrimRightSpaceRev_plain: "list_all plain_char s \<Longrightarrow> TrimRightSpaceRev s = s"
  by (cases s rule: TrimRightSpaceRev.cases) (auto simp: plain_not_space)

lemma TrimSpace_plain: "list_all plain_char s \<Longrightarrow> TrimSpace s = s"
  by (simp add: TrimSpace_def TrimLeftSpace_plain TrimRightSpaceRev_plain)

lemma digit_plain: "is_digit c \<Longrightarrow> plain_char c"
  by (auto simp: plain_char_def is_digit_def ascii_space_def Let_def)

lemma TrimSpace_int_text [simp]: "TrimSpace (int_text i) = int_text i"
proof (rule TrimSpace_plain)
  have "plain_char (CHR ''-'')" by code_simp
  then show "list_all plain_char (int_text i)"
    using set_int_text digit_plain by (metis list_all_iff)
qed

text \<open>Joining parts without the separator and splitting again.\<close>

lemma Split_no_sep: "sep \<notin> set p \<Longrightarrow> Split p sep = [p]"
  by (induction p) auto

lemma Split_append: "sep \<notin> set p \<Longrightarrow> Split (p @ sep # s) sep = p # Split s sep"
  by (induction p) auto

lemma Split_str_Join:
  "\<lbrakk>ps \<noteq> []; \<forall>p\<in>set ps. sep \<notin> set p\<rbrakk> \<Longrightarrow> Split (str_Join ps [sep]) sep = ps"
proof (induction ps rule: induct_list012)
  case (3 p q ps)
  then show ?case by (simp add: Split_append)
qed (auto simp: Split_no_sep)

section \<open>Lower case\<close>

lemma set_TrimSpace: "set (TrimSpace s) \<subseteq> set s"
proof -
  have "set (TrimSpace s) \<subseteq> set (TrimLeftSpace s)"
    using set_mono_suffix [OF TrimRightSpaceRev_suffix [of "rev (TrimLeftSpace s)"]] by (simp add: TrimSpace_def)
  also have "\<dots> \<subseteq> set s" by (rule set_mono_suffix [OF TrimLeftSpace_suffix])
  finally show ?thesis .
qed

lemma ToLower_TrimSpace_lower: "ToLower s = s \<Longrightarrow> ToLower (TrimSpace s) = TrimSpace s"
proof -
  assume "ToLower s = s"
  then have "map lower_char s = map (\<lambda>c. c) s" by (simp add: ToLower_def)
  then have "\<forall>c\<in>set s. lower_char c = c" by (simp only: map_eq_conv)
  then have "\<forall>c\<in>set (TrimSpace s). lower_char c = c" using set_TrimSpace by blast
  then show ?thesis unfolding ToLower_def by (simp add: map_idI)
qed

section \<open>Runes\<close>

text \<open>The length of the valid UTF-8 encoding a byte string starts with, \<open>0\<close> if there is none.\<close>

definition in_bytes :: "char \<Rightarrow> nat \<Rightarrow> nat \<Rightarrow> bool" where
  "in_bytes c a b \<longleftrightarrow> (let n = of_char c in a \<le> n \<and> n \<le> b)"

abbreviation cont_byte :: "char \<Rightarrow> bool" where "cont_byte c \<equiv> in_bytes c 0x80 0xBF"

fun utf8_length :: "string \<Rightarrow> nat" where
  "utf8_length [] = 0"
| "utf8_length (a # s) =
     (if in_bytes a 0 0x7F then 1
      else
        (case s of
           [] \<Rightarrow> 0
         | b # s2 \<Rightarrow>
             if in_bytes a 0xC2 0xDF then (if cont_byte b then 2 else 0)
             else
               (case s2 of
                  [] \<Rightarrow> 0
                | c # s3 \<Rightarrow>
                    if in_bytes a 0xE0 0xEF
                    then (if (if in_bytes a 0xE0 0xE0 then in_bytes b 0xA0 0xBF
                              else if in_bytes a 0xED 0xED then in_bytes b 0x80 0x9F
                              else cont_byte b) \<and> cont_byte c then 3 else 0)
                    else
                      (case s3 of
                         [] \<Rightarrow> 0
                       | d # _ \<Rightarrow>
                           if in_bytes a 0xF0 0xF4 \<and>
                              (if in_bytes a 0xF0 0xF0 then in_bytes b 0x90 0xBF
                               else if in_bytes a 0xF4 0xF4 then in_bytes b 0x80 0x8F
                               else cont_byte b) \<and> cont_byte c \<and> cont_byte d then 4 else 0))))"

text \<open>\<^verbatim>\<open>unicode.IsControl\<close>: U+0000 to U+001F and U+007F to U+009F.\<close>

definition is_control :: "string \<Rightarrow> bool" where
  "is_control r =
     (case r of
        [a] \<Rightarrow> in_bytes a 0 0x1F \<or> in_bytes a 0x7F 0x7F
      | [a, b] \<Rightarrow> a = CHR 0xC2 \<and> in_bytes b 0x80 0x9F
      | _ \<Rightarrow> False)"

text \<open>
  The runes a \<^verbatim>\<open>range\<close> loop over a string sees, as their encodings; an invalid byte is a rune of
  its own (the replacement character). \<^verbatim>\<open>unicode.IsSpace\<close> knows the same white space as
  \<open>TrimSpace\<close>.
\<close>

function runes :: "string \<Rightarrow> string list" where
  "runes [] = []"
| "runes (a # s) =
     (let n = max 1 (utf8_length (a # s)) in take n (a # s) # runes (drop n (a # s)))"
  by pat_completeness auto
termination by (relation "measure length") auto

definition is_space :: "string \<Rightarrow> bool" where
  "is_space r =
     (case r of
        [a] \<Rightarrow> ascii_space a
      | [a, b] \<Rightarrow> space2 a b
      | [a, b, c] \<Rightarrow> space3 a b c
      | _ \<Rightarrow> False)"

end
