(* ===== verification/RequestArgs.thy ===== *)
theory RequestArgs
  imports StoreBase GoText
begin

text \<open>
  The arguments of the daemon's requests: the wire types of package \<^verbatim>\<open>protocol\<close>, the streaming
  decoders of \<^verbatim>\<open>daemon/request_args.go\<close> and the validators of \<^verbatim>\<open>daemon/server.go\<close>. A JSON
  document is what Go's decoder yields step by step: the fields of an object and the elements
  of an array in order, each a value or a syntax error, and how the enclosing bracket ends.
\<close>

section \<open>JSON as the decoder sees it\<close>

datatype ending = Closed | Broken error

datatype jvalue =
    JNull
  | JBool bool
  | JInt int
  | JNumber
  | JStr string
  | JArr "jvalue list" ending
  | JObj
  | JBad error

datatype arg_stream =
    StreamError error
  | NotObject
  | Fields_of "(string \<times> jvalue) list" ending "error option"

text \<open>\<^verbatim>\<open>decoder.Decode\<close> into a variable that has a value already: \<^verbatim>\<open>null\<close> leaves it alone.\<close>

definition decode_string :: "jvalue \<Rightarrow> string \<Rightarrow> string result" where
  "decode_string v old =
     (case v of JStr s \<Rightarrow> Inr s | JNull \<Rightarrow> Inr old | JBad e \<Rightarrow> Inl e
      | _ \<Rightarrow> Inl (ErrNew ''json: cannot unmarshal into Go value of type string''))"

definition decode_int :: "jvalue \<Rightarrow> int \<Rightarrow> int result" where
  "decode_int v old =
     (case v of
        JInt i \<Rightarrow> if in_int64 i then Inr i else Inl (ErrNew ''json: cannot unmarshal number into Go value of type int'')
      | JNull \<Rightarrow> Inr old | JBad e \<Rightarrow> Inl e
      | _ \<Rightarrow> Inl (ErrNew ''json: cannot unmarshal into Go value of type int''))"

text \<open>A \<^verbatim>\<open>*time.Time\<close> is read from an RFC 3339 string by the library; \<^verbatim>\<open>null\<close> gives nil.\<close>

definition decode_time :: "(string \<Rightarrow> time result) \<Rightarrow> jvalue \<Rightarrow> time option result" where
  "decode_time parse v =
     (case v of
        JStr s \<Rightarrow> (case parse s of Inl e \<Rightarrow> Inl e | Inr t \<Rightarrow> Inr (Some t))
      | JNull \<Rightarrow> Inr None | JBad e \<Rightarrow> Inl e
      | _ \<Rightarrow> Inl (ErrNew ''Time.UnmarshalJSON: input is not a JSON string''))"

section \<open>Argument types\<close>

definition maxGPUsPerRequest :: int where "maxGPUsPerRequest = 64"
definition maxRequestValue :: int where "maxRequestValue = 4096"
definition maxRunCommandArgs :: int where "maxRunCommandArgs = 1024"
definition maxRunCommandBytes :: int where "maxRunCommandBytes = 262144"
definition maxRunEnvEntries :: int where "maxRunEnvEntries = 4096"
definition maxRunEnvBytes :: int where "maxRunEnvBytes = 524288"

record register_args =
  rg_RootKey :: string
  rg_Mode :: string
  rg_Name :: string
  rg_Purpose :: string
  rg_ExternalSessionID :: string
  rg_UserKeyID :: string
  rg_GPUs :: "int list"
  rg_TTL :: string
  rg_StartsAt :: "time option"
  rg_ExpiresAt :: "time option"

definition zero_register_args :: register_args where
  "zero_register_args = \<lparr>rg_RootKey = [], rg_Mode = [], rg_Name = [], rg_Purpose = [],
     rg_ExternalSessionID = [], rg_UserKeyID = [], rg_GPUs = [], rg_TTL = [], rg_StartsAt = None,
     rg_ExpiresAt = None\<rparr>"

record run_args =
  ru_Command :: "string list"
  ru_Workdir :: string
  ru_Env :: "string list"

record bypass_args =
  ba_RootKey :: string
  ba_Type :: string
  ba_PID :: int
  ba_Command :: string
  ba_UID :: int
  ba_TTL :: string
  ba_Reason :: string

section \<open>Arrays with a bound\<close>

fun int_entries :: "int \<Rightarrow> string \<Rightarrow> int list \<Rightarrow> jvalue list \<Rightarrow> ending \<Rightarrow> int list result" where
  "int_entries maxEntries label values [] fin = (case fin of Closed \<Rightarrow> Inr values | Broken e \<Rightarrow> Inl e)"
| "int_entries maxEntries label values (v # vs) fin =
     (if len values \<ge> maxEntries then Inl (ErrTooMany label (len values) maxEntries)
      else
        (case decode_int v 0 of
           Inl e \<Rightarrow> Inl (ErrWrap ''decode entry'' label e)
         | Inr i \<Rightarrow> int_entries maxEntries label (values @ [i]) vs fin))"

definition decodeBoundedIntArray :: "int \<Rightarrow> string \<Rightarrow> jvalue \<Rightarrow> int list result" where
  "decodeBoundedIntArray maxEntries label v =
     (case v of
        JNull \<Rightarrow> Inr []
      | JArr vs fin \<Rightarrow> int_entries maxEntries label [] vs fin
      | JBad e \<Rightarrow> Inl e
      | _ \<Rightarrow> Inl (ErrID ''must be an array'' label))"

fun string_entries ::
  "int \<Rightarrow> int \<Rightarrow> string \<Rightarrow> string list \<Rightarrow> int \<Rightarrow> jvalue list \<Rightarrow> ending \<Rightarrow> string list result" where
  "string_entries maxEntries maxBytes label values totalBytes [] fin =
     (case fin of Closed \<Rightarrow> Inr values | Broken e \<Rightarrow> Inl e)"
| "string_entries maxEntries maxBytes label values totalBytes (v # vs) fin =
     (if len values \<ge> maxEntries then Inl (ErrTooMany label (len values) maxEntries)
      else
        (case decode_string v [] of
           Inl e \<Rightarrow> Inl (ErrWrap ''decode entry'' label e)
         | Inr s \<Rightarrow>
             if len s > maxBytes - totalBytes then Inl (ErrValueSize label maxBytes)
             else string_entries maxEntries maxBytes label (values @ [s]) (totalBytes + len s) vs fin))"

definition decodeBoundedStringArray :: "int \<Rightarrow> int \<Rightarrow> string \<Rightarrow> jvalue \<Rightarrow> string list result" where
  "decodeBoundedStringArray maxEntries maxBytes label v =
     (case v of
        JNull \<Rightarrow> Inr []
      | JArr vs fin \<Rightarrow> string_entries maxEntries maxBytes label [] 0 vs fin
      | JBad e \<Rightarrow> Inl e
      | _ \<Rightarrow> Inl (ErrID ''must be an array'' label))"

section \<open>Objects without duplicate or unknown fields\<close>

fun decode_fields ::
  "(string \<Rightarrow> jvalue \<Rightarrow> 'a \<Rightarrow> 'a result) \<Rightarrow> string list \<Rightarrow> (string \<times> jvalue) list \<Rightarrow> 'a \<Rightarrow> 'a result" where
  "decode_fields f seen [] args = Inr args"
| "decode_fields f seen ((k, v) # kvs) args =
     (if k \<in> set seen then Inl (ErrID ''duplicate RPC argument'' k)
      else
        (case f k v args of
           Inl e \<Rightarrow> Inl e
         | Inr args' \<Rightarrow> decode_fields f (k # seen) kvs args'))"

definition decodeRPCArgsObject ::
  "(string \<Rightarrow> jvalue \<Rightarrow> 'a \<Rightarrow> 'a result) \<Rightarrow> arg_stream \<Rightarrow> 'a \<Rightarrow> 'a result" where
  "decodeRPCArgsObject f raw args =
     (case raw of
        StreamError e \<Rightarrow> Inl e
      | NotObject \<Rightarrow> Inl (ErrNew ''RPC arguments must be a JSON object'')
      | Fields_of kvs fin trailing \<Rightarrow>
          (case decode_fields f [] kvs args of
             Inl e \<Rightarrow> Inl e
           | Inr args' \<Rightarrow>
               (case fin of
                  Broken e \<Rightarrow> Inl e
                | Closed \<Rightarrow> (case trailing of Some e \<Rightarrow> Inl e | None \<Rightarrow> Inr args'))))"

definition set_field :: "'v result \<Rightarrow> ('v \<Rightarrow> 'a) \<Rightarrow> 'a result" where
  "set_field r put = (case r of Inl e \<Rightarrow> Inl e | Inr x \<Rightarrow> Inr (put x))"

definition register_field ::
  "(string \<Rightarrow> time result) \<Rightarrow> string \<Rightarrow> jvalue \<Rightarrow> register_args \<Rightarrow> register_args result" where
  "register_field parse k v a =
     (if k = ''root_key'' then set_field (decode_string v (rg_RootKey a)) (\<lambda>x. a\<lparr>rg_RootKey := x\<rparr>)
      else if k = ''mode'' then set_field (decode_string v (rg_Mode a)) (\<lambda>x. a\<lparr>rg_Mode := x\<rparr>)
      else if k = ''name'' then set_field (decode_string v (rg_Name a)) (\<lambda>x. a\<lparr>rg_Name := x\<rparr>)
      else if k = ''purpose'' then set_field (decode_string v (rg_Purpose a)) (\<lambda>x. a\<lparr>rg_Purpose := x\<rparr>)
      else if k = ''external_session_id''
        then set_field (decode_string v (rg_ExternalSessionID a)) (\<lambda>x. a\<lparr>rg_ExternalSessionID := x\<rparr>)
      else if k = ''user_key_id'' then set_field (decode_string v (rg_UserKeyID a)) (\<lambda>x. a\<lparr>rg_UserKeyID := x\<rparr>)
      else if k = ''gpus''
        then set_field (decodeBoundedIntArray maxGPUsPerRequest ''gpus'' v) (\<lambda>x. a\<lparr>rg_GPUs := x\<rparr>)
      else if k = ''ttl'' then set_field (decode_string v (rg_TTL a)) (\<lambda>x. a\<lparr>rg_TTL := x\<rparr>)
      else if k = ''starts_at'' then set_field (decode_time parse v) (\<lambda>x. a\<lparr>rg_StartsAt := x\<rparr>)
      else if k = ''expires_at'' then set_field (decode_time parse v) (\<lambda>x. a\<lparr>rg_ExpiresAt := x\<rparr>)
      else Inl (ErrID ''unknown register argument'' k))"

definition decodeRegisterArgs :: "(string \<Rightarrow> time result) \<Rightarrow> arg_stream \<Rightarrow> register_args result" where
  "decodeRegisterArgs parse raw = decodeRPCArgsObject (register_field parse) raw zero_register_args"

section \<open>Validators\<close>

definition validateRequestValue :: "string \<Rightarrow> string \<Rightarrow> error option" where
  "validateRequestValue label val =
     (if len val > maxRequestValue then Some (ErrValueSize label maxRequestValue) else None)"

fun array_bytes_loop :: "int \<Rightarrow> string \<Rightarrow> int \<Rightarrow> string list \<Rightarrow> error option" where
  "array_bytes_loop maxBytes label totalBytes [] = None"
| "array_bytes_loop maxBytes label totalBytes (v # vs) =
     (if len v > maxBytes - totalBytes then Some (ErrValueSize label maxBytes)
      else array_bytes_loop maxBytes label (totalBytes + len v) vs)"

definition validateStringArray :: "string list \<Rightarrow> int \<Rightarrow> int \<Rightarrow> string \<Rightarrow> error option" where
  "validateStringArray values maxEntries maxBytes label =
     (if len values > maxEntries then Some (ErrTooMany label (len values) maxEntries)
      else array_bytes_loop maxBytes label 0 values)"

definition validateRunArgs :: "run_args \<Rightarrow> error option" where
  "validateRunArgs a =
     (if ru_Command a = [] then Some (ErrNew ''command is required'')
      else
        and_then (validateStringArray (ru_Command a) maxRunCommandArgs maxRunCommandBytes ''command'')
          (and_then (validateStringArray (ru_Env a) maxRunEnvEntries maxRunEnvBytes ''env'')
             (validateRequestValue ''workdir'' (ru_Workdir a))))"

definition run_field :: "string \<Rightarrow> jvalue \<Rightarrow> run_args \<Rightarrow> run_args result" where
  "run_field k v a =
     (if k = ''command''
        then set_field (decodeBoundedStringArray maxRunCommandArgs maxRunCommandBytes ''command'' v)
          (\<lambda>x. a\<lparr>ru_Command := x\<rparr>)
      else if k = ''workdir'' then set_field (decode_string v (ru_Workdir a)) (\<lambda>x. a\<lparr>ru_Workdir := x\<rparr>)
      else if k = ''env''
        then set_field (decodeBoundedStringArray maxRunEnvEntries maxRunEnvBytes ''env'' v)
          (\<lambda>x. a\<lparr>ru_Env := x\<rparr>)
      else Inl (ErrID ''unknown run argument'' k))"

definition decodeRunArgs :: "arg_stream \<Rightarrow> run_args result" where
  "decodeRunArgs raw =
     (case decodeRPCArgsObject run_field raw \<lparr>ru_Command = [], ru_Workdir = [], ru_Env = []\<rparr> of
        Inl e \<Rightarrow> Inl e
      | Inr args \<Rightarrow> (case validateRunArgs args of Some e \<Rightarrow> Inl e | None \<Rightarrow> Inr args))"

fun gpus_loop :: "int list \<Rightarrow> int list \<Rightarrow> error option" where
  "gpus_loop seen [] = None"
| "gpus_loop seen (gpu # gpus) =
     (if gpu < 0 \<or> gpu > maxGPUIndex then Some (ErrGPUIndex gpu)
      else if gpu \<in> set seen then Some (ErrGPU ''duplicate gpu'' gpu)
      else gpus_loop (gpu # seen) gpus)"

definition validateGPUs :: "int list \<Rightarrow> error option" where
  "validateGPUs gpus =
     (if gpus = [] then Some (ErrNew ''at least one gpu is required'')
      else if len gpus > maxGPUsPerRequest then Some (ErrTooMany ''gpus'' (len gpus) maxGPUsPerRequest)
      else gpus_loop [] gpus)"

definition validateConfiguredGPUs :: "int \<Rightarrow> int list \<Rightarrow> error option" where
  "validateConfiguredGPUs gpuCount gpus =
     and_then (validateGPUs gpus)
       (if gpuCount > 0
        then first_error (\<lambda>g. if g \<ge> gpuCount then Some (ErrGPU ''gpu is outside configured inventory'' g)
          else None) gpus
        else None)"

definition commandEnv :: "string list \<Rightarrow> string list" where
  "commandEnv env = filter (\<lambda>item. \<not> (HasPrefix item ''KEY='' \<or> HasPrefix item ''ROOT_KEY='' \<or>
     HasPrefix item ''GPUARDIAN_WEB_PASSWORD='')) env"

section \<open>What is accepted\<close>

lemma int_entries_bounded:
  "\<lbrakk>int_entries m label acc vs fin = Inr is; len acc \<le> m\<rbrakk> \<Longrightarrow> len is \<le> m"
  by (induction vs arbitrary: acc) (auto split: ending.splits if_splits sum.splits)

lemma int_entries_range:
  "\<lbrakk>int_entries m label acc vs fin = Inr is; list_all in_int64 acc\<rbrakk> \<Longrightarrow> list_all in_int64 is"
proof (induction vs arbitrary: acc)
  case (Cons v vs)
  have "in_int64 0" by code_simp
  with Cons show ?case
    by (fastforce simp: decode_int_def split: if_splits sum.splits jvalue.splits)
qed (auto split: ending.splits)

lemma string_entries_bounded:
  "\<lbrakk>string_entries m b label acc used vs fin = Inr ss; len acc \<le> m; used = sum_list (map len acc); used \<le> b\<rbrakk>
   \<Longrightarrow> len ss \<le> m \<and> sum_list (map len ss) \<le> b"
proof (induction vs arbitrary: acc used)
  case (Cons v vs)
  then obtain x where "string_entries m b label (acc @ [x]) (used + len x) vs fin = Inr ss"
    "len acc < m" "len x \<le> b - used"
    by (auto split: if_splits sum.splits)
  with Cons.IH [of "acc @ [x]" "used + len x"] Cons.prems(3) show ?case by simp
qed (auto split: ending.splits)

lemma array_bytes_loop_None:
  "array_bytes_loop b label used vs = None \<Longrightarrow> used \<le> b \<Longrightarrow> used + sum_list (map len vs) \<le> b"
proof (induction vs arbitrary: used)
  case (Cons v vs)
  then have "array_bytes_loop b label (used + len v) vs = None" "used + len v \<le> b"
    by (auto split: if_splits)
  from Cons.IH [OF this] show ?case by simp
qed simp

lemma validateStringArray_None:
  "\<lbrakk>validateStringArray vs m b label = None; 0 \<le> b\<rbrakk> \<Longrightarrow> len vs \<le> m \<and> sum_list (map len vs) \<le> b"
  using array_bytes_loop_None [of b label 0 vs] by (auto simp: validateStringArray_def split: if_splits)

lemma gpus_loop_None:
  "gpus_loop seen gpus = None \<longleftrightarrow>
     distinct gpus \<and> set gpus \<inter> set seen = {} \<and> (\<forall>g\<in>set gpus. 0 \<le> g \<and> g \<le> maxGPUIndex)"
  by (induction gpus arbitrary: seen) auto

lemma validateGPUs_None [guard_simps]:
  "validateGPUs gpus = None \<longleftrightarrow>
     gpus \<noteq> [] \<and> len gpus \<le> 64 \<and> distinct gpus \<and> (\<forall>g\<in>set gpus. 0 \<le> g \<and> g \<le> 1023)"
  by (auto simp: validateGPUs_def gpus_loop_None maxGPUsPerRequest_def maxGPUIndex_def)

lemma decode_fields_distinct:
  "decode_fields f seen kvs a = Inr a' \<Longrightarrow> distinct (map fst kvs) \<and> fst ` set kvs \<inter> set seen = {}"
proof (induction kvs arbitrary: seen a)
  case (Cons kv kvs)
  obtain k v where kv: "kv = (k, v)" by (cases kv)
  with Cons.prems obtain y where "k \<notin> set seen" "decode_fields f (k # seen) kvs y = Inr a'"
    by (auto split: if_splits sum.splits)
  with Cons.IH [OF this(2)] kv show ?case by auto
qed simp

lemma decode_fields_inv:
  assumes "decode_fields f seen kvs a = Inr a'" "P a" "\<And>k v x y. \<lbrakk>f k v x = Inr y; P x\<rbrakk> \<Longrightarrow> P y"
  shows "P a'"
  using assms(1,2)
proof (induction kvs arbitrary: seen a)
  case (Cons kv kvs)
  obtain k v where kv: "kv = (k, v)" by (cases kv)
  with Cons.prems obtain y where "f k v a = Inr y" "decode_fields f (k # seen) kvs y = Inr a'"
    by (auto split: if_splits sum.splits)
  with Cons assms(3) show ?case by blast
qed simp

lemma register_gpus_bounded:
  assumes "decodeRegisterArgs parse raw = Inr a"
  shows "len (rg_GPUs a) \<le> 64"
proof -
  from assms obtain kvs where "decode_fields (register_field parse) [] kvs zero_register_args = Inr a"
    by (auto simp: decodeRegisterArgs_def decodeRPCArgsObject_def split: arg_stream.splits sum.splits
        ending.splits option.splits)
  then show ?thesis
  proof (rule decode_fields_inv)
    fix k v x y
    assume "register_field parse k v x = Inr y" "len (rg_GPUs x) \<le> 64"
    then show "len (rg_GPUs y) \<le> 64"
      using int_entries_bounded [of 64 "''gpus''" "[]"]
      by (auto simp: register_field_def set_field_def decodeBoundedIntArray_def maxGPUsPerRequest_def
          split: if_splits sum.splits jvalue.splits)
  qed (simp add: zero_register_args_def)
qed

lemma decodeRunArgs_valid:
  assumes "decodeRunArgs raw = Inr a"
  shows "ru_Command a \<noteq> [] \<and> len (ru_Command a) \<le> 1024 \<and> sum_list (map len (ru_Command a)) \<le> 262144 \<and>
    len (ru_Env a) \<le> 4096 \<and> sum_list (map len (ru_Env a)) \<le> 524288 \<and> len (ru_Workdir a) \<le> 4096"
proof -
  have "validateRunArgs a = None" using assms by (auto simp: decodeRunArgs_def split: sum.splits option.splits)
  then show ?thesis
    using validateStringArray_None [of "ru_Command a" 1024 262144 "''command''"]
      validateStringArray_None [of "ru_Env a" 4096 524288 "''env''"]
    by (auto simp: validateRunArgs_def validateRequestValue_def maxRunCommandArgs_def maxRunCommandBytes_def
        maxRunEnvEntries_def maxRunEnvBytes_def maxRequestValue_def split: if_splits)
qed

end
