(* ===== verification/Admission.thy ===== *)
theory Admission
  imports GoLib "HOL-Library.Multiset"
begin

text \<open>
  Admission control: the connection counters of the daemon (\<^verbatim>\<open>acquireConnection\<close>,
  \<^verbatim>\<open>releaseConnection\<close> in \<^verbatim>\<open>daemon/server.go\<close>), the counting semaphores in front of the
  docker resolver and the node's HTTP handlers, and the limited listener of package
  \<^verbatim>\<open>netlimit\<close>. The counters are a refinement of the multiset of open connections, stated as
  a locale that the daemon's counters and the semaphores interpret.
\<close>

section \<open>The connection counters\<close>

definition maxRPCConnections :: int where "maxRPCConnections = 256"
definition maxRPCConnectionsUID :: int where "maxRPCConnectionsUID = 32"
definition reservedRootRPCConnections :: int where "reservedRootRPCConnections = 16"

lemmas connection_limits = maxRPCConnections_def maxRPCConnectionsUID_def reservedRootRPCConnections_def

record admission =
  ad_uidConnections :: "int \<Rightarrow> int option"
  ad_connections :: int
  ad_nonRootConnections :: int

definition no_connections :: admission where
  "no_connections = \<lparr>ad_uidConnections = (\<lambda>_. None), ad_connections = 0, ad_nonRootConnections = 0\<rparr>"

definition uid_count :: "admission \<Rightarrow> int \<Rightarrow> int" where
  "uid_count s uid = the_or 0 (ad_uidConnections s uid)"

definition acquireConnection :: "int \<Rightarrow> admission \<Rightarrow> bool \<times> admission" where
  "acquireConnection uid s =
     (if ad_connections s \<ge> maxRPCConnections then (False, s)
      else if uid \<noteq> 0 \<and> (ad_nonRootConnections s \<ge> maxRPCConnections - reservedRootRPCConnections \<or>
                         uid_count s uid \<ge> maxRPCConnectionsUID) then (False, s)
      else (True,
        s\<lparr>ad_uidConnections := (ad_uidConnections s)(uid \<mapsto> uid_count s uid + 1),
          ad_connections := ad_connections s + 1,
          ad_nonRootConnections := ad_nonRootConnections s + (if uid \<noteq> 0 then 1 else 0)\<rparr>))"

definition releaseConnection :: "int \<Rightarrow> admission \<Rightarrow> admission" where
  "releaseConnection uid s =
     (if uid_count s uid \<le> 0 then s
      else
        s\<lparr>ad_uidConnections := (if uid_count s uid \<le> 1 then (ad_uidConnections s)(uid := None)
            else (ad_uidConnections s)(uid \<mapsto> uid_count s uid - 1)),
          ad_connections := ad_connections s - 1,
          ad_nonRootConnections := ad_nonRootConnections s - (if uid \<noteq> 0 then 1 else 0)\<rparr>)"

section \<open>Counting semaphores\<close>

text \<open>
  A buffered channel whose elements carry no information: the number of elements in it. The
  non-blocking send of \<^verbatim>\<open>acquireDockerResolve\<close> fails when it is full; the returned function
  receives one element.
\<close>

definition maxConcurrentDockerResolves :: nat where "maxConcurrentDockerResolves = 4"
definition maxConcurrentProcessReads :: nat where "maxConcurrentProcessReads = 4"

definition try_slot :: "nat \<Rightarrow> nat \<Rightarrow> bool \<times> nat" where
  "try_slot cap slots = (if slots < cap then (True, slots + 1) else (False, slots))"

definition free_slot :: "nat \<Rightarrow> nat" where "free_slot slots = slots - 1"

definition acquireDockerResolve :: "error option \<Rightarrow> nat \<Rightarrow> unit result \<times> nat" where
  "acquireDockerResolve ctx slots =
     (case ctx of
        Some e \<Rightarrow> (Inl e, slots)
      | None \<Rightarrow>
          (case try_slot maxConcurrentDockerResolves slots of
             (True, slots') \<Rightarrow> (Inr (), slots')
           | (False, slots') \<Rightarrow> (Inl (ErrNew ''docker resolver is busy; retry shortly''), slots')))"

section \<open>The limited listener\<close>

text \<open>
  Package \<^verbatim>\<open>netlimit\<close>: the slots taken, whether the listener is closed, and for each
  connection it has returned whether that one is closed. \<open>Accept\<close> waits when no slot is
  free; when the listener is closed as well, \<open>pick\<close> is the choice that \<^verbatim>\<open>select\<close> makes.
\<close>

record limited_listener =
  ll_maximum :: nat
  ll_slots :: nat
  ll_done :: bool
  ll_closed :: "bool list"

datatype 'a blocking = Waits | Returns 'a

definition NewListener :: "int \<Rightarrow> limited_listener option" where
  "NewListener maximum =
     (if maximum \<le> 0 then None
      else Some \<lparr>ll_maximum = nat maximum, ll_slots = 0, ll_done = False, ll_closed = []\<rparr>)"

definition Accept ::
  "bool \<Rightarrow> unit result \<Rightarrow> limited_listener \<Rightarrow> (nat result \<times> limited_listener) blocking" where
  "Accept pick inner l =
     (let free = (ll_slots l < ll_maximum l) in
      if ll_done l \<and> (\<not> free \<or> pick) then Returns (Inl (ErrNew ''use of closed network connection''), l)
      else if \<not> free then Waits
      else
        (case inner of
           Inl e \<Rightarrow> Returns (Inl e, l)
         | Inr _ \<Rightarrow> Returns (Inr (length (ll_closed l)),
             l\<lparr>ll_slots := ll_slots l + 1, ll_closed := ll_closed l @ [False]\<rparr>)))"

definition close_connection :: "nat \<Rightarrow> limited_listener \<Rightarrow> limited_listener" where
  "close_connection i l =
     (if i < length (ll_closed l) \<and> \<not> ll_closed l ! i
      then l\<lparr>ll_closed := (ll_closed l)[i := True], ll_slots := ll_slots l - 1\<rparr> else l)"

definition close_listener :: "limited_listener \<Rightarrow> limited_listener" where
  "close_listener l = l\<lparr>ll_done := True\<rparr>"

section \<open>Admission as a multiset of holders\<close>

datatype 'k request = Acquire 'k | Release 'k

fun spec_run :: "('k \<Rightarrow> 'k multiset \<Rightarrow> bool) \<Rightarrow> 'k request list \<Rightarrow> 'k multiset \<Rightarrow> bool list \<times> 'k multiset" where
  "spec_run allowed [] M = ([], M)"
| "spec_run allowed (Acquire k # rs) M =
     (let ok = allowed k M in
      case spec_run allowed rs (if ok then add_mset k M else M) of (oks, M') \<Rightarrow> (ok # oks, M'))"
| "spec_run allowed (Release k # rs) M = spec_run allowed rs (M - {#k#})"

fun pool_run ::
  "('k \<Rightarrow> 's \<Rightarrow> bool \<times> 's) \<Rightarrow> ('k \<Rightarrow> 's \<Rightarrow> 's) \<Rightarrow> 'k request list \<Rightarrow> 's \<Rightarrow> bool list \<times> 's" where
  "pool_run acquire release [] s = ([], s)"
| "pool_run acquire release (Acquire k # rs) s =
     (case acquire k s of (ok, s1) \<Rightarrow>
        (case pool_run acquire release rs s1 of (oks, s') \<Rightarrow> (ok # oks, s')))"
| "pool_run acquire release (Release k # rs) s = pool_run acquire release rs (release k s)"

lemma spec_run_keeps:
  assumes "spec_run allowed rs M = (oks, M')" "I M"
    and add: "\<And>k M. \<lbrakk>I M; allowed k M\<rbrakk> \<Longrightarrow> I (add_mset k M)" and sub: "\<And>M N. \<lbrakk>I N; M \<subseteq># N\<rbrakk> \<Longrightarrow> I M"
  shows "I M'"
  using assms(1,2)
proof (induction rs arbitrary: M oks)
  case (Cons r rs)
  then show ?case
    by (cases r) (auto simp: Let_def add sub [OF _ diff_subset_eq_self] split: prod.splits if_splits)
qed simp

locale pool_refinement =
  fixes acquire :: "'k \<Rightarrow> 's \<Rightarrow> bool \<times> 's" and release :: "'k \<Rightarrow> 's \<Rightarrow> 's"
    and allowed :: "'k \<Rightarrow> 'k multiset \<Rightarrow> bool" and holds :: "'s \<Rightarrow> 'k multiset \<Rightarrow> bool"
  assumes acquire_ok: "\<lbrakk>holds s M; allowed k M\<rbrakk> \<Longrightarrow>
      fst (acquire k s) \<and> holds (snd (acquire k s)) (add_mset k M)"
    and acquire_refused: "\<lbrakk>holds s M; \<not> allowed k M\<rbrakk> \<Longrightarrow> acquire k s = (False, s)"
    and release_held: "holds s M \<Longrightarrow> holds (release k s) (M - {#k#})"
begin

lemma run_refines:
  "\<lbrakk>pool_run acquire release rs s = (oks, s'); holds s M\<rbrakk> \<Longrightarrow>
     \<exists>M'. spec_run allowed rs M = (oks, M') \<and> holds s' M'"
proof (induction rs arbitrary: s M oks)
  case (Cons r rs)
  show ?case
  proof (cases r)
    case (Acquire k)
    obtain ok s1 where a: "acquire k s = (ok, s1)" by (cases "acquire k s")
    from Cons.prems(1) a Acquire obtain oks1 where
      run: "pool_run acquire release rs s1 = (oks1, s')" "oks = ok # oks1"
      by (auto split: prod.splits)
    show ?thesis
    proof (cases "allowed k M")
      case True
      with a acquire_ok [OF Cons.prems(2) True] have "ok" "holds s1 (add_mset k M)" by auto
      with Cons.IH [OF run(1)] run(2) True Acquire show ?thesis by (fastforce split: prod.splits)
    next
      case False
      with a acquire_refused [OF Cons.prems(2) False] Cons.prems(2) have "\<not> ok" "holds s1 M" by auto
      with Cons.IH [OF run(1)] run(2) False Acquire show ?thesis by (fastforce split: prod.splits)
    qed
  next
    case (Release k)
    with Cons release_held show ?thesis by fastforce
  qed
qed simp

end

text \<open>
  Where only what is held is ever released, the law for releases is needed only then.
\<close>

fun releases_held :: "('k \<Rightarrow> 'k multiset \<Rightarrow> bool) \<Rightarrow> 'k request list \<Rightarrow> 'k multiset \<Rightarrow> bool" where
  "releases_held allowed [] M = True"
| "releases_held allowed (Acquire k # rs) M = releases_held allowed rs (if allowed k M then add_mset k M else M)"
| "releases_held allowed (Release k # rs) M = (k \<in># M \<and> releases_held allowed rs (M - {#k#}))"

locale held_pool =
  fixes acquire :: "'k \<Rightarrow> 's \<Rightarrow> bool \<times> 's" and release :: "'k \<Rightarrow> 's \<Rightarrow> 's"
    and allowed :: "'k \<Rightarrow> 'k multiset \<Rightarrow> bool" and holds :: "'s \<Rightarrow> 'k multiset \<Rightarrow> bool"
  assumes acquire_allowed: "\<lbrakk>holds s M; allowed k M\<rbrakk> \<Longrightarrow>
      fst (acquire k s) \<and> holds (snd (acquire k s)) (add_mset k M)"
    and acquire_denied: "\<lbrakk>holds s M; \<not> allowed k M\<rbrakk> \<Longrightarrow> acquire k s = (False, s)"
    and release_one_held: "\<lbrakk>holds s M; k \<in># M\<rbrakk> \<Longrightarrow> holds (release k s) (M - {#k#})"
begin

lemma held_run_refines:
  "\<lbrakk>pool_run acquire release rs s = (oks, s'); holds s M; releases_held allowed rs M\<rbrakk> \<Longrightarrow>
     \<exists>M'. spec_run allowed rs M = (oks, M') \<and> holds s' M'"
proof (induction rs arbitrary: s M oks)
  case (Cons r rs)
  show ?case
  proof (cases r)
    case (Acquire k)
    obtain ok s1 where a: "acquire k s = (ok, s1)" by (cases "acquire k s")
    from Cons.prems(1) a Acquire obtain oks1 where
      run: "pool_run acquire release rs s1 = (oks1, s')" "oks = ok # oks1"
      by (auto split: prod.splits)
    have "ok = allowed k M \<and> holds s1 (if allowed k M then add_mset k M else M)"
      using a acquire_allowed [OF Cons.prems(2)] acquire_denied [OF Cons.prems(2)] Cons.prems(2)
      by (cases "allowed k M") force+
    with Cons.IH [OF run(1)] run(2) Cons.prems(3) Acquire show ?thesis by (fastforce split: prod.splits)
  next
    case (Release k)
    with Cons release_one_held show ?thesis by fastforce
  qed
qed simp

end

sublocale pool_refinement \<subseteq> held_pool acquire release allowed holds
  by unfold_locales (auto simp: acquire_ok acquire_refused release_held)

subsection \<open>The daemon's counters\<close>

definition may_connect :: "int \<Rightarrow> int multiset \<Rightarrow> bool" where
  "may_connect uid M \<longleftrightarrow> size M < 256 \<and>
     (uid \<noteq> 0 \<longrightarrow> size (filter_mset (\<lambda>u. u \<noteq> 0) M) < 240 \<and> count M uid < 32)"

definition counts :: "admission \<Rightarrow> int multiset \<Rightarrow> bool" where
  "counts s M \<longleftrightarrow>
     (\<forall>u. ad_uidConnections s u = (if u \<in># M then Some (int (count M u)) else None)) \<and>
     ad_connections s = int (size M) \<and>
     ad_nonRootConnections s = int (size (filter_mset (\<lambda>u. u \<noteq> 0) M))"

lemma counts_uid: "counts s M \<Longrightarrow> uid_count s u = int (count M u)"
  by (simp add: counts_def uid_count_def count_eq_zero_iff)

lemma counts_empty [simp]: "counts no_connections {#}"
  by (simp add: counts_def no_connections_def)

lemma acquireConnection_spec:
  assumes "counts s M"
  shows "may_connect u M \<Longrightarrow> fst (acquireConnection u s) \<and> counts (snd (acquireConnection u s)) (add_mset u M)"
    and "\<not> may_connect u M \<Longrightarrow> acquireConnection u s = (False, s)"
proof -
  have c: "ad_connections s = int (size M)" "ad_nonRootConnections s = int (size (filter_mset (\<lambda>u. u \<noteq> 0) M))"
    "uid_count s u = int (count M u)"
    using assms counts_uid by (auto simp: counts_def)
  have fits: "fst (acquireConnection u s) \<longleftrightarrow> may_connect u M"
    by (auto simp: acquireConnection_def may_connect_def c connection_limits)
  show "may_connect u M \<Longrightarrow> fst (acquireConnection u s) \<and> counts (snd (acquireConnection u s)) (add_mset u M)"
    using assms fits c by (auto simp: acquireConnection_def counts_def split: if_splits)
  show "\<not> may_connect u M \<Longrightarrow> acquireConnection u s = (False, s)"
    using fits by (auto simp: acquireConnection_def split: if_splits)
qed

lemma releaseConnection_spec:
  assumes "counts s M"
  shows "counts (releaseConnection u s) (M - {#u#})"
proof (cases "u \<in># M")
  case True
  then obtain N where M: "M = add_mset u N" by (metis insert_DiffM)
  have uid: "uid_count s u = int (count N u) + 1" using counts_uid [OF assms] M by simp
  show ?thesis
    using assms uid unfolding releaseConnection_def uid M counts_def
    by (cases "u = 0") (auto simp: count_eq_zero_iff)
next
  case False
  then have "uid_count s u = 0" using counts_uid [OF assms] by (simp add: not_in_iff)
  with False assms show ?thesis by (simp add: releaseConnection_def diff_single_trivial)
qed

interpretation connections: pool_refinement acquireConnection releaseConnection may_connect counts
  by unfold_locales (auto simp: acquireConnection_spec releaseConnection_spec)

text \<open>Whatever is asked for, the limits hold, and a root client finds one of its reserved places.\<close>

definition within_limits :: "int multiset \<Rightarrow> bool" where
  "within_limits M \<longleftrightarrow> size M \<le> 256 \<and> size (filter_mset (\<lambda>u. u \<noteq> 0) M) \<le> 240 \<and> (\<forall>u. u \<noteq> 0 \<longrightarrow> count M u \<le> 32)"

lemma within_limits_run:
  "\<lbrakk>spec_run may_connect rs M = (oks, M'); within_limits M\<rbrakk> \<Longrightarrow> within_limits M'"
proof (erule spec_run_keeps [where I = within_limits])
  fix M N :: "int multiset"
  assume "within_limits N" "M \<subseteq># N"
  then show "within_limits M" unfolding within_limits_def
    by (meson mset_subset_eq_count multiset_filter_mono order_trans size_mset_mono)
qed (auto simp: within_limits_def may_connect_def)

lemma root_has_a_place:
  assumes "within_limits M" "count M 0 < 16"
  shows "may_connect 0 M"
proof -
  have "size M = size (filter_mset (\<lambda>u. u \<noteq> 0) M) + size (filter_mset (\<lambda>u. \<not> u \<noteq> 0) M)"
    by (subst (1) multiset_partition [of M "\<lambda>u. u \<noteq> 0"]) (simp only: size_union)
  also have "filter_mset (\<lambda>u. \<not> u \<noteq> 0) M = replicate_mset (count M 0) 0"
    using filter_eq_replicate_mset [of 0 M] by (simp add: eq_commute [of 0])
  also have "size \<dots> = count M 0" by simp
  finally show ?thesis using assms by (simp add: within_limits_def may_connect_def)
qed

subsection \<open>Semaphores\<close>

interpretation semaphore: pool_refinement "\<lambda>_ :: unit. try_slot cap" "\<lambda>_. free_slot"
    "\<lambda>_ M. size M < cap" "\<lambda>n M. n = size M" for cap
proof unfold_locales
  fix s :: nat and M :: "unit multiset" and k
  assume "s = size M"
  then show "free_slot s = size (M - {#k#})"
    by (cases "M = {#}") (auto simp: free_slot_def size_Diff_singleton)
qed (auto simp: try_slot_def)

lemma semaphore_bounded:
  assumes "pool_run (\<lambda>_ :: unit. try_slot cap) (\<lambda>_. free_slot) rs n = (oks, n')" "n \<le> cap"
  shows "n' \<le> cap"
  using assms
proof (induction rs arbitrary: n oks)
  case (Cons r rs)
  then show ?case
    by (cases r) (auto simp: try_slot_def free_slot_def split: prod.splits if_splits)
qed simp

subsection \<open>Listeners\<close>

definition open_connections :: "limited_listener \<Rightarrow> nat" where
  "open_connections l = length (filter Not (ll_closed l))"

inductive listener_step :: "limited_listener \<Rightarrow> limited_listener \<Rightarrow> bool" where
  accept: "Accept pick inner l = Returns (r, l') \<Longrightarrow> listener_step l l'"
| close_one: "listener_step l (close_connection i l)"
| close_all: "listener_step l (close_listener l)"

inductive_cases listener_stepE: "listener_step l l'"

lemma filter_update_True:
  "\<lbrakk>i < length xs; \<not> xs ! i\<rbrakk> \<Longrightarrow> Suc (length (filter Not (xs[i := True]))) = length (filter Not xs)"
  by (induction xs arbitrary: i) (auto simp: nth_Cons split: nat.splits)

definition slots_counted :: "limited_listener \<Rightarrow> bool" where
  "slots_counted l \<longleftrightarrow> ll_slots l = open_connections l \<and> ll_slots l \<le> ll_maximum l"

lemma slots_counted_step: "\<lbrakk>listener_step l l'; slots_counted l\<rbrakk> \<Longrightarrow> slots_counted l' \<and> ll_maximum l' = ll_maximum l"
proof (erule listener_stepE)
  fix pick inner r
  assume "slots_counted l" "Accept pick inner l = Returns (r, l')"
  then show ?thesis
    by (auto simp: Accept_def Let_def slots_counted_def open_connections_def split: if_splits sum.splits)
next
  fix i
  assume "slots_counted l" "l' = close_connection i l"
  then show ?thesis
    using filter_update_True [of i "ll_closed l"]
    by (auto simp: close_connection_def slots_counted_def open_connections_def)
qed (simp_all add: close_listener_def slots_counted_def open_connections_def)

lemma slots_counted_reachable:
  assumes "listener_step\<^sup>*\<^sup>* l l'" "NewListener maximum = Some l"
  shows "slots_counted l' \<and> ll_maximum l' = nat maximum"
  using assms
proof (induction rule: rtranclp_induct)
  case base
  then show ?case by (auto simp: NewListener_def slots_counted_def open_connections_def split: if_splits)
next
  case (step y z)
  then show ?case using slots_counted_step by metis
qed

end
