(* ===== verification/PsView.thy ===== *)
theory PsView
  imports Enforce GoText StoreViews "HOL-Library.Multiset" "HOL-Library.List_Lexorder" "HOL-Library.Char_ord" "HOL-Library.Product_Lexorder"
begin

text \<open>
  The rows that \<^verbatim>\<open>ps\<close> and \<^verbatim>\<open>who\<close> show (\<^verbatim>\<open>daemon/server.go\<close>): a dry enforcement pass over the
  snapshot the caller may see, one row per allowed process and entitlement with the GPUs it
  runs on, and one row per active reservation without a process. Texts are cut to valid
  UTF-8 without control characters and to a budget.
\<close>

section \<open>Lists of GPUs as text\<close>

definition formatGPUSet :: "int list \<Rightarrow> string" where
  "formatGPUSet gpus = str_Join (map int_text (sort (remdups gpus))) '',''"

definition firstGPU :: "string \<Rightarrow> int" where
  "firstGPU val = (case Cut val (CHR '','') of (head, _, _) \<Rightarrow>
     (case Atoi (TrimSpace head) of None \<Rightarrow> 2 ^ 31 - 1 | Some gpu \<Rightarrow> gpu))"

definition gpuListContains :: "string \<Rightarrow> int \<Rightarrow> bool" where
  "gpuListContains val want = list_ex (\<lambda>part. Atoi (TrimSpace part) = Some want) (Split val (CHR '',''))"

text \<open>The list that \<^verbatim>\<open>ps\<close> prints is the set that \<^verbatim>\<open>who\<close> reads back.\<close>

lemma gpuListContains_format:
  assumes "gpus \<noteq> []" "\<forall>g\<in>set gpus. in_int64 g"
  shows "gpuListContains (formatGPUSet gpus) want \<longleftrightarrow> want \<in> set gpus"
proof -
  let ?gs = "sort (remdups gpus)"
  have no_comma: "CHR '','' \<notin> set (int_text g)" for g
    using set_int_text [of "CHR '',''" g] by (auto simp: is_digit_def)
  have "?gs \<noteq> []" using assms(1) by (metis set_empty set_remdups set_sort)
  then have "Split (formatGPUSet gpus) (CHR '','') = map int_text ?gs"
    unfolding formatGPUSet_def using no_comma by (intro Split_str_Join) auto
  then show ?thesis
    using assms(2) by (auto simp: gpuListContains_def list_ex_iff Atoi_int_text)
qed

section \<open>Texts\<close>

definition maxPSRows :: int where "maxPSRows = 4096"
definition maxPSRetainedTextBytes :: int where "maxPSRetainedTextBytes = 524288"
definition maxPSFieldBytes :: int where "maxPSFieldBytes = 4096"

text \<open>
  The runes of \<^verbatim>\<open>strings.ToValidUTF8(s, "?")\<close>, as their encodings: a run of invalid bytes is one
  question mark. The flag says whether the byte before was invalid.
\<close>

function valid_runes :: "bool \<Rightarrow> string \<Rightarrow> string list" where
  "valid_runes bad [] = []"
| "valid_runes bad (a # s) =
     (let n = utf8_length (a # s) in
      if n = 0 then (if bad then valid_runes True s else ''?'' # valid_runes True s)
      else take n (a # s) # valid_runes False (drop n (a # s)))"
  by pat_completeness auto
termination by (relation "measure (length \<circ> snd)") auto

fun bounded_runes :: "int \<Rightarrow> string list \<Rightarrow> string" where
  "bounded_runes used [] = []"
| "bounded_runes used (r # rs) =
     (let c = (if is_control r then ''?'' else r) in
      if used + int (length c) > maxPSFieldBytes then []
      else c @ bounded_runes (used + int (length c)) rs)"

definition boundedPSField :: "string \<Rightarrow> string" where
  "boundedPSField val = bounded_runes 0 (valid_runes False val)"

lemma bounded_runes_length: "used \<le> 4096 \<Longrightarrow> used + int (length (bounded_runes used rs)) \<le> 4096"
proof (induction rs arbitrary: used)
  case (Cons r rs)
  let ?c = "if is_control r then ''?'' else r"
  show ?case
  proof (cases "used + int (length ?c) > 4096")
    case True
    with Cons.prems show ?thesis by (simp add: maxPSFieldBytes_def Let_def)
  next
    case False
    with Cons.IH [of "used + int (length ?c)"] show ?thesis by (simp add: maxPSFieldBytes_def Let_def)
  qed
qed simp

lemma boundedPSField_length: "length (boundedPSField val) \<le> 4096"
  using bounded_runes_length [of 0 "valid_runes False val"] by (simp add: boundedPSField_def)

section \<open>Rows\<close>

record ps_row =
  ps_ID :: string
  ps_GPU :: string
  ps_User :: string
  ps_Command :: string

record row_builder =
  rb_row :: ps_row
  rb_gpus :: "int list"

definition reservationLiveKey :: "int \<Rightarrow> string \<Rightarrow> string" where
  "reservationLiveKey gpu tokenHash = int_text gpu @ '':'' @ tokenHash"

definition row_id :: "decision \<Rightarrow> string" where
  "row_id d = (if de_AuthID d = [] then de_LeaseID d else de_AuthID d)"

definition shown_decision :: "string \<Rightarrow> bool \<Rightarrow> decision \<Rightarrow> bool" where
  "shown_decision allowedTokenHash all d \<longleftrightarrow>
     de_Action d = ''allow'' \<and> de_Reason d \<noteq> ''bypass'' \<and>
     (all \<or> (allowedTokenHash \<noteq> [] \<and> de_TokenHash d = allowedTokenHash)) \<and> row_id d \<noteq> []"

definition decision_row :: "decision \<Rightarrow> ps_row" where
  "decision_row d =
     (let holder = boundedPSField (TrimSpace (de_Holder d));
          cmd = boundedPSField (str_Join (pi_Cmdline (de_Info d)) '' '');
          name = boundedPSField (gp_Name (de_Process d))
      in \<lparr>ps_ID = row_id d @ ''/'' @ int_text (gp_PID (de_Process d)), ps_GPU = [],
          ps_User = (if holder = [] then ''unknown'' else holder),
          ps_Command = (if cmd \<noteq> [] then cmd else if name \<noteq> [] then name
                        else ''pid '' @ int_text (gp_PID (de_Process d)))\<rparr>)"

record ps_state =
  pv_rows :: "row_builder list"
  pv_live :: "string list"
  pv_bytes :: int

definition text_bytes :: "ps_row \<Rightarrow> int" where
  "text_bytes r = int (length (ps_User r)) + int (length (ps_Command r))"

definition too_big :: "int \<Rightarrow> int \<Rightarrow> ps_row \<Rightarrow> bool" where
  "too_big rows bytes r \<longleftrightarrow> rows \<ge> maxPSRows \<or> bytes + text_bytes r > maxPSRetainedTextBytes"

definition add_gpu :: "string \<Rightarrow> int \<Rightarrow> row_builder list \<Rightarrow> row_builder list" where
  "add_gpu i gpu rows = map (\<lambda>b. if ps_ID (rb_row b) = i then b\<lparr>rb_gpus := rb_gpus b @ [gpu]\<rparr> else b) rows"

fun live_rows :: "string \<Rightarrow> bool \<Rightarrow> decision list \<Rightarrow> ps_state \<Rightarrow> ps_state option" where
  "live_rows h all [] s = Some s"
| "live_rows h all (d # ds) s =
     (if \<not> shown_decision h all d then live_rows h all ds s
      else
        let r = decision_row d; gpu = gp_GPU (de_Process d);
            known = (\<exists>b\<in>set (pv_rows s). ps_ID (rb_row b) = ps_ID r);
            live = (if de_TokenHash d \<noteq> [] then reservationLiveKey gpu (de_TokenHash d) # pv_live s
                    else pv_live s)
        in if known
           then live_rows h all ds (s\<lparr>pv_rows := add_gpu (ps_ID r) gpu (pv_rows s), pv_live := live\<rparr>)
           else if too_big (int (length (pv_rows s))) (pv_bytes s) r then None
           else live_rows h all ds
             (s\<lparr>pv_rows := pv_rows s @ [\<lparr>rb_row = r, rb_gpus = [gpu]\<rparr>], pv_live := live,
                pv_bytes := pv_bytes s + text_bytes r\<rparr>))"

definition reservation_row :: "(time \<Rightarrow> string) \<Rightarrow> reservation \<Rightarrow> ps_row" where
  "reservation_row format r =
     \<lparr>ps_ID = res_ID r, ps_GPU = int_text (res_GPU r), ps_User = boundedPSField (res_Holder r),
      ps_Command = ''reserved until '' @ format (res_ExpiresAt r)\<rparr>"

fun idle_rows ::
  "(time \<Rightarrow> string) \<Rightarrow> time \<Rightarrow> string \<Rightarrow> bool \<Rightarrow> string list \<Rightarrow> reservation list \<Rightarrow> int \<Rightarrow> ps_row list \<Rightarrow>
   ps_row list option" where
  "idle_rows format now h all live [] bytes rows = Some rows"
| "idle_rows format now h all live (r # rs) bytes rows =
     (if (\<not> all \<and> res_TokenHash r \<noteq> h) \<or> \<not> ReservationActiveAt r now \<or>
         reservationLiveKey (res_GPU r) (res_TokenHash r) \<in> set live
      then idle_rows format now h all live rs bytes rows
      else
        let row = reservation_row format r in
        if too_big (int (length rows)) bytes row then None
        else idle_rows format now h all live rs (bytes + text_bytes row) (rows @ [row]))"

definition row_key :: "ps_row \<Rightarrow> int \<times> string" where
  "row_key r = (firstGPU (ps_GPU r), ps_ID r)"

definition ps_rows ::
  "(time \<Rightarrow> string) \<Rightarrow> time \<Rightarrow> string \<Rightarrow> bool \<Rightarrow> state \<Rightarrow> decision list \<Rightarrow> ps_row list result" where
  "ps_rows format now h all st decisions =
     (case live_rows h all decisions \<lparr>pv_rows = [], pv_live = [], pv_bytes = 0\<rparr> of
        None \<Rightarrow> Inl (ErrNew ''ps result exceeds response budget'')
      | Some s \<Rightarrow>
          (case idle_rows format now h all (pv_live s) (st_Reservations st) (pv_bytes s)
                  (map (\<lambda>b. (rb_row b)\<lparr>ps_GPU := formatGPUSet (rb_gpus b)\<rparr>) (pv_rows s)) of
             None \<Rightarrow> Inl (ErrNew ''ps result exceeds response budget'')
           | Some rows \<Rightarrow> Inr (sort_key row_key rows)))"

text \<open>The sample of GPU processes that reads use: the monitor's last one, or a first one.\<close>

record read_cache =
  rc_at :: time
  rc_rows :: "gpu_process list"
  rc_err :: "error option"

definition processesForRead ::
  "time \<Rightarrow> gpu_process list \<times> error option \<Rightarrow> read_cache \<Rightarrow> (gpu_process list \<times> error option) \<times> read_cache" where
  "processesForRead now provider c =
     (if \<not> IsZero (rc_at c) then ((rc_rows c, rc_err c), c)
      else (provider, \<lparr>rc_at = now, rc_rows = fst provider, rc_err = snd provider\<rparr>))"

text \<open>
  The request itself. \<open>ctx\<close> is the outcome of waiting for one of the four slots; the
  authorizer is a dry one without killer.
\<close>

definition server_ps ::
  "env \<Rightarrow> authorizer \<Rightarrow> world \<Rightarrow> (int list \<Rightarrow> int list) \<Rightarrow> (time \<Rightarrow> string) \<Rightarrow> error option \<Rightarrow> time \<Rightarrow>
   gpu_process list \<times> error option \<Rightarrow> string \<Rightarrow> bool \<Rightarrow> read_cache \<times> store \<Rightarrow>
   ps_row list result \<times> read_cache \<times> store" where
  "server_ps E az w order format ctx now provider h all = (\<lambda>(cache, s).
     (case ctx of
        Some e \<Rightarrow> (Inl e, cache, s)
      | None \<Rightarrow>
          (case (if all then EnforcementSnapshot E s else EnforcementSnapshotForToken E h s) of
             (Inl e, s1) \<Rightarrow> (Inl e, cache, s1)
           | (Inr st, s1) \<Rightarrow>
               (case processesForRead now provider cache of
                  ((procs, err), cache1) \<Rightarrow>
                    let processes = (if err = None then procs else []) in
                    (case Enforce (az\<lparr>az_DryRun := True, az_Killer := False\<rparr>) w order st processes of
                       (Some e, _) \<Rightarrow> (Inl e, cache1, s1)
                     | (None, pa) \<Rightarrow> (ps_rows format now h all st (pa_decisions pa), cache1, s1))))))"

section \<open>What the rows hold\<close>

lemma idle_rows_bounded:
  "\<lbrakk>idle_rows format now h all live rs bytes rows = Some out; length rows \<le> 4096;
    sum_list (map text_bytes rows) = bytes; bytes \<le> 524288\<rbrakk> \<Longrightarrow>
     length out \<le> 4096 \<and> sum_list (map text_bytes out) \<le> 524288"
proof (induction rs arbitrary: bytes rows)
  case (Cons r rs)
  show ?case
  proof (cases "(\<not> all \<and> res_TokenHash r \<noteq> h) \<or> \<not> ReservationActiveAt r now \<or>
      reservationLiveKey (res_GPU r) (res_TokenHash r) \<in> set live")
    case True
    with Cons show ?thesis by simp
  next
    case False
    let ?row = "reservation_row format r"
    have fits: "\<not> too_big (int (length rows)) bytes ?row"
      and rest: "idle_rows format now h all live rs (bytes + text_bytes ?row) (rows @ [?row]) = Some out"
      using False Cons.prems(1) by (auto simp: Let_def split: if_splits)
    from Cons.IH [OF rest] fits Cons.prems(3) show ?thesis
      by (simp add: too_big_def maxPSRows_def maxPSRetainedTextBytes_def)
  qed
qed simp

lemma text_bytes_row [simp]: "text_bytes (r\<lparr>ps_GPU := g\<rparr>) = text_bytes r"
  by (simp add: text_bytes_def)

lemma add_gpu_rows [simp]: "map rb_row (add_gpu i g rows) = map rb_row rows" "length (add_gpu i g rows) = length rows"
  by (simp_all add: add_gpu_def)

definition rows_within :: "ps_state \<Rightarrow> bool" where
  "rows_within s \<longleftrightarrow> length (pv_rows s) \<le> 4096 \<and> sum_list (map text_bytes (map rb_row (pv_rows s))) = pv_bytes s \<and>
     pv_bytes s \<le> 524288"

lemma live_rows_within:
  "\<lbrakk>live_rows h all ds s = Some s'; rows_within s\<rbrakk> \<Longrightarrow> rows_within s'"
proof (induction ds arbitrary: s)
  case (Cons d ds)
  let ?r = "decision_row d" and ?gpu = "gp_GPU (de_Process d)"
  consider "\<not> shown_decision h all d"
    | "shown_decision h all d" "\<exists>b\<in>set (pv_rows s). ps_ID (rb_row b) = ps_ID ?r"
    | "shown_decision h all d" "\<not> (\<exists>b\<in>set (pv_rows s). ps_ID (rb_row b) = ps_ID ?r)"
      "\<not> too_big (int (length (pv_rows s))) (pv_bytes s) ?r"
    using Cons.prems(1) by (auto simp: Let_def split: if_splits)
  then show ?case
  proof cases
    case 1
    with Cons show ?thesis by simp
  next
    case 2
    with Cons.prems(1) obtain live where
      run: "live_rows h all ds (s\<lparr>pv_rows := add_gpu (ps_ID ?r) ?gpu (pv_rows s), pv_live := live\<rparr>) = Some s'"
      by (auto simp: Let_def)
    show ?thesis
      by (rule Cons.IH [OF run]) (use Cons.prems(2) in \<open>simp add: rows_within_def del: map_map\<close>)
  next
    case 3
    with Cons.prems(1) obtain live where
      run: "live_rows h all ds (s\<lparr>pv_rows := pv_rows s @ [\<lparr>rb_row = ?r, rb_gpus = [?gpu]\<rparr>], pv_live := live,
        pv_bytes := pv_bytes s + text_bytes ?r\<rparr>) = Some s'"
      by (auto simp: Let_def)
    show ?thesis
      by (rule Cons.IH [OF run]) (use Cons.prems(2) 3 in \<open>simp add: rows_within_def too_big_def maxPSRows_def
        maxPSRetainedTextBytes_def\<close>)
  qed
qed simp

lemma ps_rows_bounded:
  assumes "ps_rows format now h all st ds = Inr rows"
  shows "length rows \<le> 4096 \<and> sum_list (map text_bytes rows) \<le> 524288"
proof -
  obtain s out where s: "live_rows h all ds \<lparr>pv_rows = [], pv_live = [], pv_bytes = 0\<rparr> = Some s"
    and out: "idle_rows format now h all (pv_live s) (st_Reservations st) (pv_bytes s)
        (map (\<lambda>b. (rb_row b)\<lparr>ps_GPU := formatGPUSet (rb_gpus b)\<rparr>) (pv_rows s)) = Some out"
    and rows: "rows = sort_key row_key out"
    using assms by (auto simp: ps_rows_def split: option.splits)
  have "rows_within s" by (rule live_rows_within [OF s]) (simp add: rows_within_def)
  then have "length out \<le> 4096 \<and> sum_list (map text_bytes out) \<le> 524288"
    by (intro idle_rows_bounded [OF out]) (auto simp: rows_within_def comp_def)
  moreover have "sum_list (map text_bytes rows) = sum_list (map text_bytes out)"
    using rows by (metis mset_map mset_sort sum_mset_sum_list)
  ultimately show ?thesis using rows by simp
qed

end
