(* ===== verification/Peer.thy ===== *)
theory Peer
  imports GoText "HOL-Library.Word"
begin

text \<open>
  Who is on the other end of a connection, and which boot this is: \<^verbatim>\<open>readBootID\<close>,
  \<^verbatim>\<open>peerProcessGroups\<close> and \<^verbatim>\<open>normalizePeerGroups\<close> of \<^verbatim>\<open>daemon/server.go\<close>. Group ids are 32-bit words.
\<close>

section \<open>Peers\<close>

record peer =
  pe_PID :: int
  pe_UID :: int
  pe_GID :: int
  pe_Groups :: "32 word list"

text \<open>\<^verbatim>\<open>uint32(gid)\<close> wraps; the supplementary groups follow the primary one, each once.\<close>

fun add_groups :: "32 word list \<Rightarrow> string list \<Rightarrow> 32 word list" where
  "add_groups groups [] = groups"
| "add_groups groups (f # fs) =
     (case ParseUint 32 f of
        None \<Rightarrow> add_groups groups fs
      | Some gid \<Rightarrow>
          if of_nat gid \<in> set groups then add_groups groups fs
          else add_groups (groups @ [of_nat gid]) fs)"

definition normalizePeerGroups :: "int \<Rightarrow> string list \<Rightarrow> 32 word list" where
  "normalizePeerGroups primaryGID groupIDs = add_groups [of_int primaryGID] groupIDs"

text \<open>The loop over the lines of \<^verbatim>\<open>/proc/<pid>/status\<close>, with what was seen so far.\<close>

fun status_lines :: "int \<Rightarrow> bool \<Rightarrow> string list \<Rightarrow> string list \<Rightarrow> (bool \<times> string list) result" where
  "status_lines uid verified groupIDs [] = Inr (verified, groupIDs)"
| "status_lines uid verified groupIDs (line # lines) =
     (case Fields line of
        [] \<Rightarrow> status_lines uid verified groupIDs lines
      | key # rest \<Rightarrow>
          if key = ''Uid:'' then
            (if rest = [] \<or> hd rest \<noteq> int_text uid
             then Inl (ErrNew ''peer process identity changed before group lookup'')
             else status_lines uid True groupIDs lines)
          else if key = ''Groups:'' then status_lines uid verified rest lines
          else status_lines uid verified groupIDs lines)"

definition peerProcessGroups :: "string result \<Rightarrow> int \<Rightarrow> int \<Rightarrow> 32 word list result" where
  "peerProcessGroups status uid primaryGID =
     (case status of
        Inl e \<Rightarrow> Inl (ErrWrap ''read peer process groups'' [] e)
      | Inr data \<Rightarrow>
          (case status_lines uid False [] (Split data (CHR 0x0A)) of
             Inl e \<Rightarrow> Inl e
           | Inr (verified, groupIDs) \<Rightarrow>
               if \<not> verified then Inl (ErrNew ''peer process status is missing uid'')
               else Inr (normalizePeerGroups primaryGID groupIDs)))"

section \<open>The boot id\<close>

definition hex_digit :: "char \<Rightarrow> bool" where
  "hex_digit c \<longleftrightarrow> (let n = of_char c :: nat in 48 \<le> n \<and> n \<le> 57 \<or> 97 \<le> n \<and> n \<le> 102 \<or> 65 \<le> n \<and> n \<le> 70)"

definition boot_char :: "nat \<Rightarrow> char \<Rightarrow> bool" where
  "boot_char i c \<longleftrightarrow> (if i \<in> {8, 13, 18, 23} then c = CHR ''-'' else hex_digit c)"

text \<open>The reader gives at most 129 bytes.\<close>

definition readBootID :: "string result \<Rightarrow> string result" where
  "readBootID file =
     (case file of
        Inl e \<Rightarrow> Inl e
      | Inr data \<Rightarrow>
          let v = TrimSpace (take 129 data) in
          if length v \<noteq> 36 \<or> \<not> list_all (\<lambda>(i, c). boot_char i c) (List.enumerate 0 v)
          then Inl (ErrNew ''invalid kernel boot id'') else Inr (ToLower v))"

section \<open>Properties\<close>

lemma add_groups_distinct: "distinct groups \<Longrightarrow> distinct (add_groups groups fs)"
  by (induction fs arbitrary: groups) (auto split: option.splits)

lemma add_groups_prefix: "prefix groups (add_groups groups fs)"
proof (induction fs arbitrary: groups)
  case (Cons f fs)
  then show ?case
    by (auto split: option.splits) (meson append_prefixD)
qed simp

lemma add_groups_set: "set (add_groups groups fs) = set groups \<union> {of_nat g |g f. f \<in> set fs \<and> ParseUint 32 f = Some g}"
  by (induction fs arbitrary: groups) (auto split: option.splits)

lemma normalizePeerGroups_hd: "\<exists>gs. normalizePeerGroups gid fs = of_int gid # gs"
  using add_groups_prefix [of "[of_int gid]" fs] by (auto simp: normalizePeerGroups_def prefix_def)

lemma status_lines_verified:
  "status_lines uid verified gs ls = Inr (True, gs') \<Longrightarrow>
     verified \<or> (\<exists>l\<in>set ls. \<exists>rest. Fields l = ''Uid:'' # int_text uid # rest)"
proof (induction ls arbitrary: verified gs)
  case (Cons l ls)
  show ?case
  proof (cases "Fields l")
    case Nil
    with Cons show ?thesis by fastforce
  next
    case (Cons key rest)
    with Cons.IH Cons.prems show ?thesis by (cases rest) (fastforce split: if_splits)+
  qed
qed simp

lemma boot_id_format:
  assumes "readBootID file = Inr v"
  shows "length v = 36"
  using assms by (auto simp: readBootID_def Let_def split: sum.splits if_splits)

end
