(* ===== verification/Handlers.thy ===== *)
theory Handlers
  imports StoreSystem RequestArgs Admission Busy PsView Peer
begin

text \<open>
  The request handlers of \<^verbatim>\<open>daemon/server.go\<close>: token validation, the three kinds of
  authorization, registrations, bypass rules, revocation and \<^verbatim>\<open>dispatch\<close>. A handler is a
  sequence of store operations with checks in between; each store operation of a handler has
  its own environment and each reading of the clock its own value. The lock of the
  daemon, which a handler holds while it decides and writes, makes a handler one step.
  Telemetry events that handlers emit leave the state alone and are not part of the model.
\<close>

section \<open>Sequences of store operations\<close>

definition bindS :: "('s \<Rightarrow> 'a result \<times> 's) \<Rightarrow> ('a \<Rightarrow> 's \<Rightarrow> 'b result \<times> 's) \<Rightarrow> 's \<Rightarrow> 'b result \<times> 's" where
  "bindS m k s = (case m s of (Inl e, s') \<Rightarrow> (Inl e, s') | (Inr x, s') \<Rightarrow> k x s')"

definition returnS :: "'a \<Rightarrow> 's \<Rightarrow> 'a result \<times> 's" where "returnS x s = (Inr x, s)"
definition failS :: "error \<Rightarrow> 's \<Rightarrow> 'a result \<times> 's" where "failS e s = (Inl e, s)"

definition guardS :: "error option \<Rightarrow> ('s \<Rightarrow> 'a result \<times> 's) \<Rightarrow> 's \<Rightarrow> 'a result \<times> 's" where
  "guardS err k = (case err of Some e \<Rightarrow> failS e | None \<Rightarrow> k)"

definition liftS :: "'a result \<Rightarrow> 's \<Rightarrow> 'a result \<times> 's" where "liftS r s = (r, s)"

definition root_only :: "env \<Rightarrow> string \<Rightarrow> (store \<Rightarrow> 'a result \<times> store) \<Rightarrow> store \<Rightarrow> 'a result \<times> store" where
  "root_only E rootKey k =
     bindS (ValidateRootKey E rootKey) (\<lambda>ok. if \<not> ok then failS ErrInvalidRootKey else k)"

text \<open>The environments and clock readings that are left after the first \<open>n\<close>.\<close>

definition later :: "nat \<Rightarrow> (nat \<Rightarrow> 'a) \<Rightarrow> nat \<Rightarrow> 'a" where "later n f = (\<lambda>i. f (n + i))"

section \<open>Nodes and results\<close>

text \<open>
  What a handler sees of the node: its configuration, the process reader, the GPU provider,
  the container runtime, the user database and the search path.
\<close>

record node =
  nd_GPUCount :: int
  nd_bootID :: string
  nd_hasProc :: bool
  nd_Info :: "int \<Rightarrow> proc_info result"
  nd_processes :: "gpu_process list result"
  nd_authorizer :: authorizer
  nd_world :: world
  nd_order :: "int list \<Rightarrow> int list"
  nd_format :: "time \<Rightarrow> string"
  nd_parseTime :: "string \<Rightarrow> time result"
  nd_ctx :: "error option"
  nd_dockerSlots :: nat
  nd_resolveDocker :: "string \<Rightarrow> string result"
  nd_kubeTools :: bool
  nd_lookupUID :: "string \<Rightarrow> int result"

record allow_result =
  ar_AuthorizationID :: string
  ar_Mode :: string
  ar_ContainerID :: string
  ar_ContainerPattern :: string
  ar_Namespace :: string
  ar_Username :: string
  ar_ExpiresAt :: "time option"

record register_result =
  rr_Token :: string
  rr_TokenID :: string
  rr_GroupID :: string
  rr_Mode :: string
  rr_ReservationIDs :: "string list"
  rr_GPUs :: "int list"
  rr_StartsAt :: "time option"
  rr_ExpiresAt :: "time option"

section \<open>Tokens\<close>

definition validateToken :: "env \<Rightarrow> string \<Rightarrow> time \<Rightarrow> store \<Rightarrow> (token \<times> string) result \<times> store" where
  "validateToken E secret now s =
     (if TrimSpace secret = [] then (Inl (ErrNew ''KEY token is required''), s)
      else
        (case ValidateToken E secret now s of
           ((t, h, Some e), s') \<Rightarrow> (Inl e, s')
         | ((t, h, None), s') \<Rightarrow> (Inr (t, h), s')))"

definition ensureTokenCanAuthorize :: "env \<Rightarrow> string \<Rightarrow> token \<Rightarrow> time \<Rightarrow> store \<Rightarrow> unit result \<times> store" where
  "ensureTokenCanAuthorize E tokenHash t now =
     (if NormalizeTokenMode (tok_Mode t) \<noteq> TokenModeReserved then returnS ()
      else
        bindS (EnforcementSnapshot E) (\<lambda>st.
          if \<exists>r\<in>set (st_Reservations st). res_TokenHash r = tokenHash \<and> ReservationActiveAt r now
          then returnS () else failS (ErrNew ''reserved token has no valid reservation'')))"

definition readScopeTokenHash :: "env \<Rightarrow> string \<Rightarrow> peer \<Rightarrow> time \<Rightarrow> store \<Rightarrow> string result \<times> store" where
  "readScopeTokenHash E secret p now =
     (if pe_UID p = 0 \<and> TrimSpace secret = [] then returnS []
      else bindS (validateToken E secret now) (\<lambda>(t, h). returnS h))"

section \<open>Authorizations\<close>

definition hasWildcard :: "string \<Rightarrow> bool" where "hasWildcard val = str_Contains val ''*''"

definition addAuthorizationLocked ::
  "(nat \<Rightarrow> env) \<Rightarrow> (nat \<Rightarrow> time) \<Rightarrow> string \<Rightarrow> authorization \<Rightarrow> store \<Rightarrow> authorization result \<times> store" where
  "addAuthorizationLocked E clock tokenSecret a =
     bindS (validateToken (E 0) tokenSecret (clock 0)) (\<lambda>(t, tokenHash).
       if tokenHash \<noteq> auth_TokenHash a then failS (ErrNew ''token identity changed during authorization'')
       else
         bindS (ensureTokenCanAuthorize (E 1) tokenHash t (clock 0)) (\<lambda>_.
           let a' = a\<lparr>auth_TokenMode := NormalizeTokenMode (tok_Mode t), auth_TokenVersion := tok_Version t,
                      auth_Holder := tok_Name t, auth_ExpiresAt := tok_ExpiresAt t\<rparr>
           in bindS (AddAuthorization (E 2) a' (clock 1)) (\<lambda>_. returnS a')))"

definition addAuthorization ::
  "(nat \<Rightarrow> env) \<Rightarrow> (nat \<Rightarrow> time) \<Rightarrow> string \<Rightarrow> authorization \<Rightarrow> store \<Rightarrow> authorization result \<times> store" where
  "addAuthorization = addAuthorizationLocked"

definition persistAuthorization ::
  "(nat \<Rightarrow> env) \<Rightarrow> (nat \<Rightarrow> time) \<Rightarrow> string \<Rightarrow> token \<Rightarrow> authorization \<Rightarrow> store \<Rightarrow>
   authorization result \<times> store" where
  "persistAuthorization E clock tokenSecret t a =
     (if TrimSpace tokenSecret \<noteq> [] \<or> \<not> tok_Managed t then addAuthorization E clock tokenSecret a
      else
        bindS (ManagedTokenByID (E 0) (tok_ID t) (clock 0)) (\<lambda>current.
          if tok_Hash current \<noteq> tok_Hash t \<or> tok_Version current \<noteq> tok_Version t
          then failS (ErrNew ''managed key identity changed during authorization'')
          else
            let a' = a\<lparr>auth_TokenHash := tok_Hash current, auth_TokenMode := TokenModeManaged,
                       auth_TokenVersion := tok_Version current, auth_Holder := tok_Name current,
                       auth_ExpiresAt := 0\<rparr>
            in bindS (AddAuthorization (E 1) a' (clock 1)) (\<lambda>_. returnS a')))"

text \<open>The authorization a handler starts from.\<close>

definition new_authorization ::
  "env \<Rightarrow> string \<Rightarrow> token \<Rightarrow> string \<Rightarrow> int \<Rightarrow> int \<Rightarrow> time \<Rightarrow> authorization" where
  "new_authorization E mode t tokenHash uid gid now =
     zero_authorization\<lparr>auth_ID := ''auth_'' @ e_rnd E 0, auth_Mode := mode, auth_TokenHash := tokenHash,
       auth_TokenMode := NormalizeTokenMode (tok_Mode t), auth_TokenVersion := tok_Version t,
       auth_Holder := tok_Name t, auth_UID := uid, auth_GID := gid, auth_CreatedAt := now,
       auth_ExpiresAt := tok_ExpiresAt t, auth_Active := True\<rparr>"

definition allow_result_of :: "authorization \<Rightarrow> allow_result" where
  "allow_result_of a = \<lparr>ar_AuthorizationID = auth_ID a, ar_Mode = auth_Mode a,
     ar_ContainerID = auth_ContainerID a, ar_ContainerPattern = auth_ContainerPattern a,
     ar_Namespace = auth_Namespace a, ar_Username = auth_Username a,
     ar_ExpiresAt = timePtrIfSet (auth_ExpiresAt a)\<rparr>"

definition wildcard_error :: error where
  "wildcard_error = ErrNew ''wildcard authorization requires root/admin access''"

definition createDockerAuthorization ::
  "node \<Rightarrow> (nat \<Rightarrow> env) \<Rightarrow> (nat \<Rightarrow> time) \<Rightarrow> string \<Rightarrow> token \<Rightarrow> string \<Rightarrow> peer \<Rightarrow> string \<Rightarrow> store \<Rightarrow>
   allow_result result \<times> store" where
  "createDockerAuthorization N E clock tokenSecret t tokenHash p arg =
     bindS (ensureTokenCanAuthorize (E 0) tokenHash t (clock 0)) (\<lambda>_.
       let container = TrimSpace arg in
       if container = [] then failS (ErrNew ''container is required'')
       else guardS (validateRequestValue ''container'' container) (
         if hasWildcard container \<and> pe_UID p \<noteq> 0 then failS wildcard_error
         else
           bindS (liftS (if hasWildcard container then Inr ([], container)
                  else
                    (case fst (acquireDockerResolve (nd_ctx N) (nd_dockerSlots N)) of
                       Inl e \<Rightarrow> Inl e
                     | Inr _ \<Rightarrow>
                         (case nd_resolveDocker N container of
                            Inl e \<Rightarrow> Inl (ErrWrap ''resolve docker container'' [] e)
                          | Inr i \<Rightarrow> Inr (i, []))))) (\<lambda>(containerID, containerPattern).
             let a = (new_authorization (E 1) ModeDocker t tokenHash (pe_UID p) (pe_GID p) (clock 1))
                       \<lparr>auth_ContainerID := containerID, auth_ContainerPattern := containerPattern\<rparr>
             in bindS (persistAuthorization (later 2 E) (later 2 clock) tokenSecret t a)
                  (\<lambda>a'. returnS (allow_result_of a')))))"

definition createK8sAuthorization ::
  "node \<Rightarrow> (nat \<Rightarrow> env) \<Rightarrow> (nat \<Rightarrow> time) \<Rightarrow> string \<Rightarrow> token \<Rightarrow> string \<Rightarrow> peer \<Rightarrow> string \<Rightarrow> store \<Rightarrow>
   allow_result result \<times> store" where
  "createK8sAuthorization N E clock tokenSecret t tokenHash p arg =
     bindS (ensureTokenCanAuthorize (E 0) tokenHash t (clock 0)) (\<lambda>_.
       if TrimSpace arg = [] then failS (ErrNew ''namespace is required'')
       else guardS (validateRequestValue ''namespace'' arg) (
         if hasWildcard arg \<and> pe_UID p \<noteq> 0 then failS wildcard_error
         else if \<not> nd_kubeTools N then failS (ErrNew ''k8s mode requires crictl or kubectl'')
         else
           let a = (new_authorization (E 1) ModeK8s t tokenHash (pe_UID p) (pe_GID p) (clock 1))
                     \<lparr>auth_Namespace := TrimSpace arg\<rparr>
           in bindS (persistAuthorization (later 2 E) (later 2 clock) tokenSecret t a)
                (\<lambda>a'. returnS (allow_result_of a'))))"

definition createUserAuthorization ::
  "node \<Rightarrow> (nat \<Rightarrow> env) \<Rightarrow> (nat \<Rightarrow> time) \<Rightarrow> string \<Rightarrow> token \<Rightarrow> string \<Rightarrow> peer \<Rightarrow> string \<Rightarrow> store \<Rightarrow>
   allow_result result \<times> store" where
  "createUserAuthorization N E clock tokenSecret t tokenHash p arg =
     bindS (ensureTokenCanAuthorize (E 0) tokenHash t (clock 0)) (\<lambda>_.
       let username = TrimSpace arg in
       if username = [] then failS (ErrNew ''user is required'')
       else guardS (validateRequestValue ''user'' username) (
         if hasWildcard username \<and> pe_UID p \<noteq> 0 then failS wildcard_error
         else
           bindS (liftS (if hasWildcard username then Inr (- 1) else nd_lookupUID N username)) (\<lambda>uid.
             let a = (new_authorization (E 1) ModeUser t tokenHash uid (pe_GID p) (clock 1))
                       \<lparr>auth_Username := username\<rparr>
             in bindS (persistAuthorization (later 2 E) (later 2 clock) tokenSecret t a)
                  (\<lambda>a'. returnS (allow_result_of a')))))"

section \<open>Registrations\<close>

fun busy_check ::
  "authorizer \<Rightarrow> world \<Rightarrow> state \<Rightarrow> gpu_process list \<Rightarrow> nat \<Rightarrow> int list \<Rightarrow> error option" where
  "busy_check az w st ps i [] = None"
| "busy_check az w st ps i (gpu # gpus) =
     (case BusyProcessesForGPU az (sub w i) st ps gpu of
        (_, Some e) \<Rightarrow> Some e
      | (busy, None) \<Rightarrow>
          if busy \<noteq> [] then Some (ErrGPU ''gpu is busy'' gpu) else busy_check az w st ps (Suc i) gpus)"

definition window_conflict :: "state \<Rightarrow> int list \<Rightarrow> time \<Rightarrow> time \<Rightarrow> time \<Rightarrow> error option" where
  "window_conflict st gpus startsAt expiresAt now =
     and_then
       (first_error (\<lambda>r. if res_GPU r \<in> set gpus \<and> ReservationOverlaps r startsAt expiresAt
          then Some (ErrOverlap (res_GPU r) (res_ID r)) else None) (st_Reservations st))
       (first_error (\<lambda>l. if lease_GPU l \<in> set gpus \<and> lease_Active l \<and> Before now (lease_ExpiresAt l) \<and>
          Before startsAt (lease_ExpiresAt l)
          then Some (ErrOverlap (lease_GPU l) (lease_ID l)) else None) (st_Leases st))"

definition ensureGPUsCanReserveWindow ::
  "node \<Rightarrow> (nat \<Rightarrow> env) \<Rightarrow> (nat \<Rightarrow> time) \<Rightarrow> int list \<Rightarrow> time \<Rightarrow> time \<Rightarrow> store \<Rightarrow> unit result \<times> store" where
  "ensureGPUsCanReserveWindow N E clock gpus startsAt0 expiresAt =
     guardS (validateConfiguredGPUs (nd_GPUCount N) gpus) (
       let startsAt = (if IsZero startsAt0 then clock 0 else startsAt0); now = clock 1 in
       if \<not> After expiresAt startsAt then failS (ErrNew ''reservation end must be after start'')
       else if \<not> After expiresAt now then failS (ErrNew ''reservation end must be in the future'')
       else
         bindS (EnforcementSnapshot (E 0)) (\<lambda>st.
           guardS (window_conflict st gpus startsAt expiresAt now) (
             if Before now startsAt \<or> \<not> Before now expiresAt then returnS ()
             else
               (case nd_processes N of
                  Inl e \<Rightarrow> failS (ErrWrap ''GPU process list'' [] e)
                | Inr processes \<Rightarrow>
                    guardS (busy_check (nd_authorizer N) (nd_world N) st processes 0 gpus) (returnS ())))))"

definition register_reserved ::
  "node \<Rightarrow> (nat \<Rightarrow> env) \<Rightarrow> (nat \<Rightarrow> time) \<Rightarrow> register_args \<Rightarrow> time \<Rightarrow> store \<Rightarrow> register_result result \<times> store" where
  "register_reserved N E clock args now =
     guardS (validateConfiguredGPUs (nd_GPUCount N) (rg_GPUs args)) (
       let startsAt = the_or now (rg_StartsAt args); given = the_or 0 (rg_ExpiresAt args) in
       bindS (liftS (if IsZero given
                then (case ParseTTL (E 0) (rg_TTL args) DefaultHardTTL MaxHardTTL of
                        Inl e \<Rightarrow> Inl e | Inr ttl \<Rightarrow> Inr (time_Add startsAt ttl))
                else Inr given)) (\<lambda>expiresAt.
         if \<not> After expiresAt now then failS (ErrNew ''reservation end must be in the future'')
         else
           bindS (ensureGPUsCanReserveWindow N (later 1 E) clock (rg_GPUs args) startsAt expiresAt) (\<lambda>_.
             bindS (if TrimSpace (rg_UserKeyID args) \<noteq> []
                    then bindS (RegisterManagedReservations (E 2) (rg_RootKey args) (rg_UserKeyID args)
                           (rg_Purpose args) (rg_ExternalSessionID args) (rg_GPUs args) startsAt expiresAt now)
                           (\<lambda>(t, groupID, rs). returnS ([], t, groupID, rs))
                    else
                      bindS (ManagedKeysEnabled (E 2)) (\<lambda>managed.
                        if managed
                        then failS (ErrNew ''user_key_id is required; keys are managed by the web gateway'')
                        else bindS (RegisterScheduledReservationsWithSession (E 3) (rg_RootKey args)
                               (rg_Name args) (rg_Purpose args) (rg_ExternalSessionID args) (rg_GPUs args)
                               startsAt expiresAt now)
                               (\<lambda>(secret, t, rs). returnS (secret, t, [], rs))))
               (\<lambda>(secret, t, groupID, rs).
                 returnS \<lparr>rr_Token = secret, rr_TokenID = tok_ID t,
                   rr_GroupID = (if groupID = [] then tok_ID t else groupID), rr_Mode = tok_Mode t,
                   rr_ReservationIDs = map res_ID rs, rr_GPUs = map res_GPU rs,
                   rr_StartsAt = timePtrIfSet startsAt, rr_ExpiresAt = timePtrIfSet expiresAt\<rparr>))))"

definition register_claimed ::
  "(nat \<Rightarrow> env) \<Rightarrow> register_args \<Rightarrow> time \<Rightarrow> store \<Rightarrow> register_result result \<times> store" where
  "register_claimed E args now =
     bindS (ManagedKeysEnabled (E 0)) (\<lambda>managed.
       if managed then failS (ErrNew ''claim keys are managed by the web gateway'')
       else
         bindS (RegisterSoftToken (E 1) (rg_RootKey args) (rg_Name args) now) (\<lambda>(secret, t).
           returnS \<lparr>rr_Token = secret, rr_TokenID = [], rr_GroupID = [], rr_Mode = tok_Mode t,
             rr_ReservationIDs = [], rr_GPUs = [], rr_StartsAt = None, rr_ExpiresAt = None\<rparr>))"

definition register ::
  "node \<Rightarrow> (nat \<Rightarrow> env) \<Rightarrow> (nat \<Rightarrow> time) \<Rightarrow> arg_stream \<Rightarrow> time \<Rightarrow> store \<Rightarrow> register_result result \<times> store" where
  "register N E clock raw now =
     bindS (liftS (decodeRegisterArgs (nd_parseTime N) raw)) (\<lambda>args.
       if TrimSpace (rg_Mode args) = [] then failS (ErrNew ''mode must be reserved or claimed'')
       else guardS (and_then (validateRequestValue ''name'' (rg_Name args))
              (and_then (validateRequestValue ''purpose'' (rg_Purpose args))
                 (validateRequestValue ''external session id'' (rg_ExternalSessionID args)))) (
         root_only (E 0) (rg_RootKey args) (
           let mode = NormalizeTokenMode (rg_Mode args) in
           if mode = TokenModeReserved then register_reserved N (later 1 E) clock args now
           else if mode = TokenModeClaimed then register_claimed (later 1 E) args now
           else failS (ErrNew ''mode must be reserved or claimed''))))"

section \<open>Bypass rules and revocation\<close>

definition addBypassLocked ::
  "node \<Rightarrow> (nat \<Rightarrow> env) \<Rightarrow> bypass_args \<Rightarrow> time \<Rightarrow> store \<Rightarrow> bypass_rule result \<times> store" where
  "addBypassLocked N E args now =
     (if TrimSpace (ba_Reason args) = [] then failS (ErrNew ''bypass reason is required'')
      else guardS (validateRequestValue ''reason'' (ba_Reason args)) (
        if (ba_PID args > 0) = (TrimSpace (ba_Command args) \<noteq> [])
        then failS (ErrNew ''exactly one pid or command bypass selector is required'')
        else
          bindS (liftS (ParseTTL (E 0) (ba_TTL args) DefaultTokenTTL NoTTLMaximum)) (\<lambda>ttl.
            let rule = \<lparr>byp_ID = ''bp_'' @ e_rnd (E 0) 0, byp_Type = ba_Type args, byp_PID = ba_PID args,
                  byp_StartTime = 0, byp_BootID = [], byp_Command = ba_Command args, byp_UID = ba_UID args,
                  byp_Reason = ba_Reason args, byp_CreatedAt = now, byp_ExpiresAt = time_Add now ttl,
                  byp_Revoked = False\<rparr>
            in bindS (liftS (
                 if byp_Type rule = BypassPID then
                   (if byp_PID rule \<le> 0 then Inl (ErrNew ''pid bypass requires --pid'')
                    else if \<not> nd_hasProc N then Inl (ErrNew ''process identity reader is unavailable'')
                    else
                      (case nd_Info N (byp_PID rule) of
                         Inl _ \<Rightarrow> Inl (ErrPid ''cannot verify pid identity'' (byp_PID rule))
                       | Inr info \<Rightarrow>
                           if pi_PID info \<noteq> byp_PID rule \<or> pi_StartTime info = 0
                           then Inl (ErrPid ''cannot verify pid identity'' (byp_PID rule))
                           else if nd_bootID N = []
                           then Inl (ErrNew ''cannot create pid bypass without a verified boot id'')
                           else Inr (rule\<lparr>byp_StartTime := pi_StartTime info, byp_BootID := nd_bootID N\<rparr>)))
                 else if byp_Type rule = BypassCommand then
                   (if byp_Command rule = [] \<or> \<not> HasPrefix (byp_Command rule) ''/''
                    then Inl (ErrNew ''command bypass requires absolute --command'')
                    else if byp_UID rule \<noteq> 0
                    then Inl (ErrNew ''command bypass is restricted to uid 0; use a PID bypass for non-root processes'')
                    else Inr rule)
                 else Inl (ErrNew ''bypass type must be pid or command''))) (\<lambda>rule'.
                 bindS (AddBypass (E 1) rule') (\<lambda>_. returnS rule')))))"

section \<open>Dispatch\<close>

text \<open>
  A request: its method, its token, and what decoding its raw arguments into the type of each
  method gives.
\<close>

record request_data =
  rq_Method :: string
  rq_Token :: string
  rq_stream :: arg_stream
  rq_container :: "string result"
  rq_namespace :: "string result"
  rq_user :: "string result"
  rq_gpu :: "int result"
  rq_tokenInfo :: string
  rq_rootKey :: "string result"
  rq_bypass :: "bypass_args result"
  rq_revoke :: "(string \<times> string) result"

datatype reply =
    ReplyRegister register_result
  | ReplyAllow allow_result
  | ReplyStatus status
  | ReplyRows "ps_row list"
  | ReplyToken token_view
  | ReplyKeys key_status
  | ReplyBypass bypass_rule
  | ReplyRevoked string

definition replyS :: "('a \<Rightarrow> reply) \<Rightarrow> ('s \<Rightarrow> 'a result \<times> 's) \<Rightarrow> 's \<Rightarrow> reply result \<times> 's" where
  "replyS f m = bindS m (\<lambda>x. returnS (f x))"

text \<open>\<^verbatim>\<open>ps\<close> keeps the process sample; the other handlers leave it alone.\<close>

definition ps_request ::
  "node \<Rightarrow> env \<Rightarrow> time \<Rightarrow> string \<Rightarrow> bool \<Rightarrow> read_cache \<times> store \<Rightarrow> ps_row list result \<times> read_cache \<times> store" where
  "ps_request N E now h all =
     server_ps E (nd_authorizer N) (nd_world N) (nd_order N) (nd_format N) (nd_ctx N) now
       (case nd_processes N of Inl e \<Rightarrow> ([], Some e) | Inr rows \<Rightarrow> (rows, None)) h all"

definition onS :: "(store \<Rightarrow> 'a result \<times> store) \<Rightarrow> 'c \<times> store \<Rightarrow> 'a result \<times> 'c \<times> store" where
  "onS m = (\<lambda>(c, s). case m s of (r, s') \<Rightarrow> (r, c, s'))"

definition allow_request ::
  "(nat \<Rightarrow> env) \<Rightarrow> time \<Rightarrow> string \<Rightarrow> string result \<Rightarrow>
   (token \<Rightarrow> string \<Rightarrow> string \<Rightarrow> store \<Rightarrow> allow_result result \<times> store) \<Rightarrow> store \<Rightarrow> reply result \<times> store" where
  "allow_request E now secret arg create =
     bindS (validateToken (E 0) secret now) (\<lambda>(t, h).
       bindS (liftS arg) (\<lambda>x. replyS ReplyAllow (create t h x)))"

definition dispatch ::
  "node \<Rightarrow> (nat \<Rightarrow> env) \<Rightarrow> (nat \<Rightarrow> time) \<Rightarrow> peer \<Rightarrow> request_data \<Rightarrow> read_cache \<times> store \<Rightarrow>
   reply result \<times> read_cache \<times> store" where
  "dispatch N E clock p req =
     (let now = clock 0; m = rq_Method req; E' = later 1 E; clock' = later 1 clock; tok = rq_Token req in
      if m = ''register'' then onS (replyS ReplyRegister (register N E clock' (rq_stream req) now))
      else if m = ''allow_docker'' then
        onS (allow_request E now tok (rq_container req)
          (\<lambda>t h. createDockerAuthorization N E' clock' tok t h p))
      else if m = ''allow_k8s'' then
        onS (allow_request E now tok (rq_namespace req) (\<lambda>t h. createK8sAuthorization N E' clock' tok t h p))
      else if m = ''allow_user'' then
        onS (allow_request E now tok (rq_user req) (\<lambda>t h. createUserAuthorization N E' clock' tok t h p))
      else if m = ''status'' then
        onS (if pe_UID p = 0 then replyS ReplyStatus (Status (E 0) now)
             else bindS (validateToken (E 0) tok now) (\<lambda>(t, h). replyS ReplyStatus (StatusForToken (E 1) h now)))
      else if m = ''ps'' then
        bindS (onS (readScopeTokenHash (E 0) tok p now)) (\<lambda>h.
          replyS ReplyRows (ps_request N (E 1) now h (pe_UID p = 0)))
      else if m = ''who'' then
        bindS (liftS (rq_gpu req)) (\<lambda>gpu.
          bindS (onS (readScopeTokenHash (E 0) tok p now)) (\<lambda>h.
            bindS (ps_request N (E 1) now h (pe_UID p = 0)) (\<lambda>rows.
              returnS (ReplyRows (filter (\<lambda>r. gpuListContains (ps_GPU r) gpu) rows)))))
      else if m = ''token_info'' then
        onS (replyS ReplyToken (TokenView (E 0) (if rq_tokenInfo req = [] then tok else rq_tokenInfo req) now))
      else if m = ''show_keys'' then
        onS (bindS (liftS (rq_rootKey req)) (\<lambda>k. replyS ReplyKeys (KeyStatus (E 0) k now)))
      else if m = ''bypass_add'' then
        onS (bindS (liftS (rq_bypass req)) (\<lambda>args.
          root_only (E 0) (ba_RootKey args) (replyS ReplyBypass (addBypassLocked N E' args now))))
      else if m = ''revoke'' then
        onS (bindS (liftS (rq_revoke req)) (\<lambda>(rootKey, ident).
          root_only (E 0) rootKey (bindS (Revoke (E 1) ident clock') (\<lambda>_. returnS (ReplyRevoked ident)))))
      else failS (ErrID ''unknown method'' m))"

end
