(* ===== verification/NodeFiles.thy ===== *)
theory NodeFiles
  imports GoText
begin

text \<open>
  The daemon's handling of paths it owns: the cgroups of managed commands
  (\<^verbatim>\<open>cgroupPathWithinRoot\<close>, \<^verbatim>\<open>stopAndRemoveManagedCgroup\<close>, \<^verbatim>\<open>removeCgroup\<close>, \<^verbatim>\<open>createCgroup\<close>
  and the emptiness checks of \<^verbatim>\<open>daemon/server.go\<close>) and its Unix socket. What the kernel
  answers is an observation; the writes and removals an operation attempts are its result.
\<close>

section \<open>Paths\<close>

text \<open>
  The names of a clean rooted path, \<^verbatim>\<open>filepath.Abs\<close> with the result of \<^verbatim>\<open>os.Getwd\<close>, and
  \<^verbatim>\<open>filepath.Rel\<close> on the absolute paths that the code gives it, on which it does not fail.
\<close>

definition path_names :: "string \<Rightarrow> string list" where
  "path_names p = (if p = ''/'' then [] else Split (tl p) (CHR ''/''))"

definition filepath_Join :: "string \<Rightarrow> string \<Rightarrow> string" where
  "filepath_Join a b =
     (if a = [] \<and> b = [] then [] else if a = [] then path_Clean b else if b = [] then path_Clean a
      else path_Clean (a @ ''/'' @ b))"

definition filepath_Abs :: "string result \<Rightarrow> string \<Rightarrow> string result" where
  "filepath_Abs cwd p =
     (if HasPrefix p ''/'' then Inr (path_Clean p)
      else (case cwd of Inl e \<Rightarrow> Inl e | Inr wd \<Rightarrow> Inr (filepath_Join wd p)))"

fun rel_names :: "string list \<Rightarrow> string list \<Rightarrow> string list" where
  "rel_names (b # bs) (t # ts) =
     (if b = t then rel_names bs ts else replicate (length (b # bs)) ''..'' @ t # ts)"
| "rel_names bs ts = replicate (length bs) ''..'' @ ts"

definition filepath_Rel :: "string \<Rightarrow> string \<Rightarrow> string" where
  "filepath_Rel base target =
     (let b = path_Clean base; t = path_Clean target
      in if t = b then ''.'' else str_Join (rel_names (path_names b) (path_names t)) ''/'')"

definition cgroupPathWithinRoot :: "string result \<Rightarrow> string \<Rightarrow> string \<Rightarrow> bool result" where
  "cgroupPathWithinRoot cwd root candidate =
     (case filepath_Abs cwd (path_Clean root) of
        Inl e \<Rightarrow> Inl e
      | Inr r \<Rightarrow>
          (case filepath_Abs cwd (path_Clean candidate) of
             Inl e \<Rightarrow> Inl e
           | Inr c \<Rightarrow>
               let relative = filepath_Rel r c
               in Inr (relative \<noteq> ''.'' \<and> relative \<noteq> [] \<and> relative \<noteq> ''..'' \<and> \<not> HasPrefix relative ''../'')))"

section \<open>Cgroups\<close>

text \<open>What reading \<^verbatim>\<open>cgroup.procs\<close> gives, and what the steps of removing a cgroup give.\<close>

definition cgroupEmpty :: "string result \<Rightarrow> bool" where
  "cgroupEmpty procs =
     (case procs of Inl e \<Rightarrow> errors_Is e ErrNotExist | Inr data \<Rightarrow> TrimSpace data = [])"

definition cgroupEmptyOrOnlyExitedRoot :: "string result \<Rightarrow> string result \<Rightarrow> bool \<Rightarrow> int \<Rightarrow> bool" where
  "cgroupEmptyOrOnlyExitedRoot procs1 procs2 root_exists rootPID =
     (if cgroupEmpty procs1 then True
      else
        (case procs2 of
           Inl _ \<Rightarrow> False
         | Inr data \<Rightarrow>
             let fields = Fields data in
             if fields = [] \<or> root_exists then False
             else list_all (\<lambda>f. Atoi f = Some rootPID) fields))"

record remove_obs =
  ro_remove :: "error option"
  ro_cgroup2 :: "bool result"
  ro_control :: "bool result"
  ro_remove_control :: "error option"
  ro_remove_again :: "error option"

definition removeCgroup :: "remove_obs \<Rightarrow> error option" where
  "removeCgroup ob =
     (case ro_remove ob of
        None \<Rightarrow> None
      | Some err \<Rightarrow>
          if errors_Is err ErrNotExist then Some err
          else if ro_cgroup2 ob \<noteq> Inr False then Some err
          else if ro_control ob \<noteq> Inr True then Some err
          else if ro_remove_control ob \<noteq> None then Some err
          else ro_remove_again ob)"

record cgroup_obs =
  cg_procs1 :: "string result"
  cg_open :: "error option"
  cg_write :: "error option"
  cg_close :: "error option"
  cg_procs2 :: "string result"
  cg_remove :: remove_obs

datatype cgroup_effect = WriteKill string | RemoveCgroup string

definition tolerate_missing :: "error option \<Rightarrow> error option" where
  "tolerate_missing err =
     (case err of None \<Rightarrow> None | Some e \<Rightarrow> if errors_Is e ErrNotExist then None else Some e)"

definition stopAndRemoveManagedCgroup ::
  "string result \<Rightarrow> string \<Rightarrow> bool \<Rightarrow> string \<Rightarrow> cgroup_obs \<Rightarrow> error option \<times> cgroup_effect list" where
  "stopAndRemoveManagedCgroup cwd root dryRun path ob =
     (case cgroupPathWithinRoot cwd root path of
        Inl e \<Rightarrow> (Some e, [])
      | Inr False \<Rightarrow> (Some (ErrID ''refusing to manage cgroup outside configured root'' path), [])
      | Inr True \<Rightarrow>
          if dryRun then
            (if cgroupEmpty (cg_procs1 ob) then (removeCgroup (cg_remove ob), [RemoveCgroup path])
             else (Some (ErrID ''dry-run left nonempty managed cgroup untouched'' path), []))
          else if cgroupEmpty (cg_procs1 ob)
          then (tolerate_missing (removeCgroup (cg_remove ob)), [RemoveCgroup path])
          else
            (case cg_open ob of
               Some e \<Rightarrow> (Some e, [])
             | None \<Rightarrow>
                 (case cg_write ob of
                    Some e \<Rightarrow> (Some e, [WriteKill path])
                  | None \<Rightarrow>
                      (case cg_close ob of
                         Some e \<Rightarrow> (Some e, [WriteKill path])
                       | None \<Rightarrow>
                           if \<not> cgroupEmpty (cg_procs2 ob)
                           then (Some (ErrID ''cgroup is still draining'' path), [WriteKill path])
                           else (tolerate_missing (removeCgroup (cg_remove ob)),
                                 [WriteKill path, RemoveCgroup path])))))"

definition inactiveManagedCgroupReadyForPrune ::
  "string result \<Rightarrow> string \<Rightarrow> string \<Rightarrow> cgroup_obs \<Rightarrow> bool \<times> cgroup_effect list" where
  "inactiveManagedCgroupReadyForPrune cwd root path ob =
     (if cgroupPathWithinRoot cwd root path \<noteq> Inr True \<or> \<not> cgroupEmpty (cg_procs1 ob) then (False, [])
      else (tolerate_missing (removeCgroup (cg_remove ob)) = None, [RemoveCgroup path]))"

text \<open>The path of a command's cgroup and its path relative to the mount point.\<close>

fun strip_slashes :: "string \<Rightarrow> string" where
  "strip_slashes (CHR ''/'' # s) = strip_slashes s"
| "strip_slashes s = s"

definition filepath_Base :: "string \<Rightarrow> string" where
  "filepath_Base p =
     (if p = [] then ''.''
      else let q = rev (strip_slashes (rev p)) in if q = [] then ''/'' else last (Split q (CHR ''/'')))"

definition createCgroup :: "string \<Rightarrow> string \<Rightarrow> error option \<Rightarrow> (string \<times> string) result" where
  "createCgroup root leaseID mkdir =
     (let path = filepath_Join root leaseID in
      case mkdir of
        Some e \<Rightarrow> Inl e
      | None \<Rightarrow>
          let rel = TrimPrefix path ''/sys/fs/cgroup/''
          in Inr (path, if rel = path then filepath_Join (filepath_Base root) leaseID else rel))"

section \<open>The Unix socket\<close>

text \<open>What \<^verbatim>\<open>Lstat\<close>, a dial and a removal give.\<close>

record socket_obs =
  so_lstat :: "bool result"
  so_dial :: "error option"
  so_refused :: bool
  so_remove :: "error option"

definition prepareUnixSocket :: "string \<Rightarrow> socket_obs \<Rightarrow> error option \<times> bool" where
  "prepareUnixSocket path ob =
     (case so_lstat ob of
        Inl e \<Rightarrow> (if errors_Is e ErrNotExist then None else Some e, False)
      | Inr socket \<Rightarrow>
          if \<not> socket then (Some (ErrID ''refusing to remove non-socket path'' path), False)
          else
            (case so_dial ob of
               None \<Rightarrow> (Some (ErrID ''unix socket is already accepting connections'' path), False)
             | Some e \<Rightarrow>
                 if \<not> so_refused ob \<and> \<not> errors_Is e ErrNotExist
                 then (Some (ErrWrap ''refusing to replace possibly active unix socket'' path e), False)
                 else (tolerate_missing (so_remove ob), True)))"

definition removeOwnedUnixSocket :: "string \<Rightarrow> bool result \<Rightarrow> error option \<Rightarrow> error option \<times> bool" where
  "removeOwnedUnixSocket path same_file remove =
     (case same_file of
        Inl e \<Rightarrow> (if errors_Is e ErrNotExist then None else Some e, False)
      | Inr same \<Rightarrow>
          if \<not> same then (Some (ErrID ''refusing to remove replaced unix socket'' path), False)
          else (remove, True))"

section \<open>Clean paths\<close>

definition name_ok :: "string \<Rightarrow> bool" where
  "name_ok n \<longleftrightarrow> n \<noteq> [] \<and> n \<noteq> ''.'' \<and> n \<noteq> ''..'' \<and> CHR ''/'' \<notin> set n"

definition clean_names :: "string \<Rightarrow> string list" where
  "clean_names p = rev (foldl (clean_step True) [] (Split p (CHR ''/'')))"

lemma Split_no_sep_inside: "p \<in> set (Split s sep) \<Longrightarrow> sep \<notin> set p"
  by (induction s arbitrary: p) (auto split: if_splits list.splits)

lemma clean_step_ok:
  "\<lbrakk>list_all name_ok st; CHR ''/'' \<notin> set e\<rbrakk> \<Longrightarrow> list_all name_ok (clean_step True st e)"
  by (cases st) (auto simp: name_ok_def)

lemma foldl_clean_ok:
  "\<lbrakk>list_all name_ok st; \<forall>e\<in>set es. CHR ''/'' \<notin> set e\<rbrakk> \<Longrightarrow> list_all name_ok (foldl (clean_step True) st es)"
proof (induction es arbitrary: st)
  case (Cons e es)
  then have "list_all name_ok (clean_step True st e)" by (intro clean_step_ok) auto
  with Cons show ?case by (simp del: clean_step.simps)
qed simp

lemma clean_names_ok: "list_all name_ok (clean_names p)"
  unfolding clean_names_def list_all_rev
  by (rule foldl_clean_ok) (auto dest: Split_no_sep_inside)

lemma path_Clean_rooted: "HasPrefix p ''/'' \<Longrightarrow> path_Clean p = ''/'' @ str_Join (clean_names p) ''/''"
  by (simp add: path_Clean_def clean_names_def)

lemma str_Join_Nil_iff: "list_all name_ok ns \<Longrightarrow> str_Join ns ''/'' = [] \<longleftrightarrow> ns = []"
  by (cases "(ns, ''/'')" rule: str_Join.cases) (auto simp: name_ok_def)

lemma path_names_Clean: "HasPrefix p ''/'' \<Longrightarrow> path_names (path_Clean p) = clean_names p"
proof -
  assume p: "HasPrefix p ''/''"
  have ok: "list_all name_ok (clean_names p)" by (rule clean_names_ok)
  show ?thesis
  proof (cases "clean_names p = []")
    case True
    with p show ?thesis by (simp add: path_Clean_rooted path_names_def)
  next
    case False
    then have "Split (str_Join (clean_names p) ''/'') (CHR ''/'') = clean_names p"
      using ok by (intro Split_str_Join) (auto simp: list_all_iff name_ok_def)
    with False p ok show ?thesis by (simp add: path_Clean_rooted path_names_def str_Join_Nil_iff)
  qed
qed

lemma foldl_clean_names:
  "list_all name_ok ns \<Longrightarrow> foldl (clean_step True) st ns = rev ns @ st"
  by (induction ns arbitrary: st) (auto simp: name_ok_def)

lemma clean_names_join:
  assumes "list_all name_ok ns"
  shows "clean_names (''/'' @ str_Join ns ''/'') = ns"
proof (cases "ns = []")
  case True
  then show ?thesis by (simp add: clean_names_def)
next
  case False
  then have "Split (''/'' @ str_Join ns ''/'') (CHR ''/'') = [] # ns"
    using assms by (simp add: Split_str_Join list_all_iff name_ok_def)
  with assms show ?thesis by (simp add: clean_names_def foldl_clean_names)
qed

lemma path_Clean_idem: "HasPrefix p ''/'' \<Longrightarrow> path_Clean (path_Clean p) = path_Clean p"
  using clean_names_join [OF clean_names_ok, of p] path_Clean_rooted [of p] path_Clean_rooted [of "path_Clean p"]
  by (simp add: HasPrefix_def)

lemma path_Clean_prefix: "HasPrefix p ''/'' \<Longrightarrow> HasPrefix (path_Clean p) ''/''"
  by (simp add: path_Clean_rooted HasPrefix_def)

lemma path_Clean_inj: "\<lbrakk>HasPrefix p ''/''; HasPrefix q ''/''; path_Clean p = path_Clean q\<rbrakk> \<Longrightarrow> clean_names p = clean_names q"
  by (metis path_names_Clean)

section \<open>Containment\<close>

lemma rel_names_prefix: "rel_names bs (bs @ ts) = ts"
proof (induction bs)
  case Nil
  then show ?case by (cases ts) auto
qed simp

lemma rel_names_up:
  assumes "\<not> prefix bs ts"
  shows "\<exists>rest. rel_names bs ts = ''..'' # rest"
  using assms
proof (induction bs arbitrary: ts)
  case (Cons b bs)
  then show ?case by (cases ts) auto
qed simp

lemma str_Join_Cons_prefix: "str_Join (n # ns) ''/'' = n \<or> prefix (n @ ''/'') (str_Join (n # ns) ''/'')"
  by (cases ns) auto

lemma name_join_inside:
  assumes "list_all name_ok (n # ns)"
  shows "str_Join (n # ns) ''/'' \<noteq> ''.'' \<and> str_Join (n # ns) ''/'' \<noteq> ''..'' \<and>
    \<not> HasPrefix (str_Join (n # ns) ''/'') ''../''"
proof -
  have parts: "Split (str_Join (n # ns) ''/'') (CHR ''/'') = n # ns"
    using assms by (intro Split_str_Join) (auto simp: list_all_iff name_ok_def)
  have "Split ''.'' (CHR ''/'') = [''.'']" "Split ''..'' (CHR ''/'') = [''..'']" by simp_all
  moreover have "hd (Split (''../'' @ s) (CHR ''/'')) = ''..''" for s by simp
  ultimately show ?thesis
    using parts assms unfolding HasPrefix_def
    by (auto simp: prefix_def name_ok_def)
qed

text \<open>A path is accepted exactly when its names properly extend those of the root.\<close>

lemma within_root_absolute:
  assumes "HasPrefix root ''/''" "HasPrefix path ''/''"
  shows "cgroupPathWithinRoot cwd root path = Inr (strict_prefix (clean_names root) (clean_names path))"
proof -
  let ?b = "clean_names root" and ?t = "clean_names path"
  have cleaned: "path_Clean (path_Clean root) = path_Clean root" "path_Clean (path_Clean path) = path_Clean path"
    using assms path_Clean_idem by blast+
  have rel: "filepath_Rel (path_Clean root) (path_Clean path) =
      (if ?t = ?b then ''.'' else str_Join (rel_names ?b ?t) ''/'')"
    using assms path_names_Clean path_Clean_inj path_Clean_rooted
    unfolding filepath_Rel_def Let_def cleaned by (metis assms)
  have abs: "filepath_Abs cwd (path_Clean root) = Inr (path_Clean root)"
    "filepath_Abs cwd (path_Clean path) = Inr (path_Clean path)"
    using assms path_Clean_prefix cleaned by (simp_all add: filepath_Abs_def)
  consider "?t = ?b" | rest n where "?t = ?b @ n # rest" | "\<not> prefix ?b ?t"
    by (metis append.right_neutral list.exhaust prefixE)
  then show ?thesis
  proof cases
    case 1
    then show ?thesis by (simp add: cgroupPathWithinRoot_def abs rel)
  next
    case (2 rest n)
    have "list_all name_ok (n # rest)" using clean_names_ok [of path] 2 by simp
    from name_join_inside [OF this] str_Join_Nil_iff [OF this] 2 show ?thesis
      by (auto simp: cgroupPathWithinRoot_def abs rel rel_names_prefix strict_prefix_def)
  next
    case 3
    then obtain rest where up: "rel_names ?b ?t = ''..'' # rest" using rel_names_up by blast
    from 3 have ne: "?t \<noteq> ?b" by auto
    from str_Join_Cons_prefix [of "''..''" rest] up ne 3 show ?thesis
      by (auto simp: cgroupPathWithinRoot_def abs rel HasPrefix_def strict_prefix_def)
  qed
qed

text \<open>Nothing outside the root is ever killed or removed; success means the cgroup was empty.\<close>

lemma stop_effects:
  assumes "stopAndRemoveManagedCgroup cwd root dry path ob = (e, effects)" "effects \<noteq> []"
  shows "cgroupPathWithinRoot cwd root path = Inr True" "set effects \<subseteq> {WriteKill path, RemoveCgroup path}"
    "dry \<Longrightarrow> WriteKill path \<notin> set effects"
  using assms
  by (auto simp: stopAndRemoveManagedCgroup_def split: sum.splits bool.splits option.splits if_splits)

lemma stop_success:
  assumes "stopAndRemoveManagedCgroup cwd root dry path ob = (None, effects)"
  shows "cgroupPathWithinRoot cwd root path = Inr True"
    "cgroupEmpty (cg_procs1 ob) \<or> cgroupEmpty (cg_procs2 ob)" "RemoveCgroup path \<in> set effects"
  using assms
  by (auto simp: stopAndRemoveManagedCgroup_def split: sum.splits bool.splits option.splits if_splits)

lemma Split_slash: "Split (a @ CHR ''/'' # b) (CHR ''/'') = Split a (CHR ''/'') @ Split b (CHR ''/'')"
  by (induction a) (auto split: list.splits)

text \<open>The cgroup of a new command is inside the root.\<close>

lemma created_within_root:
  assumes "HasPrefix root ''/''" "name_ok leaseID" "createCgroup root leaseID mkdir = Inr (path, rel)"
  shows "cgroupPathWithinRoot cwd root path = Inr True"
proof -
  have ne: "root \<noteq> []" "leaseID \<noteq> []" using assms(1,2) by (auto simp: HasPrefix_def name_ok_def)
  then have path: "path = path_Clean (root @ ''/'' @ leaseID)"
    using assms(3) by (auto simp: createCgroup_def filepath_Join_def Let_def split: option.splits)
  have pre: "HasPrefix (root @ ''/'' @ leaseID) ''/''" using assms(1) by (auto simp: HasPrefix_def prefix_def)
  have "clean_names (root @ ''/'' @ leaseID) = clean_names root @ [leaseID]"
    using assms(2) by (simp add: clean_names_def Split_slash Split_no_sep name_ok_def)
  moreover have "clean_names path = clean_names (root @ ''/'' @ leaseID)"
    using clean_names_join [OF clean_names_ok] path path_Clean_rooted [OF pre] by simp
  ultimately show ?thesis
    using within_root_absolute [OF assms(1)] path_Clean_prefix [OF pre] path
    by (simp add: strict_prefix_def)
qed

section \<open>Paths that stay below a directory\<close>

lemma clean_step_climbs:
  assumes "st = rev ns @ replicate k ''..''" "list_all name_ok ns" "CHR ''/'' \<notin> set e"
  shows "\<exists>k ns. clean_step False st e = rev ns @ replicate k ''..'' \<and> list_all name_ok ns"
proof (cases "e = ''..''")
  case up: True
  show ?thesis
  proof (cases ns rule: rev_cases)
    case Nil
    with assms(1) up have "clean_step False st e = rev [] @ replicate (Suc k) ''..''" by (cases k) auto
    then show ?thesis by (metis list.pred_inject(1))
  next
    case (snoc ms n)
    with assms(1,2) up have "clean_step False st e = rev ms @ replicate k ''..''" "list_all name_ok ms" by (auto simp: name_ok_def)
    then show ?thesis by blast
  qed
next
  case False
  show ?thesis
  proof (cases "e = [] \<or> e = ''.''")
    case True
    with assms show ?thesis by auto
  next
    case ok: False
    with False assms have "clean_step False st e = rev (ns @ [e]) @ replicate k ''..''" "list_all name_ok (ns @ [e])"
      by (auto simp: name_ok_def)
    then show ?thesis by blast
  qed
qed

lemma foldl_climbs:
  assumes "\<forall>e\<in>set es. CHR ''/'' \<notin> set e" "st = rev ns @ replicate k ''..''" "list_all name_ok ns"
  shows "\<exists>k ns. foldl (clean_step False) st es = rev ns @ replicate k ''..'' \<and> list_all name_ok ns"
  using assms
proof (induction es arbitrary: st k ns)
  case (Cons e es)
  obtain k1 ns1 where s: "clean_step False st e = rev ns1 @ replicate k1 ''..''" "list_all name_ok ns1"
    using clean_step_climbs [OF Cons.prems(2,3), of e] Cons.prems(1) by auto
  show ?case using Cons.IH [OF _ s] Cons.prems(1) by (simp del: clean_step.simps)
qed auto

text \<open>A clean path that does not begin with two dots leads nowhere but down.\<close>

lemma clean_names_Clean:
  assumes "\<not> HasPrefix (path_Clean p) ''..''"
  shows "\<exists>ns. foldl (clean_step True) st (Split (path_Clean p) (CHR ''/'')) = rev ns @ st \<and> list_all name_ok ns"
proof (cases "HasPrefix p ''/''")
  case True
  have step: "foldl (clean_step True) st ([] # es) = foldl (clean_step True) st es" for es by simp
  have ok: "list_all name_ok (clean_names p)" by (rule clean_names_ok)
  show ?thesis
  proof (cases "clean_names p = []")
    case True
    with \<open>HasPrefix p ''/''\<close> show ?thesis by (intro exI [of _ "[]"]) (simp add: path_Clean_rooted)
  next
    case False
    then have "Split (path_Clean p) (CHR ''/'') = [] # clean_names p"
      using ok True by (simp add: path_Clean_rooted Split_str_Join list_all_iff name_ok_def)
    with ok show ?thesis by (intro exI [of _ "clean_names p"]) (simp add: foldl_clean_names)
  qed
next
  case False
  define out where "out = rev (foldl (clean_step False) [] (Split p (CHR ''/'')))"
  obtain k ns where "foldl (clean_step False) [] (Split p (CHR ''/'')) = rev ns @ replicate k ''..''" and ok: "list_all name_ok ns"
    using foldl_climbs [of "Split p (CHR ''/'')" "[]" "[]" 0] by (auto dest: Split_no_sep_inside)
  then have out: "out = replicate k ''..'' @ ns" by (simp add: out_def)
  have c: "path_Clean p = (if out = [] then ''.'' else str_Join out ''/'')"
    using False by (simp add: path_Clean_def out_def)
  show ?thesis
  proof (cases k)
    case 0
    with ok out c show ?thesis
      by (cases "ns = []") (auto simp: Split_str_Join foldl_clean_names list_all_iff name_ok_def intro: exI [of _ "[]"])
  next
    case (Suc j)
    with out c have "HasPrefix (path_Clean p) ''..''"
      by (cases "replicate j ''..'' @ ns") (auto simp: HasPrefix_def prefix_def)
    with assms show ?thesis by simp
  qed
qed

lemma joined_below:
  assumes "HasPrefix dir ''/''" "b = path_Clean p" "\<not> HasPrefix b ''..''"
  shows "\<exists>ns. path_names (filepath_Join dir b) = clean_names dir @ ns \<and> list_all name_ok ns"
proof -
  have dir: "dir \<noteq> []" using assms(1) by (auto simp: HasPrefix_def)
  show ?thesis
  proof (cases "b = []")
    case True
    with dir assms(1) show ?thesis by (simp add: filepath_Join_def path_names_Clean)
  next
    case False
    have pre: "HasPrefix (dir @ ''/'' @ b) ''/''" using assms(1) by (auto simp: HasPrefix_def prefix_def)
    obtain ns where ns: "foldl (clean_step True) (foldl (clean_step True) [] (Split dir (CHR ''/''))) (Split b (CHR ''/'')) =
        rev ns @ foldl (clean_step True) [] (Split dir (CHR ''/''))" "list_all name_ok ns"
      using clean_names_Clean assms(2,3) by blast
    have "path_names (filepath_Join dir b) = clean_names (dir @ ''/'' @ b)"
      using dir False path_names_Clean [OF pre] by (simp add: filepath_Join_def)
    with ns show ?thesis by (auto simp: clean_names_def Split_slash)
  qed
qed

end
