(* ===== verification/Monitor.thy ===== *)
theory Monitor
  imports Handlers Evict NodeFiles
begin

text \<open>
  The monitor of the daemon (\<^verbatim>\<open>monitorOnce\<close> of \<^verbatim>\<open>daemon/server.go\<close> and what it calls): it
  samples the GPU processes, evicts and enforces over a snapshot of the store, records claims
  and audit events, and cleans up scopes whose entitlement is gone. Telemetry events
  that it emits leave the state alone and are not part of the model.
\<close>

section \<open>State and environment\<close>

text \<open>
  The part of \<^verbatim>\<open>Server\<close> that the monitor changes, and the cgroup writes and removals that were
  attempted so far.
\<close>

record monitor =
  mo_store :: store
  mo_log :: audit_log
  mo_evictionClean :: "string \<Rightarrow> int option"
  mo_lastGPUError :: string
  mo_lastGPUErrorAt :: time
  mo_lastKillError :: string
  mo_lastKillErrorAt :: time
  mo_cache :: read_cache
  mo_effects :: "cgroup_effect list"

text \<open>
  What a tick sees: configuration, the two samples of GPU processes, and at every call site,
  named by a path, the environment of a store operation, a reading of the clock, and what the
  kernel answers.
\<close>

record monitor_env =
  mv_E :: "nat list \<Rightarrow> env"
  mv_io :: "nat list \<Rightarrow> log_io"
  mv_clock :: "nat list \<Rightarrow> time"
  mv_cgroup :: "nat list \<Rightarrow> cgroup_obs"
  mv_Exists :: "nat list \<Rightarrow> int \<Rightarrow> bool"
  mv_Proc :: bool
  mv_cwd :: "string result"
  mv_CgroupRoot :: string
  mv_DryRun :: bool
  mv_AuditLog :: string
  mv_authorizer :: authorizer
  mv_world :: world
  mv_order :: "int list \<Rightarrow> int list"
  mv_processes :: "gpu_process list \<times> error option"
  mv_resample :: "gpu_process list result"
  mv_errText :: "error \<Rightarrow> string"

definition at :: "nat \<Rightarrow> monitor_env \<Rightarrow> monitor_env" where
  "at k v = v\<lparr>mv_E := (\<lambda>p. mv_E v (k # p)), mv_io := (\<lambda>p. mv_io v (k # p)),
     mv_clock := (\<lambda>p. mv_clock v (k # p)), mv_cgroup := (\<lambda>p. mv_cgroup v (k # p)),
     mv_Exists := (\<lambda>p. mv_Exists v (k # p))\<rparr>"

definition on_store :: "(store \<Rightarrow> 'a \<times> store) \<Rightarrow> monitor \<Rightarrow> 'a \<times> monitor" where
  "on_store f m = (case f (mo_store m) of (r, s) \<Rightarrow> (r, m\<lparr>mo_store := s\<rparr>))"

definition append_events :: "monitor_env \<Rightarrow> audit_event list \<Rightarrow> monitor \<Rightarrow> monitor" where
  "append_events v events m =
     (case AppendAudits (mv_E v []) (mv_io v []) (mv_AuditLog v) events (mo_log m) (mo_store m) of
        (_, log, s) \<Rightarrow> m\<lparr>mo_log := log, mo_store := s\<rparr>)"

definition append_event :: "monitor_env \<Rightarrow> audit_event \<Rightarrow> monitor \<Rightarrow> monitor" where
  "append_event v event = append_events v [event]"

definition zero_event :: audit_event where
  "zero_event = \<lparr>ev_Time = 0, ev_Kind = [], ev_Message = [], ev_GPU = 0, ev_PID = 0, ev_LeaseID = [], ev_User = []\<rparr>"

section \<open>Audit throttling\<close>

definition auditGPUProcessError :: "monitor_env \<Rightarrow> error \<Rightarrow> monitor \<Rightarrow> monitor" where
  "auditGPUProcessError v err m =
     (let now = mv_clock v []; message = mv_errText v err in
      if message = mo_lastGPUError m \<and> now - mo_lastGPUErrorAt m < Minute then m
      else append_event v (zero_event\<lparr>ev_Time := now, ev_Kind := ''error'',
             ev_Message := ''GPU process list failed: '' @ message\<rparr>)
             (m\<lparr>mo_lastGPUError := message, mo_lastGPUErrorAt := now\<rparr>))"

definition auditGPUProcessRecovery :: "monitor_env \<Rightarrow> monitor \<Rightarrow> monitor" where
  "auditGPUProcessRecovery v m =
     (if mo_lastGPUError m = [] then m
      else append_event v (zero_event\<lparr>ev_Time := mv_clock v [], ev_Kind := ''recovery'',
             ev_Message := ''GPU process list recovered''\<rparr>)
             (m\<lparr>mo_lastGPUError := [], mo_lastGPUErrorAt := 0\<rparr>))"

definition acceptEnforcementAudit :: "time \<Rightarrow> audit_event \<Rightarrow> monitor \<Rightarrow> bool \<times> monitor" where
  "acceptEnforcementAudit now event m =
     (if ev_Kind event = ''kill_failed'' then
        (let key = int_text (ev_PID event) @ '':'' @ ev_Message event in
         if key = mo_lastKillError m \<and> now - mo_lastKillErrorAt m < Minute then (False, m)
         else (True, m\<lparr>mo_lastKillError := key, mo_lastKillErrorAt := now\<rparr>))
      else (True, m))"

fun accept_audits :: "monitor_env \<Rightarrow> nat \<Rightarrow> audit_event list \<Rightarrow> monitor \<Rightarrow> audit_event list \<times> monitor" where
  "accept_audits v i [] m = ([], m)"
| "accept_audits v i (ev # evs) m =
     (case acceptEnforcementAudit (mv_clock v [i]) ev m of (ok, m1) \<Rightarrow>
        (case accept_audits v (Suc i) evs m1 of (kept, m2) \<Rightarrow> (if ok then ev # kept else kept, m2)))"

section \<open>Clean samples\<close>

definition evictionCleanSamples :: int where "evictionCleanSamples = 3"

definition assessed :: "assessment \<Rightarrow> string \<Rightarrow> bool option" where
  "assessed q key =
     (if HasPrefix key ''authorization:'' then as_Authorizations q (TrimPrefix key ''authorization:'')
      else if HasPrefix key ''lease:'' then as_Leases q (TrimPrefix key ''lease:'')
      else None)"

definition recordEvictionAssessment :: "assessment \<Rightarrow> (string \<Rightarrow> int option) \<Rightarrow> string \<Rightarrow> int option" where
  "recordEvictionAssessment q clean key =
     (case assessed q key of
        None \<Rightarrow> None
      | Some True \<Rightarrow> Some (the_or 0 (clean key) + 1)
      | Some False \<Rightarrow> Some 0)"

definition evictionScopeReady :: "(string \<Rightarrow> int option) \<Rightarrow> string \<Rightarrow> string \<Rightarrow> bool" where
  "evictionScopeReady clean kind i \<longleftrightarrow> the_or 0 (clean (kind @ '':'' @ i)) \<ge> evictionCleanSamples"

section \<open>Cleaning up\<close>

definition tokenValidityByHash :: "token list \<Rightarrow> time \<Rightarrow> string \<Rightarrow> bool option" where
  "tokenValidityByHash tokens now =
     go_map (map (\<lambda>t. (tok_Hash t, \<not> tok_Revoked t \<and>
       (\<not> timeIsSet (tok_ExpiresAt t) \<or> Before now (tok_ExpiresAt t)))) tokens)"

definition tokenValidForCleanup :: "(string \<Rightarrow> bool option) \<Rightarrow> string \<Rightarrow> bool" where
  "tokenValidForCleanup valid h \<longleftrightarrow> h = [] \<or> the_or False (valid h)"

definition authorizationExpiredAt :: "authorization \<Rightarrow> time \<Rightarrow> bool" where
  "authorizationExpiredAt a now \<longleftrightarrow> timeIsSet (auth_ExpiresAt a) \<and> \<not> Before now (auth_ExpiresAt a)"

text \<open>A scope is let go when its cgroup was stopped, or when it was seen quiet for long enough.\<close>

definition stop_scope :: "monitor_env \<Rightarrow> string \<Rightarrow> string \<Rightarrow> string \<Rightarrow> string \<Rightarrow> monitor \<Rightarrow> bool \<times> monitor" where
  "stop_scope v kind i mode path m =
     (if path \<noteq> [] then
        (case stopAndRemoveManagedCgroup (mv_cwd v) (mv_CgroupRoot v) (mv_DryRun v) path (mv_cgroup v []) of
           (err, effects) \<Rightarrow> (err = None, m\<lparr>mo_effects := mo_effects m @ effects\<rparr>))
      else (mode = ModeBare \<or> evictionScopeReady (mo_evictionClean m) kind i, m))"

definition stale_grant :: "(string \<Rightarrow> bool option) \<Rightarrow> time \<Rightarrow> authorization \<Rightarrow> bool" where
  "stale_grant tokens now a \<longleftrightarrow>
     auth_Active a \<and> (auth_Revoked a \<or> authorizationExpiredAt a now \<or> \<not> tokenValidForCleanup tokens (auth_TokenHash a))"

definition ended_event :: "(string \<Rightarrow> bool option) \<Rightarrow> time \<Rightarrow> authorization \<Rightarrow> audit_event" where
  "ended_event tokens now a =
     (let gone = auth_Revoked a \<or> \<not> tokenValidForCleanup tokens (auth_TokenHash a) in
      zero_event\<lparr>ev_Time := now,
        ev_Kind := (if gone then ''authorization_revoked'' else ''authorization_expired''),
        ev_Message := (if gone then ''authorization revoked'' else ''authorization expired''),
        ev_LeaseID := auth_ID a, ev_User := auth_Holder a\<rparr>)"

text \<open>A loop over the rows of a snapshot; the call sites of a row are below its index.\<close>

fun over_rows :: "(monitor_env \<Rightarrow> 'r \<Rightarrow> 'x \<Rightarrow> 'x) \<Rightarrow> monitor_env \<Rightarrow> nat \<Rightarrow> 'r list \<Rightarrow> 'x \<Rightarrow> 'x" where
  "over_rows f v i [] x = x"
| "over_rows f v i (r # rs) x = over_rows f v (Suc i) rs (f (at i v) r x)"

text \<open>Releasing a row and auditing it: a row that cannot be released makes the clean-up fail.\<close>

definition release_row ::
  "monitor_env \<Rightarrow> (store \<Rightarrow> unit result \<times> store) \<Rightarrow> audit_event \<Rightarrow> bool \<times> monitor \<Rightarrow> bool \<times> monitor" where
  "release_row v release event = (\<lambda>(ok, m).
     case on_store release m of
       (Inl _, m1) \<Rightarrow> (False, m1)
     | (Inr _, m1) \<Rightarrow> (ok, append_event (at 1 v) event m1))"

definition expire_authorization ::
  "(string \<Rightarrow> bool option) \<Rightarrow> time \<Rightarrow> monitor_env \<Rightarrow> authorization \<Rightarrow> bool \<times> monitor \<Rightarrow> bool \<times> monitor" where
  "expire_authorization tokens now v a = (\<lambda>(ok, m).
     if \<not> stale_grant tokens now a then (ok, m)
     else
       (case stop_scope v ''authorization'' (auth_ID a) (auth_Mode a) (auth_CgroupPath a) m of
          (False, m1) \<Rightarrow> (False, m1)
        | (True, m1) \<Rightarrow>
            release_row v (ReleaseAuthorization (mv_E v [0]) (auth_ID a)) (ended_event tokens now a) (ok, m1)))"

definition cleanupExpiredAuthorizationsState :: "monitor_env \<Rightarrow> state \<Rightarrow> monitor \<Rightarrow> bool \<times> monitor" where
  "cleanupExpiredAuthorizationsState v st m =
     (let now = mv_clock v [] in
      over_rows (expire_authorization (tokenValidityByHash (st_Tokens st) now) now) v 0 (st_Authorizations st) (True, m))"

definition expire_lease ::
  "(string \<Rightarrow> bool option) \<Rightarrow> time \<Rightarrow> monitor_env \<Rightarrow> lease \<Rightarrow> bool \<times> monitor \<Rightarrow> bool \<times> monitor" where
  "expire_lease tokens now v l = (\<lambda>(ok, m).
     if \<not> lease_Active l \<or> (Before now (lease_ExpiresAt l) \<and> tokenValidForCleanup tokens (lease_TokenHash l))
     then (ok, m)
     else
       (case stop_scope v ''lease'' (lease_ID l) (lease_Mode l) (lease_CgroupPath l) m of
          (False, m1) \<Rightarrow> (False, m1)
        | (True, m1) \<Rightarrow>
            release_row v (ReleaseLease (mv_E v [0]) (lease_ID l))
              (zero_event\<lparr>ev_Time := now, ev_Kind := ''lease_expired'', ev_Message := ''lease expired'',
                 ev_GPU := lease_GPU l, ev_LeaseID := lease_ID l\<rparr>) (ok, m1)))"

definition cleanupExpiredLeasesState :: "monitor_env \<Rightarrow> state \<Rightarrow> monitor \<Rightarrow> bool \<times> monitor" where
  "cleanupExpiredLeasesState v st m =
     (let now = mv_clock v [] in
      over_rows (expire_lease (tokenValidityByHash (st_Tokens st) now) now) v 0 (st_Leases st) (True, m))"

definition expire_reservation ::
  "time \<Rightarrow> monitor_env \<Rightarrow> reservation \<Rightarrow> bool \<times> monitor \<Rightarrow> bool \<times> monitor" where
  "expire_reservation now v r = (\<lambda>(ok, m).
     if \<not> res_Active r \<or> (\<not> res_Revoked r \<and> Before now (res_ExpiresAt r)) then (ok, m)
     else
       release_row v (ReleaseReservation (mv_E v [0]) (res_ID r))
         (zero_event\<lparr>ev_Time := now, ev_Kind := ''reservation_expired'',
            ev_Message := ''reserved GPU reservation expired'', ev_GPU := res_GPU r, ev_LeaseID := res_ID r,
            ev_User := res_Holder r\<rparr>) (ok, m))"

definition cleanupExpiredReservationsState :: "monitor_env \<Rightarrow> state \<Rightarrow> monitor \<Rightarrow> bool \<times> monitor" where
  "cleanupExpiredReservationsState v st m =
     over_rows (expire_reservation (mv_clock v [])) v 0 (st_Reservations st) (True, m)"

text \<open>The scope of a command has finished when its cgroup is empty and gone, or its process is.\<close>

definition scope_finished :: "monitor_env \<Rightarrow> string \<Rightarrow> int \<Rightarrow> monitor \<Rightarrow> bool \<times> monitor" where
  "scope_finished v path rootPID m =
     (if path \<noteq> [] then
        (case inactiveManagedCgroupReadyForPrune (mv_cwd v) (mv_CgroupRoot v) path (mv_cgroup v []) of
           (ready, effects) \<Rightarrow> (ready, m\<lparr>mo_effects := mo_effects m @ effects\<rparr>))
      else (\<not> (mv_Proc v \<and> mv_Exists v [] rootPID), m))"

definition finish_authorization :: "time \<Rightarrow> monitor_env \<Rightarrow> authorization \<Rightarrow> monitor \<Rightarrow> monitor" where
  "finish_authorization now v a m =
     (if \<not> auth_Active a \<or> auth_Mode a \<noteq> ModeBare \<or> auth_RootPID a \<le> 0 then m
      else
        (case scope_finished v (auth_CgroupPath a) (auth_RootPID a) m of
           (False, m1) \<Rightarrow> m1
         | (True, m1) \<Rightarrow>
             snd (release_row v (ReleaseAuthorization (mv_E v [0]) (auth_ID a))
               (zero_event\<lparr>ev_Time := now, ev_Kind := ''authorization_released'',
                  ev_Message := ''bare authorization released after process exit'', ev_LeaseID := auth_ID a,
                  ev_User := auth_Holder a\<rparr>) (True, m1))))"

definition cleanupFinishedBareAuthorizationsState :: "monitor_env \<Rightarrow> state \<Rightarrow> monitor \<Rightarrow> monitor" where
  "cleanupFinishedBareAuthorizationsState v st =
     over_rows (finish_authorization (mv_clock v [])) v 0 (st_Authorizations st)"

definition finish_lease :: "time \<Rightarrow> monitor_env \<Rightarrow> lease \<Rightarrow> monitor \<Rightarrow> monitor" where
  "finish_lease now v l m =
     (if \<not> lease_Active l \<or> lease_Mode l \<noteq> ModeBare \<or> lease_RootPID l \<le> 0 then m
      else
        (case scope_finished v (lease_CgroupPath l) (lease_RootPID l) m of
           (False, m1) \<Rightarrow> m1
         | (True, m1) \<Rightarrow>
             snd (release_row v (ReleaseLease (mv_E v [0]) (lease_ID l))
               (zero_event\<lparr>ev_Time := now, ev_Kind := ''lease_released'',
                  ev_Message := ''bare lease released after process exit'', ev_GPU := lease_GPU l,
                  ev_LeaseID := lease_ID l, ev_User := lease_Holder l\<rparr>) (True, m1))))"

definition cleanupFinishedBareLeasesState :: "monitor_env \<Rightarrow> state \<Rightarrow> monitor \<Rightarrow> monitor" where
  "cleanupFinishedBareLeasesState v st = over_rows (finish_lease (mv_clock v [])) v 0 (st_Leases st)"

text \<open>The identifiers of the inactive scopes whose cgroups are gone.\<close>

fun ready_scopes :: "monitor_env \<Rightarrow> nat \<Rightarrow> (string \<times> bool \<times> string) list \<Rightarrow> string list \<times> cgroup_effect list" where
  "ready_scopes v i [] = ([], [])"
| "ready_scopes v i ((ident, active, path) # rows) =
     (case ready_scopes v (Suc i) rows of (ids, effects) \<Rightarrow>
        if active \<or> path = [] then (ids, effects)
        else
          (case inactiveManagedCgroupReadyForPrune (mv_cwd v) (mv_CgroupRoot v) path (mv_cgroup v [i]) of
             (ready, effects1) \<Rightarrow> (if ready then ident # ids else ids, effects1 @ effects)))"

definition cleanupExpiredManagedCgroups :: "monitor_env \<Rightarrow> monitor \<Rightarrow> monitor" where
  "cleanupExpiredManagedCgroups v m =
     (case on_store (EnforcementSnapshot (mv_E v [0])) m of
        (Inl _, m1) \<Rightarrow> m1
      | (Inr st, m1) \<Rightarrow>
          let filtered = st\<lparr>st_Authorizations := filter (\<lambda>a. auth_CgroupPath a \<noteq> []) (st_Authorizations st),
                            st_Leases := filter (\<lambda>l. lease_CgroupPath l \<noteq> []) (st_Leases st)\<rparr>;
              m2 = snd (cleanupExpiredAuthorizationsState (at 1 v) filtered m1);
              m3 = snd (cleanupExpiredLeasesState (at 2 v) filtered m2)
          in
          (case on_store (EnforcementSnapshot (mv_E v [3])) m3 of
             (Inl _, m4) \<Rightarrow> m4
           | (Inr st', m4) \<Rightarrow>
               (case ready_scopes (at 4 v) 0
                       (map (\<lambda>a. (auth_ID a, auth_Active a, auth_CgroupPath a)) (st_Authorizations st')) of
                  (auths, eff1) \<Rightarrow>
                    (case ready_scopes (at 5 v) 0
                            (map (\<lambda>l. (lease_ID l, lease_Active l, lease_CgroupPath l)) (st_Leases st')) of
                       (leases, eff2) \<Rightarrow>
                         let m5 = m4\<lparr>mo_effects := mo_effects m4 @ eff1 @ eff2\<rparr>;
                             m6 = snd (on_store (PruneInactiveManagedScopes (mv_E v [6]) auths leases) m5)
                         in snd (on_store (PruneUnreferencedInvalidEntitlements (mv_E v [7]) (mv_clock v [7])) m6)))))"

section \<open>A tick\<close>

text \<open>The second sample of GPU processes, taken once per pass, against which kills are validated.\<close>

definition validateKill :: "gpu_process list result \<Rightarrow> gpu_process \<Rightarrow> error option" where
  "validateKill resample p =
     (case resample of
        Inl e \<Rightarrow> Some e
      | Inr processes \<Rightarrow>
          if \<exists>c\<in>set processes. gp_PID c > 0 \<and> gp_GPU c = gp_GPU p \<and> gp_PID c = gp_PID p then None
          else Some (ErrNew ''pid is no longer present in the GPU process inventory''))"

definition daemon_world :: "monitor_env \<Rightarrow> world" where
  "daemon_world v = (\<lambda>p. (mv_world v p)\<lparr>ob_ValidateKill := validateKill (mv_resample v)\<rparr>)"

text \<open>A kill was validated, and so the second sample taken, when a planned kill was performed.\<close>

definition kill_validated :: "authorizer \<Rightarrow> world \<Rightarrow> pass \<Rightarrow> bool" where
  "kill_validated az w pa \<longleftrightarrow> \<not> az_DryRun az \<and> az_Killer az \<and> az_ValidateKill az \<and>
     (\<exists>i\<in>set [0..<length (pa_pending pa)]. ob_ctx (w [1, i]) = None)"

fun record_claims :: "monitor_env \<Rightarrow> time \<Rightarrow> nat \<Rightarrow> decision list \<Rightarrow> monitor \<Rightarrow> monitor" where
  "record_claims v now i [] m = m"
| "record_claims v now i (d # ds) m =
     record_claims v now (Suc i) ds
       (if de_Action d = ''claim'' then snd (on_store (UpsertSoftClaim (mv_E v [i]) (de_Claim d) now) m)
        else if de_Action d = ''release_claim'' then snd (on_store (ReleaseSoftClaim (mv_E v [i]) (de_ClaimID d)) m)
        else m)"

definition remaining_processes :: "decision list \<Rightarrow> gpu_process list \<Rightarrow> gpu_process list" where
  "remaining_processes decisions processes =
     (let targeted = filter (\<lambda>pid. pid > 0) (map (gp_PID \<circ> de_Process) decisions)
      in filter (\<lambda>p. gp_PID p \<notin> set targeted) processes)"

definition cleanup_rows :: "monitor_env \<Rightarrow> state \<Rightarrow> monitor \<Rightarrow> bool \<times> monitor" where
  "cleanup_rows v st m =
     (case cleanupExpiredReservationsState (at 0 v) st m of (ok1, m1) \<Rightarrow>
        (case cleanupExpiredAuthorizationsState (at 1 v) st m1 of (ok2, m2) \<Rightarrow>
           (case cleanupExpiredLeasesState (at 3 v) st (cleanupFinishedBareAuthorizationsState (at 2 v) st m2) of
              (ok3, m3) \<Rightarrow> (ok1 \<and> ok2 \<and> ok3, cleanupFinishedBareLeasesState (at 4 v) st m3))))"

definition enforcement_pass :: "monitor_env \<Rightarrow> state \<Rightarrow> gpu_process list \<Rightarrow> monitor \<Rightarrow> monitor" where
  "enforcement_pass v st processes m =
     (let az = mv_authorizer v; w = daemon_world v in
      case EvictExpiredReservedProcesses az (sub w 0) st processes of
        (evictionErr, q, pa1) \<Rightarrow>
          (case Enforce az (sub w 1) (mv_order v) st (remaining_processes (pa_decisions pa1) processes) of
             (enforceErr, pa2) \<Rightarrow>
               let m1 = m\<lparr>mo_evictionClean := recordEvictionAssessment q (mo_evictionClean m)\<rparr>;
                   m2 = (case mv_resample v of
                           Inl e \<Rightarrow> if kill_validated az (sub w 0) pa1 \<or> kill_validated az (sub w 1) pa2
                                    then auditGPUProcessError (at 0 v) e m1 else m1
                         | Inr _ \<Rightarrow> m1);
                   now = mv_clock v [3]
               in
               (case accept_audits (at 1 v) 0 (pa_audits pa1 @ pa_audits pa2) m2 of
                  (audits, m3) \<Rightarrow>
                    let m4 = append_events (at 4 v) audits
                               (record_claims (at 2 v) now 0 (pa_decisions pa1 @ pa_decisions pa2) m3)
                    in
                    (case cleanup_rows (at 5 v) st m4 of
                       (cleanupOK, m5) \<Rightarrow>
                         if evictionErr = None \<and> cleanupOK
                         then snd (on_store (Prune (mv_E v [6]) now) m5) else m5))))"

definition monitorOnce :: "monitor_env \<Rightarrow> monitor \<Rightarrow> monitor" where
  "monitorOnce v m =
     (case mv_processes v of
        (processes, err) \<Rightarrow>
          let m1 = m\<lparr>mo_cache := \<lparr>rc_at = mv_clock v [0], rc_rows = processes, rc_err = err\<rparr>\<rparr> in
          (case err of
             Some e \<Rightarrow> cleanupExpiredManagedCgroups (at 2 v) (auditGPUProcessError (at 1 v) e m1)
           | None \<Rightarrow>
               (case on_store (EnforcementSnapshot (mv_E v [3])) (auditGPUProcessRecovery (at 1 v) m1) of
                  (Inl _, m2) \<Rightarrow> m2
                | (Inr st, m2) \<Rightarrow> enforcement_pass (at 4 v) st processes m2)))"

end
