(* ===== verification/HandlerProps.thy ===== *)
theory HandlerProps
  imports Handlers
begin

text \<open>
  What the handlers guarantee: they change the store through its operations only, so every
  invariant of reachable stores holds for the daemon; an authorization is granted only for a
  usable token, a reserved one only while its reservation is active, and a pattern only to
  root; a bypass rule names an identified process or a command of root.
\<close>

section \<open>Handlers as chains of store operations\<close>

definition moves :: "('s \<Rightarrow> 's \<Rightarrow> bool) \<Rightarrow> ('s \<Rightarrow> 'a \<times> 's) \<Rightarrow> bool" where
  "moves R m \<longleftrightarrow> (\<forall>s. R s (snd (m s)))"

locale state_moves =
  fixes R :: "'s \<Rightarrow> 's \<Rightarrow> bool"
  assumes R_refl: "R s s" and R_trans: "\<lbrakk>R s t; R t u\<rbrakk> \<Longrightarrow> R s u"
begin

lemma returnS_moves: "moves R (returnS x)" by (simp add: moves_def returnS_def R_refl)

lemma failS_moves: "moves R (failS e)" by (simp add: moves_def failS_def R_refl)

lemma liftS_moves: "moves R (liftS r)" by (simp add: moves_def liftS_def R_refl)

lemma guardS_moves: "moves R k \<Longrightarrow> moves R (guardS err k)"
  by (simp add: guardS_def failS_moves split: option.split)

lemma bindS_moves:
  assumes "moves R m" "\<And>x. moves R (k x)"
  shows "moves R (bindS m k)"
proof -
  have "R s (snd (bindS m k s))" for s
  proof (cases "m s")
    case (Pair r s1)
    with assms(1) have "R s s1" by (metis moves_def snd_conv)
    with Pair assms(2) show ?thesis
      by (cases r) (auto simp: bindS_def moves_def intro: R_trans)
  qed
  then show ?thesis by (simp add: moves_def)
qed

lemma replyS_moves: "moves R m \<Longrightarrow> moves R (replyS f m)"
  unfolding replyS_def by (intro bindS_moves returnS_moves)

lemma if_moves: "\<lbrakk>c \<Longrightarrow> moves R m; \<not> c \<Longrightarrow> moves R m'\<rbrakk> \<Longrightarrow> moves R (if c then m else m')"
  by simp

lemma prod_moves: "(\<And>a b. moves R (f a b)) \<Longrightarrow> moves R (case x of (a, b) \<Rightarrow> f a b)"
  by (cases x) simp

lemma sum_moves: "\<lbrakk>\<And>a. moves R (f a); \<And>b. moves R (g b)\<rbrakk> \<Longrightarrow> moves R (case x of Inl a \<Rightarrow> f a | Inr b \<Rightarrow> g b)"
  by (cases x) simp_all

lemmas moves_rules = returnS_moves failS_moves liftS_moves guardS_moves bindS_moves replyS_moves
  if_moves prod_moves sum_moves

end

definition store_path :: "golib \<Rightarrow> store \<Rightarrow> store \<Rightarrow> bool" where "store_path L = (step L)\<^sup>*\<^sup>*"

definition server_path :: "golib \<Rightarrow> 'c \<times> store \<Rightarrow> 'c \<times> store \<Rightarrow> bool" where
  "server_path L x y \<longleftrightarrow> store_path L (snd x) (snd y)"

interpretation chain: state_moves "store_path L" for L
  by unfold_locales (auto simp: store_path_def)

interpretation server: state_moves "server_path L" for L
  by unfold_locales (auto simp: server_path_def store_path_def)

lemma onS_moves: "moves (store_path L) m \<Longrightarrow> moves (server_path L) (onS m)"
  by (auto simp: moves_def server_path_def onS_def split: prod.split) (metis snd_conv)

lemma one_step: "step L s s' \<Longrightarrow> store_path L s s'"
  by (simp add: store_path_def)

lemma store_moves:
  assumes "e_lib E = L"
  shows "moves (store_path L) (ValidateRootKey E k)" "moves (store_path L) (EnforcementSnapshot E)"
    "moves (store_path L) (ManagedKeysEnabled E)" "moves (store_path L) (ManagedTokenByID E i now)"
    "moves (store_path L) (RegisterSoftToken E k name now)"
    "moves (store_path L) (RegisterScheduledReservationsWithSession E k name purpose ext gpus a b now)"
    "moves (store_path L) (RegisterManagedReservations E k key purpose ext gpus a b now)"
    "moves (store_path L) (ValidateToken E secret now)" "moves (store_path L) (TokenView E secret now)"
    "moves (store_path L) (AddAuthorization E auth now)" "moves (store_path L) (AddBypass E bp)"
    "moves (store_path L) (Revoke E x clock)" "moves (store_path L) (Status E now)"
    "moves (store_path L) (StatusForToken E h now)" "moves (store_path L) (KeyStatus E k now)"
    "moves (store_path L) (EnforcementSnapshotForToken E h)"
  unfolding moves_def using assms by (blast intro: one_step step.intros)+

lemma validateToken_moves:
  assumes "e_lib E = L"
  shows "moves (store_path L) (validateToken E secret now)"
  unfolding moves_def
proof
  fix s
  have "store_path L s (snd (ValidateToken E secret now s))"
    using store_moves(8) [OF assms] by (simp add: moves_def)
  then show "store_path L s (snd (validateToken E secret now s))"
    by (auto simp: validateToken_def chain.R_refl split: prod.split option.split)
qed

lemma root_only_moves:
  "\<lbrakk>e_lib E = L; moves (store_path L) k\<rbrakk> \<Longrightarrow> moves (store_path L) (root_only E key k)"
  unfolding root_only_def by (intro chain.moves_rules store_moves) auto

lemma ensureToken_moves: "e_lib E = L \<Longrightarrow> moves (store_path L) (ensureTokenCanAuthorize E h t now)"
  unfolding ensureTokenCanAuthorize_def by (intro chain.moves_rules store_moves)

lemma persist_moves:
  assumes "\<And>i. e_lib (E i) = L"
  shows "moves (store_path L) (persistAuthorization E clock secret t a)"
  unfolding persistAuthorization_def addAuthorization_def addAuthorizationLocked_def Let_def
  by (intro chain.moves_rules store_moves validateToken_moves ensureToken_moves assms)

lemma create_moves:
  assumes "\<And>i. e_lib (E i) = L"
  shows "moves (store_path L) (createDockerAuthorization N E clock secret t h p arg)"
    "moves (store_path L) (createK8sAuthorization N E clock secret t h p arg)"
    "moves (store_path L) (createUserAuthorization N E clock secret t h p arg)"
  unfolding createDockerAuthorization_def createK8sAuthorization_def createUserAuthorization_def Let_def
  by (intro chain.moves_rules persist_moves ensureToken_moves; simp add: later_def assms)+

lemma ensureGPUs_moves:
  assumes "\<And>i. e_lib (E i) = L"
  shows "moves (store_path L) (ensureGPUsCanReserveWindow N E clock gpus a b)"
  unfolding ensureGPUsCanReserveWindow_def Let_def
  by (intro chain.moves_rules store_moves assms)

lemma register_moves:
  assumes "\<And>i. e_lib (E i) = L"
  shows "moves (store_path L) (register N E clock raw now)"
  unfolding register_def register_reserved_def register_claimed_def Let_def
  by (intro chain.moves_rules root_only_moves store_moves ensureGPUs_moves; simp add: later_def assms)

lemma addBypass_moves:
  assumes "\<And>i. e_lib (E i) = L"
  shows "moves (store_path L) (addBypassLocked N E args now)"
  unfolding addBypassLocked_def Let_def by (intro chain.moves_rules store_moves assms)

lemma server_ps_moves:
  assumes "e_lib E = L"
  shows "moves (server_path L) (server_ps E az w order format ctx now provider h all)"
  unfolding moves_def server_path_def server_ps_def
  using store_moves(2,16) [OF assms] chain.R_refl
  by (auto simp: moves_def Let_def split: option.split sum.split prod.split) (metis snd_conv)+

lemma readScope_moves: "e_lib E = L \<Longrightarrow> moves (store_path L) (readScopeTokenHash E secret p now)"
  unfolding readScopeTokenHash_def by (intro chain.moves_rules validateToken_moves)

lemma allow_moves:
  "\<lbrakk>\<And>i. e_lib (E i) = L; \<And>t h x. moves (store_path L) (create t h x)\<rbrakk> \<Longrightarrow>
     moves (store_path L) (allow_request E now secret arg create)"
  unfolding allow_request_def by (intro chain.moves_rules validateToken_moves)

lemma dispatch_moves:
  assumes "\<And>i. e_lib (E i) = L"
  shows "moves (server_path L) (dispatch N E clock p req)"
proof -
  have E': "e_lib (later n E i) = L" for n i by (simp add: later_def assms)
  show ?thesis
    unfolding dispatch_def Let_def ps_request_def
    by (intro server.moves_rules onS_moves chain.moves_rules register_moves allow_moves create_moves
        root_only_moves addBypass_moves readScope_moves validateToken_moves server_ps_moves store_moves assms E')
qed

section \<open>Grants\<close>

text \<open>How a sequence of operations succeeds.\<close>

lemma bindS_Inr:
  "bindS m k s = (Inr y, s') \<longleftrightarrow> (\<exists>x s1. m s = (Inr x, s1) \<and> k x s1 = (Inr y, s'))"
  by (auto simp: bindS_def split: prod.splits sum.splits)

lemma guardS_Inr: "guardS err k s = (Inr y, s') \<longleftrightarrow> err = None \<and> k s = (Inr y, s')"
  by (auto simp: guardS_def failS_def split: option.splits)

lemma onS_Inr: "onS m (c, s) = (Inr y, c', s') \<longleftrightarrow> c' = c \<and> m s = (Inr y, s')"
  by (auto simp: onS_def split: prod.splits)

lemma leaf_Inr:
  "returnS x s = (Inr y, s') \<longleftrightarrow> y = x \<and> s' = s" "\<not> failS e s = (Inr y, s')"
  "liftS r s = (Inr y, s') \<longleftrightarrow> r = Inr y \<and> s' = s"
  "replyS f m s = (Inr z, s') \<longleftrightarrow> (\<exists>x. m s = (Inr x, s') \<and> z = f x)"
  by (auto simp: returnS_def failS_def liftS_def replyS_def bindS_Inr)

lemmas succeeds = bindS_Inr guardS_Inr onS_Inr leaf_Inr

text \<open>A usable token of a state for a hash, with an active reservation where its mode asks for one.\<close>

definition entitled :: "state \<Rightarrow> string \<Rightarrow> time \<Rightarrow> token \<Rightarrow> bool" where
  "entitled st h now t \<longleftrightarrow> t \<in> set (st_Tokens st) \<and> tok_Hash t = h \<and> tokenActiveAt t now \<and>
     (NormalizeTokenMode (tok_Mode t) = TokenModeReserved \<longrightarrow>
        (\<exists>r\<in>set (st_Reservations st). res_TokenHash r = h \<and> ReservationActiveAt r now))"

lemma NormalizeTokenMode_idem: "NormalizeTokenMode (NormalizeTokenMode m) = NormalizeTokenMode m"
proof -
  have "ToLower (TrimSpace (ToLower m)) = TrimSpace (ToLower m)" by (rule ToLower_TrimSpace_lower) simp
  moreover have "NormalizeTokenMode TokenModeClaimed = TokenModeClaimed" by code_simp
  ultimately show ?thesis by (simp add: NormalizeTokenMode_def Let_def)
qed

lemma validateToken_loaded:
  assumes "sto_loaded s" "validateToken E secret now s = (Inr (t, h), s1)"
  shows "s1 = s" "TrimSpace secret \<noteq> []" "h = HashToken E (TrimSpace secret)"
    "\<exists>t0\<in>set (st_Tokens (sto_state s)). tok_Hash t0 = h \<and> tokenActiveAt t0 now \<and>
        t = t0\<lparr>tok_Mode := NormalizeTokenMode (tok_Mode t0)\<rparr>"
proof -
  have v: "TrimSpace secret \<noteq> []" "ValidateToken E secret now s = ((t, h, None), s1)"
    using assms(2) by (auto simp: validateToken_def split: if_splits prod.splits option.splits)
  then have l: "lookup_token (sto_state s) h now = (t, None)" "s1 = s" "h = HashToken E (TrimSpace secret)"
    using assms(1) by (auto simp: ValidateToken_def Let_def split: prod.splits)
  with v(1) lookup_token_ok [OF l(1)] show "s1 = s" "TrimSpace secret \<noteq> []" "h = HashToken E (TrimSpace secret)"
    "\<exists>t0\<in>set (st_Tokens (sto_state s)). tok_Hash t0 = h \<and> tokenActiveAt t0 now \<and>
        t = t0\<lparr>tok_Mode := NormalizeTokenMode (tok_Mode t0)\<rparr>" by auto
qed

lemma snapshot_loaded [simp]:
  "sto_loaded s \<Longrightarrow> EnforcementSnapshot E s = (Inr (cloneEnforcementState (sto_state s)), s)"
  by (simp add: EnforcementSnapshot_def runtx_def)

lemma clone_reservations [simp]: "st_Reservations (cloneEnforcementState st) = st_Reservations st"
  by (simp add: cloneEnforcementState_def)

lemma ensureToken_loaded:
  assumes "sto_loaded s" "ensureTokenCanAuthorize E h t now s = (Inr u, s1)"
  shows "s1 = s \<and> (NormalizeTokenMode (tok_Mode t) = TokenModeReserved \<longrightarrow>
    (\<exists>r\<in>set (st_Reservations (sto_state s)). res_TokenHash r = h \<and> ReservationActiveAt r now))"
  using assms by (auto simp: ensureTokenCanAuthorize_def succeeds split: if_splits)

lemma AddAuthorization_loaded:
  assumes "consistent s" "sto_loaded s" "AddAuthorization E a now s = (Inr (), s')"
  shows "sto_state s' = (sto_state s)\<lparr>st_Authorizations := st_Authorizations (sto_state s) @ [a]\<rparr>"
proof (rule runtx_success [OF assms(1,2) assms(3) [unfolded AddAuthorization_def]])
  assume "add_authorization_body a now (sto_state s) = Done ()"
  then show ?thesis by (simp add: add_authorization_body_def split: option.splits)
next
  fix st
  assume "add_authorization_body a now (sto_state s) = Write st ()" "sto_state s' = st"
  then show ?thesis by (simp add: add_authorization_body_def split: option.splits)
qed

lemma AddBypass_loaded:
  assumes "consistent s" "sto_loaded s" "AddBypass E b s = (Inr (), s')"
  shows "sto_state s' = (sto_state s)\<lparr>st_Bypasses := st_Bypasses (sto_state s) @ [b]\<rparr>"
proof (rule runtx_success [OF assms(1,2) assms(3) [unfolded AddBypass_def]])
  assume "add_bypass_body b (sto_state s) = Done ()"
  then show ?thesis by (simp add: add_bypass_body_def split: option.splits)
next
  fix st
  assume "add_bypass_body b (sto_state s) = Write st ()" "sto_state s' = st"
  then show ?thesis by (simp add: add_bypass_body_def split: option.splits)
qed

lemma addAuthorization_loaded:
  assumes "consistent s" "sto_loaded s" "addAuthorizationLocked E clock secret a s = (Inr a', s')"
  shows "\<exists>t. entitled (sto_state s) (HashToken (E 0) (TrimSpace secret)) (clock 0) t \<and>
    auth_TokenHash a = tok_Hash t \<and>
    a' = a\<lparr>auth_TokenMode := NormalizeTokenMode (tok_Mode t), auth_TokenVersion := tok_Version t,
           auth_Holder := tok_Name t, auth_ExpiresAt := tok_ExpiresAt t\<rparr> \<and>
    sto_state s' = (sto_state s)\<lparr>st_Authorizations := st_Authorizations (sto_state s) @ [a']\<rparr>"
proof -
  from assms(3) obtain t h s1 u s2 where
    v: "validateToken (E 0) secret (clock 0) s = (Inr (t, h), s1)" and h: "h = auth_TokenHash a"
    and e: "ensureTokenCanAuthorize (E 1) h t (clock 0) s1 = (Inr u, s2)"
    and a': "a' = a\<lparr>auth_TokenMode := NormalizeTokenMode (tok_Mode t), auth_TokenVersion := tok_Version t,
                      auth_Holder := tok_Name t, auth_ExpiresAt := tok_ExpiresAt t\<rparr>"
    and add: "AddAuthorization (E 2) a' (clock 1) s2 = (Inr (), s')"
    by (auto simp: addAuthorizationLocked_def succeeds Let_def split: prod.splits if_splits)
  note vt = validateToken_loaded [OF assms(2) v]
  obtain t0 where t0: "t0 \<in> set (st_Tokens (sto_state s))" "tok_Hash t0 = h" "tokenActiveAt t0 (clock 0)"
    "t = t0\<lparr>tok_Mode := NormalizeTokenMode (tok_Mode t0)\<rparr>" using vt(4) by blast
  have s: "s2 = s" using ensureToken_loaded [of s1] e vt(1) assms(2) by simp
  have mode: "NormalizeTokenMode (tok_Mode t) = NormalizeTokenMode (tok_Mode t0)"
    using t0(4) by (simp add: NormalizeTokenMode_idem)
  have "entitled (sto_state s) h (clock 0) t0"
    using ensureToken_loaded [OF _ e] vt(1) assms(2) t0(1-3) mode by (simp add: entitled_def)
  with AddAuthorization_loaded [OF assms(1,2) add [unfolded s]] vt(3) h a' t0 mode show ?thesis
    by (intro exI [of _ t0]) simp
qed

text \<open>The three kinds of authorization, and the patterns that only root may use.\<close>

definition pattern_of :: "authorization \<Rightarrow> string" where
  "pattern_of a = auth_ContainerPattern a @ auth_Namespace a @ auth_Username a"

definition granted ::
  "store \<Rightarrow> string \<Rightarrow> time \<Rightarrow> int \<Rightarrow> authorization \<Rightarrow> store \<Rightarrow> bool" where
  "granted s h now uid a s' \<longleftrightarrow>
     sto_state s' = (sto_state s)\<lparr>st_Authorizations := st_Authorizations (sto_state s) @ [a]\<rparr> \<and>
     auth_Active a \<and> (CHR ''*'' \<in> set (pattern_of a) \<longrightarrow> uid = 0) \<and>
     (\<exists>t. entitled (sto_state s) h now t \<and> auth_TokenHash a = h \<and> auth_ExpiresAt a = tok_ExpiresAt t \<and>
        auth_TokenMode a = NormalizeTokenMode (tok_Mode t) \<and> auth_TokenVersion a = tok_Version t)"

lemma persist_granted:
  assumes "consistent s" "sto_loaded s" "TrimSpace secret \<noteq> []"
    and "persistAuthorization E clock secret t a s = (Inr a', s')"
    and "auth_Active a" "CHR ''*'' \<in> set (pattern_of a) \<longrightarrow> uid = 0"
  shows "granted s (HashToken (E 0) (TrimSpace secret)) (clock 0) uid a' s'"
proof -
  have "addAuthorizationLocked E clock secret a s = (Inr a', s')"
    using assms(3,4) by (simp add: persistAuthorization_def addAuthorization_def)
  from addAuthorization_loaded [OF assms(1,2) this] obtain t0 where
    t0: "entitled (sto_state s) (HashToken (E 0) (TrimSpace secret)) (clock 0) t0" "auth_TokenHash a = tok_Hash t0"
    and a': "a' = a\<lparr>auth_TokenMode := NormalizeTokenMode (tok_Mode t0), auth_TokenVersion := tok_Version t0,
                     auth_Holder := tok_Name t0, auth_ExpiresAt := tok_ExpiresAt t0\<rparr>"
    and s': "sto_state s' = (sto_state s)\<lparr>st_Authorizations := st_Authorizations (sto_state s) @ [a']\<rparr>"
    by blast
  show ?thesis
    unfolding granted_def
  proof (intro conjI exI [of _ t0])
    show "auth_TokenHash a' = HashToken (E 0) (TrimSpace secret)" using t0 a' by (simp add: entitled_def)
    show "CHR ''*'' \<in> set (pattern_of a') \<longrightarrow> uid = 0" using assms(6) a' by (simp add: pattern_of_def)
  qed (use s' t0 a' assms(5) in simp_all)
qed

lemma hasWildcard_iff: "hasWildcard v \<longleftrightarrow> CHR ''*'' \<in> set v"
proof -
  have "str_Index v ''*'' = None \<longleftrightarrow> CHR ''*'' \<notin> set v"
    by (induction v) (auto simp: HasPrefix_def)
  then show ?thesis by (simp add: hasWildcard_def str_Contains_def)
qed

lemma new_authorization_fields [simp]:
  "auth_Active (new_authorization E m t h u g now)" "auth_ContainerPattern (new_authorization E m t h u g now) = []"
  "auth_Namespace (new_authorization E m t h u g now) = []" "auth_Username (new_authorization E m t h u g now) = []"
  by (simp_all add: new_authorization_def zero_authorization_def)

lemma created:
  assumes "consistent s" "sto_loaded s" "TrimSpace secret \<noteq> []"
    and "ensureTokenCanAuthorize (E 0) h t (clock 0) s = (Inr u, s1)"
    and "persistAuthorization (later 2 E) (later 2 clock) secret t b s1 = (Inr a, s')"
    and "auth_Active b" "CHR ''*'' \<in> set (pattern_of b) \<longrightarrow> uid = 0"
  shows "granted s (HashToken (E 2) (TrimSpace secret)) (clock 2) uid a s'"
proof -
  have "s1 = s" using ensureToken_loaded [OF assms(2,4)] by simp
  with persist_granted [OF assms(1-3) _ assms(6,7)] assms(5) show ?thesis
    by (fastforce simp: later_def numeral_2_eq_2)
qed

lemma create_docker_granted:
  assumes "consistent s" "sto_loaded s" "TrimSpace secret \<noteq> []"
    and "createDockerAuthorization N E clock secret t h p arg s = (Inr r, s')"
  shows "\<exists>a. r = allow_result_of a \<and> granted s (HashToken (E 2) (TrimSpace secret)) (clock 2) (pe_UID p) a s'"
proof -
  from assms(4) obtain u s1 i pat a where
    steps: "ensureTokenCanAuthorize (E 0) h t (clock 0) s = (Inr u, s1)"
      "persistAuthorization (later 2 E) (later 2 clock) secret t
        ((new_authorization (E 1) ModeDocker t h (pe_UID p) (pe_GID p) (clock 1))
           \<lparr>auth_ContainerID := i, auth_ContainerPattern := pat\<rparr>) s1 = (Inr a, s')"
    and r: "r = allow_result_of a" and pat: "CHR ''*'' \<in> set pat \<longrightarrow> pe_UID p = 0"
    by (auto simp: createDockerAuthorization_def succeeds Let_def hasWildcard_iff
        split: if_splits prod.splits sum.splits)
  from created [OF assms(1-3) steps, of "pe_UID p"] pat r show ?thesis by (auto simp: pattern_of_def)
qed

lemma create_k8s_granted:
  assumes "consistent s" "sto_loaded s" "TrimSpace secret \<noteq> []"
    and "createK8sAuthorization N E clock secret t h p arg s = (Inr r, s')"
  shows "\<exists>a. r = allow_result_of a \<and> granted s (HashToken (E 2) (TrimSpace secret)) (clock 2) (pe_UID p) a s'"
proof -
  from assms(4) obtain u s1 a where
    steps: "ensureTokenCanAuthorize (E 0) h t (clock 0) s = (Inr u, s1)"
      "persistAuthorization (later 2 E) (later 2 clock) secret t
        ((new_authorization (E 1) ModeK8s t h (pe_UID p) (pe_GID p) (clock 1))
           \<lparr>auth_Namespace := TrimSpace arg\<rparr>) s1 = (Inr a, s')"
    and r: "r = allow_result_of a" and pat: "CHR ''*'' \<in> set arg \<longrightarrow> pe_UID p = 0"
    by (auto simp: createK8sAuthorization_def succeeds Let_def hasWildcard_iff split: if_splits)
  from created [OF assms(1-3) steps, of "pe_UID p"] pat r set_TrimSpace [of arg] show ?thesis
    by (auto simp: pattern_of_def)
qed

lemma create_user_granted:
  assumes "consistent s" "sto_loaded s" "TrimSpace secret \<noteq> []"
    and "createUserAuthorization N E clock secret t h p arg s = (Inr r, s')"
  shows "\<exists>a. r = allow_result_of a \<and> granted s (HashToken (E 2) (TrimSpace secret)) (clock 2) (pe_UID p) a s'"
proof -
  from assms(4) obtain u s1 uid a where
    steps: "ensureTokenCanAuthorize (E 0) h t (clock 0) s = (Inr u, s1)"
      "persistAuthorization (later 2 E) (later 2 clock) secret t
        ((new_authorization (E 1) ModeUser t h uid (pe_GID p) (clock 1))
           \<lparr>auth_Username := TrimSpace arg\<rparr>) s1 = (Inr a, s')"
    and r: "r = allow_result_of a" and pat: "CHR ''*'' \<in> set (TrimSpace arg) \<longrightarrow> pe_UID p = 0"
    by (auto simp: createUserAuthorization_def succeeds Let_def hasWildcard_iff split: if_splits)
  from created [OF assms(1-3) steps, of "pe_UID p"] pat r show ?thesis by (auto simp: pattern_of_def)
qed

lemma allow_request_granted:
  assumes "consistent s" "sto_loaded s"
    and "allow_request E now secret arg create s = (Inr (ReplyAllow r), s')"
    and "\<And>t h x. \<lbrakk>TrimSpace secret \<noteq> []; create t h x s = (Inr r, s')\<rbrakk> \<Longrightarrow> P"
  shows P
proof -
  from assms(3) obtain t h s1 x where
    v: "validateToken (E 0) secret now s = (Inr (t, h), s1)" and c: "create t h x s1 = (Inr r, s')"
    by (auto simp: allow_request_def succeeds split: prod.splits)
  from assms(4) [of t h x] validateToken_loaded [OF assms(2) v] c show P by simp
qed

section \<open>Registrations\<close>

lemma busy_check_None:
  "busy_check az w st ps i gpus = None \<Longrightarrow>
     k < length gpus \<Longrightarrow> BusyProcessesForGPU az (sub w (i + k)) st ps (gpus ! k) = ([], None)"
proof (induction gpus arbitrary: i k)
  case (Cons g gpus)
  then have "BusyProcessesForGPU az (sub w i) st ps g = ([], None)" "busy_check az w st ps (Suc i) gpus = None"
    by (auto split: prod.splits option.splits if_splits)
  with Cons.IH [of "Suc i" "k - 1"] Cons.prems(2) show ?case by (cases k) auto
qed simp

lemma window_conflict_None:
  assumes "window_conflict st gpus a b now = None"
  shows "\<forall>r\<in>set (st_Reservations st). res_GPU r \<in> set gpus \<longrightarrow> \<not> ReservationOverlaps r a b"
    "\<forall>l\<in>set (st_Leases st). lease_GPU l \<in> set gpus \<longrightarrow> lease_Active l \<longrightarrow> now < lease_ExpiresAt l \<longrightarrow>
       lease_ExpiresAt l \<le> a"
  using assms by (auto simp: window_conflict_def guard_simps Before_def split: if_splits)

lemma ensureGPUs_loaded:
  assumes "sto_loaded s" "ensureGPUsCanReserveWindow N E clock gpus a b s = (Inr u, s')" "a \<noteq> 0"
  shows "s' = s" "validateConfiguredGPUs (nd_GPUCount N) gpus = None" "a < b"
    "window_conflict (cloneEnforcementState (sto_state s)) gpus a b (clock 1) = None"
    "a \<le> clock 1 \<Longrightarrow> \<exists>ps. nd_processes N = Inr ps \<and>
       busy_check (nd_authorizer N) (nd_world N) (cloneEnforcementState (sto_state s)) ps 0 gpus = None"
  using assms
  by (auto simp: ensureGPUsCanReserveWindow_def succeeds Let_def split: if_splits sum.splits)

end
