(* ===== verification/MonitorProps.thy ===== *)
theory MonitorProps
  imports Monitor HandlerProps
begin

text \<open>
  What a tick of the monitor can do to the store. The interface \<open>cleanup_relation\<close> is a preorder
  on stores that the operations of a clean-up respect; it is interpreted once as the paths of
  store operations, which gives the invariants of reachable stores, and once as ``authorizations are
  at most deactivated, and only for a reason'', which gives what a clean-up may release.
\<close>

section \<open>Clean samples\<close>

definition clean_counts :: "assessment list \<Rightarrow> string \<Rightarrow> int option" where
  "clean_counts qs = foldl (\<lambda>clean q. recordEvictionAssessment q clean) Map.empty qs"

lemma clean_counts_run:
  "the_or 0 (clean_counts qs key) = int (length (takeWhile (\<lambda>q. assessed q key = Some True) (rev qs)))"
  unfolding clean_counts_def
  by (induction qs rule: rev_induct) (auto simp: recordEvictionAssessment_def split: option.split bool.split)

lemma takeWhile_length_iff: "n \<le> length (takeWhile P xs) \<longleftrightarrow> n \<le> length xs \<and> (\<forall>x\<in>set (take n xs). P x)"
proof (induction xs arbitrary: n)
  case (Cons x xs)
  then show ?case by (cases n) auto
qed simp

section \<open>Relations that a clean-up respects\<close>

text \<open>Whether a scope is let go depends only on the kernel's answers and the counters.\<close>

definition scope_gone ::
  "monitor_env \<Rightarrow> (string \<Rightarrow> int option) \<Rightarrow> string \<Rightarrow> string \<Rightarrow> string \<Rightarrow> string \<Rightarrow> bool" where
  "scope_gone v clean kind i mode path \<longleftrightarrow>
     (if path \<noteq> [] then fst (stopAndRemoveManagedCgroup (mv_cwd v) (mv_CgroupRoot v) (mv_DryRun v) path
        (mv_cgroup v [])) = None
      else mode = ModeBare \<or> evictionScopeReady clean kind i)"

definition has_finished :: "monitor_env \<Rightarrow> string \<Rightarrow> int \<Rightarrow> bool" where
  "has_finished v path rootPID \<longleftrightarrow>
     (if path \<noteq> [] then fst (inactiveManagedCgroupReadyForPrune (mv_cwd v) (mv_CgroupRoot v) path (mv_cgroup v []))
      else \<not> (mv_Proc v \<and> mv_Exists v [] rootPID))"

lemma stop_scope_gone:
  "stop_scope v kind i mode path m = (b, m') \<Longrightarrow>
     b = scope_gone v (mo_evictionClean m) kind i mode path \<and> mo_store m' = mo_store m \<and>
     mo_evictionClean m' = mo_evictionClean m"
  by (auto simp: stop_scope_def scope_gone_def split: if_splits prod.splits)

lemma scope_finished_iff:
  "scope_finished v path pid m = (b, m') \<Longrightarrow>
     b = has_finished v path pid \<and> mo_store m' = mo_store m \<and> mo_evictionClean m' = mo_evictionClean m"
  by (auto simp: scope_finished_def has_finished_def split: if_splits prod.splits)

lemma at_E [simp]: "mv_E (at k v) p = mv_E v (k # p)" by (simp add: at_def)

lemma append_events_clean [simp]: "mo_evictionClean (append_events v evs m) = mo_evictionClean m"
  "mo_evictionClean (append_event v ev m) = mo_evictionClean m"
  by (simp_all add: append_events_def append_event_def split: prod.split)

lemma on_store_eq: "on_store f m = (fst (f (mo_store m)), m\<lparr>mo_store := snd (f (mo_store m))\<rparr>)"
  by (simp add: on_store_def split: prod.split)

lemma accept_store: "acceptEnforcementAudit now ev m = (b, m') \<Longrightarrow> mo_store m' = mo_store m \<and> mo_evictionClean m' = mo_evictionClean m"
  by (auto simp: acceptEnforcementAudit_def Let_def split: if_splits)

lemma accept_audits_store:
  "accept_audits v i evs m = (kept, m') \<Longrightarrow> mo_store m' = mo_store m \<and> mo_evictionClean m' = mo_evictionClean m"
proof (induction evs arbitrary: i m kept)
  case (Cons ev evs)
  then show ?case by (auto split: prod.splits dest!: accept_store Cons.IH)
qed simp

lemma record_claims_clean [simp]: "mo_evictionClean (record_claims v now i ds m) = mo_evictionClean m"
  by (induction ds arbitrary: i m) (auto simp: on_store_eq)

lemma audit_error_clean [simp]: "mo_evictionClean (auditGPUProcessError v e m) = mo_evictionClean m"
  by (simp add: auditGPUProcessError_def Let_def)

lemma over_rows_inv:
  assumes "P x" "\<And>k y. \<lbrakk>k < length rs; P y\<rbrakk> \<Longrightarrow> P (f (at (i + k) v) (rs ! k) y)"
  shows "P (over_rows f v i rs x)"
  using assms
proof (induction rs arbitrary: i x)
  case (Cons r rs)
  from Cons.prems(2) [of 0] Cons.prems(1) have "P (f (at i v) r x)" by simp
  moreover have "P (f (at (Suc i + k) v) (rs ! k) y)" if "k < length rs" "P y" for k y
    using Cons.prems(2) [of "Suc k"] that by simp
  ultimately show ?case using Cons.IH by simp
qed simp

locale cleanup_relation = state_moves R for R :: "store \<Rightarrow> store \<Rightarrow> bool" +
  fixes ok_env :: "env \<Rightarrow> bool" and releasable :: "string \<Rightarrow> bool"
  assumes snapshot_R: "ok_env E \<Longrightarrow> R s (snd (EnforcementSnapshot E s))"
    and audits_R: "ok_env E \<Longrightarrow> R s (snd (snd (AppendAudits E io path evs log s)))"
    and upsert_R: "ok_env E \<Longrightarrow> R s (snd (UpsertSoftClaim E c now s))"
    and release_claim_R: "ok_env E \<Longrightarrow> R s (snd (ReleaseSoftClaim E i s))"
    and release_reservation_R: "ok_env E \<Longrightarrow> R s (snd (ReleaseReservation E i s))"
    and release_lease_R: "ok_env E \<Longrightarrow> R s (snd (ReleaseLease E i s))"
    and release_authorization_R: "\<lbrakk>ok_env E; releasable i\<rbrakk> \<Longrightarrow> R s (snd (ReleaseAuthorization E i s))"
begin

lemma append_events_R: "\<forall>p. ok_env (mv_E v p) \<Longrightarrow> R (mo_store m) (mo_store (append_events v evs m))"
  using audits_R by (auto simp: append_events_def split: prod.split) (metis snd_conv)

lemma append_event_R: "\<forall>p. ok_env (mv_E v p) \<Longrightarrow> R (mo_store m) (mo_store (append_event v ev m))"
  unfolding append_event_def by (rule append_events_R)

lemma audit_error_R: "\<forall>p. ok_env (mv_E v p) \<Longrightarrow> R (mo_store m) (mo_store (auditGPUProcessError v e m))"
  using append_event_R [of v "m\<lparr>mo_lastGPUError := mv_errText v e, mo_lastGPUErrorAt := mv_clock v []\<rparr>"]
  by (auto simp: auditGPUProcessError_def Let_def R_refl)

lemma audit_recovery_R: "\<forall>p. ok_env (mv_E v p) \<Longrightarrow> R (mo_store m) (mo_store (auditGPUProcessRecovery v m))"
  using append_event_R [of v "m\<lparr>mo_lastGPUError := [], mo_lastGPUErrorAt := 0\<rparr>"]
  by (auto simp: auditGPUProcessRecovery_def Let_def R_refl)

lemma record_claims_R: "\<forall>p. ok_env (mv_E v p) \<Longrightarrow> R (mo_store m) (mo_store (record_claims v now i ds m))"
proof (induction ds arbitrary: i m)
  case (Cons d ds)
  let ?m = "if de_Action d = ''claim'' then snd (on_store (UpsertSoftClaim (mv_E v [i]) (de_Claim d) now) m)
    else if de_Action d = ''release_claim'' then snd (on_store (ReleaseSoftClaim (mv_E v [i]) (de_ClaimID d)) m) else m"
  have "R (mo_store m) (mo_store ?m)"
    using Cons.prems upsert_R release_claim_R R_refl by (auto simp: on_store_eq)
  with Cons.IH [OF Cons.prems, of ?m "Suc i"] show ?case by (auto intro: R_trans)
qed (simp add: R_refl)

text \<open>The monitor \<open>m\<close> keeps the counters of \<open>m0\<close> and its store is related to that of \<open>m0\<close>.\<close>

definition after :: "monitor \<Rightarrow> monitor \<Rightarrow> bool" where
  "after m0 m \<longleftrightarrow> R (mo_store m0) (mo_store m) \<and> mo_evictionClean m = mo_evictionClean m0"

lemma after_refl: "after m m" by (simp add: after_def R_refl)

lemma after_trans: "\<lbrakk>after m0 m; after m m'\<rbrakk> \<Longrightarrow> after m0 m'"
  unfolding after_def using R_trans by metis

lemma after_same: "\<lbrakk>after m0 m; mo_store m' = mo_store m; mo_evictionClean m' = mo_evictionClean m\<rbrakk> \<Longrightarrow> after m0 m'"
  by (simp add: after_def)

lemma after_store: "R (mo_store m) (snd (f (mo_store m))) \<Longrightarrow> after m (snd (on_store f m))"
  by (simp add: after_def on_store_eq)

lemma after_append: "\<forall>p. ok_env (mv_E v p) \<Longrightarrow> after m (append_events v evs m)"
  by (simp add: after_def append_events_R)

lemma release_row_after:
  assumes "\<forall>p. ok_env (mv_E v p)" "R (mo_store m) (snd (f (mo_store m)))"
  shows "after m (snd (release_row v f ev (ok, m)))"
proof (cases "fst (f (mo_store m))")
  case (Inl e)
  then show ?thesis using after_store [of m f, OF assms(2)] by (simp add: release_row_def on_store_eq)
next
  case (Inr u)
  have "after (snd (on_store f m)) (append_event (at 1 v) ev (snd (on_store f m)))"
    unfolding append_event_def using assms(1) by (intro after_append) simp
  then have "after m (append_event (at 1 v) ev (snd (on_store f m)))"
    by (rule after_trans [OF after_store [of m f, OF assms(2)]])
  with Inr show ?thesis by (simp add: release_row_def on_store_eq)
qed

lemma expire_authorization_after:
  assumes "\<forall>p. ok_env (mv_E v p)"
    and "\<lbrakk>stale_grant tokens now a; scope_gone v (mo_evictionClean m) ''authorization'' (auth_ID a) (auth_Mode a)
      (auth_CgroupPath a)\<rbrakk> \<Longrightarrow> releasable (auth_ID a)"
  shows "after m (snd (expire_authorization tokens now v a (ok, m)))"
proof -
  obtain b m1 where st: "stop_scope v ''authorization'' (auth_ID a) (auth_Mode a) (auth_CgroupPath a) m = (b, m1)"
    by (metis surj_pair)
  note g = stop_scope_gone [OF st]
  have m1: "after m m1" using after_same [OF after_refl] g by simp
  show ?thesis
  proof (cases "stale_grant tokens now a \<and> b")
    case True
    then have "releasable (auth_ID a)" using assms(2) g by simp
    then have "after m1 (snd (release_row v (ReleaseAuthorization (mv_E v [0]) (auth_ID a)) ev (ok, m1)))" for ev
      using assms(1) release_authorization_R by (intro release_row_after) auto
    from after_trans [OF m1 this] True st show ?thesis by (simp add: expire_authorization_def)
  next
    case False
    with st m1 after_refl show ?thesis by (auto simp: expire_authorization_def)
  qed
qed

lemma expire_lease_after:
  assumes "\<forall>p. ok_env (mv_E v p)"
  shows "after m (snd (expire_lease tokens now v l (ok, m)))"
proof -
  obtain b m1 where st: "stop_scope v ''lease'' (lease_ID l) (lease_Mode l) (lease_CgroupPath l) m = (b, m1)"
    by (metis surj_pair)
  have m1: "after m m1" using after_same [OF after_refl] stop_scope_gone [OF st] by simp
  have "after m1 (snd (release_row v (ReleaseLease (mv_E v [0]) (lease_ID l)) ev (ok, m1)))" for ev
    using assms release_lease_R by (intro release_row_after) auto
  from after_trans [OF m1 this] st m1 after_refl show ?thesis by (auto simp: expire_lease_def split: bool.split)
qed

lemma expire_reservation_after:
  assumes "\<forall>p. ok_env (mv_E v p)"
  shows "after m (snd (expire_reservation now v r (ok, m)))"
proof -
  have "after m (snd (release_row v (ReleaseReservation (mv_E v [0]) (res_ID r)) ev (ok, m)))" for ev
    using assms release_reservation_R by (intro release_row_after) auto
  then show ?thesis by (auto simp: expire_reservation_def after_refl)
qed

lemma finish_authorization_after:
  assumes "\<forall>p. ok_env (mv_E v p)"
    and "\<lbrakk>auth_Active a; auth_Mode a = ModeBare; auth_RootPID a > 0;
      has_finished v (auth_CgroupPath a) (auth_RootPID a)\<rbrakk> \<Longrightarrow> releasable (auth_ID a)"
  shows "after m (finish_authorization now v a m)"
proof -
  obtain b m1 where st: "scope_finished v (auth_CgroupPath a) (auth_RootPID a) m = (b, m1)" by (metis surj_pair)
  note g = scope_finished_iff [OF st]
  have m1: "after m m1" using after_same [OF after_refl] g by simp
  show ?thesis
  proof (cases "auth_Active a \<and> auth_Mode a = ModeBare \<and> auth_RootPID a > 0 \<and> b")
    case True
    then have "releasable (auth_ID a)" using assms(2) g by simp
    then have "after m1 (snd (release_row v (ReleaseAuthorization (mv_E v [0]) (auth_ID a)) ev (True, m1)))" for ev
      using assms(1) release_authorization_R by (intro release_row_after) auto
    from after_trans [OF m1 this] True st show ?thesis by (simp add: finish_authorization_def)
  next
    case False
    with st m1 after_refl show ?thesis by (auto simp: finish_authorization_def)
  qed
qed

lemma finish_lease_after:
  assumes "\<forall>p. ok_env (mv_E v p)"
  shows "after m (finish_lease now v l m)"
proof -
  obtain b m1 where st: "scope_finished v (lease_CgroupPath l) (lease_RootPID l) m = (b, m1)" by (metis surj_pair)
  have m1: "after m m1" using after_same [OF after_refl] scope_finished_iff [OF st] by simp
  have "after m1 (snd (release_row v (ReleaseLease (mv_E v [0]) (lease_ID l)) ev (True, m1)))" for ev
    using assms release_lease_R by (intro release_row_after) auto
  from after_trans [OF m1 this] st m1 after_refl show ?thesis by (auto simp: finish_lease_def split: bool.split)
qed

text \<open>Which authorizations of a snapshot a clean-up may release, by index.\<close>

lemma loop_after:
  assumes "\<And>k m'. \<lbrakk>k < length rs; mo_evictionClean m' = mo_evictionClean m\<rbrakk> \<Longrightarrow> after m' (f (at k v) (rs ! k) m')"
  shows "after m (over_rows f v 0 rs m)"
proof (rule over_rows_inv [of "after m"])
  show "after m m" by (rule after_refl)
  show "after m (f (at (0 + k) v) (rs ! k) y)" if "k < length rs" "after m y" for k y
    using after_trans [OF that(2)] assms [OF that(1)] that(2) by (simp add: after_def)
qed

lemma loop2_after:
  assumes "\<And>k ok m'. \<lbrakk>k < length rs; mo_evictionClean m' = mo_evictionClean m\<rbrakk> \<Longrightarrow>
      after m' (snd (f (at k v) (rs ! k) (ok, m')))"
  shows "after m (snd (over_rows f v 0 rs (ok, m)))"
proof (rule over_rows_inv [of "\<lambda>y. after m (snd y)"])
  show "after m (snd (ok, m))" by (simp add: after_refl)
  show "after m (snd (f (at (0 + k) v) (rs ! k) y))" if "k < length rs" "after m (snd y)" for k y
    using after_trans [OF that(2)] assms [OF that(1), of "snd y" "fst y"] that(2) by (simp add: after_def)
qed

definition may_release :: "monitor_env \<Rightarrow> monitor_env \<Rightarrow> state \<Rightarrow> (string \<Rightarrow> int option) \<Rightarrow> bool" where
  "may_release v1 v2 st clean \<longleftrightarrow>
     (\<forall>k<length (st_Authorizations st). let a = st_Authorizations st ! k; now = mv_clock v1 [] in
        (stale_grant (tokenValidityByHash (st_Tokens st) now) now a \<and>
         scope_gone (at k v1) clean ''authorization'' (auth_ID a) (auth_Mode a) (auth_CgroupPath a)
         \<or> auth_Active a \<and> auth_Mode a = ModeBare \<and> auth_RootPID a > 0 \<and>
           has_finished (at k v2) (auth_CgroupPath a) (auth_RootPID a))
        \<longrightarrow> releasable (auth_ID a))"

lemma cleanup_authorizations_after:
  assumes "\<forall>p. ok_env (mv_E v p)" "may_release v v2 st (mo_evictionClean m)"
  shows "after m (snd (cleanupExpiredAuthorizationsState v st m))"
  unfolding cleanupExpiredAuthorizationsState_def Let_def
  by (rule loop2_after, rule expire_authorization_after) (use assms in \<open>auto simp: may_release_def Let_def\<close>)

lemma cleanup_leases_after:
  "\<forall>p. ok_env (mv_E v p) \<Longrightarrow> after m (snd (cleanupExpiredLeasesState v st m))"
  unfolding cleanupExpiredLeasesState_def Let_def
  by (rule loop2_after, rule expire_lease_after) simp

lemma cleanup_rows_after:
  assumes "\<forall>p. ok_env (mv_E v p)" "may_release (at 1 v) (at 2 v) st (mo_evictionClean m)"
  shows "after m (snd (cleanup_rows v st m))"
proof -
  have env: "\<forall>p. ok_env (mv_E (at k v) p)" for k using assms(1) by simp
  obtain ok1 m1 where m1: "cleanupExpiredReservationsState (at 0 v) st m = (ok1, m1)" by (metis surj_pair)
  have a1: "after m m1"
    using loop2_after [of "st_Reservations st" m "expire_reservation (mv_clock (at 0 v) [])" "at 0 v" True]
      expire_reservation_after assms(1) m1 by (simp add: cleanupExpiredReservationsState_def)
  obtain ok2 m2 where m2: "cleanupExpiredAuthorizationsState (at 1 v) st m1 = (ok2, m2)" by (metis surj_pair)
  have a2: "after m m2"
    using after_trans [OF a1] cleanup_authorizations_after [OF env, of 1 "at 2 v" st m1] assms(2) a1 m2
    by (simp add: after_def)
  let ?m3 = "cleanupFinishedBareAuthorizationsState (at 2 v) st m2"
  have "after m2 ?m3"
    unfolding cleanupFinishedBareAuthorizationsState_def
    by (rule loop_after, rule finish_authorization_after)
      (use assms in \<open>auto simp: may_release_def Let_def\<close>)
  with a2 have a3: "after m ?m3" by (rule after_trans)
  obtain ok4 m4 where m4: "cleanupExpiredLeasesState (at 3 v) st ?m3 = (ok4, m4)" by (metis surj_pair)
  have a4: "after m m4" using after_trans [OF a3 cleanup_leases_after [OF env]] m4 by (metis snd_conv)
  have "after m4 (cleanupFinishedBareLeasesState (at 4 v) st m4)"
    unfolding cleanupFinishedBareLeasesState_def
    by (rule loop_after, rule finish_lease_after) (use assms(1) in simp)
  from after_trans [OF a4 this] m1 m2 m4 show ?thesis by (simp add: cleanup_rows_def)
qed

lemma enforcement_pass_R:
  assumes "\<forall>p. ok_env (mv_E v p)"
    and "EvictExpiredReservedProcesses (mv_authorizer v) (sub (daemon_world v) 0) st ps = (err, q, pa1)"
    and "may_release (at 1 (at 5 v)) (at 2 (at 5 v)) st (recordEvictionAssessment q (mo_evictionClean m))"
    and "\<And>now s. err = None \<Longrightarrow> R s (snd (Prune (mv_E v [6]) now s))"
  shows "R (mo_store m) (mo_store (enforcement_pass v st ps m))"
proof -
  let ?az = "mv_authorizer v" and ?w = "daemon_world v"
  have env: "\<forall>p. ok_env (mv_E (at k v) p)" for k using assms(1) by simp
  obtain e2 pa2 where pa2: "Enforce ?az (sub ?w 1) (mv_order v) st (remaining_processes (pa_decisions pa1) ps) = (e2, pa2)"
    by (metis surj_pair)
  define m1 where "m1 = m\<lparr>mo_evictionClean := recordEvictionAssessment q (mo_evictionClean m)\<rparr>"
  define m2 where "m2 = (case mv_resample v of
      Inl e \<Rightarrow> if kill_validated ?az (sub ?w 0) pa1 \<or> kill_validated ?az (sub ?w 1) pa2
               then auditGPUProcessError (at 0 v) e m1 else m1 | Inr _ \<Rightarrow> m1)"
  have a2: "after m1 m2"
    using audit_error_R [OF env] by (auto simp: m2_def after_def R_refl split: sum.split)
  obtain audits m3 where m3: "accept_audits (at 1 v) 0 (pa_audits pa1 @ pa_audits pa2) m2 = (audits, m3)"
    by (metis surj_pair)
  have a3: "after m1 m3" using after_same [OF a2] accept_audits_store [OF m3] by simp
  let ?now = "mv_clock v [3]" and ?ds = "pa_decisions pa1 @ pa_decisions pa2"
  let ?m4 = "append_events (at 4 v) audits (record_claims (at 2 v) ?now 0 ?ds m3)"
  have "after m3 (record_claims (at 2 v) ?now 0 ?ds m3)" using record_claims_R [OF env] by (simp add: after_def)
  from after_trans [OF after_trans [OF a3 this] after_append [OF env]] have a4: "after m1 ?m4" .
  obtain ok m5 where m5: "cleanup_rows (at 5 v) st ?m4 = (ok, m5)" by (metis surj_pair)
  have "may_release (at 1 (at 5 v)) (at 2 (at 5 v)) st (mo_evictionClean ?m4)"
    using assms(3) a4 by (simp add: after_def m1_def)
  from cleanup_rows_after [OF env this] a4 m5 have a5: "after m1 m5" by (metis after_trans snd_conv)
  have r5: "R (mo_store m) (mo_store m5)" using a5 by (simp add: after_def m1_def)
  have "enforcement_pass v st ps m =
      (if err = None \<and> ok then snd (on_store (Prune (mv_E v [6]) ?now) m5) else m5)"
    unfolding enforcement_pass_def Let_def assms(2) prod.case pa2 m1_def [symmetric] m2_def [symmetric] m3 m5 ..
  with r5 assms(4) R_trans show ?thesis by (auto simp: on_store_eq)
qed

end

text \<open>A relation that pruning respects too, whatever is released.\<close>

locale tick_relation = cleanup_relation R ok_env "\<lambda>_. True" for R and ok_env +
  assumes prune_R: "ok_env E \<Longrightarrow> R s (snd (Prune E now s))"
    and prune_scopes_R: "ok_env E \<Longrightarrow> R s (snd (PruneInactiveManagedScopes E as ls s))"
    and prune_entitlements_R: "ok_env E \<Longrightarrow> R s (snd (PruneUnreferencedInvalidEntitlements E now s))"
begin

lemma may_release_all: "may_release v1 v2 st clean" by (simp add: may_release_def Let_def)

lemma managed_cgroups_R:
  assumes "\<forall>p. ok_env (mv_E v p)"
  shows "R (mo_store m) (mo_store (cleanupExpiredManagedCgroups v m))"
proof -
  have env: "\<forall>p. ok_env (mv_E (at k v) p)" for k using assms by simp
  obtain r1 m1 where m1: "on_store (EnforcementSnapshot (mv_E v [0])) m = (r1, m1)" by (metis surj_pair)
  have a1: "R (mo_store m) (mo_store m1)" using m1 snapshot_R assms by (auto simp: on_store_eq)
  show ?thesis
  proof (cases r1)
    case (Inl e)
    with m1 a1 show ?thesis by (simp add: cleanupExpiredManagedCgroups_def)
  next
    case (Inr st)
    let ?f = "st\<lparr>st_Authorizations := filter (\<lambda>a. auth_CgroupPath a \<noteq> []) (st_Authorizations st),
      st_Leases := filter (\<lambda>l. lease_CgroupPath l \<noteq> []) (st_Leases st)\<rparr>"
    let ?m2 = "snd (cleanupExpiredAuthorizationsState (at 1 v) ?f m1)"
    let ?m3 = "snd (cleanupExpiredLeasesState (at 2 v) ?f ?m2)"
    have "after m1 ?m3"
      by (rule after_trans [OF cleanup_authorizations_after [OF env may_release_all] cleanup_leases_after [OF env]])
    then have a3: "R (mo_store m) (mo_store ?m3)" using R_trans [OF a1] by (simp add: after_def)
    obtain r4 m4 where m4: "on_store (EnforcementSnapshot (mv_E v [3])) ?m3 = (r4, m4)" by (metis surj_pair)
    have a4: "R (mo_store m) (mo_store m4)" using m4 snapshot_R assms R_trans [OF a3] by (auto simp: on_store_eq)
    show ?thesis
    proof (cases r4)
      case Inl
      with m1 m4 Inr a4 show ?thesis by (simp add: cleanupExpiredManagedCgroups_def Let_def)
    next
      case inr4: (Inr st')
      have pruned: "R (mo_store m) (mo_store (snd (on_store (PruneUnreferencedInvalidEntitlements (mv_E v [7]) now)
          (snd (on_store (PruneInactiveManagedScopes (mv_E v [6]) auths leases) m5)))))"
        if "mo_store m5 = mo_store m4" for m5 auths leases now
      proof -
        let ?s5 = "snd (PruneInactiveManagedScopes (mv_E v [6]) auths leases (mo_store m4))"
        have "R (mo_store m4) ?s5" using assms by (intro prune_scopes_R) simp
        moreover have "R ?s5 (snd (PruneUnreferencedInvalidEntitlements (mv_E v [7]) now ?s5))"
          using assms by (intro prune_entitlements_R) simp
        ultimately have "R (mo_store m) (snd (PruneUnreferencedInvalidEntitlements (mv_E v [7]) now ?s5))"
          using R_trans [OF a4] R_trans by blast
        with that show ?thesis by (simp add: on_store_eq)
      qed
      show ?thesis
        using m1 m4 Inr inr4 by (simp add: cleanupExpiredManagedCgroups_def Let_def pruned split: prod.split)
    qed
  qed
qed

lemma monitorOnce_R:
  assumes "\<forall>p. ok_env (mv_E v p)"
  shows "R (mo_store m) (mo_store (monitorOnce v m))"
proof -
  have env: "\<forall>p. ok_env (mv_E (at k v) p)" for k using assms by simp
  obtain ps err where p: "mv_processes v = (ps, err)" by (metis surj_pair)
  let ?m1 = "m\<lparr>mo_cache := \<lparr>rc_at = mv_clock v [0], rc_rows = ps, rc_err = err\<rparr>\<rparr>"
  show ?thesis
  proof (cases err)
    case (Some e)
    have "R (mo_store ?m1) (mo_store (auditGPUProcessError (at 1 v) e ?m1))" by (rule audit_error_R [OF env])
    from R_trans [OF this managed_cgroups_R [OF env]] p Some show ?thesis by (simp add: monitorOnce_def)
  next
    case None
    let ?m2 = "auditGPUProcessRecovery (at 1 v) ?m1"
    obtain r m3 where m3: "on_store (EnforcementSnapshot (mv_E v [3])) ?m2 = (r, m3)" by (metis surj_pair)
    have a3: "R (mo_store m) (mo_store m3)"
      using R_trans [OF audit_recovery_R [OF env [of 1], of ?m1]] m3 snapshot_R assms by (auto simp: on_store_eq)
    show ?thesis
    proof (cases r)
      case Inl
      with p None m3 a3 show ?thesis by (simp add: monitorOnce_def)
    next
      case (Inr st)
      obtain e q pa1 where ev: "EvictExpiredReservedProcesses (mv_authorizer (at 4 v)) (sub (daemon_world (at 4 v)) 0)
          st ps = (e, q, pa1)" by (metis surj_pair)
      have "R (mo_store m3) (mo_store (enforcement_pass (at 4 v) st ps m3))"
        by (rule enforcement_pass_R [OF env ev may_release_all]) (use assms prune_R in simp)
      with p None m3 Inr R_trans [OF a3] show ?thesis by (simp add: monitorOnce_def)
    qed
  qed
qed

end

section \<open>Ticks as paths of store operations\<close>

interpretation tick: tick_relation "store_path L" "\<lambda>E. e_lib E = L" for L
  by unfold_locales (blast intro: one_step step.intros)+

section \<open>What a clean-up releases\<close>

text \<open>Authorizations stay in place and are at most deactivated, for a reason.\<close>

definition lowered :: "(string \<Rightarrow> bool) \<Rightarrow> authorization \<Rightarrow> authorization \<Rightarrow> bool" where
  "lowered reason a b \<longleftrightarrow> b = a \<or> b = a\<lparr>auth_Active := False\<rparr> \<and> reason (auth_ID a)"

lemma lowered_refl: "lowered reason a a" by (simp add: lowered_def)

lemma lowered_trans:
  assumes "lowered reason a b" "lowered reason b c"
  shows "lowered reason a c"
proof (cases "b = a")
  case True
  with assms(2) show ?thesis by blast
next
  case False
  with assms(1) have b: "b = a\<lparr>auth_Active := False\<rparr>" "reason (auth_ID a)" unfolding lowered_def by blast+
  have "a\<lparr>auth_Active := False\<rparr>\<lparr>auth_Active := False\<rparr> = a\<lparr>auth_Active := False\<rparr>" by simp
  with assms(2) b(1) have "c = a\<lparr>auth_Active := False\<rparr>" unfolding lowered_def by metis
  with b(2) show ?thesis unfolding lowered_def by blast
qed

definition deactivated :: "(string \<Rightarrow> bool) \<Rightarrow> store \<Rightarrow> store \<Rightarrow> bool" where
  "deactivated reason s s' \<longleftrightarrow> (consistent s \<and> sto_loaded s \<longrightarrow> consistent s' \<and> sto_loaded s' \<and>
     list_all2 (lowered reason)
       (st_Authorizations (sto_state s)) (st_Authorizations (sto_state s')))"

lemma deactivated_tx:
  assumes "\<And>st st' r. body st = Write st' r \<Longrightarrow>
    list_all2 (lowered reason)
      (st_Authorizations st) (st_Authorizations st')"
  shows "deactivated reason s (snd (runtx E body s))"
proof -
  have "consistent s' \<and> sto_loaded s' \<and>
     list_all2 (lowered reason)
       (st_Authorizations (sto_state s)) (st_Authorizations (sto_state s'))"
    if s: "consistent s" "sto_loaded s" and run: "runtx E body s = (r, s')" for r s'
  proof -
    have c: "consistent s'" using runtx_consistent [OF s(1), of E body] run by simp
    from runtx_atomic [OF s run] show ?thesis
    proof (elim disjE exE conjE)
      assume "s' = s"
      with s show ?thesis by (simp add: list.rel_refl [of "lowered reason", OF lowered_refl])
    next
      fix st v data
      assume "body (sto_state s) = Write st v" "sto_state s' = st" "sto_loaded s'"
      with assms c show ?thesis by simp
    qed
  qed
  then show ?thesis by (cases "runtx E body s") (simp add: deactivated_def)
qed

lemma deactivated_frame:
  assumes "\<And>st st' r. body st = Write st' r \<Longrightarrow> st_Authorizations st' = st_Authorizations st"
  shows "deactivated reason s (snd (runtx E body s))"
  by (rule deactivated_tx) (simp add: assms list.rel_refl [of "lowered reason", OF lowered_refl])

lemma deactivated_refl: "deactivated reason s s" by (simp add: deactivated_def list.rel_refl [of "lowered reason", OF lowered_refl])

lemma deactivated_trans:
  assumes "deactivated reason s t" "deactivated reason t u"
  shows "deactivated reason s u"
proof -
  have "list_all2 (lowered reason) xs zs"
    if "list_all2 (lowered reason) xs ys"
      "list_all2 (lowered reason) ys zs" for xs ys zs
    by (rule list_all2_trans [OF _ that]) (rule lowered_trans)
  with assms show ?thesis unfolding deactivated_def by blast
qed

lemma deactivated_release:
  assumes "reason i"
  shows "deactivated reason s (snd (ReleaseAuthorization E i s))"
  unfolding ReleaseAuthorization_def
proof (rule deactivated_tx)
  fix st st' r
  assume "release_authorization_body i st = Write st' r"
  then have "st_Authorizations st' =
      update_first (\<lambda>a. auth_ID a = i) (\<lambda>a. a\<lparr>auth_Active := False\<rparr>) (st_Authorizations st)"
    by (auto simp: release_authorization_body_def split: if_splits)
  moreover have "list_all2 (lowered reason) (st_Authorizations st)
      (update_first (\<lambda>a. auth_ID a = i) (\<lambda>a. a\<lparr>auth_Active := False\<rparr>) (st_Authorizations st))"
  proof (rule list_all2_update_first)
    show "lowered reason a a" for a by (rule lowered_refl)
    show "lowered reason a (a\<lparr>auth_Active := False\<rparr>)" if "auth_ID a = i" for a
      using assms that unfolding lowered_def by blast
  qed
  ultimately show "list_all2 (lowered reason) (st_Authorizations st) (st_Authorizations st')" by simp
qed

lemma deactivated_audits: "deactivated reason s (snd (snd (AppendAudits E io path evs log s)))"
proof -
  have "deactivated reason s (snd (runtx E (append_audits_body evs) s))"
    by (rule deactivated_frame) (auto simp: append_audits_body_def Let_def)
  then show ?thesis
    by (auto simp: AppendAudits_def deactivated_refl split: prod.splits sum.splits)
qed

lemma deactivated_frames:
  "deactivated reason s (snd (EnforcementSnapshot E s))"
  "deactivated reason s (snd (UpsertSoftClaim E c now s))"
  "deactivated reason s (snd (ReleaseSoftClaim E i s))"
  "deactivated reason s (snd (ReleaseReservation E i s))"
  "deactivated reason s (snd (ReleaseLease E i s))"
  unfolding EnforcementSnapshot_def UpsertSoftClaim_def ReleaseSoftClaim_def ReleaseReservation_def ReleaseLease_def
  by (rule deactivated_frame; auto simp: upsert_body_def release_claim_body_def release_reservation_body_def
      release_lease_body_def Let_def split: if_splits)+

interpretation release: cleanup_relation "deactivated reason" "\<lambda>_. True" reason for reason
  by unfold_locales
    (blast intro: deactivated_refl deactivated_trans deactivated_release deactivated_audits deactivated_frames)+

end
