(* ===== verification/RunCommand.thy ===== *)
theory RunCommand
  imports Handlers NodeFiles Killer
begin

text \<open>
  The run request (\<^verbatim>\<open>handleRun\<close>, \<^verbatim>\<open>runCommand\<close> and \<^verbatim>\<open>prepareRunCommand\<close> of \<^verbatim>\<open>daemon/server.go\<close>): a command
  is started as the peer inside a new cgroup, under an authorization that is stored before
  the start and activated after it, and both are given up when the command has ended. The
  request does not hold the daemon's lock between its store operations; \<open>rn_others\<close> is what other
  requests and the monitor do to the store meanwhile. Copying the output of the
  command to the client and telemetry are not part of the model.
\<close>

section \<open>Commands\<close>

record run_spec =
  rs_Command :: "string list"
  rs_Dir :: string
  rs_Env :: "string list"
  rs_Credential :: "(32 word \<times> 32 word \<times> 32 word list) option"
  rs_Cgroup :: "string option"

datatype run_effect =
    StartCommand run_spec
  | MovePID string int
  | TerminateCommand int
  | StopCgroup "cgroup_effect list"
  | ReleaseRow string
  | RemoveRunCgroup string

record run_result =
  rz_AuthorizationID :: string
  rz_ExitCode :: int

text \<open>What a run sees; a start gives the pid of the command.\<close>

record run_env =
  rn_E :: "nat \<Rightarrow> env"
  rn_clock :: "nat \<Rightarrow> time"
  rn_others :: "nat \<Rightarrow> store \<Rightarrow> store"
  rn_root :: bool
  rn_cwd :: "string result"
  rn_CgroupRoot :: string
  rn_DryRun :: bool
  rn_allowUnsafeCgroupFallback :: bool
  rn_mkdir :: "error option"
  rn_stat :: "error option"
  rn_open :: "error option"
  rn_pipes :: "nat \<Rightarrow> error option"
  rn_start :: "nat \<Rightarrow> int result"
  rn_move :: "error option"
  rn_stop :: cgroup_obs
  rn_exit :: "int \<times> error option"
  rn_procs1 :: "string result"
  rn_procs2 :: "string result"
  rn_rootExists :: bool
  rn_remove :: remove_obs

definition prepareRunCommand ::
  "run_env \<Rightarrow> nat \<Rightarrow> run_args \<Rightarrow> peer \<Rightarrow> bool \<Rightarrow> string \<Rightarrow> run_spec result" where
  "prepareRunCommand rn k args p useCgroupFD path =
     (case rn_pipes rn k of
        Some e \<Rightarrow> Inl e
      | None \<Rightarrow>
          Inr \<lparr>rs_Command = ru_Command args, rs_Dir = ru_Workdir args, rs_Env = commandEnv (ru_Env args),
               rs_Credential = (if rn_root rn \<and> pe_UID p \<ge> 0 \<and> pe_GID p \<ge> 0
                 then Some (of_int (pe_UID p), of_int (pe_GID p), pe_Groups p) else None),
               rs_Cgroup = (if useCgroupFD then Some path else None)\<rparr>)"

definition openCgroupFD :: "error option \<Rightarrow> error option \<Rightarrow> bool result" where
  "openCgroupFD stat opened =
     (case stat of
        Some e \<Rightarrow> if errors_Is e ErrNotExist then Inr False else Inl e
      | None \<Rightarrow> (case opened of Some e \<Rightarrow> Inl e | None \<Rightarrow> Inr True))"

section \<open>Ending a process group\<close>

datatype group_signal = TermGroup int | KillGroup int | KillLeader int

record group_obs =
  go_term :: "error option"
  go_alive :: "nat \<Rightarrow> bool"
  go_clock :: "nat \<Rightarrow> time"
  go_alive_after :: bool
  go_kill :: "error option"

text \<open>Sending the signal 0 tells whether a process group exists; permission may be missing.\<close>

definition processGroupAlive :: "int \<Rightarrow> error option \<Rightarrow> bool" where
  "processGroupAlive pid err \<longleftrightarrow> pid > 0 \<and> (err = None \<or> err = Some (ErrIO ''EPERM''))"

definition failed_signal :: "error option \<Rightarrow> error option" where
  "failed_signal err = (case err of None \<Rightarrow> None | Some e \<Rightarrow> if isNoSuchProcess e then None else Some e)"

definition terminateProcessGroup :: "int option \<Rightarrow> group_obs \<Rightarrow> (error option \<times> group_signal list) option" where
  "terminateProcessGroup process ob =
     (case process of
        None \<Rightarrow> Some (None, [])
      | Some pid \<Rightarrow>
          if pid \<le> 0 then Some (None, [])
          else
            (case failed_signal (go_term ob) of
               Some e \<Rightarrow> Some (Some e, [TermGroup pid, KillLeader pid])
             | None \<Rightarrow>
                 (case waitForProcessExitWith (go_alive ob) (go_clock ob) (500 * Millisecond) of
                    None \<Rightarrow> None
                  | Some _ \<Rightarrow>
                      if \<not> go_alive_after ob then Some (None, [TermGroup pid])
                      else
                        (case failed_signal (go_kill ob) of
                           Some e \<Rightarrow> Some (Some e, [TermGroup pid, KillGroup pid, KillLeader pid])
                         | None \<Rightarrow> Some (None, [TermGroup pid, KillGroup pid])))))"

section \<open>The run\<close>

text \<open>
  How the body of \<^verbatim>\<open>runCommand\<close> returns: with its answer, the store, what it did, and the three
  flags that the deferred function reads.
\<close>

record run_end =
  rd_answer :: "run_result result"
  rd_store :: store
  rd_effects :: "run_effect list"
  rd_authorizationActive :: bool
  rd_keepAuthorization :: bool
  rd_cleanupCgroup :: bool

definition run_fails :: "error \<Rightarrow> store \<Rightarrow> run_effect list \<Rightarrow> bool \<Rightarrow> run_end" where
  "run_fails e s effects active =
     \<lparr>rd_answer = Inl e, rd_store = s, rd_effects = effects, rd_authorizationActive = active,
      rd_keepAuthorization = False, rd_cleanupCgroup = True\<rparr>"

definition run_deferred :: "run_env \<Rightarrow> string \<Rightarrow> string \<Rightarrow> run_end \<Rightarrow> run_result result \<times> store \<times> run_effect list" where
  "run_deferred rn authID path d =
     (let release = rd_authorizationActive d \<and> \<not> rd_keepAuthorization d;
          s = (if release then snd (ReleaseAuthorization (rn_E rn 9) authID (rn_others rn 3 (rd_store d)))
               else rd_store d);
          released = (if release then [ReleaseRow authID] else []);
          removed = (if rd_cleanupCgroup d \<and> \<not> rd_keepAuthorization d then [RemoveRunCgroup path] else [])
      in (rd_answer d, s, rd_effects d @ released @ removed))"

definition start_command ::
  "run_env \<Rightarrow> run_args \<Rightarrow> peer \<Rightarrow> bool \<Rightarrow> string \<Rightarrow> run_spec \<Rightarrow> (int \<times> bool) result \<times> run_effect list" where
  "start_command rn args p useCgroupFD path spec =
     (case rn_start rn 0 of
        Inr pid \<Rightarrow> (Inr (pid, useCgroupFD), [StartCommand spec])
      | Inl e \<Rightarrow>
          if \<not> useCgroupFD \<or> \<not> rn_allowUnsafeCgroupFallback rn then (Inl e, [])
          else
            (case prepareRunCommand rn 1 args p False path of
               Inl e2 \<Rightarrow> (Inl e2, [])
             | Inr spec2 \<Rightarrow>
                 (case rn_start rn 1 of
                    Inl e3 \<Rightarrow> (Inl e3, [])
                  | Inr pid \<Rightarrow> (Inr (pid, False), [StartCommand spec2]))))"

definition activate_run ::
  "run_env \<Rightarrow> string \<Rightarrow> authorization \<Rightarrow> int \<Rightarrow> store \<Rightarrow> authorization result \<times> store" where
  "activate_run rn tokenSecret a pid =
     bindS (validateToken (rn_E rn 5) tokenSecret (rn_clock rn 4)) (\<lambda>(currentToken, currentHash).
       if currentHash \<noteq> auth_TokenHash a then failS (ErrNew ''token identity changed while command was starting'')
       else
         bindS (ensureTokenCanAuthorize (rn_E rn 6) currentHash currentToken (rn_clock rn 4)) (\<lambda>_.
           ActivateAuthorization (rn_E rn 7) (auth_ID a) pid))"

definition run_answer :: "run_env \<Rightarrow> authorization \<Rightarrow> run_result result" where
  "run_answer rn a =
     (case rn_exit rn of
        (exitCode, waitErr) \<Rightarrow>
          (case (if exitCode = 0 then waitErr else None) of
             Some e \<Rightarrow> Inl e
           | None \<Rightarrow> Inr \<lparr>rz_AuthorizationID = auth_ID a, rz_ExitCode = exitCode\<rparr>))"

definition run_ended :: "run_env \<Rightarrow> authorization \<Rightarrow> string \<Rightarrow> int \<Rightarrow> store \<Rightarrow> run_effect list \<Rightarrow> run_end" where
  "run_ended rn a path pid s effects =
     (if cgroupEmptyOrOnlyExitedRoot (rn_procs1 rn) (rn_procs2 rn) (rn_rootExists rn) pid then
        (case ReleaseAuthorization (rn_E rn 8) (auth_ID a) s of
           (Inl e, s1) \<Rightarrow> run_fails e s1 (effects @ [ReleaseRow (auth_ID a)]) True
         | (Inr _, s1) \<Rightarrow>
             let effects1 = effects @ [ReleaseRow (auth_ID a), RemoveRunCgroup path] in
             (case tolerate_missing (removeCgroup (rn_remove rn)) of
                Some e \<Rightarrow> run_fails e s1 effects1 False
              | None \<Rightarrow> \<lparr>rd_answer = run_answer rn a, rd_store = s1, rd_effects = effects1,
                  rd_authorizationActive = False, rd_keepAuthorization = False, rd_cleanupCgroup = False\<rparr>))
      else \<lparr>rd_answer = run_answer rn a, rd_store = s, rd_effects = effects, rd_authorizationActive = True,
             rd_keepAuthorization = True, rd_cleanupCgroup = True\<rparr>)"

definition run_started ::
  "run_env \<Rightarrow> string \<Rightarrow> authorization \<Rightarrow> string \<Rightarrow> int \<Rightarrow> bool \<Rightarrow> store \<Rightarrow> run_effect list \<Rightarrow> run_end" where
  "run_started rn tokenSecret a path pid startedWithCgroupFD s effects =
     (let moves = (if startedWithCgroupFD then [] else [MovePID path pid]) in
      case (if startedWithCgroupFD then None else rn_move rn) of
        Some e \<Rightarrow> run_fails e s (effects @ moves @ [TerminateCommand pid]) True
      | None \<Rightarrow>
          (case activate_run rn tokenSecret a pid (rn_others rn 1 s) of
             (Inl e, s1) \<Rightarrow>
               (case stopAndRemoveManagedCgroup (rn_cwd rn) (rn_CgroupRoot rn) (rn_DryRun rn) path (rn_stop rn) of
                  (stopErr, stops) \<Rightarrow>
                    (run_fails e s1 (effects @ moves @ [TerminateCommand pid, StopCgroup stops]) True)
                      \<lparr>rd_keepAuthorization := stopErr \<noteq> None\<rparr>)
           | (Inr a', s1) \<Rightarrow> run_ended rn a' path pid (rn_others rn 2 s1) (effects @ moves)))"

definition run_body ::
  "run_env \<Rightarrow> string \<Rightarrow> peer \<Rightarrow> run_args \<Rightarrow> authorization \<Rightarrow> string \<Rightarrow> store \<Rightarrow> run_end" where
  "run_body rn tokenSecret p args a path s =
     (case openCgroupFD (rn_stat rn) (rn_open rn) of
        Inl e \<Rightarrow> run_fails e s [] False
      | Inr useCgroupFD \<Rightarrow>
          if \<not> useCgroupFD \<and> \<not> rn_allowUnsafeCgroupFallback rn
          then run_fails (ErrNew ''atomic cgroup placement is unavailable; refusing to start command'') s [] False
          else
            (case prepareRunCommand rn 0 args p useCgroupFD path of
               Inl e \<Rightarrow> run_fails e s [] False
             | Inr spec \<Rightarrow>
                 (case addAuthorization (later 2 (rn_E rn)) (later 2 (rn_clock rn)) tokenSecret a (rn_others rn 0 s) of
                    (Inl e, s1) \<Rightarrow> run_fails e s1 [] False
                  | (Inr a1, s1) \<Rightarrow>
                      (case start_command rn args p useCgroupFD path spec of
                         (Inl e, effects) \<Rightarrow> run_fails e s1 effects True
                       | (Inr (pid, startedFD), effects) \<Rightarrow>
                           run_started rn tokenSecret a1 path pid startedFD s1 effects))))"

definition runCommand ::
  "run_env \<Rightarrow> string \<Rightarrow> token \<Rightarrow> string \<Rightarrow> peer \<Rightarrow> run_args \<Rightarrow> store \<Rightarrow>
   run_result result \<times> store \<times> run_effect list" where
  "runCommand rn tokenSecret t tokenHash p args s =
     (if pe_UID p < 0 \<or> pe_GID p < 0 then (Inl (ErrNew ''verified peer credentials are required''), s, [])
      else
        (case ensureTokenCanAuthorize (rn_E rn 0) tokenHash t (rn_clock rn 0) s of
           (Inl e, s1) \<Rightarrow> (Inl e, s1, [])
         | (Inr _, s1) \<Rightarrow>
             (case validateRunArgs args of
                Some e \<Rightarrow> (Inl e, s1, [])
              | None \<Rightarrow>
                  let a = (new_authorization (rn_E rn 1) ModeBare t tokenHash (pe_UID p) (pe_GID p) (rn_clock rn 1))
                            \<lparr>auth_Command := ru_Command args\<rparr>
                  in
                  (case createCgroup (rn_CgroupRoot rn) (auth_ID a) (rn_mkdir rn) of
                     Inl e \<Rightarrow> (Inl e, s1, [])
                   | Inr (path, rel) \<Rightarrow>
                       run_deferred rn (auth_ID a) path
                         (run_body rn tokenSecret p args (a\<lparr>auth_CgroupPath := path, auth_CgroupRel := rel\<rparr>)
                            path s1)))))"

definition handleRun ::
  "run_env \<Rightarrow> env \<Rightarrow> time \<Rightarrow> string \<Rightarrow> arg_stream \<Rightarrow> peer \<Rightarrow> store \<Rightarrow>
   run_result result \<times> store \<times> run_effect list" where
  "handleRun rn E now tokenSecret raw p s =
     (case validateToken E tokenSecret now s of
        (Inl e, s1) \<Rightarrow> (Inl e, s1, [])
      | (Inr (t, tokenHash), s1) \<Rightarrow>
          (case decodeRunArgs raw of
             Inl e \<Rightarrow> (Inl e, s1, [])
           | Inr args \<Rightarrow> runCommand rn tokenSecret t tokenHash p args s1))"

end
