(* ===== verification/RunProps.thy ===== *)
theory RunProps
  imports RunCommand HandlerProps
begin

text \<open>
  What a run guarantees: it starts nothing but the given command, as the peer, born in a cgroup
  below the root, under a stored authorization of a usable token; it gives the authorization
  and the cgroup up only when no process can be left in it; and it changes the store through
  its operations only.
\<close>

section \<open>Starts\<close>

lemma start_command_placed:
  assumes "\<not> rn_allowUnsafeCgroupFallback rn" "start_command rn args p True path spec = (r, effects)"
  shows "(\<exists>e. r = Inl e \<and> effects = []) \<or>
    (\<exists>pid. rn_start rn 0 = Inr pid \<and> r = Inr (pid, True) \<and> effects = [StartCommand spec])"
  using assms by (auto simp: start_command_def split: sum.splits)

lemma run_deferred_starts:
  "run_deferred rn i path d = (r, s', effects) \<Longrightarrow>
     StartCommand spec \<in> set effects \<longleftrightarrow> StartCommand spec \<in> set (rd_effects d)"
  by (auto simp: run_deferred_def Let_def)

lemma run_ended_starts: "StartCommand spec \<in> set (rd_effects (run_ended rn a path pid s effects)) \<longleftrightarrow> StartCommand spec \<in> set effects"
  by (auto simp: run_ended_def run_fails_def Let_def split: prod.splits sum.splits option.splits)

lemma run_started_starts:
  "StartCommand spec \<in> set (rd_effects (run_started rn secret a path pid fd s effects)) \<longleftrightarrow> StartCommand spec \<in> set effects"
  by (auto simp: run_started_def run_fails_def Let_def run_ended_starts split: prod.splits sum.splits option.splits)

text \<open>How a body without the fallback reaches a start.\<close>

lemma run_body_start:
  assumes "\<not> rn_allowUnsafeCgroupFallback rn" "StartCommand spec \<in> set (rd_effects (run_body rn secret p args a path s))"
  obtains a1 s1 pid where "prepareRunCommand rn 0 args p True path = Inr spec" "rn_start rn 0 = Inr pid"
    "addAuthorization (later 2 (rn_E rn)) (later 2 (rn_clock rn)) secret a (rn_others rn 0 s) = (Inr a1, s1)"
    "run_body rn secret p args a path s = run_started rn secret a1 path pid True s1 [StartCommand spec]"
proof -
  have "StartCommand spec \<notin> set (rd_effects (run_fails e s2 [] b))" for e s2 b by (simp add: run_fails_def)
  with assms obtain spec0 a1 s1 where fd: "openCgroupFD (rn_stat rn) (rn_open rn) = Inr True"
    and spec0: "prepareRunCommand rn 0 args p True path = Inr spec0"
    and add: "addAuthorization (later 2 (rn_E rn)) (later 2 (rn_clock rn)) secret a (rn_others rn 0 s) = (Inr a1, s1)"
    unfolding run_body_def by (auto split: sum.splits prod.splits if_splits)
  obtain r effects where st: "start_command rn args p True path spec0 = (r, effects)" by (metis surj_pair)
  have body: "run_body rn secret p args a path s =
      (case (r, effects) of (Inl e, effects) \<Rightarrow> run_fails e s1 effects True
       | (Inr (pid, fd), effects) \<Rightarrow> run_started rn secret a1 path pid fd s1 effects)"
    by (simp add: run_body_def fd spec0 add st)
  from start_command_placed [OF assms(1) st] show thesis
  proof (elim disjE exE conjE)
    fix e
    assume "r = Inl e" "effects = []"
    with assms(2) body show thesis by (simp add: run_fails_def)
  next
    fix pid
    assume r: "rn_start rn 0 = Inr pid" "r = Inr (pid, True)" "effects = [StartCommand spec0]"
    with assms(2) body have "spec = spec0" by (simp add: run_started_starts)
    with that spec0 add r body show thesis by simp
  qed
qed

text \<open>How a run reaches its body.\<close>

lemma runCommand_body:
  assumes "runCommand rn secret t h p args s = (r, s', effects)" "effects \<noteq> []"
  obtains s1 path rel a where "pe_UID p \<ge> 0" "pe_GID p \<ge> 0" "validateRunArgs args = None"
    "ensureTokenCanAuthorize (rn_E rn 0) h t (rn_clock rn 0) s = (Inr (), s1)"
    "a = (new_authorization (rn_E rn 1) ModeBare t h (pe_UID p) (pe_GID p) (rn_clock rn 1))
       \<lparr>auth_Command := ru_Command args, auth_CgroupPath := path, auth_CgroupRel := rel\<rparr>"
    "createCgroup (rn_CgroupRoot rn) (auth_ID a) (rn_mkdir rn) = Inr (path, rel)"
    "run_deferred rn (auth_ID a) path (run_body rn secret p args a path s1) = (r, s', effects)"
  using assms by (auto simp: runCommand_def Let_def not_less split: if_splits prod.splits sum.splits option.splits)

section \<open>Giving up\<close>

text \<open>No process can be left: the cgroup was seen empty but for the exited command, or was stopped.\<close>

definition none_left :: "run_env \<Rightarrow> string \<Rightarrow> int \<Rightarrow> bool" where
  "none_left rn path pid \<longleftrightarrow>
     cgroupEmptyOrOnlyExitedRoot (rn_procs1 rn) (rn_procs2 rn) (rn_rootExists rn) pid \<or>
     fst (stopAndRemoveManagedCgroup (rn_cwd rn) (rn_CgroupRoot rn) (rn_DryRun rn) path (rn_stop rn)) = None"

definition gives_up :: "run_effect \<Rightarrow> bool" where
  "gives_up e \<longleftrightarrow> (\<exists>i. e = ReleaseRow i) \<or> (\<exists>path. e = RemoveRunCgroup path)"

lemma run_ended_gives_up:
  assumes "d = run_ended rn a path pid s effects" "\<not> (\<exists>e\<in>set effects. gives_up e)"
    and "(\<exists>e\<in>set (rd_effects d). gives_up e) \<or> \<not> rd_keepAuthorization d"
  shows "none_left rn path pid"
  using assms by (auto simp: run_ended_def none_left_def run_fails_def Let_def split: if_splits)

lemma run_started_gives_up:
  assumes "d = run_started rn secret a path pid True s [StartCommand spec]"
    and "(\<exists>e\<in>set (rd_effects d). gives_up e) \<or> \<not> rd_keepAuthorization d"
  shows "none_left rn path pid"
proof (cases "activate_run rn secret a pid (rn_others rn 1 s)")
  case (Pair r s1)
  show ?thesis
  proof (cases r)
    case (Inl e)
    obtain stopErr stops where stop:
      "stopAndRemoveManagedCgroup (rn_cwd rn) (rn_CgroupRoot rn) (rn_DryRun rn) path (rn_stop rn) = (stopErr, stops)"
      by (metis surj_pair)
    with assms Pair Inl have "stopErr = None" by (auto simp: run_started_def run_fails_def gives_up_def)
    with stop show ?thesis by (simp add: none_left_def)
  next
    case (Inr a')
    with Pair assms(1) have "d = run_ended rn a' path pid (rn_others rn 2 s1) [StartCommand spec]"
      by (simp add: run_started_def)
    from run_ended_gives_up [OF this _ assms(2)] show ?thesis by (simp add: gives_up_def)
  qed
qed

lemma run_deferred_gives_up:
  "\<lbrakk>run_deferred rn i path d = (r, s', effects); e \<in> set effects; gives_up e\<rbrakk> \<Longrightarrow>
     (\<exists>e\<in>set (rd_effects d). gives_up e) \<or> \<not> rd_keepAuthorization d"
  by (auto simp: run_deferred_def Let_def split: if_splits)

section \<open>The store\<close>

lemma activate_run_moves:
  assumes "\<And>i. e_lib (rn_E rn i) = L"
  shows "moves (store_path L) (activate_run rn secret a pid)"
proof -
  have "moves (store_path L) (ActivateAuthorization E i pid)" if "e_lib E = L" for E i
    unfolding moves_def using that by (blast intro: one_step step.intros)
  then show ?thesis
    unfolding activate_run_def
    by (intro chain.moves_rules validateToken_moves ensureToken_moves assms) (simp_all add: assms)
qed

lemma release_path: "e_lib E = L \<Longrightarrow> store_path L s (snd (ReleaseAuthorization E i s))"
  by (intro one_step step.release_authorization)

lemma run_ended_path:
  assumes "\<And>i. e_lib (rn_E rn i) = L"
  shows "store_path L s (rd_store (run_ended rn a path pid s effects))"
  using release_path [OF assms, of s 8 "auth_ID a"] chain.R_refl
  by (auto simp: run_ended_def run_fails_def Let_def split: prod.split sum.split option.split)

lemma run_started_path:
  assumes "\<And>i. e_lib (rn_E rn i) = L" "\<And>k s. store_path L s (rn_others rn k s)"
  shows "store_path L s (rd_store (run_started rn secret a path pid fd s effects))"
proof (cases "activate_run rn secret a pid (rn_others rn 1 s)")
  case (Pair r s1)
  have "store_path L (rn_others rn 1 s) s1"
    using activate_run_moves [OF assms(1)] Pair unfolding moves_def by (metis snd_conv)
  then have s1: "store_path L s s1" using assms(2) chain.R_trans by blast
  have "store_path L s1 (rd_store (run_ended rn a' path pid (rn_others rn 2 s1) eff))" for a' eff
    using run_ended_path [OF assms(1)] assms(2) chain.R_trans by blast
  with s1 have "store_path L s (rd_store (run_ended rn a' path pid (rn_others rn 2 s1) eff))" for a' eff
    using chain.R_trans by blast
  with Pair s1 chain.R_refl show ?thesis
    by (auto simp: run_started_def run_fails_def Let_def split: sum.split option.split prod.split)
qed

lemma run_body_path:
  assumes "\<And>i. e_lib (rn_E rn i) = L" "\<And>k s. store_path L s (rn_others rn k s)"
  shows "store_path L s (rd_store (run_body rn secret p args a path s))"
proof -
  let ?E = "later 2 (rn_E rn)" and ?c = "later 2 (rn_clock rn)"
  obtain r s1 where add: "addAuthorization ?E ?c secret a (rn_others rn 0 s) = (r, s1)" by (metis surj_pair)
  have "moves (store_path L) (addAuthorization ?E ?c secret a)"
    unfolding addAuthorization_def addAuthorizationLocked_def Let_def
    by (intro chain.moves_rules store_moves validateToken_moves ensureToken_moves; simp add: later_def assms(1))
  with add have "store_path L (rn_others rn 0 s) s1" unfolding moves_def by (metis snd_conv)
  then have s1: "store_path L s s1" using assms(2) chain.R_trans by blast
  have "store_path L s (rd_store (run_started rn secret a' path pid fd s1 eff))" for a' pid fd eff
    using chain.R_trans [OF s1 run_started_path [OF assms]] .
  with add s1 chain.R_refl show ?thesis
    by (auto simp: run_body_def run_fails_def split: sum.split prod.split)
qed

lemma runCommand_path:
  assumes "\<And>i. e_lib (rn_E rn i) = L" "\<And>k s. store_path L s (rn_others rn k s)"
    and "runCommand rn secret t h p args s = (r, s', effects)"
  shows "store_path L s s'"
proof -
  obtain q s1 where e: "ensureTokenCanAuthorize (rn_E rn 0) h t (rn_clock rn 0) s = (q, s1)" by (metis surj_pair)
  have s1: "store_path L s s1"
    using ensureToken_moves [OF assms(1)] e unfolding moves_def by (metis snd_conv)
  have d: "store_path L s1 (fst (snd (run_deferred rn i path (run_body rn secret p args a path s1))))" for i path a
  proof -
    let ?d = "run_body rn secret p args a path s1"
    have "store_path L s1 (rd_store ?d)" by (rule run_body_path [OF assms(1,2)])
    moreover have "store_path L (rd_store ?d) (snd (ReleaseAuthorization (rn_E rn 9) i (rn_others rn 3 (rd_store ?d))))"
      using chain.R_trans [OF assms(2) release_path [OF assms(1)]] .
    ultimately show ?thesis using chain.R_trans by (auto simp: run_deferred_def Let_def)
  qed
  have "store_path L s (fst (snd (run_deferred rn i path (run_body rn secret p args a path s1))))" for i path a
    using chain.R_trans [OF s1 d] .
  then show ?thesis
    using assms(3) e s1 chain.R_refl
    by (auto simp: runCommand_def Let_def split: if_splits sum.splits option.splits prod.splits) (metis fst_conv snd_conv)+
qed

end
