(* ===== verification/DaemonTheorems.thy ===== *)
theory DaemonTheorems
  imports MonitorProps RunProps EnforceTheorems
begin

text \<open>
  The properties of the daemon's requests: admission, grants, registrations, bypass rules, the
  cgroups it manages, and the store after any sequence of requests.
\<close>

section \<open>A daemon and its requests\<close>

definition demo_node :: node where
  "demo_node = \<lparr>nd_GPUCount = 2, nd_bootID = ''boot'', nd_hasProc = True, nd_Info = (\<lambda>pid. Inr (proc_of pid)),
     nd_processes = Inr [gpu_proc 7 41], nd_authorizer = guard 150, nd_world = calm_world, nd_order = (\<lambda>gs. gs),
     nd_format = (\<lambda>_. ''time''), nd_parseTime = (\<lambda>text. Inr (if text = ''from'' then 100 else 200)), nd_ctx = None, nd_dockerSlots = 0,
     nd_resolveDocker = (\<lambda>_. Inr ''0123456789ab''), nd_kubeTools = True, nd_lookupUID = (\<lambda>_. Inr 1000)\<rparr>"

definition demo_stream :: arg_stream where
  "demo_stream = Fields_of [(''mode'', JStr ''reserved''), (''name'', JStr ''alice''), (''purpose'', JStr ''train''),
     (''external_session_id'', JStr ''s1''), (''gpus'', JArr [JInt 0, JInt 1] Closed), (''root_key'', JStr demo_key),
     (''starts_at'', JStr ''from''), (''expires_at'', JStr ''to'')] Closed None"

definition demo_request :: "string \<Rightarrow> string \<Rightarrow> request_data" where
  "demo_request method tok = \<lparr>rq_Method = method, rq_Token = tok, rq_stream = demo_stream,
     rq_container = Inr ''jupyter'', rq_namespace = Inr ''ml'', rq_user = Inr ''alice'', rq_gpu = Inr 0,
     rq_tokenInfo = [], rq_rootKey = Inr demo_key,
     rq_bypass = Inr \<lparr>ba_RootKey = demo_key, ba_Type = ''pid'', ba_PID = 41, ba_Command = [], ba_UID = 0,
       ba_TTL = ''1h'', ba_Reason = ''driver''\<rparr>,
     rq_revoke = Inr (demo_key, ''tok_1'')\<rparr>"

section \<open>Requests and the store\<close>

text \<open>
  The life of a daemon from an empty node: requests, ticks of the monitor and restarts, in any
  order. The lock of the daemon makes requests and ticks one step each; a run does not hold it, so
  other steps happen to the store while it runs.
\<close>

datatype daemon_event =
    Request node "nat \<Rightarrow> env" "nat \<Rightarrow> time" peer request_data
  | Run run_env env time string arg_stream peer
  | Tick monitor_env
  | Restart

fun uses_lib :: "golib \<Rightarrow> daemon_event \<Rightarrow> bool" where
  "uses_lib L (Request N E clock p req) \<longleftrightarrow> (\<forall>i. e_lib (E i) = L)"
| "uses_lib L (Run rn E now tok raw p) \<longleftrightarrow>
     e_lib E = L \<and> (\<forall>i. e_lib (rn_E rn i) = L) \<and> (\<forall>k s. store_path L s (rn_others rn k s))"
| "uses_lib L (Tick v) \<longleftrightarrow> (\<forall>p. e_lib (mv_E v p) = L)"
| "uses_lib L Restart \<longleftrightarrow> True"

definition no_sample :: read_cache where "no_sample = \<lparr>rc_at = 0, rc_rows = [], rc_err = None\<rparr>"

definition new_monitor :: "store \<Rightarrow> audit_log \<Rightarrow> monitor" where
  "new_monitor s log = \<lparr>mo_store = s, mo_log = log, mo_evictionClean = Map.empty, mo_lastGPUError = [],
     mo_lastGPUErrorAt = 0, mo_lastKillError = [], mo_lastKillErrorAt = 0, mo_cache = no_sample, mo_effects = []\<rparr>"

fun live :: "daemon_event \<Rightarrow> monitor \<Rightarrow> monitor" where
  "live (Request N E clock p req) m =
     (case dispatch N E clock p req (mo_cache m, mo_store m) of (_, c, s) \<Rightarrow> m\<lparr>mo_cache := c, mo_store := s\<rparr>)"
| "live (Run rn E now tok raw p) m = m\<lparr>mo_store := fst (snd (handleRun rn E now tok raw p (mo_store m)))\<rparr>"
| "live (Tick v) m = monitorOnce v m"
| "live Restart m = new_monitor (restart (mo_store m)) (mo_log m)"

lemma path_reachable: "\<lbrakk>store_path L s s'; reachable L s\<rbrakk> \<Longrightarrow> reachable L s'"
  unfolding store_path_def by (induction rule: rtranclp_induct) (auto intro: reachable.more)

lemma handleRun_path:
  assumes "e_lib E = L" "\<forall>i. e_lib (rn_E rn i) = L" "\<forall>k s. store_path L s (rn_others rn k s)"
  shows "store_path L s (fst (snd (handleRun rn E now tok raw p s)))"
proof -
  obtain r s1 where v: "validateToken E tok now s = (r, s1)" by (metis surj_pair)
  have s1: "store_path L s s1" using validateToken_moves [OF assms(1)] v unfolding moves_def by (metis snd_conv)
  have "store_path L s1 (fst (snd (runCommand rn tok t h p args s1)))" for t h args
    using runCommand_path [of rn L tok t h p args s1] assms(2,3) by (metis prod.collapse)
  then have "store_path L s (fst (snd (runCommand rn tok t h p args s1)))" for t h args
    using chain.R_trans [OF s1] by blast
  with v s1 show ?thesis by (auto simp: handleRun_def split: sum.split prod.split)
qed

lemma live_path: "uses_lib L e \<Longrightarrow> store_path L (mo_store m) (mo_store (live e m))"
proof (cases e)
  case (Request N E clock p req)
  assume "uses_lib L e"
  with Request have "server_path L (mo_cache m, mo_store m) (snd (dispatch N E clock p req (mo_cache m, mo_store m)))"
    using dispatch_moves [of E L N clock p req] by (simp add: moves_def)
  with Request show ?thesis by (auto simp: server_path_def split: prod.split)
next
  case (Run rn E now tok raw p)
  assume "uses_lib L e"
  with Run show ?thesis by (simp add: handleRun_path)
next
  case (Tick v)
  assume "uses_lib L e"
  with Tick show ?thesis by (simp add: tick.monitorOnce_R)
next
  case Restart
  then show ?thesis by (simp add: new_monitor_def one_step step.restart)
qed

lemma lives_reachable:
  "\<lbrakk>list_all (uses_lib L) es; reachable L (mo_store m)\<rbrakk> \<Longrightarrow> reachable L (mo_store (fold live es m))"
  by (induction es arbitrary: m) (auto intro: path_reachable live_path)

text \<open>
  C12: whatever a daemon goes through, requests, runs of commands, ticks of the monitor and restarts in
  any order with any failures of the system calls below them, its memory agrees with the commit point, no
  two live reservations of a GPU overlap, every reservation has a window of at most 30 days and
  there is one soft claim per GPU and token.
\<close>

theorem daemon_sound:
  assumes "codec_ok L" "list_all (uses_lib L) es" "m = fold live es (new_monitor (New None rootkey) log)"
  shows "consistent (mo_store m) \<and> exclusive (st_Reservations (sto_state (mo_store m))) \<and>
    (\<forall>r\<in>set (st_Reservations (sto_state (mo_store m))). window_ok r) \<and>
    distinct (slots (st_SoftClaims (sto_state (mo_store m))))"
proof -
  have "reachable L (mo_store m)"
    unfolding assms(3) by (rule lives_reachable [OF assms(2)]) (simp add: new_monitor_def reachable.fresh)
  then have ok: "store_ok L sound_state (mo_store m)" by (rule reachable_ok [OF _ assms(1)])
  then have "sound_state (sto_state (mo_store m))" by (cases "sto_loaded (mo_store m)") (auto simp: store_ok_def)
  with store_ok_consistent [OF ok] show ?thesis by (simp add: sound_state_def)
qed

definition demo_root :: peer where "demo_root = \<lparr>pe_PID = 1, pe_UID = 0, pe_GID = 0, pe_Groups = [0]\<rparr>"
definition demo_user :: peer where "demo_user = \<lparr>pe_PID = 7, pe_UID = 1000, pe_GID = 1000, pe_Groups = [1000]\<rparr>"

lemma alice_served:
  "dispatch demo_node (\<lambda>_. demoE 0) (\<lambda>_. 50) demo_root (demo_request ''register'' []) (no_sample, fresh_node) =
     (Inr (ReplyRegister \<lparr>rr_Token = ''gk_0'', rr_TokenID = ''tok_1'', rr_GroupID = ''tok_1'', rr_Mode = ''reserved'',
        rr_ReservationIDs = [''res_2'', ''res_3''], rr_GPUs = [0, 1], rr_StartsAt = Some 100,
        rr_ExpiresAt = Some 200\<rparr>), no_sample, demo1)"
  by code_simp

definition empty_log :: audit_log where "empty_log = \<lparr>al_file = None, al_backup = None\<rparr>"

definition quiet_io :: log_io where
  "quiet_io = \<lparr>li_mkdir = None, li_lstat = None, li_lstat_backup = None, li_remove = None, li_rename = None,
     li_chmod_backup = None, li_syncdir_rotate = None, li_open = None, li_stat = None, li_chmod = None,
     li_write = None, li_sync = None, li_close = None, li_syncdir = None\<rparr>"

definition empty_cgroup :: cgroup_obs where
  "empty_cgroup = \<lparr>cg_procs1 = Inr [], cg_open = None, cg_write = None, cg_close = None, cg_procs2 = Inr [],
     cg_remove = \<lparr>ro_remove = None, ro_cgroup2 = Inr True, ro_control = Inr False, ro_remove_control = None,
       ro_remove_again = None\<rparr>\<rparr>"

definition demo_tick :: "time \<Rightarrow> state \<Rightarrow> state \<Rightarrow> monitor_env" where
  "demo_tick now a b = \<lparr>mv_E = (\<lambda>_. demo_env a b 0), mv_io = (\<lambda>_. quiet_io), mv_clock = (\<lambda>_. now),
     mv_cgroup = (\<lambda>_. empty_cgroup), mv_Exists = (\<lambda>_ _. True), mv_Proc = True, mv_cwd = Inr ''/'',
     mv_CgroupRoot = ''/sys/fs/cgroup/gpuardian'', mv_DryRun = False, mv_AuditLog = [], mv_authorizer = guard now,
     mv_world = calm_world, mv_order = (\<lambda>gs. gs), mv_processes = ([gpu_proc 0 41], None),
     mv_resample = Inr [gpu_proc 0 41], mv_errText = (\<lambda>_. ''error'')\<rparr>"

definition demo_life :: "daemon_event list" where
  "demo_life = [Request demo_node (\<lambda>_. demoE 0) (\<lambda>_. 50) demo_root (demo_request ''register'' []),
     Tick (demo_tick 60 demo_state1 demo_state2), Restart, Tick (demo_tick 70 demo_state1 demo_state2)]"

theorem daemon_sound_witness:
  "st_Reservations (sto_state (mo_store (fold live demo_life (new_monitor fresh_node empty_log)))) = alice_reservations \<and>
   exclusive alice_reservations"
proof -
  have run: "st_Reservations (sto_state (mo_store (fold live demo_life (new_monitor fresh_node empty_log)))) =
      alice_reservations" by code_simp
  have "list_all (uses_lib demoL) demo_life" by (simp add: demo_life_def demo_tick_def)
  from daemon_sound [OF demo_codec this refl, of "Some demo_keyfile" empty_log] run show ?thesis by simp
qed

section \<open>Grants\<close>

text \<open>
  C13: an authorization is granted only to the holder of a usable token, one with the hash of the
  secret in the request; with the mode reserved only while a reservation of that token is
  active; and one with a pattern only to root. The row that is stored carries that hash and the
  expiry of the token, and nothing else of the state changes.
\<close>

theorem grants_backed:
  assumes "consistent s" "sto_loaded s" "\<forall>i. e_lib (E i) = L"
    and "dispatch N E clock p req (c, s) = (Inr (ReplyAllow r), c', s')"
  shows "\<exists>a t. r = allow_result_of a \<and>
    sto_state s' = (sto_state s)\<lparr>st_Authorizations := st_Authorizations (sto_state s) @ [a]\<rparr> \<and>
    t \<in> set (st_Tokens (sto_state s)) \<and> tokenActiveAt t (clock 3) \<and>
    tok_Hash t = gl_sha256hex L (TrimSpace (rq_Token req)) \<and>
    auth_TokenHash a = tok_Hash t \<and> auth_ExpiresAt a = tok_ExpiresAt t \<and>
    (NormalizeTokenMode (tok_Mode t) = TokenModeReserved \<longrightarrow>
       (\<exists>r\<in>set (st_Reservations (sto_state s)). res_TokenHash r = tok_Hash t \<and> ReservationActiveAt r (clock 3))) \<and>
    (CHR ''*'' \<in> set (auth_ContainerPattern a @ auth_Namespace a @ auth_Username a) \<longrightarrow> pe_UID p = 0)"
proof -
  let ?E = "later 1 E" and ?clock = "later 1 clock" and ?tok = "rq_Token req"
  have eq: "HashToken (?E 2) h = gl_sha256hex L h" "?clock 2 = clock 3" for h
    using assms(3) by (simp_all add: later_def HashToken_def numeral_3_eq_3 numeral_2_eq_2)
  have "\<exists>a. r = allow_result_of a \<and> granted s (HashToken (?E 2) (TrimSpace ?tok)) (?clock 2) (pe_UID p) a s'"
  proof -
    from assms(4) consider
        "allow_request E (clock 0) ?tok (rq_container req)
           (\<lambda>t h. createDockerAuthorization N ?E ?clock ?tok t h p) s = (Inr (ReplyAllow r), s')"
      | "allow_request E (clock 0) ?tok (rq_namespace req)
           (\<lambda>t h. createK8sAuthorization N ?E ?clock ?tok t h p) s = (Inr (ReplyAllow r), s')"
      | "allow_request E (clock 0) ?tok (rq_user req)
           (\<lambda>t h. createUserAuthorization N ?E ?clock ?tok t h p) s = (Inr (ReplyAllow r), s')"
      by (auto simp: dispatch_def Let_def succeeds root_only_def split: if_splits prod.splits)
    then show ?thesis
    proof cases
      case 1
      then show ?thesis by (rule allow_request_granted [OF assms(1,2)]) (rule create_docker_granted [OF assms(1,2)])
    next
      case 2
      then show ?thesis by (rule allow_request_granted [OF assms(1,2)]) (rule create_k8s_granted [OF assms(1,2)])
    next
      case 3
      then show ?thesis by (rule allow_request_granted [OF assms(1,2)]) (rule create_user_granted [OF assms(1,2)])
    qed
  qed
  then obtain a where a: "r = allow_result_of a"
    "granted s (gl_sha256hex L (TrimSpace ?tok)) (clock 3) (pe_UID p) a s'" unfolding eq by blast
  then obtain t where t: "entitled (sto_state s) (gl_sha256hex L (TrimSpace ?tok)) (clock 3) t"
    "auth_TokenHash a = gl_sha256hex L (TrimSpace ?tok)" "auth_ExpiresAt a = tok_ExpiresAt t"
    unfolding granted_def by blast
  show ?thesis
    by (rule exI [of _ a], rule exI [of _ t])
      (use a t in \<open>simp add: granted_def entitled_def pattern_of_def\<close>)
qed

definition granted_auth :: authorization where
  "granted_auth = zero_authorization\<lparr>auth_ID := ''auth_0'', auth_Mode := ''docker'', auth_TokenHash := ''hgk_0'',
     auth_TokenMode := ''reserved'', auth_Holder := ''alice'', auth_UID := 1000, auth_GID := 1000,
     auth_ContainerID := ''0123456789ab'', auth_CreatedAt := 150, auth_ExpiresAt := 200, auth_Active := True\<rparr>"

definition granted_state :: state where
  "granted_state = demo_state1\<lparr>st_Authorizations := [granted_auth]\<rparr>"

theorem grants_backed_witness:
  "\<exists>t\<in>set (st_Tokens demo_state1). tokenActiveAt t 150 \<and> tok_Hash t = ''hgk_0'' \<and>
     (\<exists>r\<in>set (st_Reservations demo_state1). res_TokenHash r = ''hgk_0'' \<and> ReservationActiveAt r 150)"
proof -
  let ?E = "\<lambda>_ :: nat. demo_env demo_state1 granted_state 0"
  have run: "dispatch demo_node ?E (\<lambda>_. 150) demo_user (demo_request ''allow_docker'' ''gk_0'') (no_sample, demo1) =
      (Inr (ReplyAllow (allow_result_of granted_auth)), no_sample, demo_store granted_state ''B'')" by code_simp
  have h: "gl_sha256hex (demo_lib demo_state1 granted_state) (TrimSpace (rq_Token (demo_request ''allow_docker'' ''gk_0'')))
      = ''hgk_0''" by code_simp
  have mode: "NormalizeTokenMode (tok_Mode t) = TokenModeReserved" if "t \<in> set (st_Tokens demo_state1)" for t
  proof -
    from that have "t = alice_token" by (simp add: demo_state1_def)
    moreover have "NormalizeTokenMode (tok_Mode alice_token) = TokenModeReserved" by code_simp
    ultimately show ?thesis by simp
  qed
  have lib: "\<forall>i. e_lib (?E i) = demo_lib demo_state1 granted_state" by simp
  from grants_backed [OF demo_consistent(1) demo_store_simps(3) lib run, unfolded h demo_store_simps(1)]
  obtain t where "t \<in> set (st_Tokens demo_state1)" "tokenActiveAt t 150" "tok_Hash t = ''hgk_0''"
    "NormalizeTokenMode (tok_Mode t) = TokenModeReserved \<longrightarrow>
       (\<exists>r\<in>set (st_Reservations demo_state1). res_TokenHash r = tok_Hash t \<and> ReservationActiveAt r 150)"
    by blast
  with mode show ?thesis by auto
qed

section \<open>Registrations\<close>




section \<open>Bypass rules\<close>

text \<open>
  C17: a bypass rule is added only with the root key. A rule for a process carries the start time
  that was read for that pid and the boot id of the node, so it cannot cover another process; a
  rule for a command names an absolute path and covers root only. It has a reason and ends.
\<close>

theorem bypass_identified:
  assumes "consistent s" "sto_loaded s" "dispatch N E clock p req (c, s) = (Inr (ReplyBypass b), c', s')"
  shows "st_Bypasses (sto_state s') = st_Bypasses (sto_state s) @ [b] \<and>
    (\<exists>args. rq_bypass req = Inr args \<and> fst (ValidateRootKey (E 0) (ba_RootKey args) s) = Inr True) \<and>
    TrimSpace (byp_Reason b) \<noteq> [] \<and>
    (byp_Type b = BypassPID \<and> byp_PID b > 0 \<and> byp_BootID b = nd_bootID N \<and> nd_bootID N \<noteq> [] \<and>
       (\<exists>info. nd_Info N (byp_PID b) = Inr info \<and> pi_PID info = byp_PID b \<and> pi_StartTime info = byp_StartTime b \<and>
          byp_StartTime b \<noteq> 0)
     \<or> byp_Type b = BypassCommand \<and> HasPrefix (byp_Command b) ''/'' \<and> byp_UID b = 0)"
proof -
  from assms(3) obtain args s1 where args: "rq_bypass req = Inr args"
    and key: "ValidateRootKey (E 0) (ba_RootKey args) s = (Inr True, s1)"
    and add: "addBypassLocked N (later 1 E) args (clock 0) s1 = (Inr b, s')"
    by (auto simp: dispatch_def Let_def succeeds root_only_def allow_request_def split: if_splits prod.splits)
  from ValidateRootKey_frame [OF key] assms(1,2) have s1: "sto_state s1 = sto_state s" "sto_loaded s1" "consistent s1"
    by auto
  from add have "AddBypass (later 1 E 1) b s1 = (Inr (), s')"
    by (auto simp: addBypassLocked_def succeeds Let_def split: if_splits)
  then have "st_Bypasses (sto_state s') = st_Bypasses (sto_state s1) @ [b]"
    using AddBypass_loaded [OF s1(3,2)] by fastforce
  moreover have "TrimSpace (byp_Reason b) \<noteq> [] \<and>
    (byp_Type b = BypassPID \<and> byp_PID b > 0 \<and> byp_BootID b = nd_bootID N \<and> nd_bootID N \<noteq> [] \<and>
       (\<exists>info. nd_Info N (byp_PID b) = Inr info \<and> pi_PID info = byp_PID b \<and> pi_StartTime info = byp_StartTime b \<and>
          byp_StartTime b \<noteq> 0)
     \<or> byp_Type b = BypassCommand \<and> HasPrefix (byp_Command b) ''/'' \<and> byp_UID b = 0)"
    using add by (auto simp: addBypassLocked_def succeeds Let_def split: if_splits sum.splits)
  ultimately show ?thesis using args key s1(1) by auto
qed

definition driver_rule :: bypass_rule where
  "driver_rule = \<lparr>byp_ID = ''bp_0'', byp_Type = ''pid'', byp_PID = 41, byp_StartTime = 7, byp_BootID = ''boot'',
     byp_Command = [], byp_UID = 0, byp_Reason = ''driver'', byp_CreatedAt = 150, byp_ExpiresAt = 150 + Hour,
     byp_Revoked = False\<rparr>"

definition bypassed_state :: state where
  "bypassed_state = demo_state1\<lparr>st_Bypasses := [driver_rule]\<rparr>"

theorem bypass_identified_witness:
  "st_Bypasses bypassed_state = [driver_rule] \<and> byp_BootID driver_rule = nd_bootID demo_node"
proof -
  have run: "dispatch demo_node (\<lambda>_. demo_env demo_state1 bypassed_state 0) (\<lambda>_. 150) demo_root
      (demo_request ''bypass_add'' []) (no_sample, demo1) =
      (Inr (ReplyBypass driver_rule), no_sample, demo_store bypassed_state ''B'')" by code_simp
  have pid: "byp_Type driver_rule \<noteq> BypassCommand" by code_simp
  have none: "st_Bypasses demo_state1 = []" by code_simp
  show ?thesis using bypass_identified [OF demo_consistent(1) demo_store_simps(3) run] pid none by auto
qed

section \<open>Admission\<close>

text \<open>
  C16: whatever sequence of connections and disconnections the daemon sees, it admits exactly the
  ones the policy on the multiset of connected users admits: at most 256 connections, at most
  240 of users other than root and at most 32 of each of them; so root always finds a place
  while it has fewer than 16 connections.
\<close>

theorem connections_limited:
  assumes "pool_run acquireConnection releaseConnection rs no_connections = (oks, s)"
  shows "\<exists>M. spec_run may_connect rs {#} = (oks, M) \<and> counts s M \<and> size M \<le> 256 \<and>
    size (filter_mset (\<lambda>u. u \<noteq> 0) M) \<le> 240 \<and> (\<forall>u. u \<noteq> 0 \<longrightarrow> count M u \<le> 32) \<and>
    (count M 0 < 16 \<longrightarrow> fst (acquireConnection 0 s))"
proof -
  from connections.run_refines [OF assms counts_empty] obtain M where
    M: "spec_run may_connect rs {#} = (oks, M)" "counts s M" by blast
  have within: "within_limits M" using within_limits_run [OF M(1)] by (simp add: within_limits_def)
  with M root_has_a_place [OF within] acquireConnection_spec(1) [OF M(2), of 0] show ?thesis
    by (intro exI [of _ M]) (auto simp: within_limits_def)
qed

definition crowd :: "int request list" where
  "crowd = replicate 33 (Acquire 1000) @ [Release 1000, Acquire 0, Acquire 1000]"

theorem connections_limited_witness:
  "fst (pool_run acquireConnection releaseConnection crowd no_connections) =
     replicate 32 True @ [False, True, True] \<and>
   (\<exists>M. spec_run may_connect crowd {#} = (replicate 32 True @ [False, True, True], M) \<and> count M 1000 \<le> 32)"
proof -
  have run: "fst (pool_run acquireConnection releaseConnection crowd no_connections) =
     replicate 32 True @ [False, True, True]" by code_simp
  then obtain s where "pool_run acquireConnection releaseConnection crowd no_connections =
     (replicate 32 True @ [False, True, True], s)" by (metis prod.collapse)
  from connections_limited [OF this] run show ?thesis by fastforce
qed

section \<open>Cgroups\<close>




end
