(* ===== verification/MonitorTheorems.thy ===== *)
theory MonitorTheorems
  imports DaemonTheorems
begin

text \<open>
  The properties of the monitor: when a scope counts as quiet, what a clean-up may release, and
  what happens after an eviction pass that failed.
\<close>

section \<open>Clean samples\<close>

lemma HasPrefix_append: "HasPrefix (p @ s) p" "TrimPrefix (p @ s) p = s"
  by (simp_all add: HasPrefix_def TrimPrefix_def)

lemma assessed_scope:
  "assessed q (''authorization'' @ '':'' @ i) = as_Authorizations q i" "assessed q (''lease'' @ '':'' @ i) = as_Leases q i"
proof -
  have a: "''authorization'' @ '':'' @ i = ''authorization:'' @ i" and l: "''lease'' @ '':'' @ i = ''lease:'' @ i"
    by simp_all
  have "\<not> HasPrefix (''lease:'' @ i) ''authorization:''" by (simp add: HasPrefix_def)
  then show "assessed q (''authorization'' @ '':'' @ i) = as_Authorizations q i"
    "assessed q (''lease'' @ '':'' @ i) = as_Leases q i"
    unfolding a l assessed_def using HasPrefix_append by metis+
qed

lemma ready_iff:
  "evictionScopeReady (clean_counts qs) kind i \<longleftrightarrow>
     3 \<le> length qs \<and> (\<forall>q\<in>set (take 3 (rev qs)). assessed q (kind @ '':'' @ i) = Some True)"
  using takeWhile_length_iff [of 3 "\<lambda>q. assessed q (kind @ '':'' @ i) = Some True" "rev qs"]
  unfolding evictionScopeReady_def clean_counts_run evictionCleanSamples_def by simp

text \<open>
  C19: a scope without a cgroup is ready to be let go exactly when the last three assessments
  were taken with it in view and found it quiet; one assessment that saw it busy, or in
  which it was missing, starts the count again.
\<close>

theorem three_clean_samples:
  "(evictionScopeReady (clean_counts qs) ''authorization'' i \<longleftrightarrow>
     3 \<le> length qs \<and> (\<forall>q\<in>set (take 3 (rev qs)). as_Authorizations q i = Some True)) \<and>
   (evictionScopeReady (clean_counts qs) ''lease'' i \<longleftrightarrow>
     3 \<le> length qs \<and> (\<forall>q\<in>set (take 3 (rev qs)). as_Leases q i = Some True))"
  unfolding ready_iff assessed_scope by simp

definition seen_quiet :: assessment where
  "seen_quiet = \<lparr>as_Authorizations = [''auth_1'' \<mapsto> True], as_Leases = Map.empty\<rparr>"

theorem three_clean_samples_witness:
  "evictionScopeReady (clean_counts [markEvictionAssessmentUncertain seen_quiet, seen_quiet, seen_quiet, seen_quiet])
     ''authorization'' ''auth_1'' \<and>
   \<not> evictionScopeReady (clean_counts [seen_quiet, markEvictionAssessmentUncertain seen_quiet, seen_quiet, seen_quiet])
     ''authorization'' ''auth_1''"
  unfolding three_clean_samples [THEN conjunct1] by (simp add: seen_quiet_def markEvictionAssessmentUncertain_def)

section \<open>Releases\<close>

text \<open>
  C14: a clean-up leaves every authorization in its place and deactivates one only for a reason:
  it expired, was revoked or lost its token, and then either its cgroup was stopped and removed,
  or it was seen quiet in three samples (a command outside a cgroup needs no sample); or it belongs to a
  command that has finished.
\<close>

theorem releases_justified:
  assumes "consistent (mo_store m)" "sto_loaded (mo_store m)" "cleanup_rows v st m = (ok, m')"
    and "now = mv_clock v [1]" "tokens = tokenValidityByHash (st_Tokens st) now"
  shows "list_all2 (\<lambda>a b. b = a \<or> b = a\<lparr>auth_Active := False\<rparr> \<and>
      (\<exists>k<length (st_Authorizations st). \<exists>x. x = st_Authorizations st ! k \<and> auth_ID x = auth_ID a \<and> auth_Active x \<and>
         ((auth_Revoked x \<or> authorizationExpiredAt x now \<or> \<not> tokenValidForCleanup tokens (auth_TokenHash x)) \<and>
          (if auth_CgroupPath x \<noteq> []
           then fst (stopAndRemoveManagedCgroup (mv_cwd v) (mv_CgroupRoot v) (mv_DryRun v) (auth_CgroupPath x)
                  (mv_cgroup v [1, k])) = None
           else auth_Mode x = ModeBare \<or> evictionScopeReady (mo_evictionClean m) ''authorization'' (auth_ID x))
          \<or> auth_Mode x = ModeBare \<and> has_finished (at k (at 2 v)) (auth_CgroupPath x) (auth_RootPID x))))
    (st_Authorizations (sto_state (mo_store m))) (st_Authorizations (sto_state (mo_store m')))"
proof -
  define reason where "reason i \<longleftrightarrow> (\<exists>k<length (st_Authorizations st). \<exists>x. x = st_Authorizations st ! k \<and>
     auth_ID x = i \<and> auth_Active x \<and>
         ((auth_Revoked x \<or> authorizationExpiredAt x now \<or> \<not> tokenValidForCleanup tokens (auth_TokenHash x)) \<and>
          (if auth_CgroupPath x \<noteq> []
           then fst (stopAndRemoveManagedCgroup (mv_cwd v) (mv_CgroupRoot v) (mv_DryRun v) (auth_CgroupPath x)
                  (mv_cgroup v [1, k])) = None
           else auth_Mode x = ModeBare \<or> evictionScopeReady (mo_evictionClean m) ''authorization'' (auth_ID x))
          \<or> auth_Mode x = ModeBare \<and> has_finished (at k (at 2 v)) (auth_CgroupPath x) (auth_RootPID x)))" for i
  have "release.may_release reason (at 1 v) (at 2 v) st (mo_evictionClean m)"
    unfolding release.may_release_def reason_def Let_def
    by (auto simp: assms(4,5) stale_grant_def scope_gone_def at_def)
  from release.cleanup_rows_after [OF _ this] assms(1-3)
  show ?thesis by (simp add: release.after_def deactivated_def lowered_def [abs_def] reason_def)
qed

definition ending_auth :: authorization where
  "ending_auth = granted_auth\<lparr>auth_CgroupPath := ''/sys/fs/cgroup/gpuardian/auth_0''\<rparr>"

definition ending_state :: state where "ending_state = demo_state1\<lparr>st_Authorizations := [ending_auth]\<rparr>"

definition ended_state :: state where
  "ended_state = demo_state1\<lparr>st_Authorizations := [ending_auth\<lparr>auth_Active := False\<rparr>]\<rparr>"

theorem releases_justified_witness:
  "map auth_Active (st_Authorizations (sto_state (mo_store (snd (cleanup_rows (demo_tick 250 ending_state ended_state)
     ending_state (new_monitor (demo_store ending_state ''A'') empty_log)))))) = [False] \<and>
   fst (stopAndRemoveManagedCgroup (Inr ''/'') ''/sys/fs/cgroup/gpuardian'' False (auth_CgroupPath ending_auth)
     empty_cgroup) = None"
proof -
  let ?v = "demo_tick 250 ending_state ended_state" and ?m = "new_monitor (demo_store ending_state ''A'') empty_log"
  have run: "map auth_Active (st_Authorizations (sto_state (mo_store (snd (cleanup_rows ?v ending_state ?m))))) = [False]"
    by code_simp
  obtain ok m' where m': "cleanup_rows ?v ending_state ?m = (ok, m')" by (metis surj_pair)
  have bare: "auth_Mode ending_auth \<noteq> ModeBare" "auth_CgroupPath ending_auth \<noteq> []" by code_simp+
  have before: "st_Authorizations (sto_state (mo_store ?m)) = [ending_auth]" "auth_Active ending_auth"
    "st_Authorizations ending_state = [ending_auth]"
    by code_simp+
  from run m' obtain b where b: "st_Authorizations (sto_state (mo_store m')) = [b]" "\<not> auth_Active b" by auto
  have loaded: "consistent (mo_store ?m)" "sto_loaded (mo_store ?m)"
    by code_simp+
  from releases_justified [OF loaded m' refl refl] before b bare
  have "fst (stopAndRemoveManagedCgroup (mv_cwd ?v) (mv_CgroupRoot ?v) (mv_DryRun ?v) (auth_CgroupPath ending_auth)
      (mv_cgroup ?v [1, 0])) = None" by auto
  then show ?thesis using run by (simp add: demo_tick_def)
qed

section \<open>After a failed eviction\<close>

lemma uncertain_not_ready:
  assumes "EvictExpiredReservedProcesses az w st ps = (Some e, q, pa)"
  shows "\<not> evictionScopeReady (recordEvictionAssessment q clean) ''authorization'' i"
  using Evict_uncertain [OF assms, of i]
  by (auto simp: evictionScopeReady_def recordEvictionAssessment_def evictionCleanSamples_def
      assessed_scope [simplified] split: option.splits bool.splits)

text \<open>
  C20: a tick whose eviction pass failed forgets nothing: every authorization row stays in the
  store, and a row is deactivated only if it belongs to a managed cgroup or a command, never on
  the strength of samples.
\<close>

theorem failed_eviction_keeps_rows:
  assumes "consistent (mo_store m)" "sto_loaded (mo_store m)"
    and "EvictExpiredReservedProcesses (mv_authorizer v) (sub (daemon_world v) 0) st ps = (Some e, q, pa)"
    and "enforcement_pass v st ps m = m'"
  shows "list_all2 (\<lambda>a b. b = a \<or> b = a\<lparr>auth_Active := False\<rparr> \<and>
      (\<exists>x\<in>set (st_Authorizations st). auth_ID x = auth_ID a \<and> (auth_CgroupPath x \<noteq> [] \<or> auth_Mode x = ModeBare)))
    (st_Authorizations (sto_state (mo_store m))) (st_Authorizations (sto_state (mo_store m')))"
proof -
  define reason where "reason i \<longleftrightarrow> (\<exists>x\<in>set (st_Authorizations st). auth_ID x = i \<and>
    (auth_CgroupPath x \<noteq> [] \<or> auth_Mode x = ModeBare))" for i
  have "release.may_release reason (at 1 (at 5 v)) (at 2 (at 5 v)) st (recordEvictionAssessment q (mo_evictionClean m))"
    unfolding release.may_release_def reason_def Let_def
    using uncertain_not_ready [OF assms(3)] by (auto simp: scope_gone_def split: if_splits)
  from release.enforcement_pass_R [OF _ assms(3) this] assms(1,2,4)
  show ?thesis by (simp add: deactivated_def lowered_def [abs_def] reason_def)
qed

definition late_tick :: monitor_env where
  "late_tick = (demo_tick 250 guard_state demo_state1)\<lparr>mv_world := (\<lambda>_. calm_obs\<lparr>ob_ctx := Some ErrCtx\<rparr>)\<rparr>"

theorem failed_eviction_keeps_rows_witness:
  "st_Authorizations (sto_state (mo_store (enforcement_pass late_tick guard_state guard_procs
     (new_monitor (demo_store guard_state ''A'') empty_log)))) = [alice_auth]"
proof -
  let ?m = "new_monitor (demo_store guard_state ''A'') empty_log"
  let ?r = "EvictExpiredReservedProcesses (mv_authorizer late_tick) (sub (daemon_world late_tick) 0) guard_state guard_procs"
  have "fst ?r \<noteq> None" by code_simp
  then obtain e q pa where r: "?r = (Some e, q, pa)" by (metis option.exhaust prod.collapse)
  have loaded: "consistent (mo_store ?m)" "sto_loaded (mo_store ?m)" by code_simp+
  have rows: "st_Authorizations (sto_state (mo_store ?m)) = [alice_auth]" "st_Authorizations guard_state = [alice_auth]"
    by code_simp+
  have scope: "auth_CgroupPath alice_auth = []" "auth_Mode alice_auth \<noteq> ModeBare" by code_simp+
  from failed_eviction_keeps_rows [OF loaded r refl] rows scope
  obtain b where "st_Authorizations (sto_state (mo_store (enforcement_pass late_tick guard_state guard_procs ?m))) = [b]"
    "b = alice_auth" by (auto simp: list_all2_Cons1)
  then show ?thesis by simp
qed

end
