(* ===== verification/RunTheorems.thy ===== *)
theory RunTheorems
  imports DaemonTheorems
begin

text \<open>The properties of the run request.\<close>

section \<open>Starting\<close>


definition demo_command :: run_args where
  "demo_command = \<lparr>ru_Command = [''python'', ''train.py''], ru_Workdir = ''/home/alice'',
     ru_Env = [''PATH=/bin'', ''KEY=gk_0'']\<rparr>"

definition run_row :: authorization where
  "run_row = zero_authorization\<lparr>auth_ID := ''auth_0'', auth_Mode := ''bare'', auth_TokenHash := ''hgk_0'',
     auth_TokenMode := ''reserved'', auth_Holder := ''alice'', auth_UID := 1000, auth_GID := 1000,
     auth_Command := [''python'', ''train.py''], auth_CgroupPath := ''/sys/fs/cgroup/gpuardian/auth_0'',
     auth_CgroupRel := ''gpuardian/auth_0'', auth_CreatedAt := 150, auth_ExpiresAt := 200, auth_Active := True\<rparr>"

definition run_state :: state where "run_state = demo_state1\<lparr>st_Authorizations := [run_row]\<rparr>"

text \<open>A run whose command starts as pid 77 and whose activation fails, since the store cannot be saved.\<close>

definition demo_run :: run_env where
  "demo_run = \<lparr>rn_E = (\<lambda>_. demo_env demo_state1 run_state 0), rn_clock = (\<lambda>_. 150), rn_others = (\<lambda>_ s. s), rn_root = True,
     rn_cwd = Inr ''/'', rn_CgroupRoot = ''/sys/fs/cgroup/gpuardian'', rn_DryRun = False,
     rn_allowUnsafeCgroupFallback = False, rn_mkdir = None, rn_stat = None, rn_open = None, rn_pipes = (\<lambda>_. None),
     rn_start = (\<lambda>_. Inr 77), rn_move = None, rn_stop = empty_cgroup, rn_exit = (0, None), rn_procs1 = Inr [],
     rn_procs2 = Inr [], rn_rootExists = False,
     rn_remove = \<lparr>ro_remove = None, ro_cgroup2 = Inr True, ro_control = Inr False, ro_remove_control = None,
       ro_remove_again = None\<rparr>\<rparr>"

definition demo_spec :: run_spec where
  "demo_spec = \<lparr>rs_Command = [''python'', ''train.py''], rs_Dir = ''/home/alice'', rs_Env = [''PATH=/bin''],
     rs_Credential = Some (1000, 1000, [1000]), rs_Cgroup = Some ''/sys/fs/cgroup/gpuardian/auth_0''\<rparr>"

definition demo_effects :: "run_effect list" where
  "demo_effects = snd (snd (runCommand demo_run ''gk_0'' alice_token ''hgk_0'' demo_user demo_command demo1))"

lemma demo_run_effects:
  "demo_effects = [StartCommand demo_spec, TerminateCommand 77,
     StopCgroup [RemoveCgroup ''/sys/fs/cgroup/gpuardian/auth_0''], ReleaseRow ''auth_0'',
     RemoveRunCgroup ''/sys/fs/cgroup/gpuardian/auth_0'']"
  by code_simp


section \<open>Giving up\<close>

text \<open>
  C22: the authorization and the cgroup of a started command are given up only when no process can be
  left in the cgroup: it was seen empty, or with nothing but the exited command in it, or the
  daemon has just stopped and removed it. In every other case both stay for the monitor.
\<close>

theorem run_accounted:
  assumes "\<not> rn_allowUnsafeCgroupFallback rn" "runCommand rn secret t h p args s = (r, s', effects)"
    and "StartCommand spec \<in> set effects" "e \<in> set effects" "e = ReleaseRow i \<or> e = RemoveRunCgroup path"
  shows "\<exists>pid cgroup. rn_start rn 0 = Inr pid \<and> rs_Cgroup spec = Some cgroup \<and>
    (cgroupEmptyOrOnlyExitedRoot (rn_procs1 rn) (rn_procs2 rn) (rn_rootExists rn) pid \<or>
     fst (stopAndRemoveManagedCgroup (rn_cwd rn) (rn_CgroupRoot rn) (rn_DryRun rn) cgroup (rn_stop rn)) = None)"
proof -
  have up: "gives_up e" using assms(5) by (auto simp: gives_up_def)
  from assms(3) have "effects \<noteq> []" by auto
  with assms(2) obtain s1 cgroup a where
    d: "run_deferred rn (auth_ID a) cgroup (run_body rn secret p args a cgroup s1) = (r, s', effects)"
    by (rule runCommand_body) blast
  have "StartCommand spec \<in> set (rd_effects (run_body rn secret p args a cgroup s1))"
    using run_deferred_starts [OF d] assms(3) by simp
  from run_body_start [OF assms(1) this] obtain a1 s2 pid where
    spec: "prepareRunCommand rn 0 args p True cgroup = Inr spec" and pid: "rn_start rn 0 = Inr pid"
    and body: "run_body rn secret p args a cgroup s1 = run_started rn secret a1 cgroup pid True s2 [StartCommand spec]"
    by metis
  have "rs_Cgroup spec = Some cgroup" using spec by (auto simp: prepareRunCommand_def split: option.splits)
  moreover have "none_left rn cgroup pid"
    using run_started_gives_up [OF body] run_deferred_gives_up [OF d assms(4) up] by blast
  ultimately show ?thesis using pid by (auto simp: none_left_def)
qed

theorem run_accounted_witness:
  "cgroupEmptyOrOnlyExitedRoot (Inr []) (Inr []) False 77 \<or>
   fst (stopAndRemoveManagedCgroup (Inr ''/'') ''/sys/fs/cgroup/gpuardian'' False ''/sys/fs/cgroup/gpuardian/auth_0''
     empty_cgroup) = None"
proof -
  obtain r s' where run: "runCommand demo_run ''gk_0'' alice_token ''hgk_0'' demo_user demo_command demo1 =
      (r, s', demo_effects)" by (metis demo_effects_def prod.collapse)
  have start: "StartCommand demo_spec \<in> set demo_effects" "ReleaseRow ''auth_0'' \<in> set demo_effects"
    by (simp_all add: demo_run_effects)
  have "\<not> rn_allowUnsafeCgroupFallback demo_run" by code_simp
  from run_accounted [OF this run start, of "''auth_0''"] show ?thesis by (auto simp: demo_run_def demo_spec_def)
qed

end
