(* ===== verification/Codec.thy ===== *)
theory Codec
  imports GoText
begin

text \<open>
  The text encodings of the web server's secrets: \<^verbatim>\<open>encoding/hex\<close> and the unpadded forms of
  \<^verbatim>\<open>encoding/base64\<close>, as functions on byte strings, with their round trips.
\<close>

section \<open>Hexadecimal\<close>

definition hex_char :: "nat \<Rightarrow> char" where
  "hex_char n = (if n < 10 then char_of (48 + n) else char_of (87 + n))"

definition hex_value :: "char \<Rightarrow> nat option" where
  "hex_value c =
     (let n = of_char c :: nat in
      if 48 \<le> n \<and> n \<le> 57 then Some (n - 48)
      else if 97 \<le> n \<and> n \<le> 102 then Some (n - 87)
      else if 65 \<le> n \<and> n \<le> 70 then Some (n - 55)
      else None)"

fun hex_EncodeToString :: "string \<Rightarrow> string" where
  "hex_EncodeToString [] = []"
| "hex_EncodeToString (c # cs) =
     (let n = of_char c in hex_char (n div 16) # hex_char (n mod 16) # hex_EncodeToString cs)"

fun hex_DecodeString :: "string \<Rightarrow> string option" where
  "hex_DecodeString [] = Some []"
| "hex_DecodeString [c] = None"
| "hex_DecodeString (a # b # s) =
     (case (hex_value a, hex_value b) of
        (Some x, Some y) \<Rightarrow> map_option (\<lambda>r. char_of (16 * x + y) # r) (hex_DecodeString s)
      | _ \<Rightarrow> None)"

lemma hex_value_char [simp]: "n < 16 \<Longrightarrow> hex_value (hex_char n) = Some n"
  by (auto simp: hex_value_def hex_char_def Let_def)

lemma of_char_less [simp]: "(of_char (c :: char) :: nat) < 256"
  by (simp add: of_char_def)

lemma of_char_div_16 [simp]: "(of_char (c :: char) :: nat) div 16 < 16"
  using of_char_less [of c] by linarith

lemma hex_roundtrip [simp]: "hex_DecodeString (hex_EncodeToString s) = Some s"
  by (induction s) (auto simp: Let_def mult_div_mod_eq)

lemma length_hex [simp]: "length (hex_EncodeToString s) = 2 * length s"
  by (induction s) (auto simp: Let_def)

lemma hex_decoded_length: "hex_DecodeString s = Some r \<Longrightarrow> length s = 2 * length r"
  by (induction s arbitrary: r rule: hex_DecodeString.induct) (auto split: option.splits)

lemma hex_char_plain: "n < 16 \<Longrightarrow> plain_char (hex_char n) \<and> hex_char n \<noteq> CHR ''$'' \<and> hex_char n \<noteq> CHR ''.''"
proof -
  have "list_all (\<lambda>n. plain_char (hex_char n) \<and> hex_char n \<noteq> CHR ''$'' \<and> hex_char n \<noteq> CHR ''.'') [0..<16]"
    by code_simp
  then show "n < 16 \<Longrightarrow> ?thesis" by (auto simp: list_all_iff)
qed

lemma set_hex: "c \<in> set (hex_EncodeToString s) \<Longrightarrow> plain_char c \<and> c \<noteq> CHR ''$'' \<and> c \<noteq> CHR ''.''"
  using hex_char_plain [of "of_char d mod 16" for d] hex_char_plain [OF of_char_div_16]
  by (induction s) (auto simp: Let_def)

lemma hex_no_dollar [simp]: "CHR ''$'' \<notin> set (hex_EncodeToString s)"
  using set_hex by blast

lemma TrimSpace_hex [simp]: "TrimSpace (hex_EncodeToString s) = hex_EncodeToString s"
  using set_hex by (intro TrimSpace_plain) (auto simp: list_all_iff)

section \<open>Base 64\<close>

definition letters_and_digits :: string where
  "letters_and_digits = ''ABCDEFGHIJKLMNOPQRSTUVWXYZabcdefghijklmnopqrstuvwxyz0123456789''"

definition RawURLEncoding :: string where "RawURLEncoding = letters_and_digits @ ''-_''"
definition RawStdEncoding :: string where "RawStdEncoding = letters_and_digits @ ''+/''"

lemmas b64_alphabets = RawURLEncoding_def RawStdEncoding_def letters_and_digits_def

fun position :: "char \<Rightarrow> string \<Rightarrow> nat option" where
  "position c [] = None"
| "position c (d # ds) = (if c = d then Some 0 else map_option Suc (position c ds))"

fun sextets :: "nat list \<Rightarrow> nat list" where
  "sextets (a # b # c # s) =
     (let v = a * 65536 + b * 256 + c in
      v div 262144 # v div 4096 mod 64 # v div 64 mod 64 # v mod 64 # sextets s)"
| "sextets [a, b] = (let v = a * 65536 + b * 256 in [v div 262144, v div 4096 mod 64, v div 64 mod 64])"
| "sextets [a] = (let v = a * 65536 in [v div 262144, v div 4096 mod 64])"
| "sextets [] = []"

definition b64_EncodeToString :: "string \<Rightarrow> string \<Rightarrow> string" where
  "b64_EncodeToString alphabet s = map (\<lambda>n. alphabet ! n) (sextets (map of_char s))"

text \<open>
  The decoder skips carriage returns and newlines, refuses a single last digit, and ignores
  the unused low bits of the last one.
\<close>

fun octets :: "nat list \<Rightarrow> nat list option" where
  "octets (w # x # y # z # s) =
     (let v = ((w * 64 + x) * 64 + y) * 64 + z in
      map_option (\<lambda>r. v div 65536 # v div 256 mod 256 # v mod 256 # r) (octets s))"
| "octets [w, x, y] = (let v = ((w * 64 + x) * 64 + y) * 64 in Some [v div 65536, v div 256 mod 256])"
| "octets [w, x] = (let v = (w * 64 + x) * 4096 in Some [v div 65536])"
| "octets [w] = None"
| "octets [] = Some []"

definition b64_DecodeString :: "string \<Rightarrow> string \<Rightarrow> string option" where
  "b64_DecodeString alphabet s =
     (let ds = map (\<lambda>c. position c alphabet) (filter (\<lambda>c. c \<noteq> CHR 0x0D \<and> c \<noteq> CHR 0x0A) s)
      in if None \<in> set ds then None
         else map_option (map char_of) (octets (map (the_or 0) ds)))"

lemma position_nth: "\<lbrakk>distinct alphabet; n < length alphabet\<rbrakk> \<Longrightarrow> position (alphabet ! n) alphabet = Some n"
  by (induction alphabet arbitrary: n) (auto simp: nth_Cons in_set_conv_nth split: nat.splits)

lemma div_mod_64: "(v :: nat) div 64 * 64 + v mod 64 = v" by simp

lemma regroup: "((v div 262144 * 64 + v div 4096 mod 64) * 64 + v div 64 mod 64) * 64 + v mod 64 = (v :: nat)"
proof -
  have "v div 262144 = v div 4096 div 64" "v div 4096 = v div 64 div 64"
    by (simp_all add: div_mult2_eq [symmetric])
  then show ?thesis by (simp only: div_mod_64)
qed

lemma octets_sextets:
  "\<forall>a\<in>set s. a < 256 \<Longrightarrow> octets (sextets s) = Some s"
proof (induction s rule: sextets.induct)
  case (1 a b c s)
  define v where "v = a * 65536 + b * 256 + c"
  have v: "v = 256 * (256 * a + b) + c" by (simp add: v_def)
  have "v div 65536 = a" using "1.prems" by (auto simp: v_def)
  moreover have c: "v mod 256 = c" using "1.prems" unfolding v by (simp only: mod_mult_self4) simp
  moreover have "v div 256 = 256 * a + b" using "1.prems" unfolding v by (simp only: div_mult_self4) simp
  then have "v div 256 mod 256 = b" using "1.prems" by simp
  ultimately show ?case using 1 regroup [of v] by (simp add: Let_def v_def [symmetric])
next
  case (2 a b)
  define v where "v = a * 65536 + b * 256"
  have v: "v div 65536 = a" "v div 256 mod 256 = b" "v mod 64 = 0"
    using "2.prems" by (auto simp: v_def)
  with regroup [of v] show ?case by (simp add: Let_def v_def [symmetric])
next
  case (3 a)
  define v where "v = a * 65536"
  have v: "v div 65536 = a" "v mod 64 = 0" "v div 64 mod 64 = 0"
    by (auto simp: v_def)
  with regroup [of v] show ?case by (simp add: Let_def v_def [symmetric] mult.commute)
qed simp

lemma sextets_less: "\<lbrakk>\<forall>a\<in>set s. a < 256; n \<in> set (sextets s)\<rbrakk> \<Longrightarrow> n < 64"
proof (induction s rule: sextets.induct)
  case (1 a b c s)
  then show ?case by (auto simp: Let_def)
qed (auto simp: Let_def)

definition b64_alphabet :: "string \<Rightarrow> bool" where
  "b64_alphabet alphabet \<longleftrightarrow> length alphabet = 64 \<and> distinct alphabet \<and>
     list_all (\<lambda>c. c \<noteq> CHR 0x0D \<and> c \<noteq> CHR 0x0A \<and> c \<noteq> CHR ''.'') alphabet"

lemma b64_alphabets_ok [simp]: "b64_alphabet RawURLEncoding" "b64_alphabet RawStdEncoding"
  by code_simp+

lemma set_b64:
  assumes "b64_alphabet alphabet" "c \<in> set (b64_EncodeToString alphabet s)"
  shows "c \<in> set alphabet"
  using assms sextets_less [of "map of_char s"] by (auto simp: b64_EncodeToString_def b64_alphabet_def)

lemma b64_roundtrip [simp]:
  assumes "b64_alphabet alphabet"
  shows "b64_DecodeString alphabet (b64_EncodeToString alphabet s) = Some s"
proof -
  let ?ns = "sextets (map of_char s)"
  have small: "n < 64" if "n \<in> set ?ns" for n
    using sextets_less [OF _ that] by auto
  have alphabet: "length alphabet = 64" "distinct alphabet"
    "\<And>c. c \<in> set alphabet \<Longrightarrow> c \<noteq> CHR 0x0D \<and> c \<noteq> CHR 0x0A"
    using assms by (auto simp: b64_alphabet_def list_all_iff)
  have keep: "filter (\<lambda>c. c \<noteq> CHR 0x0D \<and> c \<noteq> CHR 0x0A) (b64_EncodeToString alphabet s) = b64_EncodeToString alphabet s"
    using set_b64 [OF assms] alphabet(3) by (intro filter_True) blast
  have "map (\<lambda>c. position c alphabet) (b64_EncodeToString alphabet s) = map Some ?ns"
    using small alphabet by (simp add: b64_EncodeToString_def position_nth)
  moreover have "octets ?ns = Some (map of_char s)" by (rule octets_sextets) auto
  ultimately show ?thesis by (simp add: b64_DecodeString_def keep Let_def comp_def)
qed

lemma b64_no_dot [simp]: "b64_alphabet alphabet \<Longrightarrow> CHR ''.'' \<notin> set (b64_EncodeToString alphabet s)"
  using set_b64 [of alphabet "CHR ''.''" s] by (auto simp: b64_alphabet_def list_all_iff)

lemma length_sextets: "3 * length (sextets ns) \<le> 4 * length ns + 2"
  by (induction ns rule: sextets.induct) (auto simp: Let_def)

lemma length_b64: "3 * length (b64_EncodeToString alphabet s) \<le> 4 * length s + 2"
  using length_sextets [of "map of_char s"] by (simp add: b64_EncodeToString_def)

end
