(* ===== verification/Passwords.thy ===== *)
theory Passwords
  imports Codec
begin

text \<open>
  Names and passwords of the web users (\<^verbatim>\<open>web/users.go\<close>): the normal form of user names and
  roles, the derivation of keys from passwords, and the text form of password hashes with its
  legacy variant. SHA-256 and HMAC-SHA-256 are parameters. Checking a password returns, beside
  its answer, the iteration counts of the key derivations it has run, since the code runs some
  of them only to take as long as a real check.
\<close>

section \<open>Names, roles, passwords\<close>

definition RoleAdmin :: string where "RoleAdmin = ''admin''"
definition RoleUser :: string where "RoleUser = ''user''"
definition passwordHashScheme :: string where "passwordHashScheme = ''pbkdf2-sha256''"
definition legacyPasswordHashScheme :: string where "legacyPasswordHashScheme = ''sha256''"
definition passwordHashIterations :: int where "passwordHashIterations = 600000"
definition passwordSaltBytes :: nat where "passwordSaltBytes = 16"
definition passwordKeyBytes :: nat where "passwordKeyBytes = 32"
definition minPasswordBytes :: nat where "minPasswordBytes = 12"
definition maxPasswordBytes :: nat where "maxPasswordBytes = 1024"
definition maxUsernameBytes :: nat where "maxUsernameBytes = 64"

lemmas password_constants = passwordHashScheme_def legacyPasswordHashScheme_def
  passwordHashIterations_def passwordSaltBytes_def passwordKeyBytes_def

definition normalizeUsername :: "string \<Rightarrow> string result" where
  "normalizeUsername name =
     (let username = ToLower (TrimSpace name) in
      if username = [] then Inl (ErrNew ''username is required'')
      else if length username > maxUsernameBytes then Inl (ErrValueSize ''username'' (int maxUsernameBytes))
      else if list_ex (\<lambda>r. is_space r \<or> is_control r) (runes username)
        then Inl (ErrNew ''username cannot contain whitespace or control characters'')
      else Inr username)"

definition normalizeRole :: "string \<Rightarrow> string" where
  "normalizeRole role = (if ToLower (TrimSpace role) = RoleAdmin then RoleAdmin else RoleUser)"

definition sameOwner :: "string \<Rightarrow> string \<Rightarrow> bool" where
  "sameOwner left right =
     (case (normalizeUsername left, normalizeUsername right) of
        (Inr leftName, Inr rightName) \<Rightarrow> leftName = rightName
      | _ \<Rightarrow> False)"

definition validatePassword :: "string \<Rightarrow> error option" where
  "validatePassword password =
     (if TrimSpace password = [] then Some (ErrNew ''password is required'')
      else if length password < minPasswordBytes then Some (ErrValueSize ''password must be at least'' (int minPasswordBytes))
      else if length password > maxPasswordBytes then Some (ErrValueSize ''password must be at most'' (int maxPasswordBytes))
      else None)"

section \<open>Deriving keys\<close>

record weblib =
  wl_sha256 :: "string \<Rightarrow> string"
  wl_hmac :: "string \<Rightarrow> string \<Rightarrow> string"

unbundle bit_operations_syntax

definition xor_bytes :: "string \<Rightarrow> string \<Rightarrow> string" where
  "xor_bytes t u = map2 (\<lambda>a b. char_of ((of_char a :: nat) XOR of_char b)) t u"

definition PutUint32 :: "nat \<Rightarrow> string" where
  "PutUint32 n = map char_of [n div 16777216 mod 256, n div 65536 mod 256, n div 256 mod 256, n mod 256]"

text \<open>The inner loop, for the values of the loop variable that are left.\<close>

fun pbkdf2_rounds :: "weblib \<Rightarrow> string \<Rightarrow> nat \<Rightarrow> string \<Rightarrow> string \<Rightarrow> string" where
  "pbkdf2_rounds L password 0 u t = t"
| "pbkdf2_rounds L password (Suc n) u t =
     (let u' = wl_hmac L password u in pbkdf2_rounds L password n u' (xor_bytes t u'))"

definition pbkdf2_block :: "weblib \<Rightarrow> string \<Rightarrow> string \<Rightarrow> int \<Rightarrow> nat \<Rightarrow> string" where
  "pbkdf2_block L password salt iterations block =
     (let u = wl_hmac L password (salt @ PutUint32 block)
      in pbkdf2_rounds L password (nat (iterations - 1)) u u)"

definition pbkdf2SHA256 :: "weblib \<Rightarrow> string \<Rightarrow> string \<Rightarrow> int \<Rightarrow> nat \<Rightarrow> string" where
  "pbkdf2SHA256 L password salt iterations keyLen =
     (let blocks = (keyLen + 32 - 1) div 32
      in take keyLen (concat (map (pbkdf2_block L password salt iterations) [1..<blocks + 1])))"

section \<open>Password hashes\<close>

definition encodePasswordHash :: "weblib \<Rightarrow> string result \<Rightarrow> string \<Rightarrow> string result" where
  "encodePasswordHash L random password =
     (case random of
        Inl e \<Rightarrow> Inl e
      | Inr salt \<Rightarrow>
          let sum = pbkdf2SHA256 L password salt passwordHashIterations passwordKeyBytes
          in Inr (passwordHashScheme @ ''$'' @ int_text passwordHashIterations @ ''$'' @
                  hex_EncodeToString salt @ ''$'' @ hex_EncodeToString sum))"

definition hashPassword :: "weblib \<Rightarrow> string result \<Rightarrow> string \<Rightarrow> string result" where
  "hashPassword L random password =
     (case validatePassword password of
        Some e \<Rightarrow> Inl e
      | None \<Rightarrow> encodePasswordHash L random password)"

definition hashPasswordForMigration :: "weblib \<Rightarrow> string result \<Rightarrow> string \<Rightarrow> string result" where
  "hashPasswordForMigration L random password =
     (if length password > maxPasswordBytes then Inl (ErrValueSize ''password must be at most'' (int maxPasswordBytes))
      else encodePasswordHash L random password)"

definition verifyLegacyPasswordHash :: "weblib \<Rightarrow> string list \<Rightarrow> string \<Rightarrow> bool" where
  "verifyLegacyPasswordHash L parts password =
     (case (hex_DecodeString (parts ! 1), hex_DecodeString (parts ! 2)) of
        (Some salt, Some want) \<Rightarrow> want = wl_sha256 L (salt @ password)
      | _ \<Rightarrow> False)"

definition verifyDummyPassword :: "string \<Rightarrow> int list" where
  "verifyDummyPassword password = [passwordHashIterations]"

definition verifyPasswordHash :: "weblib \<Rightarrow> string \<Rightarrow> string \<Rightarrow> bool \<times> int list" where
  "verifyPasswordHash L encoded password =
     (let parts = Split encoded (CHR ''$'') in
      if hd parts = legacyPasswordHashScheme then
        let verified = length parts = 3 \<and> verifyLegacyPasswordHash L parts password
        in (verified, if verified then [] else verifyDummyPassword password)
      else if length parts \<noteq> 4 \<or> hd parts \<noteq> passwordHashScheme then (False, [])
      else
        (case Atoi (parts ! 1) of
           None \<Rightarrow> (False, [])
         | Some iterations \<Rightarrow>
             if iterations < 100000 \<or> iterations > 2000000 then (False, [])
             else
               (case hex_DecodeString (parts ! 2) of
                  None \<Rightarrow> (False, [])
                | Some salt \<Rightarrow>
                    if length salt < passwordSaltBytes then (False, [])
                    else
                      (case hex_DecodeString (parts ! 3) of
                         None \<Rightarrow> (False, [])
                       | Some want \<Rightarrow>
                           if length want \<noteq> passwordKeyBytes then (False, [])
                           else
                             let got = pbkdf2SHA256 L password salt iterations (length want)
                             in (want = got, [iterations])))))"

definition passwordHashNeedsUpgrade :: "string \<Rightarrow> bool" where
  "passwordHashNeedsUpgrade encoded =
     (let parts = Split encoded (CHR ''$'') in
      if length parts \<noteq> 4 \<or> hd parts \<noteq> passwordHashScheme then True
      else (case Atoi (parts ! 1) of None \<Rightarrow> True | Some iterations \<Rightarrow> iterations < passwordHashIterations))"

section \<open>Properties\<close>

text \<open>The function of RFC 8018: the exclusive or of a chain of keyed hashes.\<close>

primrec chain :: "weblib \<Rightarrow> string \<Rightarrow> string \<Rightarrow> nat \<Rightarrow> string" where
  "chain L password seed 0 = wl_hmac L password seed"
| "chain L password seed (Suc n) = wl_hmac L password (chain L password seed n)"

primrec chain_xor :: "weblib \<Rightarrow> string \<Rightarrow> string \<Rightarrow> nat \<Rightarrow> string" where
  "chain_xor L password seed 0 = chain L password seed 0"
| "chain_xor L password seed (Suc n) = xor_bytes (chain_xor L password seed n) (chain L password seed (Suc n))"

lemma pbkdf2_rounds_chain:
  "pbkdf2_rounds L password n (chain L password seed k) (chain_xor L password seed k) =
   chain_xor L password seed (k + n)"
proof (induction n arbitrary: k)
  case (Suc n)
  from Suc.IH [of "Suc k"] show ?case by (simp add: Let_def)
qed simp

lemma pbkdf2_block_chain:
  "pbkdf2_block L password salt iterations block =
   chain_xor L password (salt @ PutUint32 block) (nat (iterations - 1))"
  using pbkdf2_rounds_chain [of L password "nat (iterations - 1)" "salt @ PutUint32 block" 0]
  by (simp add: pbkdf2_block_def Let_def)

definition hash_lengths :: "weblib \<Rightarrow> bool" where
  "hash_lengths L \<longleftrightarrow> (\<forall>k m. length (wl_hmac L k m) = 32) \<and> (\<forall>m. length (wl_sha256 L m) = 32)"

lemma length_chain: "hash_lengths L \<Longrightarrow> length (chain L p s n) = 32"
  by (cases n) (auto simp: hash_lengths_def)

lemma length_chain_xor: "hash_lengths L \<Longrightarrow> length (chain_xor L p s n) = 32"
  using length_chain by (induction n) (auto simp: xor_bytes_def simp del: chain.simps)

lemma length_pbkdf2:
  assumes "hash_lengths L"
  shows "length (pbkdf2SHA256 L password salt iterations keyLen) = keyLen"
proof -
  have block: "length (pbkdf2_block L password salt iterations b) = 32" for b
    using assms by (simp add: pbkdf2_block_chain length_chain_xor)
  have "length (concat (map (pbkdf2_block L password salt iterations) [1..<n + 1])) = 32 * n" for n
    by (induction n) (auto simp: block)
  then show ?thesis by (simp add: pbkdf2SHA256_def Let_def)
qed

lemma nth_concat_blocks:
  assumes "\<And>b. length (f b) = 32" "i < 32 * n"
  shows "concat (map f [1..<n + 1]) ! i = f (Suc (i div 32)) ! (i mod 32)"
  using assms(2)
proof (induction n)
  case (Suc n)
  have len: "length (concat (map f [1..<n + 1])) = 32 * n" by (induction n) (auto simp: assms(1))
  have parts: "concat (map f [1..<Suc n + 1]) = concat (map f [1..<n + 1]) @ f (Suc n)" by simp
  show ?case
  proof (cases "i < 32 * n")
    case True
    with Suc.IH show ?thesis unfolding parts by (simp only: nth_append len if_True)
  next
    case False
    with Suc.prems have n: "i div 32 = n" by (intro div_nat_eqI) auto
    have "i mod 32 = i - 32 * n" using minus_mult_div_eq_mod [of i 32] n by simp
    note this n
    with False show ?thesis unfolding parts by (simp only: nth_append len if_False)
  qed
qed simp

lemma Split_hash:
  assumes "CHR ''$'' \<notin> set a" "CHR ''$'' \<notin> set b" "CHR ''$'' \<notin> set c" "CHR ''$'' \<notin> set d"
  shows "Split (a @ ''$'' @ b @ ''$'' @ c @ ''$'' @ d) (CHR ''$'') = [a, b, c, d]"
  using assms by (simp add: Split_append Split_no_sep)

lemma Split_encoded:
  assumes "encodePasswordHash L random password = Inr encoded"
  obtains salt where "random = Inr salt"
    "Split encoded (CHR ''$'') = [passwordHashScheme, int_text passwordHashIterations, hex_EncodeToString salt,
       hex_EncodeToString (pbkdf2SHA256 L password salt passwordHashIterations passwordKeyBytes)]"
proof -
  from assms obtain salt where r: "random = Inr salt"
    and e: "encoded = passwordHashScheme @ ''$'' @ int_text passwordHashIterations @ ''$'' @ hex_EncodeToString salt @ ''$'' @
       hex_EncodeToString (pbkdf2SHA256 L password salt passwordHashIterations passwordKeyBytes)"
    by (auto simp: encodePasswordHash_def Let_def split: sum.splits)
  have "CHR ''$'' \<notin> set (int_text passwordHashIterations)"
    using set_int_text [of "CHR ''$''"] by (auto simp: is_digit_def)
  moreover have "CHR ''$'' \<notin> set passwordHashScheme" by code_simp
  ultimately show thesis using that [OF r] Split_hash unfolding e by simp
qed

lemma iterations_text [simp]: "Atoi (int_text passwordHashIterations) = Some passwordHashIterations"
  by (rule Atoi_int_text) (simp add: in_int64_def passwordHashIterations_def)

lemma schemes_differ [simp]: "passwordHashScheme \<noteq> legacyPasswordHashScheme"
  by code_simp

lemma encoded_current:
  assumes "encodePasswordHash L random password = Inr encoded"
  shows "\<not> passwordHashNeedsUpgrade encoded"
  by (rule Split_encoded [OF assms]) (simp add: passwordHashNeedsUpgrade_def Let_def)

lemma verify_encoded:
  assumes "encodePasswordHash L (Inr salt) password = Inr encoded" "length salt = 16" "hash_lengths L"
  shows "verifyPasswordHash L encoded candidate =
    (pbkdf2SHA256 L candidate salt passwordHashIterations passwordKeyBytes =
     pbkdf2SHA256 L password salt passwordHashIterations passwordKeyBytes, [passwordHashIterations])"
proof (rule Split_encoded [OF assms(1)])
  fix salt'
  assume "Inr salt = (Inr salt' :: string result)"
    and split: "Split encoded (CHR ''$'') = [passwordHashScheme, int_text passwordHashIterations, hex_EncodeToString salt',
       hex_EncodeToString (pbkdf2SHA256 L password salt' passwordHashIterations passwordKeyBytes)]"
  then have s: "salt' = salt" by simp
  have len: "length (pbkdf2SHA256 L password salt passwordHashIterations passwordKeyBytes) = passwordKeyBytes"
    by (rule length_pbkdf2 [OF assms(3)])
  have range: "\<not> passwordHashIterations < 100000" "\<not> passwordHashIterations > 2000000"
    by (simp_all add: passwordHashIterations_def)
  show ?thesis
    unfolding verifyPasswordHash_def split Let_def s
    using assms(2) range by (simp add: len passwordSaltBytes_def eq_commute [of "pbkdf2SHA256 L candidate _ _ _"])
qed

text \<open>Lower case leaves white space alone, so the normal form of a name is its own normal form.\<close>

lemma lower_char_fixed: "\<not> (65 \<le> (of_char c :: nat) \<and> (of_char c :: nat) \<le> 90) \<Longrightarrow> lower_char c = c"
  by (auto simp: lower_char_def Let_def)

lemma of_char_lower:
  "(of_char (lower_char c) :: nat) = (if 65 \<le> (of_char c :: nat) \<and> (of_char c :: nat) \<le> 90 then of_char c + 32 else of_char c)"
  by (auto simp: lower_char_def Let_def)

lemma lower_char_eq_iff:
  assumes "\<not> (65 \<le> (of_char d :: nat) \<and> (of_char d :: nat) \<le> 90)" "\<not> (97 \<le> (of_char d :: nat) \<and> (of_char d :: nat) \<le> 122)"
  shows "lower_char c = d \<longleftrightarrow> c = d"
proof
  assume eq: "lower_char c = d"
  then have "\<not> (65 \<le> (of_char c :: nat) \<and> (of_char c :: nat) \<le> 90)"
    using of_char_lower [of c] assms by (auto split: if_splits)
  with eq show "c = d" by (simp add: lower_char_fixed)
qed (use assms lower_char_fixed in auto)

lemma lower_spaces [simp]:
  "ascii_space (lower_char a) = ascii_space a"
  "space2 (lower_char a) (lower_char b) = space2 a b"
  "space3 (lower_char a) (lower_char b) (lower_char c) = space3 a b c"
proof -
  show "ascii_space (lower_char a) = ascii_space a"
    by (simp add: ascii_space_def lower_char_eq_iff)
  show "space2 (lower_char a) (lower_char b) = space2 a b"
    by (simp add: space2_def lower_char_eq_iff)
  show "space3 (lower_char a) (lower_char b) (lower_char c) = space3 a b c"
    by (auto simp: space3_def lower_char_eq_iff of_char_lower)
qed

lemma TrimLeftSpace_lower: "TrimLeftSpace (map lower_char s) = map lower_char (TrimLeftSpace s)"
  by (induction s rule: TrimLeftSpace.induct) simp_all

lemma TrimRightSpaceRev_lower: "TrimRightSpaceRev (map lower_char s) = map lower_char (TrimRightSpaceRev s)"
  by (induction s rule: TrimRightSpaceRev.induct) simp_all

lemma TrimSpace_ToLower: "TrimSpace (ToLower s) = ToLower (TrimSpace s)"
  by (simp add: TrimSpace_def ToLower_def TrimLeftSpace_lower TrimRightSpaceRev_lower rev_map)

lemma normalizeUsername_Inr:
  "normalizeUsername name = Inr u \<Longrightarrow> u = ToLower (TrimSpace name) \<and> u \<noteq> [] \<and> length u \<le> 64 \<and>
     (\<forall>r\<in>set (runes u). \<not> is_space r \<and> \<not> is_control r)"
  by (auto simp: normalizeUsername_def Let_def maxUsernameBytes_def list_ex_iff split: if_splits)

lemma normalizeUsername_idem:
  assumes "normalizeUsername name = Inr u"
  shows "normalizeUsername u = Inr u"
proof -
  have "u = ToLower (TrimSpace name)" using normalizeUsername_Inr [OF assms] by simp
  then have "ToLower (TrimSpace u) = ToLower (TrimSpace name)" by (simp add: TrimSpace_ToLower)
  with assms show ?thesis by (simp add: normalizeUsername_def)
qed

lemma normalizeRole_cases: "normalizeRole role = RoleAdmin \<or> normalizeRole role = RoleUser"
  by (simp add: normalizeRole_def)

lemma sameOwner_iff:
  "sameOwner a b \<longleftrightarrow> (\<exists>u. normalizeUsername a = Inr u \<and> normalizeUsername b = Inr u)"
  by (auto simp: sameOwner_def split: sum.splits)

end
