(* ===== verification/RowFile.thy ===== *)
theory RowFile
  imports StoreBase
begin

text \<open>
  The private files of the web server (\<^verbatim>\<open>readPrivateFile\<close>, \<^verbatim>\<open>writePrivateFile\<close> in
  \<^verbatim>\<open>web/users.go\<close>) and the list of records that the user store and the registry each keep in
  one: loaded once, copied out, changed as a whole and written back. What both promise is
  proved once, in the locale \<open>row_file\<close>.
\<close>

section \<open>Private files\<close>

record private_io =
  pr_read :: io
  pr_write :: io
  pr_opendir :: "error option"

definition private_ok :: private_io where
  "private_ok = \<lparr>pr_read = io_ok, pr_write = io_ok, pr_opendir = None\<rparr>"

definition os_ErrInvalid :: error where "os_ErrInvalid = ErrIO ''invalid argument''"

definition writePrivateFile ::
  "private_io \<Rightarrow> string \<Rightarrow> file_obj option \<Rightarrow> (bool \<times> error option) \<times> file_obj option" where
  "writePrivateFile io data file =
     (case io_mkdir (pr_write io) of
        Some e \<Rightarrow> ((False, Some e), file)
      | None \<Rightarrow>
          (case writeSyncedTempFile (pr_write io) of
             (Some e, _) \<Rightarrow> ((False, Some e), file)
           | (None, _) \<Rightarrow>
               (case io_rename (pr_write io) of
                  Some e \<Rightarrow> ((False, Some e), file)
                | None \<Rightarrow>
                    let published = Some \<lparr>fo_regular = True, fo_perm = 0x180, fo_data = data\<rparr> in
                    (case pr_opendir io of
                       Some e \<Rightarrow> ((True, Some e), published)
                     | None \<Rightarrow>
                         (case io_syncdir (pr_write io) of
                            Some e \<Rightarrow> if errors_Is e os_ErrInvalid then ((True, None), published)
                              else ((True, Some e), published)
                          | None \<Rightarrow> ((True, None), published))))))"

definition readPrivateFile :: "io \<Rightarrow> string \<Rightarrow> int \<Rightarrow> file_obj option \<Rightarrow> string reading" where
  "readPrivateFile io description limit file =
     (case io_open io of Some e \<Rightarrow> ReadErr e
      | None \<Rightarrow>
        (case file of None \<Rightarrow> NotExist
         | Some f \<Rightarrow>
           (case io_stat io of Some e \<Rightarrow> ReadErr e
            | None \<Rightarrow>
              if \<not> fo_regular f then ReadErr (ErrID description ''must be a regular file'')
              else if group_or_other (fo_perm f)
                then ReadErr (ErrID description ''permissions must not allow group or other access'')
              else
                (case io_read io of Some e \<Rightarrow> ReadErr e
                 | None \<Rightarrow>
                   if len (fo_data f) > limit then ReadErr (ErrValueSize description limit)
                   else ReadOK (fo_data f)))))"

section \<open>A list of records in a file\<close>

text \<open>
  The JSON functions for a list of records, the limit of the file, and the checks after
  decoding; the state is the flag \<open>loaded\<close>, the rows in memory and the file.
\<close>

record 'r row_codec =
  rc_description :: string
  rc_limit :: int
  rc_marshal :: "'r list \<Rightarrow> string result"
  rc_unmarshal :: "string \<Rightarrow> 'r list result"
  rc_check :: "'r list \<Rightarrow> error option"

record 'r rows_state =
  rw_loaded :: bool
  rw_rows :: "'r list"
  rw_disk :: "file_obj option"

definition load_rows :: "'r row_codec \<Rightarrow> private_io \<Rightarrow> 'r rows_state \<Rightarrow> 'r list result \<times> 'r rows_state" where
  "load_rows C io s =
     (if rw_loaded s then (Inr (rw_rows s), s)
      else
        (case readPrivateFile (pr_read io) (rc_description C) (rc_limit C) (rw_disk s) of
           NotExist \<Rightarrow> (Inr [], s\<lparr>rw_loaded := True, rw_rows := []\<rparr>)
         | ReadErr e \<Rightarrow> (Inl e, s)
         | ReadOK data \<Rightarrow>
             if TrimSpace data = [] then (Inr [], s\<lparr>rw_loaded := True, rw_rows := []\<rparr>)
             else
               (case rc_unmarshal C data of
                  Inl e \<Rightarrow> (Inl e, s)
                | Inr rows \<Rightarrow>
                    (case rc_check C rows of
                       Some e \<Rightarrow> (Inl e, s)
                     | None \<Rightarrow> (Inr rows, s\<lparr>rw_loaded := True, rw_rows := rows\<rparr>)))))"

definition save_rows :: "'r row_codec \<Rightarrow> private_io \<Rightarrow> 'r list \<Rightarrow> 'r rows_state \<Rightarrow> error option \<times> 'r rows_state" where
  "save_rows C io rows s =
     (case rc_marshal C rows of
        Inl e \<Rightarrow> (Some e, s)
      | Inr data \<Rightarrow>
          (case writePrivateFile io (data @ newline) (rw_disk s) of
             ((committed, err), disk) \<Rightarrow>
               (err, if committed then s\<lparr>rw_rows := rows, rw_loaded := True, rw_disk := disk\<rparr>
                     else s\<lparr>rw_disk := disk\<rparr>)))"

text \<open>The frame of an operation: load, decide, and save what is to be written.\<close>

datatype ('r, 'a) row_outcome = RowFail error | RowDone 'a | RowWrite "'r list" 'a

definition row_tx ::
  "'r row_codec \<Rightarrow> private_io \<Rightarrow> ('r list \<Rightarrow> ('r, 'a) row_outcome) \<Rightarrow> 'r rows_state \<Rightarrow> 'a result \<times> 'r rows_state" where
  "row_tx C io body s =
     (case load_rows C io s of
        (Inl e, s1) \<Rightarrow> (Inl e, s1)
      | (Inr rows, s1) \<Rightarrow>
          (case body rows of
             RowFail e \<Rightarrow> (Inl e, s1)
           | RowDone r \<Rightarrow> (Inr r, s1)
           | RowWrite rows' r \<Rightarrow>
               (case save_rows C io rows' s1 of
                  (Some e, s2) \<Rightarrow> (Inl e, s2)
                | (None, s2) \<Rightarrow> (Inr r, s2))))"

section \<open>What the file promises\<close>

text \<open>The rows a start would read, and the rows of a state: those in memory, once loaded.\<close>

definition disk_rows :: "'r row_codec \<Rightarrow> file_obj option \<Rightarrow> 'r list option" where
  "disk_rows C file =
     (case file of
        None \<Rightarrow> Some []
      | Some f \<Rightarrow>
          if TrimSpace (fo_data f) = [] then Some []
          else (case rc_unmarshal C (fo_data f) of
                  Inl _ \<Rightarrow> None
                | Inr rows \<Rightarrow> if rc_check C rows = None then Some rows else None))"

definition rows_consistent :: "'r row_codec \<Rightarrow> 'r rows_state \<Rightarrow> bool" where
  "rows_consistent C s \<longleftrightarrow> (rw_loaded s \<longrightarrow> disk_rows C (rw_disk s) = Some (rw_rows s))"

definition restart_rows :: "'r rows_state \<Rightarrow> 'r rows_state" where
  "restart_rows s = s\<lparr>rw_loaded := False, rw_rows := []\<rparr>"

lemma restart_rows_consistent [simp]: "rows_consistent C (restart_rows s)"
  by (simp add: rows_consistent_def restart_rows_def)

lemma restart_rows_disk [simp]: "rw_disk (restart_rows s) = rw_disk s"
  by (simp add: restart_rows_def)

lemma readPrivateFile_ReadOK: "readPrivateFile io d l file = ReadOK data \<Longrightarrow> \<exists>f. file = Some f \<and> fo_data f = data"
  by (auto simp: readPrivateFile_def split: option.splits if_splits)

lemma readPrivateFile_NotExist: "readPrivateFile io d l file = NotExist \<Longrightarrow> file = None"
  by (auto simp: readPrivateFile_def split: option.splits if_splits)

lemma writePrivateFile_cases:
  assumes "writePrivateFile io data file = ((committed, err), disk)"
  obtains (kept) e where "\<not> committed" "err = Some e" "disk = file"
  | (published) "committed" "disk = Some \<lparr>fo_regular = True, fo_perm = 0x180, fo_data = data\<rparr>"
proof -
  have "case writePrivateFile io data file of ((c, e), d) \<Rightarrow> \<not> c \<and> e \<noteq> None \<and> d = file \<or>
    c \<and> d = Some \<lparr>fo_regular = True, fo_perm = 0x180, fo_data = data\<rparr>"
    by (simp add: writePrivateFile_def Let_def split: option.splits prod.splits)
  then show thesis using that assms by auto
qed

lemma load_rows_disk:
  assumes "load_rows C io s = (r, s')"
  shows "rw_disk s' = rw_disk s"
  using assms by (auto simp: load_rows_def split: if_splits reading.splits sum.splits option.splits)

lemma load_rows_Inl: "load_rows C io s = (Inl e, s') \<Longrightarrow> s' = s"
  by (auto simp: load_rows_def split: if_splits reading.splits sum.splits option.splits)

lemma load_rows_loaded [simp]: "rw_loaded s \<Longrightarrow> load_rows C io s = (Inr (rw_rows s), s)"
  by (simp add: load_rows_def)

lemma load_rows_Inr:
  assumes "load_rows C io s = (Inr rows, s')" "rows_consistent C s"
  shows "rw_loaded s' \<and> rw_rows s' = rows \<and> disk_rows C (rw_disk s) = Some rows \<and> rw_disk s' = rw_disk s"
  using assms
  by (auto simp: load_rows_def rows_consistent_def disk_rows_def split: if_splits reading.splits sum.splits option.splits
      dest!: readPrivateFile_ReadOK readPrivateFile_NotExist)

lemma rows_consistent_load:
  assumes "load_rows C io s = (r, s')" "rows_consistent C s"
  shows "rows_consistent C s'"
proof (cases r)
  case (Inl e)
  with assms show ?thesis using load_rows_Inl by metis
next
  case (Inr rows)
  with assms have "rw_loaded s' \<and> rw_rows s' = rows \<and> disk_rows C (rw_disk s) = Some rows \<and> rw_disk s' = rw_disk s"
    using load_rows_Inr by metis
  then show ?thesis by (simp add: rows_consistent_def)
qed

text \<open>
  The contract of a file of rows whose content satisfies \<open>I\<close>: an operation whose decision keeps
  \<open>I\<close> leaves the file as it was or replaces its rows by those it decided on; memory and file
  agree at every moment, so that a restart gives the rows back.
\<close>

locale row_file =
  fixes C :: "'r row_codec" and I :: "'r list \<Rightarrow> bool"
  assumes decoded: "\<lbrakk>I rows; rc_marshal C rows = Inr data\<rbrakk> \<Longrightarrow>
      TrimSpace (data @ newline) \<noteq> [] \<and> rc_unmarshal C (data @ newline) = Inr rows"
    and checked: "I rows \<Longrightarrow> rc_check C rows = None"
begin

lemma disk_rows_written:
  assumes "I rows" "rc_marshal C rows = Inr data"
  shows "disk_rows C (Some \<lparr>fo_regular = True, fo_perm = p, fo_data = data @ newline\<rparr>) = Some rows"
  using decoded [OF assms] checked [OF assms(1)] by (simp add: disk_rows_def)

lemma save_rows_cases:
  assumes "save_rows C io rows s = (err, s')" "I rows" "rw_loaded s" "disk_rows C (rw_disk s) = Some (rw_rows s)"
  obtains (kept) e where "err = Some e" "s' = s"
  | (written) "rw_loaded s'" "rw_rows s' = rows" "disk_rows C (rw_disk s') = Some rows"
proof (cases "rc_marshal C rows")
  case (Inl e)
  with assms(1) have "err = Some e" "s' = s" by (auto simp: save_rows_def)
  then show thesis using that(1) by blast
next
  case (Inr data)
  obtain c er d where w: "writePrivateFile io (data @ newline) (rw_disk s) = ((c, er), d)"
    by (metis prod.exhaust)
  with assms(1) Inr have e: "er = err"
    and s': "s' = (if c then s\<lparr>rw_rows := rows, rw_loaded := True, rw_disk := d\<rparr> else s\<lparr>rw_disk := d\<rparr>)"
    by (auto simp: save_rows_def)
  from w show thesis
  proof (cases rule: writePrivateFile_cases)
    case (kept er1)
    with s' e have "err = Some er1" "s' = s" by simp_all
    then show thesis using that(1) by blast
  next
    case published
    then show thesis using that(2) s' disk_rows_written [OF assms(2) Inr] by simp
  qed
qed

lemma row_tx_cases:
  assumes "row_tx C io body s = (r, s')" "rows_consistent C s"
    and "\<And>rows rows' a. \<lbrakk>disk_rows C (rw_disk s) = Some rows; body rows = RowWrite rows' a\<rbrakk> \<Longrightarrow> I rows'"
  obtains (unread) e where "r = Inl e" "s' = s"
  | (refused) rows e where "disk_rows C (rw_disk s) = Some rows" "body rows = RowFail e" "r = Inl e"
      "disk_rows C (rw_disk s') = Some rows" "rw_loaded s'" "rw_rows s' = rows"
  | (answered) rows a where "disk_rows C (rw_disk s) = Some rows" "body rows = RowDone a" "r = Inr a"
      "disk_rows C (rw_disk s') = Some rows" "rw_loaded s'" "rw_rows s' = rows"
  | (unsaved) rows rows' a e where "disk_rows C (rw_disk s) = Some rows" "body rows = RowWrite rows' a" "r = Inl e"
      "disk_rows C (rw_disk s') = Some rows" "rw_loaded s'" "rw_rows s' = rows"
  | (saved) rows rows' a where "disk_rows C (rw_disk s) = Some rows" "body rows = RowWrite rows' a"
      "r = Inr a \<or> (\<exists>e. r = Inl e)" "disk_rows C (rw_disk s') = Some rows'" "rw_loaded s'" "rw_rows s' = rows'"
proof (cases "load_rows C io s")
  case (Pair x s1)
  show thesis
  proof (cases x)
    case (Inl e)
    with Pair load_rows_Inl have "s1 = s" by metis
    with assms(1) Pair Inl have "r = Inl e" "s' = s" by (auto simp: row_tx_def)
    then show thesis using unread by blast
  next
    case (Inr rows)
    with Pair have "load_rows C io s = (Inr rows, s1)" by simp
    from load_rows_Inr [OF this assms(2)] have l: "rw_loaded s1" "rw_rows s1 = rows"
      "disk_rows C (rw_disk s) = Some rows" "rw_disk s1 = rw_disk s" by auto
    show thesis
    proof (cases "body rows")
      case (RowFail e)
      with refused l assms(1) Pair Inr show thesis by (simp add: row_tx_def)
    next
      case (RowDone a)
      with answered l assms(1) Pair Inr show thesis by (simp add: row_tx_def)
    next
      case (RowWrite rows' a)
      obtain err s2 where save: "save_rows C io rows' s1 = (err, s2)" by (metis prod.exhaust)
      with assms(1) Pair Inr RowWrite have s2: "s' = s2" and r: "r = (case err of None \<Rightarrow> Inr a | Some e \<Rightarrow> Inl e)"
        by (auto simp: row_tx_def split: option.splits)
      have ok: "I rows'" using assms(3) l(3) RowWrite by metis
      have "disk_rows C (rw_disk s1) = Some (rw_rows s1)" using l by simp
      from save ok l(1) this show thesis
      proof (cases rule: save_rows_cases)
        case (kept er)
        with r s2 have "r = Inl er" "s' = s1" by simp_all
        then show thesis using unsaved [OF l(3) RowWrite] l by simp
      next
        case written
        then show thesis using saved [OF l(3) RowWrite] s2 r by (auto split: option.splits)
      qed
    qed
  qed
qed

lemma row_tx_consistent:
  assumes "row_tx C io body s = (r, s')" "rows_consistent C s"
    and "\<And>rows rows' a. \<lbrakk>disk_rows C (rw_disk s) = Some rows; body rows = RowWrite rows' a\<rbrakk> \<Longrightarrow> I rows'"
  shows "rows_consistent C s'"
  using assms by (rule row_tx_cases) (use assms(2) in \<open>simp_all add: rows_consistent_def\<close>)

end

end
