(* ===== verification/UserStore.thy ===== *)
theory UserStore
  imports Passwords RowFile Admission "HOL-Library.List_Lexorder" "HOL-Library.Char_ord"
begin

text \<open>
  The web users (\<^verbatim>\<open>web/users.go\<close>) and their fixed keys (\<^verbatim>\<open>web/user_keys.go\<close>): every operation of
  the user store on every branch, over the file of \<open>RowFile\<close>. Random bytes, the clock, JSON
  and AES-GCM are what an operation is given. Signing in and changing a password release the
  lock between reading and writing; \<open>others\<close> is what other requests do to the store there.
\<close>

section \<open>Records\<close>

record user_record =
  ur_Username :: string
  ur_Role :: string
  ur_PasswordHash :: string
  ur_KeyID :: string
  ur_KeyHash :: string
  ur_KeyVersion :: int
  ur_KeyCipher :: string
  ur_KeyCreatedAt :: time
  ur_CreatedAt :: time
  ur_UpdatedAt :: time
  ur_Disabled :: bool

record public_user =
  pu_Username :: string
  pu_Role :: string
  pu_CreatedAt :: time
  pu_UpdatedAt :: time

record fixed_user_key =
  fk_ID :: string
  fk_Owner :: string
  fk_Version :: int
  fk_CreatedAt :: time
  fk_Secret :: string

record fixed_user_key_verifier =
  kv_ID :: string
  kv_Owner :: string
  kv_Version :: int
  kv_Hash :: string

definition publicUser :: "user_record \<Rightarrow> public_user" where
  "publicUser u = \<lparr>pu_Username = ur_Username u, pu_Role = ur_Role u, pu_CreatedAt = ur_CreatedAt u,
     pu_UpdatedAt = ur_UpdatedAt u\<rparr>"

definition fixedUserKey :: "user_record \<Rightarrow> string \<Rightarrow> fixed_user_key" where
  "fixedUserKey u secret = \<lparr>fk_ID = ur_KeyID u, fk_Owner = ur_Username u, fk_Version = ur_KeyVersion u,
     fk_CreatedAt = ur_KeyCreatedAt u, fk_Secret = secret\<rparr>"

definition maxUsers :: int where "maxUsers = 256"
definition maxUsersFileBytes :: int where "maxUsersFileBytes = 10485760"
definition maxConcurrentPasswordWork :: nat where "maxConcurrentPasswordWork = 4"
definition maxQueuedPasswordWork :: nat where "maxQueuedPasswordWork = 32"
definition fixedKeySecretBytes :: nat where "fixedKeySecretBytes = 24"

definition errPasswordWorkBusy :: error where
  "errPasswordWorkBusy = ErrNew ''password authentication is temporarily busy''"
definition errUsernameInUse :: error where
  "errUsernameInUse = ErrNew ''username is already in use or was previously deleted''"
definition errUserLimitReached :: error where "errUserLimitReached = ErrNew ''user limit reached''"
definition errInvalidLogin :: error where "errInvalidLogin = ErrNew ''invalid username or password''"
definition errUserNotFound :: error where "errUserNotFound = ErrNew ''user not found''"

section \<open>The environment and the state\<close>

record user_json =
  uj_marshal :: "user_record list \<Rightarrow> string result"
  uj_unmarshal :: "string \<Rightarrow> user_record list result"

record aead =
  ae_Seal :: "string \<Rightarrow> string \<Rightarrow> string \<Rightarrow> string \<Rightarrow> string"
  ae_Open :: "string \<Rightarrow> string \<Rightarrow> string \<Rightarrow> string \<Rightarrow> string option"

text \<open>The arguments of sealing and opening are the master key, the nonce, the text and the additional data.\<close>

record web_lib =
  wb_hash :: weblib
  wb_json :: user_json
  wb_aead :: aead

text \<open>
  What one critical section sees: the library, the system calls, the clock, and the random
  bytes drawn for a salt and, for the \<open>k\<close>-th key that is assigned, for its secret, identifier and
  nonce.
\<close>

record web_env =
  we_lib :: web_lib
  we_io :: private_io
  we_now :: time
  we_salt :: "string result"
  we_secret :: "nat \<Rightarrow> string result"
  we_id :: "nat \<Rightarrow> string result"
  we_nonce :: "nat \<Rightarrow> string result"

record user_store =
  us_file :: "user_record rows_state"
  us_keyCipher :: "string option"

definition users_check :: "user_record list \<Rightarrow> error option" where
  "users_check users = (if len users > maxUsers then Some (ErrTooMany ''users file'' (len users) maxUsers) else None)"

definition users_codec :: "user_json \<Rightarrow> user_record row_codec" where
  "users_codec J = \<lparr>rc_description = ''users file'', rc_limit = maxUsersFileBytes, rc_marshal = uj_marshal J,
     rc_unmarshal = uj_unmarshal J, rc_check = users_check\<rparr>"

definition NewUserStore :: "file_obj option \<Rightarrow> user_store" where
  "NewUserStore disk = \<lparr>us_file = \<lparr>rw_loaded = False, rw_rows = [], rw_disk = disk\<rparr>, us_keyCipher = None\<rparr>"

definition loadLocked_users :: "web_env \<Rightarrow> user_store \<Rightarrow> user_record list result \<times> user_store" where
  "loadLocked_users E s =
     (case load_rows (users_codec (wb_json (we_lib E))) (we_io E) (us_file s) of (r, f) \<Rightarrow> (r, s\<lparr>us_file := f\<rparr>))"

definition users_tx ::
  "web_env \<Rightarrow> (user_record list \<Rightarrow> (user_record, 'a) row_outcome) \<Rightarrow> user_store \<Rightarrow> 'a result \<times> user_store" where
  "users_tx E body s =
     (case row_tx (users_codec (wb_json (we_lib E))) (we_io E) body (us_file s) of (r, f) \<Rightarrow> (r, s\<lparr>us_file := f\<rparr>))"

section \<open>Fixed keys\<close>

definition NonceSize :: nat where "NonceSize = 12"

definition newUserKeyCipher :: "string \<Rightarrow> string result" where
  "newUserKeyCipher master =
     (if length master \<noteq> 32 then Inl (ErrNew ''web user-key master must contain 32 bytes'') else Inr master)"

definition fixedKeyAAD :: "user_record \<Rightarrow> string" where
  "fixedKeyAAD u = ''gpuardian-user-key-v1'' @ [CHR 0x00] @ ur_Username u @ [CHR 0x00] @ ur_KeyID u @ [CHR 0x00] @
     int_text (ur_KeyVersion u)"

definition assign :: "web_env \<Rightarrow> nat \<Rightarrow> string option \<Rightarrow> user_record \<Rightarrow> int \<Rightarrow> user_record result" where
  "assign E k cipher u version =
     (case cipher of
        None \<Rightarrow> Inl (ErrNew ''user-key encryption is unavailable'')
      | Some master \<Rightarrow>
          (case we_secret E k of Inl e \<Rightarrow> Inl e
           | Inr secretBytes \<Rightarrow>
             (case we_id E k of Inl e \<Rightarrow> Inl e
              | Inr idBytes \<Rightarrow>
                  let secret = ''gk_'' @ hex_EncodeToString secretBytes;
                      u1 = u\<lparr>ur_KeyID := ''uk_'' @ hex_EncodeToString idBytes, ur_KeyVersion := version,
                             ur_KeyCreatedAt := we_now E,
                             ur_KeyHash := hex_EncodeToString (wl_sha256 (wb_hash (we_lib E)) secret)\<rparr>
                  in (case we_nonce E k of Inl e \<Rightarrow> Inl e
                      | Inr nonce \<Rightarrow>
                          let sealed = ae_Seal (wb_aead (we_lib E)) master nonce secret (fixedKeyAAD u1)
                          in Inr (u1\<lparr>ur_KeyCipher := b64_EncodeToString RawStdEncoding (nonce @ sealed)\<rparr>)))))"

definition reveal :: "aead \<Rightarrow> string option \<Rightarrow> user_record \<Rightarrow> string result" where
  "reveal A cipher u =
     (case cipher of
        None \<Rightarrow> Inl (ErrNew ''user-key encryption is unavailable'')
      | Some master \<Rightarrow>
          (case b64_DecodeString RawStdEncoding (ur_KeyCipher u) of
             None \<Rightarrow> Inl (ErrNew ''stored user key is invalid'')
           | Some raw \<Rightarrow>
               if length raw \<le> NonceSize then Inl (ErrNew ''stored user key is invalid'')
               else
                 (case ae_Open A master (take NonceSize raw) (drop NonceSize raw) (fixedKeyAAD u) of
                    None \<Rightarrow> Inl (ErrNew ''decrypt stored user key: invalid master key or ciphertext'')
                  | Some plain \<Rightarrow> Inr plain)))"

fun initialize_keys :: "web_env \<Rightarrow> nat \<Rightarrow> string \<Rightarrow> user_record list \<Rightarrow> (bool \<times> user_record list) result" where
  "initialize_keys E k master [] = Inr (False, [])"
| "initialize_keys E k master (u # us) =
     (if ur_Disabled u then
        (case initialize_keys E (Suc k) master us of Inl e \<Rightarrow> Inl e | Inr (c, us') \<Rightarrow> Inr (c, u # us'))
      else if ur_KeyID u = [] then
        (case assign E k (Some master) u 1 of
           Inl e \<Rightarrow> Inl e
         | Inr u' \<Rightarrow> (case initialize_keys E (Suc k) master us of Inl e \<Rightarrow> Inl e | Inr (_, us') \<Rightarrow> Inr (True, u' # us')))
      else
        (case reveal (wb_aead (we_lib E)) (Some master) u of
           Inl e \<Rightarrow> Inl (ErrWrap ''validate fixed key for'' (ur_Username u) e)
         | Inr _ \<Rightarrow> (case initialize_keys E (Suc k) master us of Inl e \<Rightarrow> Inl e | Inr (c, us') \<Rightarrow> Inr (c, u # us'))))"

definition initialize_body :: "web_env \<Rightarrow> string \<Rightarrow> user_record list \<Rightarrow> (user_record, unit) row_outcome" where
  "initialize_body E keyCipher users =
     (case initialize_keys E 0 keyCipher users of
        Inl e \<Rightarrow> RowFail e
      | Inr (changed, users') \<Rightarrow> if changed then RowWrite users' () else RowDone ())"

definition InitializeFixedKeys :: "web_env \<Rightarrow> string \<Rightarrow> user_store \<Rightarrow> unit result \<times> user_store" where
  "InitializeFixedKeys E master s =
     (case newUserKeyCipher master of
        Inl e \<Rightarrow> (Inl e, s)
      | Inr keyCipher \<Rightarrow>
          (case users_tx E (initialize_body E keyCipher) s of
             (Inl e, s1) \<Rightarrow> (Inl e, s1)
           | (Inr _, s1) \<Rightarrow> (Inr (), s1\<lparr>us_keyCipher := Some keyCipher\<rparr>)))"

definition HasEncryptedFixedKeys :: "web_env \<Rightarrow> user_store \<Rightarrow> bool result \<times> user_store" where
  "HasEncryptedFixedKeys E = users_tx E (\<lambda>users. RowDone (list_ex (\<lambda>u. \<not> ur_Disabled u \<and> ur_KeyCipher u \<noteq> []) users))"

definition keyed :: "user_record \<Rightarrow> bool" where "keyed u \<longleftrightarrow> \<not> ur_Disabled u \<and> ur_KeyID u \<noteq> []"

definition FixedKeys :: "web_env \<Rightarrow> user_store \<Rightarrow> fixed_user_key list result \<times> user_store" where
  "FixedKeys E = users_tx E (\<lambda>users. RowDone (sort_key fk_Owner (map (\<lambda>u. fixedUserKey u []) (filter keyed users))))"

definition verifier_of :: "user_record \<Rightarrow> fixed_user_key_verifier" where
  "verifier_of u = \<lparr>kv_ID = ur_KeyID u, kv_Owner = ur_Username u, kv_Version = ur_KeyVersion u, kv_Hash = ur_KeyHash u\<rparr>"

definition FixedKeyVerifiers :: "web_env \<Rightarrow> user_store \<Rightarrow> fixed_user_key_verifier list result \<times> user_store" where
  "FixedKeyVerifiers E = users_tx E (\<lambda>users. RowDone (sort_key kv_ID (map verifier_of (filter keyed users))))"

text \<open>The first enabled record of a name, which the loops over the users look for.\<close>

definition enabled :: "string \<Rightarrow> user_record \<Rightarrow> bool" where
  "enabled username u \<longleftrightarrow> ur_Username u = username \<and> \<not> ur_Disabled u"

definition RevealFixedKey :: "web_env \<Rightarrow> string \<Rightarrow> user_store \<Rightarrow> fixed_user_key result \<times> user_store" where
  "RevealFixedKey E name s =
     (case normalizeUsername name of
        Inl e \<Rightarrow> (Inl e, s)
      | Inr username \<Rightarrow>
          users_tx E (\<lambda>users. case find (enabled username) users of
              None \<Rightarrow> RowFail errUserNotFound
            | Some u \<Rightarrow> (case reveal (wb_aead (we_lib E)) (us_keyCipher s) u of
                 Inl e \<Rightarrow> RowFail e
               | Inr secret \<Rightarrow> RowDone (fixedUserKey u secret))) s)"

text \<open>\<^verbatim>\<open>int64\<close> addition wraps.\<close>

definition wrap_int64 :: "int \<Rightarrow> int" where "wrap_int64 i = (i + 2 ^ 63) mod 2 ^ 64 - 2 ^ 63"

definition next_version :: "int \<Rightarrow> int" where
  "next_version v = (let version = wrap_int64 (v + 1) in if version < 1 then 1 else version)"

definition replace_key :: "web_env \<Rightarrow> string option \<Rightarrow> string \<Rightarrow> user_record list \<Rightarrow> (user_record, user_record) row_outcome" where
  "replace_key E cipher username users =
     (case find (enabled username) users of
        None \<Rightarrow> RowFail errUserNotFound
      | Some u \<Rightarrow>
          (case assign E 0 cipher u (next_version (ur_KeyVersion u)) of
             Inl e \<Rightarrow> RowFail e
           | Inr u' \<Rightarrow> RowWrite (update_first (enabled username) (\<lambda>_. u') users) u'))"

text \<open>
  The record is saved before the new secret is read back, so that an error of reading it back
  is reported for a key that has been replaced.
\<close>

definition RegenerateFixedKey :: "web_env \<Rightarrow> string \<Rightarrow> user_store \<Rightarrow> fixed_user_key result \<times> user_store" where
  "RegenerateFixedKey E name s =
     (case normalizeUsername name of
        Inl e \<Rightarrow> (Inl e, s)
      | Inr username \<Rightarrow>
          (case users_tx E (replace_key E (us_keyCipher s) username) s of
             (Inl e, s1) \<Rightarrow> (Inl e, s1)
           | (Inr u', s1) \<Rightarrow>
               (case reveal (wb_aead (we_lib E)) (us_keyCipher s) u' of
                  Inl e \<Rightarrow> (Inl e, s1)
                | Inr secret \<Rightarrow> (Inr (fixedUserKey u' secret), s1))))"

definition FixedKeyForUser :: "web_env \<Rightarrow> string \<Rightarrow> user_store \<Rightarrow> fixed_user_key_verifier result \<times> user_store" where
  "FixedKeyForUser E name s =
     (let username = ToLower (TrimSpace name) in
      case FixedKeyVerifiers E s of
        (Inl e, s1) \<Rightarrow> (Inl e, s1)
      | (Inr verifiers, s1) \<Rightarrow>
          (case find (\<lambda>v. kv_Owner v = username) verifiers of
             None \<Rightarrow> (Inl (ErrNew ''fixed key not found''), s1)
           | Some v \<Rightarrow> (Inr v, s1)))"

section \<open>Users\<close>

definition newUserRecord :: "web_env \<Rightarrow> string \<Rightarrow> string \<Rightarrow> string \<Rightarrow> user_record result" where
  "newUserRecord E name password role =
     (case normalizeUsername name of
        Inl e \<Rightarrow> Inl e
      | Inr username \<Rightarrow>
          (case validatePassword password of
             Some e \<Rightarrow> Inl e
           | None \<Rightarrow>
               (case hashPassword (wb_hash (we_lib E)) (we_salt E) password of
                  Inl e \<Rightarrow> Inl e
                | Inr hash \<Rightarrow>
                    Inr \<lparr>ur_Username = username, ur_Role = normalizeRole role, ur_PasswordHash = hash, ur_KeyID = [],
                         ur_KeyHash = [], ur_KeyVersion = 0, ur_KeyCipher = [], ur_KeyCreatedAt = 0,
                         ur_CreatedAt = we_now E, ur_UpdatedAt = we_now E, ur_Disabled = False\<rparr>)))"

definition first_user :: "user_record result \<Rightarrow> user_record list \<Rightarrow> (user_record, unit) row_outcome" where
  "first_user created users =
     (if users \<noteq> [] then RowDone ()
      else (case created of Inl e \<Rightarrow> RowFail e | Inr u \<Rightarrow> RowWrite [u] ()))"

definition BootstrapAdmin :: "web_env \<Rightarrow> string \<Rightarrow> string \<Rightarrow> user_store \<Rightarrow> unit result \<times> user_store" where
  "BootstrapAdmin E name password =
     users_tx E (first_user (newUserRecord E name password RoleAdmin))"

definition List_users :: "web_env \<Rightarrow> user_store \<Rightarrow> public_user list result \<times> user_store" where
  "List_users E = users_tx E (\<lambda>users. RowDone (map publicUser (filter (\<lambda>u. \<not> ur_Disabled u) users)))"

definition Get_user :: "web_env \<Rightarrow> string \<Rightarrow> user_store \<Rightarrow> user_record option result \<times> user_store" where
  "Get_user E name s =
     (case normalizeUsername name of
        Inl _ \<Rightarrow> (Inr None, s)
      | Inr username \<Rightarrow> users_tx E (\<lambda>users. RowDone (find (enabled username) users)) s)"

definition add_user :: "user_record \<Rightarrow> user_record list \<Rightarrow> (user_record, public_user) row_outcome" where
  "add_user u users =
     (if list_ex (\<lambda>v. ur_Username v = ur_Username u) users then RowFail errUsernameInUse
      else if len users \<ge> maxUsers then RowFail (ErrWrap ''maximum 256'' [] errUserLimitReached)
      else RowWrite (users @ [u]) (publicUser u))"

definition Create ::
  "web_env \<Rightarrow> bool \<Rightarrow> (user_store \<Rightarrow> user_store) \<Rightarrow> string \<Rightarrow> string \<Rightarrow> string \<Rightarrow> user_store \<Rightarrow>
   public_user result \<times> user_store" where
  "Create E work others name password role s =
     (if \<not> work then (Inl errPasswordWorkBusy, s)
      else
        (case newUserRecord E name password role of
           Inl e \<Rightarrow> (Inl e, s)
         | Inr u0 \<Rightarrow>
             (case (case us_keyCipher s of None \<Rightarrow> Inr u0 | Some _ \<Rightarrow> assign E 0 (us_keyCipher s) u0 1) of
                Inl e \<Rightarrow> (Inl e, s)
              | Inr u \<Rightarrow>
                  users_tx E (add_user u) (others s))))"

definition disable :: "time \<Rightarrow> user_record \<Rightarrow> user_record" where
  "disable now u = u\<lparr>ur_PasswordHash := [], ur_KeyCipher := [], ur_Disabled := True, ur_UpdatedAt := now\<rparr>"

definition adminCount :: "user_record list \<Rightarrow> int" where
  "adminCount users = len (filter (\<lambda>u. ur_Role u = RoleAdmin \<and> \<not> ur_Disabled u) users)"

definition remove_user :: "time \<Rightarrow> string \<Rightarrow> user_record list \<Rightarrow> (user_record, unit) row_outcome" where
  "remove_user now username users =
     (case find (\<lambda>u. ur_Username u = username) users of
        None \<Rightarrow> RowFail errUserNotFound
      | Some u \<Rightarrow>
          if ur_Disabled u then RowFail errUserNotFound
          else if ur_Role u = RoleAdmin \<and> adminCount users = 1 then RowFail (ErrNew ''cannot delete the last admin'')
          else RowWrite (update_first (\<lambda>v. ur_Username v = username) (disable now) users) ())"

definition Delete_user :: "web_env \<Rightarrow> string \<Rightarrow> user_store \<Rightarrow> unit result \<times> user_store" where
  "Delete_user E name s =
     (case normalizeUsername name of
        Inl e \<Rightarrow> (Inl e, s)
      | Inr username \<Rightarrow>
          users_tx E (remove_user (we_now E) username) s)"

section \<open>Passwords at work\<close>

text \<open>
  The slots for password work: how many hold a slot and how many of the callers that may wait
  are in the queue. A waiting caller gets a slot, and then finds its context still alive or
  not, or its context ends first.
\<close>

record password_slots =
  ps_work :: nat
  ps_queue :: nat

datatype turn = WorkSlot "error option" | ContextDone error

definition tryAcquirePasswordWork :: "password_slots \<Rightarrow> bool \<times> password_slots" where
  "tryAcquirePasswordWork p =
     (case try_slot maxConcurrentPasswordWork (ps_work p) of (ok, n) \<Rightarrow> (ok, p\<lparr>ps_work := n\<rparr>))"

definition releasePasswordWork :: "password_slots \<Rightarrow> password_slots" where
  "releasePasswordWork p = p\<lparr>ps_work := free_slot (ps_work p)\<rparr>"

definition acquirePasswordWork ::
  "error option \<Rightarrow> bool \<Rightarrow> turn \<Rightarrow> password_slots \<Rightarrow> (error option \<times> password_slots) blocking" where
  "acquirePasswordWork ctx wait turn p =
     (if \<not> wait then
        (case tryAcquirePasswordWork p of
           (True, p') \<Rightarrow> Returns (None, p')
         | (False, p') \<Rightarrow> Returns (Some errPasswordWorkBusy, p'))
      else
        (case ctx of
           Some e \<Rightarrow> Returns (Some e, p)
         | None \<Rightarrow>
             (case try_slot maxQueuedPasswordWork (ps_queue p) of
                (False, _) \<Rightarrow> Returns (Some errPasswordWorkBusy, p)
              | (True, q) \<Rightarrow>
                  (case turn of
                     ContextDone e \<Rightarrow> Returns (Some e, p)
                   | WorkSlot err \<Rightarrow>
                       (case try_slot maxConcurrentPasswordWork (ps_work p) of
                          (False, _) \<Rightarrow> Waits
                        | (True, n) \<Rightarrow>
                            (case err of
                               Some e \<Rightarrow> Returns (Some e, p)
                             | None \<Rightarrow> Returns (None, \<lparr>ps_work = n, ps_queue = q\<rparr>)))))))"

text \<open>
  Signing in: \<open>acquired\<close> is the answer of \<^verbatim>\<open>acquirePasswordWork\<close>, \<open>E1\<close> and \<open>E2\<close> are what the two
  critical sections see. The second component of the answer is the work that was done.
\<close>

definition upgrade_hash :: "web_env \<Rightarrow> user_record \<Rightarrow> string \<Rightarrow> string option result" where
  "upgrade_hash E u password =
     (if passwordHashNeedsUpgrade (ur_PasswordHash u)
      then (case hashPasswordForMigration (wb_hash (we_lib E)) (we_salt E) password of
              Inl e \<Rightarrow> Inl e | Inr h \<Rightarrow> Inr (Some h))
      else Inr None)"

definition same_credentials :: "user_record \<Rightarrow> user_record \<Rightarrow> bool" where
  "same_credentials current candidate \<longleftrightarrow>
     ur_PasswordHash current = ur_PasswordHash candidate \<and> ur_UpdatedAt current = ur_UpdatedAt candidate"

definition confirm_login :: "web_env \<Rightarrow> string \<Rightarrow> user_record \<Rightarrow> string option \<Rightarrow> user_record list \<Rightarrow>
    (user_record, public_user) row_outcome" where
  "confirm_login E username candidate upgraded users =
     (case find (enabled username) users of
        None \<Rightarrow> RowFail errInvalidLogin
      | Some current \<Rightarrow>
          if \<not> same_credentials current candidate then RowFail errInvalidLogin
          else
            (case upgraded of
               None \<Rightarrow> RowDone (publicUser current)
             | Some h \<Rightarrow>
                 let u = current\<lparr>ur_PasswordHash := h, ur_UpdatedAt := we_now E\<rparr>
                 in RowWrite (update_first (enabled username) (\<lambda>_. u) users) (publicUser u)))"

definition login_candidate :: "string \<Rightarrow> user_record list \<Rightarrow> user_record option" where
  "login_candidate username users =
     (case find (\<lambda>u. ur_Username u = username) users of
        None \<Rightarrow> None
      | Some u \<Rightarrow> if ur_Disabled u then None else Some u)"

definition authenticate ::
  "web_env \<Rightarrow> web_env \<Rightarrow> error option \<Rightarrow> (user_store \<Rightarrow> user_store) \<Rightarrow> string \<Rightarrow> string \<Rightarrow> user_store \<Rightarrow>
   (public_user result \<times> int list) \<times> user_store" where
  "authenticate E1 E2 acquired others name password s =
     (case normalizeUsername name of
        Inl e \<Rightarrow> ((Inl e, []), s)
      | Inr username \<Rightarrow>
          (case loadLocked_users E1 s of
             (Inl e, s1) \<Rightarrow> ((Inl e, []), s1)
           | (Inr users, s1) \<Rightarrow>
               (case acquired of
                  Some e \<Rightarrow> ((Inl e, []), s1)
                | None \<Rightarrow>
                    (case login_candidate username users of
                       None \<Rightarrow> ((Inl errInvalidLogin, verifyDummyPassword password), s1)
                     | Some candidate \<Rightarrow>
                         (case verifyPasswordHash (wb_hash (we_lib E1)) (ur_PasswordHash candidate) password of
                            (False, work) \<Rightarrow> ((Inl errInvalidLogin, work), s1)
                          | (True, work) \<Rightarrow>
                              (case upgrade_hash E1 candidate password of
                                 Inl e \<Rightarrow> ((Inl e, work), s1)
                               | Inr upgraded \<Rightarrow>
                                   (case users_tx E2 (confirm_login E2 username candidate upgraded) (others s1) of
                                      (r, s2) \<Rightarrow> ((r, work @ (if upgraded = None then [] else [passwordHashIterations])), s2))))))))"

definition replace_password :: "web_env \<Rightarrow> string \<Rightarrow> user_record \<Rightarrow> string \<Rightarrow> user_record list \<Rightarrow>
    (user_record, public_user) row_outcome" where
  "replace_password E username candidate newHash users =
     (case find (enabled username) users of
        None \<Rightarrow> RowFail errUserNotFound
      | Some current \<Rightarrow>
          if \<not> same_credentials current candidate then RowFail (ErrNew ''current password is invalid'')
          else
            let u = current\<lparr>ur_PasswordHash := newHash, ur_UpdatedAt := we_now E\<rparr>
            in RowWrite (update_first (enabled username) (\<lambda>_. u) users) (publicUser u))"

definition ChangePassword ::
  "web_env \<Rightarrow> web_env \<Rightarrow> bool \<Rightarrow> (user_store \<Rightarrow> user_store) \<Rightarrow> string \<Rightarrow> string \<Rightarrow> string \<Rightarrow> user_store \<Rightarrow>
   public_user result \<times> user_store" where
  "ChangePassword E1 E2 work others name currentPassword newPassword s =
     (case normalizeUsername name of
        Inl e \<Rightarrow> (Inl e, s)
      | Inr username \<Rightarrow>
          if TrimSpace newPassword = [] then (Inl (ErrNew ''new password is required''), s)
          else
            (case validatePassword newPassword of
               Some e \<Rightarrow> (Inl e, s)
             | None \<Rightarrow>
                 (case loadLocked_users E1 s of
                    (Inl e, s1) \<Rightarrow> (Inl e, s1)
                  | (Inr users, s1) \<Rightarrow>
                      (case find (enabled username) users of
                         None \<Rightarrow> (Inl (if work then errUserNotFound else errPasswordWorkBusy), s1)
                       | Some candidate \<Rightarrow>
                           if \<not> work then (Inl errPasswordWorkBusy, s1)
                           else if \<not> fst (verifyPasswordHash (wb_hash (we_lib E1)) (ur_PasswordHash candidate) currentPassword)
                           then (Inl (ErrNew ''current password is invalid''), s1)
                           else
                             (case hashPassword (wb_hash (we_lib E1)) (we_salt E1) newPassword of
                                Inl e \<Rightarrow> (Inl e, s1)
                              | Inr newHash \<Rightarrow>
                                  users_tx E2 (replace_password E2 username candidate newHash) (others s1))))))"

end
