(* ===== verification/UserProps.thy ===== *)
theory UserProps
  imports UserStore
begin

text \<open>
  What the user store keeps: the invariant of its records, that every operation preserves it
  under every failure, and that a deleted name stays deleted.
\<close>

section \<open>The invariant\<close>

text \<open>What is relied on: AES-GCM opens what it has sealed and adds a tag of 16 bytes.\<close>

definition aead_ok :: "aead \<Rightarrow> bool" where
  "aead_ok A \<longleftrightarrow> (\<forall>m n p a. ae_Open A m n (ae_Seal A m n p a) a = Some p \<and> length (ae_Seal A m n p a) = length p + 16)"

text \<open>
  JSON gives back the records it has written, if their names are valid UTF-8; the other strings
  that the store writes are ASCII.
\<close>

definition valid_text :: "string \<Rightarrow> bool" where
  "valid_text s \<longleftrightarrow> list_all (\<lambda>r. utf8_length r \<noteq> 0) (runes s)"

definition users_json :: "user_json \<Rightarrow> bool" where
  "users_json J \<longleftrightarrow> (\<forall>rows data. (\<forall>u\<in>set rows. valid_text (ur_Username u)) \<and> uj_marshal J rows = Inr data \<longrightarrow>
     TrimSpace (data @ newline) \<noteq> [] \<and> uj_unmarshal J (data @ newline) = Inr rows)"

definition draws_ok :: "web_env \<Rightarrow> bool" where
  "draws_ok E \<longleftrightarrow> (\<forall>r. we_salt E = Inr r \<longrightarrow> length r = 16) \<and> (\<forall>k r. we_nonce E k = Inr r \<longrightarrow> length r = 12)"

definition key_ok :: "web_lib \<Rightarrow> string \<Rightarrow> user_record \<Rightarrow> bool" where
  "key_ok L master u \<longleftrightarrow> (\<exists>secret. reveal (wb_aead L) (Some master) u = Inr secret \<and>
     ur_KeyHash u = hex_EncodeToString (wl_sha256 (wb_hash L) secret))"

definition user_ok :: "web_lib \<Rightarrow> string \<Rightarrow> user_record \<Rightarrow> bool" where
  "user_ok L master u \<longleftrightarrow>
     normalizeUsername (ur_Username u) = Inr (ur_Username u) \<and> valid_text (ur_Username u) \<and>
     (ur_Role u = RoleAdmin \<or> ur_Role u = RoleUser) \<and>
     (ur_Disabled u \<longrightarrow> ur_PasswordHash u = [] \<and> ur_KeyCipher u = []) \<and>
     (keyed u \<longrightarrow> key_ok L master u)"

definition active_admin :: "user_record \<Rightarrow> bool" where
  "active_admin u \<longleftrightarrow> ur_Role u = RoleAdmin \<and> \<not> ur_Disabled u"

definition users_ok :: "web_lib \<Rightarrow> string \<Rightarrow> user_record list \<Rightarrow> bool" where
  "users_ok L master users \<longleftrightarrow>
     distinct (map ur_Username users) \<and> length users \<le> 256 \<and> (\<forall>u\<in>set users. user_ok L master u) \<and>
     (\<exists>u\<in>set users. active_admin u)"

interpretation users: row_file "users_codec (wb_json L)" "\<lambda>rows. users_ok L master rows \<and> users_json (wb_json L)" for L master
  by unfold_locales (auto simp: users_codec_def users_ok_def users_json_def user_ok_def users_check_def maxUsers_def)

section \<open>Keys\<close>

lemma reveal_assign:
  assumes "assign E k (Some master) u v = Inr u'" "aead_ok (wb_aead (we_lib E))" "draws_ok E"
  obtains secretBytes where "we_secret E k = Inr secretBytes"
    "reveal (wb_aead (we_lib E)) (Some master) u' = Inr (''gk_'' @ hex_EncodeToString secretBytes)"
    "ur_KeyHash u' = hex_EncodeToString (wl_sha256 (wb_hash (we_lib E)) (''gk_'' @ hex_EncodeToString secretBytes))"
    "ur_KeyVersion u' = v" "ur_KeyID u' \<noteq> []"
    "ur_Username u' = ur_Username u" "ur_Role u' = ur_Role u" "ur_Disabled u' = ur_Disabled u"
    "ur_PasswordHash u' = ur_PasswordHash u" "ur_UpdatedAt u' = ur_UpdatedAt u"
proof -
  from assms(1) obtain sb ib n where d: "we_secret E k = Inr sb" "we_id E k = Inr ib" "we_nonce E k = Inr n"
    by (auto simp: assign_def Let_def split: sum.splits)
  define u1 where "u1 = u\<lparr>ur_KeyID := ''uk_'' @ hex_EncodeToString ib, ur_KeyVersion := v, ur_KeyCreatedAt := we_now E,
     ur_KeyHash := hex_EncodeToString (wl_sha256 (wb_hash (we_lib E)) (''gk_'' @ hex_EncodeToString sb))\<rparr>"
  define sealed where "sealed = ae_Seal (wb_aead (we_lib E)) master n (''gk_'' @ hex_EncodeToString sb) (fixedKeyAAD u1)"
  have u': "u' = u1\<lparr>ur_KeyCipher := b64_EncodeToString RawStdEncoding (n @ sealed)\<rparr>"
    using assms(1) d by (simp add: assign_def u1_def sealed_def Let_def)
  have "length n = 12" using assms(3) d(3) by (simp add: draws_ok_def)
  moreover have "length sealed > 0" using assms(2) by (simp add: sealed_def aead_ok_def)
  moreover have "fixedKeyAAD u' = fixedKeyAAD u1" by (simp add: u' fixedKeyAAD_def)
  ultimately have "reveal (wb_aead (we_lib E)) (Some master) u' = Inr (''gk_'' @ hex_EncodeToString sb)"
    using assms(2) by (simp add: reveal_def u' NonceSize_def sealed_def aead_ok_def)
  then show thesis using that [OF d(1)] by (simp add: u' u1_def)
qed

lemma user_ok_assign:
  assumes "assign E k (Some master) u v = Inr u'" "aead_ok (wb_aead (we_lib E))" "draws_ok E" "user_ok (we_lib E) master u"
    "\<not> ur_Disabled u"
  shows "user_ok (we_lib E) master u' \<and> ur_Username u' = ur_Username u \<and> ur_Role u' = ur_Role u \<and> \<not> ur_Disabled u'"
  using assms by (elim reveal_assign) (auto simp: user_ok_def key_ok_def)

section \<open>Decisions on the list\<close>

lemma newUserRecord_ok:
  assumes "newUserRecord E name password role = Inr u" "\<And>n. normalizeUsername name = Inr n \<Longrightarrow> valid_text n"
  shows "user_ok L master u \<and> \<not> ur_Disabled u \<and> ur_Role u = normalizeRole role \<and>
    normalizeUsername name = Inr (ur_Username u) \<and> ur_PasswordHash u \<noteq> []"
  using assms normalizeUsername_idem [of name] normalizeRole_cases [of role]
  by (auto simp: newUserRecord_def user_ok_def keyed_def hashPassword_def encodePasswordHash_def Let_def passwordHashScheme_def
      split: sum.splits option.splits)

lemma users_ok_append:
  assumes "users_ok L master users" "user_ok L master u" "\<not> list_ex (\<lambda>v. ur_Username v = ur_Username u) users"
    "len users < maxUsers"
  shows "users_ok L master (users @ [u])"
  using assms by (auto simp: users_ok_def list_ex_iff maxUsers_def)

text \<open>A record is replaced by one of the same name, role and state.\<close>

lemma users_ok_update:
  assumes "users_ok L master users" "find P users = Some u" "user_ok L master u'"
    "ur_Username u' = ur_Username u" "ur_Role u' = ur_Role u" "ur_Disabled u' = ur_Disabled u"
  shows "users_ok L master (update_first P (\<lambda>_. u') users)"
proof -
  from assms(2) have eq: "map ur_Username (update_first P (\<lambda>_. u') users) = map ur_Username users \<and>
      map (\<lambda>v. (ur_Role v, ur_Disabled v)) (update_first P (\<lambda>_. u') users) = map (\<lambda>v. (ur_Role v, ur_Disabled v)) users"
    using assms(4-6) by (induction users) (auto split: if_splits)
  have all: "\<forall>v\<in>set (update_first P (\<lambda>_. u') users). user_ok L master v"
    using assms(1,3) set_update_first [of P "\<lambda>_. u'" users] by (auto simp: users_ok_def)
  have admin: "(\<exists>v\<in>set xs. active_admin v) = ((RoleAdmin, False) \<in> set (map (\<lambda>v. (ur_Role v, ur_Disabled v)) xs))" for xs
    by (force simp: active_admin_def)
  with eq all assms(1) show ?thesis by (simp add: users_ok_def admin)
qed

lemma reveal_credentials [simp]: "reveal A c (u\<lparr>ur_PasswordHash := h, ur_UpdatedAt := t\<rparr>) = reveal A c u"
  by (auto simp: reveal_def fixedKeyAAD_def split: option.splits)

lemma user_ok_credentials:
  "user_ok L master u \<Longrightarrow> \<not> ur_Disabled u \<Longrightarrow> user_ok L master (u\<lparr>ur_PasswordHash := h, ur_UpdatedAt := t\<rparr>)"
  by (simp add: user_ok_def keyed_def key_ok_def)

lemma find_enabled: "find (enabled n) users = Some u \<Longrightarrow> u \<in> set users \<and> ur_Username u = n \<and> \<not> ur_Disabled u"
  using find_SomeD [of "enabled n" users u] by (simp add: enabled_def)

lemma users_ok_credentials:
  assumes "users_ok L master users" "find (enabled n) users = Some u"
  shows "users_ok L master (update_first (enabled n) (\<lambda>_. u\<lparr>ur_PasswordHash := h, ur_UpdatedAt := t\<rparr>) users)"
  using find_enabled [OF assms(2)] assms
  by (intro users_ok_update) (auto simp: users_ok_def intro: user_ok_credentials)

lemma adminCount_two:
  assumes "u \<in> set users" "active_admin u" "adminCount users \<noteq> 1" "distinct (map ur_Username users)"
  shows "\<exists>v\<in>set users. active_admin v \<and> ur_Username v \<noteq> ur_Username u"
proof (rule ccontr)
  assume "\<not> ?thesis"
  then have "\<forall>v\<in>set users. active_admin v \<longrightarrow> ur_Username v = ur_Username u" by blast
  with assms(1,4) have "\<forall>v\<in>set (filter active_admin users). v = u" by (auto simp: distinct_map inj_on_def)
  moreover have "distinct (filter active_admin users)" using assms(4) by (simp add: distinct_map)
  moreover from calculation have "card (set (filter active_admin users)) \<le> card {u}"
    by (intro card_mono) auto
  ultimately have "length (filter active_admin users) \<le> 1"
    using distinct_card [of "filter active_admin users"] by simp
  moreover have "filter active_admin users \<noteq> []" using assms(1,2) by (auto simp: filter_empty_conv)
  ultimately have "length (filter active_admin users) = 1" by (cases "filter active_admin users") auto
  then show False using assms(3) by (simp add: adminCount_def active_admin_def [abs_def])
qed

lemma users_ok_delete:
  assumes "users_ok L master users" "find (\<lambda>v. ur_Username v = n) users = Some u"
    "\<not> (ur_Role u = RoleAdmin \<and> adminCount users = 1)" "\<not> ur_Disabled u"
  shows "users_ok L master (update_first (\<lambda>v. ur_Username v = n) (disable t) users)"
proof -
  let ?us = "update_first (\<lambda>v. ur_Username v = n) (disable t) users"
  from assms(2) have u: "u \<in> set users" "ur_Username u = n" by (auto dest: find_SomeD)
  have names: "map ur_Username ?us = map ur_Username users"
    by (rule map_update_first) (simp add: disable_def)
  have all: "\<forall>v\<in>set ?us. user_ok L master v"
    using assms(1) set_update_first [of "\<lambda>v. ur_Username v = n" "disable t" users]
    by (fastforce simp: users_ok_def user_ok_def disable_def keyed_def)
  have stay: "v \<in> set ?us" if "v \<in> set users" "ur_Username v \<noteq> n" for v
    using that by (induction users) auto
  have "\<exists>v\<in>set ?us. active_admin v"
  proof (cases "active_admin u")
    case True
    with assms(1,3) u adminCount_two [of u users] show ?thesis
      using stay by (auto simp: users_ok_def active_admin_def)
  next
    case False
    from assms(1) u obtain v where "v \<in> set users" "active_admin v" by (auto simp: users_ok_def)
    moreover with False u assms(1) have "ur_Username v \<noteq> n"
      by (auto simp: users_ok_def distinct_map inj_on_def)
    ultimately show ?thesis using stay by blast
  qed
  with names all assms(1) show ?thesis by (simp add: users_ok_def)
qed

lemma initialize_keys_ok:
  assumes "initialize_keys E k master users = Inr (c, users')" "aead_ok (wb_aead (we_lib E))" "draws_ok E"
    "\<forall>u\<in>set users. user_ok (we_lib E) master u"
  shows "(\<forall>u\<in>set users'. user_ok (we_lib E) master u) \<and> map ur_Username users' = map ur_Username users \<and>
    map (\<lambda>v. (ur_Role v, ur_Disabled v)) users' = map (\<lambda>v. (ur_Role v, ur_Disabled v)) users"
  using assms(1,4)
proof (induction users arbitrary: k c users')
  case (Cons u users)
  show ?case
  proof (cases "\<not> ur_Disabled u \<and> ur_KeyID u = []")
    case True
    with Cons.prems(1) obtain u' c1 us' where a: "assign E k (Some master) u 1 = Inr u'"
      "initialize_keys E (Suc k) master users = Inr (c1, us')" "users' = u' # us'"
      by (auto split: sum.splits)
    with Cons user_ok_assign [OF a(1) assms(2,3)] True show ?thesis by fastforce
  next
    case False
    with Cons.prems(1) obtain c1 us' where a: "initialize_keys E (Suc k) master users = Inr (c1, us')" "users' = u # us'"
      by (auto split: sum.splits if_splits)
    with Cons show ?thesis by fastforce
  qed
qed simp

lemma users_ok_initialize:
  assumes "initialize_keys E k master users = Inr (c, users')" "aead_ok (wb_aead (we_lib E))" "draws_ok E"
    "users_ok (we_lib E) master users"
  shows "users_ok (we_lib E) master users'"
proof -
  have admin: "(\<exists>v\<in>set xs. active_admin v) = ((RoleAdmin, False) \<in> set (map (\<lambda>v. (ur_Role v, ur_Disabled v)) xs))" for xs
    by (force simp: active_admin_def)
  from initialize_keys_ok [OF assms(1-3)] assms(4) have i: "\<forall>u\<in>set users'. user_ok (we_lib E) master u"
    "map ur_Username users' = map ur_Username users"
    "map (\<lambda>v. (ur_Role v, ur_Disabled v)) users' = map (\<lambda>v. (ur_Role v, ur_Disabled v)) users"
    by (auto simp: users_ok_def)
  moreover from i(2) have "length users' = length users" by (metis length_map)
  ultimately show ?thesis using assms(4) by (auto simp: users_ok_def admin)
qed

section \<open>Decisions keep the invariant\<close>

text \<open>Names are never given up, and a disabled user stays disabled.\<close>

definition retained :: "user_record list \<Rightarrow> user_record list \<Rightarrow> bool" where
  "retained users users' \<longleftrightarrow>
     (\<forall>u\<in>set users. \<exists>u'\<in>set users'. ur_Username u' = ur_Username u \<and> (ur_Disabled u \<longrightarrow> ur_Disabled u'))"

lemma retained_refl [simp]: "retained users users"
  by (auto simp: retained_def)

lemma retained_trans: "\<lbrakk>retained a b; retained b c\<rbrakk> \<Longrightarrow> retained a c"
  unfolding retained_def by metis

lemma retained_update:
  assumes "\<And>u. P u \<Longrightarrow> ur_Username (f u) = ur_Username u \<and> (ur_Disabled u \<longrightarrow> ur_Disabled (f u))"
  shows "retained users (update_first P f users)"
  using assms by (induction users) (force simp: retained_def)+

lemma retained_initialize:
  assumes "map ur_Username users' = map ur_Username users"
    "map (\<lambda>v. (ur_Role v, ur_Disabled v)) users' = map (\<lambda>v. (ur_Role v, ur_Disabled v)) users"
  shows "retained users users'"
proof -
  have len: "length users' = length users" using assms(1) by (metis length_map)
  have "\<exists>u'\<in>set users'. ur_Username u' = ur_Username u \<and> (ur_Disabled u \<longrightarrow> ur_Disabled u')" if "u \<in> set users" for u
  proof -
    from that obtain i where i: "i < length users" "u = users ! i" by (auto simp: in_set_conv_nth)
    with assms len have "ur_Username (users' ! i) = ur_Username u" "ur_Disabled (users' ! i) = ur_Disabled u"
      by (metis nth_map, metis (no_types, lifting) nth_map prod.inject)
    with i len show ?thesis by (metis nth_mem)
  qed
  then show ?thesis by (simp add: retained_def)
qed

definition keeps_users :: "web_lib \<Rightarrow> string \<Rightarrow> (user_record list \<Rightarrow> (user_record, 'a) row_outcome) \<Rightarrow> bool" where
  "keeps_users L master body \<longleftrightarrow> (\<forall>users users' a. users_ok L master users \<and> body users = RowWrite users' a \<longrightarrow>
     users_ok L master users' \<and> retained users users')"

named_theorems keeps \<open>decisions that keep the invariant of the users\<close>

lemma keeps_users_read [keeps]: "keeps_users L master (\<lambda>users. RowDone (f users))"
  by (simp add: keeps_users_def)

lemma normalizeRole_admin [simp]: "normalizeRole RoleAdmin = RoleAdmin"
  by code_simp

text \<open>The first user is an administrator; once there are users, the bootstrap changes nothing.\<close>

lemma users_ok_first:
  assumes "newUserRecord E name password RoleAdmin = Inr u" "\<And>n. normalizeUsername name = Inr n \<Longrightarrow> valid_text n"
  shows "users_ok L master [u]"
  using newUserRecord_ok [OF assms, of L master] by (simp add: users_ok_def active_admin_def)

lemma users_ok_not_Nil: "users_ok L master users \<Longrightarrow> users \<noteq> []"
  by (auto simp: users_ok_def)

lemma keeps_first_user [keeps]: "keeps_users L master (first_user created)"
  by (auto simp: keeps_users_def first_user_def dest: users_ok_not_Nil split: if_splits)

lemma keeps_add_user [keeps]: "user_ok L master u \<Longrightarrow> keeps_users L master (add_user u)"
  by (auto simp: keeps_users_def add_user_def retained_def intro: users_ok_append split: if_splits)

lemma keeps_remove_user [keeps]: "keeps_users L master (remove_user now n)"
  using users_ok_delete
  by (auto simp: keeps_users_def remove_user_def disable_def intro!: retained_update split: option.splits if_splits)

lemma keeps_confirm_login [keeps]: "keeps_users L master (confirm_login E n candidate upgraded)"
  using users_ok_credentials
  by (auto simp: keeps_users_def confirm_login_def Let_def enabled_def dest: find_enabled intro!: retained_update
      split: option.splits if_splits)

lemma keeps_replace_password [keeps]: "keeps_users L master (replace_password E n candidate h)"
  using users_ok_credentials
  by (auto simp: keeps_users_def replace_password_def Let_def enabled_def dest: find_enabled intro!: retained_update
      split: option.splits if_splits)

lemma keeps_replace_key [keeps]:
  assumes "we_lib E = L" "aead_ok (wb_aead L)" "draws_ok E" "c = None \<or> c = Some master"
  shows "keeps_users L master (replace_key E c n)"
proof -
  have "users_ok L master users' \<and> retained users users'"
    if ok: "users_ok L master users" and w: "replace_key E c n users = RowWrite users' a" for users users' a
  proof -
    from w obtain u u' where u: "find (enabled n) users = Some u" "assign E 0 c u (next_version (ur_KeyVersion u)) = Inr u'"
      "users' = update_first (enabled n) (\<lambda>_. u') users"
      by (auto simp: replace_key_def split: option.splits sum.splits)
    with assms(4) have "assign E 0 (Some master) u (next_version (ur_KeyVersion u)) = Inr u'"
      by (auto simp: assign_def)
    with user_ok_assign [OF this] find_enabled [OF u(1)] ok assms have
      "user_ok L master u'" "ur_Username u' = ur_Username u" "ur_Role u' = ur_Role u" "\<not> ur_Disabled u'" "\<not> ur_Disabled u"
      by (auto simp: users_ok_def)
    moreover have "retained users users'" unfolding u(3)
      using calculation find_enabled [OF u(1)] by (intro retained_update) (auto simp: enabled_def)
    ultimately show ?thesis unfolding u(3) using users_ok_update [OF ok u(1)] by simp
  qed
  then show ?thesis unfolding keeps_users_def by blast
qed

lemma keeps_initialize [keeps]:
  assumes "we_lib E = L" "aead_ok (wb_aead L)" "draws_ok E"
  shows "keeps_users L master (initialize_body E master)"
proof -
  have "users_ok L master users' \<and> retained users users'"
    if ok: "users_ok L master users" and w: "initialize_body E master users = RowWrite users' a" for users users' a
  proof -
    have "\<exists>c. initialize_keys E 0 master users = Inr (c, users')"
    proof (cases "initialize_keys E 0 master users")
      case (Inr r)
      then show ?thesis using w by (cases r) (simp add: initialize_body_def split: if_splits)
    qed (use w in \<open>simp add: initialize_body_def\<close>)
    then obtain c where i: "initialize_keys E 0 master users = Inr (c, users')" by blast
    have all: "\<forall>u\<in>set users. user_ok (we_lib E) master u" using ok assms(1) by (simp add: users_ok_def)
    have a: "aead_ok (wb_aead (we_lib E))" using assms(1,2) by simp
    from initialize_keys_ok [OF i a assms(3) all] have "retained users users'"
      by (elim conjE) (rule retained_initialize)
    moreover have "users_ok L master users'" using users_ok_initialize [OF i a assms(3)] ok assms(1) by simp
    ultimately show ?thesis by simp
  qed
  then show ?thesis unfolding keeps_users_def by blast
qed

end
