(* ===== verification/UserSystem.thy ===== *)
theory UserSystem
  imports UserProps
begin

text \<open>
  The user store as a state machine: the critical sections of its operations are the steps, a
  restart is one too, and the invariant of the records holds in every state they reach, in
  memory and on disk.
\<close>

section \<open>States\<close>

definition web_lib_ok :: "web_lib \<Rightarrow> bool" where
  "web_lib_ok L \<longleftrightarrow> users_json (wb_json L) \<and> aead_ok (wb_aead L)"

definition stored_users :: "web_lib \<Rightarrow> user_store \<Rightarrow> user_record list option" where
  "stored_users L s = disk_rows (users_codec (wb_json L)) (rw_disk (us_file s))"

definition users_of :: "web_lib \<Rightarrow> user_store \<Rightarrow> user_record list" where
  "users_of L s = the_or [] (stored_users L s)"

definition users_inv :: "web_lib \<Rightarrow> string \<Rightarrow> user_store \<Rightarrow> bool" where
  "users_inv L master s \<longleftrightarrow>
     rows_consistent (users_codec (wb_json L)) (us_file s) \<and> stored_users L s = Some (users_of L s) \<and>
     users_ok L master (users_of L s) \<and> (us_keyCipher s = None \<or> us_keyCipher s = Some master)"

lemma users_inv_ok: "users_inv L master s \<Longrightarrow> users_ok L master (users_of L s)"
  by (simp add: users_inv_def)

definition restart_users :: "user_store \<Rightarrow> user_store" where
  "restart_users s = \<lparr>us_file = restart_rows (us_file s), us_keyCipher = None\<rparr>"

lemma users_inv_restart: "users_inv L master s \<Longrightarrow> users_inv L master (restart_users s) \<and> users_of L (restart_users s) = users_of L s"
  by (simp add: users_inv_def restart_users_def users_of_def stored_users_def)

section \<open>Transactions\<close>

text \<open>How a transaction on the users ends.\<close>

lemma users_tx_cases:
  assumes "users_tx E body s = (r, s')" "we_lib E = L" "web_lib_ok L" "users_inv L master s" "keeps_users L master body"
  obtains (unread) e where "r = Inl e" "s' = s"
  | (refused) e where "body (users_of L s) = RowFail e" "r = Inl e" "users_of L s' = users_of L s"
  | (answered) a where "body (users_of L s) = RowDone a" "r = Inr a" "users_of L s' = users_of L s"
  | (unsaved) rows' a e where "body (users_of L s) = RowWrite rows' a" "r = Inl e" "users_of L s' = users_of L s"
  | (saved) rows' a where "body (users_of L s) = RowWrite rows' a" "r = Inr a \<or> (\<exists>e. r = Inl e)" "users_of L s' = rows'"
proof -
  let ?C = "users_codec (wb_json L)"
  from assms(1,2) obtain f where tx: "row_tx ?C (we_io E) body (us_file s) = (r, f)" and s': "s' = s\<lparr>us_file := f\<rparr>"
    by (auto simp: users_tx_def split: prod.splits)
  have c: "rows_consistent ?C (us_file s)" and d: "disk_rows ?C (rw_disk (us_file s)) = Some (users_of L s)"
    and ok: "users_ok L master (users_of L s)"
    using assms(4) by (simp_all add: users_inv_def stored_users_def)
  have I: "users_ok L master rows' \<and> users_json (wb_json L)"
    if "disk_rows ?C (rw_disk (us_file s)) = Some rows" "body rows = RowWrite rows' a" for rows rows' a
  proof -
    from that(1) d have "rows = users_of L s" by simp
    with that(2) ok assms(3,5) show ?thesis unfolding keeps_users_def web_lib_ok_def by blast
  qed
  have new: "users_of L s' = rows" if "disk_rows ?C (rw_disk f) = Some rows" for rows
    using that by (simp add: s' users_of_def stored_users_def)
  show thesis
    by (rule users.row_tx_cases [where master = master, OF tx c])
      (use I d s' new that in \<open>auto\<close>)
qed

lemma users_tx_inv:
  assumes "users_tx E body s = (r, s')" "we_lib E = L" "web_lib_ok L" "users_inv L master s" "keeps_users L master body"
  shows "users_inv L master s' \<and> retained (users_of L s) (users_of L s') \<and> us_keyCipher s' = us_keyCipher s"
proof -
  let ?C = "users_codec (wb_json L)"
  from assms(1,2) obtain f where tx: "row_tx ?C (we_io E) body (us_file s) = (r, f)" and s': "s' = s\<lparr>us_file := f\<rparr>"
    by (auto simp: users_tx_def split: prod.splits)
  have c: "rows_consistent ?C (us_file s)" and d: "disk_rows ?C (rw_disk (us_file s)) = Some (users_of L s)"
    and ok: "users_ok L master (users_of L s)"
    using assms(4) by (simp_all add: users_inv_def stored_users_def)
  have body: "users_ok L master rows' \<and> retained (users_of L s) rows' \<and> users_json (wb_json L)"
    if "disk_rows ?C (rw_disk (us_file s)) = Some rows" "body rows = RowWrite rows' a" for rows rows' a
  proof -
    from that(1) d have "rows = users_of L s" by simp
    with that(2) ok assms(3,5) show ?thesis unfolding keeps_users_def web_lib_ok_def by blast
  qed
  have I: "users_ok L master rows' \<and> users_json (wb_json L)"
    if "disk_rows ?C (rw_disk (us_file s)) = Some rows" "body rows = RowWrite rows' a" for rows rows' a
    using body [OF that] by simp
  have con: "rows_consistent ?C f"
    by (rule users.row_tx_consistent [where master = master, OF tx c]) (use I in auto)
  have "\<exists>rows. disk_rows ?C (rw_disk f) = Some rows \<and> users_ok L master rows \<and> retained (users_of L s) rows"
    by (rule users.row_tx_cases [where master = master, OF tx c]) (use I body ok d in auto)
  with con assms(4) show ?thesis
    by (auto simp: s' users_inv_def users_of_def stored_users_def)
qed

lemma loadLocked_users_tx: "loadLocked_users E = users_tx E RowDone"
  by (rule ext) (auto simp: loadLocked_users_def users_tx_def row_tx_def split: prod.splits sum.splits)

lemma keeps_users_RowDone [keeps]: "keeps_users L master RowDone"
  using keeps_users_read [of L master "\<lambda>x. x"] by simp

section \<open>Steps\<close>

text \<open>
  The steps a store takes once it has its first administrator. Names are valid UTF-8, since
  they come from a JSON decoder, and the key cipher is always made from one master key.
  A new record is made before the lock is taken, with the cipher of that moment; signing in
  and changing a password are two steps each.
\<close>

definition name_text :: "string \<Rightarrow> bool" where
  "name_text name \<longleftrightarrow> (case normalizeUsername name of Inl _ \<Rightarrow> True | Inr n \<Rightarrow> valid_text n)"

lemma name_textD: "\<lbrakk>name_text name; normalizeUsername name = Inr n\<rbrakk> \<Longrightarrow> valid_text n"
  by (simp add: name_text_def)

inductive user_step :: "web_lib \<Rightarrow> string \<Rightarrow> user_store \<Rightarrow> user_store \<Rightarrow> bool" for L master where
  load: "\<lbrakk>loadLocked_users E s = (r, s'); we_lib E = L\<rbrakk> \<Longrightarrow> user_step L master s s'"
| bootstrap: "\<lbrakk>BootstrapAdmin E name password s = (r, s'); we_lib E = L\<rbrakk> \<Longrightarrow> user_step L master s s'"
| create: "\<lbrakk>users_tx E (add_user u) s = (r, s'); newUserRecord E name password role = Inr u0; name_text name;
     u = u0 \<or> assign E 0 (Some master) u0 1 = Inr u; we_lib E = L; draws_ok E\<rbrakk> \<Longrightarrow> user_step L master s s'"
| delete: "\<lbrakk>Delete_user E name s = (r, s'); we_lib E = L\<rbrakk> \<Longrightarrow> user_step L master s s'"
| confirm: "\<lbrakk>users_tx E (confirm_login E username candidate upgraded) s = (r, s'); we_lib E = L\<rbrakk> \<Longrightarrow> user_step L master s s'"
| replace: "\<lbrakk>users_tx E (replace_password E username candidate h) s = (r, s'); we_lib E = L\<rbrakk> \<Longrightarrow> user_step L master s s'"
| initialize: "\<lbrakk>InitializeFixedKeys E master s = (r, s'); we_lib E = L; draws_ok E\<rbrakk> \<Longrightarrow> user_step L master s s'"
| regenerate: "\<lbrakk>RegenerateFixedKey E name s = (r, s'); we_lib E = L; draws_ok E\<rbrakk> \<Longrightarrow> user_step L master s s'"
| restart: "user_step L master s (restart_users s)"

inductive_cases user_stepE: "user_step L master s s'"

lemma initialize_step:
  assumes "InitializeFixedKeys E master s = (r, s')" "we_lib E = L" "draws_ok E" "web_lib_ok L" "users_inv L master s"
  shows "users_inv L master s' \<and> retained (users_of L s) (users_of L s')"
proof (cases "newUserKeyCipher master")
  case (Inl e)
  with assms show ?thesis by (simp add: InitializeFixedKeys_def)
next
  case (Inr c)
  then have c: "c = master" by (simp add: newUserKeyCipher_def split: if_splits)
  obtain x s1 where tx: "users_tx E (initialize_body E master) s = (x, s1)" by (metis prod.exhaust)
  have keeps: "keeps_users L master (initialize_body E master)"
    using assms(2,3,4) by (intro keeps_initialize) (simp_all add: web_lib_ok_def)
  from users_tx_inv [OF tx assms(2,4,5) keeps] have i: "users_inv L master s1" "retained (users_of L s) (users_of L s1)" by auto
  have "s' = s1 \<or> s' = s1\<lparr>us_keyCipher := Some master\<rparr>"
    using assms(1) Inr c tx by (auto simp: InitializeFixedKeys_def split: sum.splits)
  with i show ?thesis by (auto simp: users_inv_def users_of_def stored_users_def)
qed

lemma regenerate_step:
  assumes "RegenerateFixedKey E name s = (r, s')" "we_lib E = L" "draws_ok E" "web_lib_ok L" "users_inv L master s"
  shows "users_inv L master s' \<and> retained (users_of L s) (users_of L s')"
proof (cases "normalizeUsername name")
  case (Inl e)
  with assms show ?thesis by (simp add: RegenerateFixedKey_def)
next
  case (Inr n)
  obtain x s1 where tx: "users_tx E (replace_key E (us_keyCipher s) n) s = (x, s1)" by (metis prod.exhaust)
  have keeps: "keeps_users L master (replace_key E (us_keyCipher s) n)"
    using assms(2-5) by (intro keeps_replace_key) (simp_all add: web_lib_ok_def users_inv_def)
  have "s' = s1" using assms(1) Inr tx by (auto simp: RegenerateFixedKey_def split: sum.splits)
  with users_tx_inv [OF tx assms(2,4,5) keeps] show ?thesis by simp
qed

lemma add_user_keeps:
  assumes "newUserRecord E name password role = Inr u0" "name_text name" "u = u0 \<or> assign E 0 (Some master) u0 1 = Inr u"
    "we_lib E = L" "draws_ok E" "web_lib_ok L"
  shows "keeps_users L master (add_user u)"
proof (rule keeps_add_user)
  have u0: "user_ok L master u0 \<and> \<not> ur_Disabled u0"
    using newUserRecord_ok [OF assms(1)] name_textD [OF assms(2)] by simp
  then show "user_ok L master u"
    using assms(3-6) user_ok_assign [of E 0 master u0 1 u] by (auto simp: web_lib_ok_def)
qed

theorem user_step_inv:
  assumes "user_step L master s s'" "web_lib_ok L" "users_inv L master s"
  shows "users_inv L master s' \<and> retained (users_of L s) (users_of L s')"
  using assms(1)
proof cases
  case (load E r)
  then show ?thesis using users_tx_inv [OF _ _ assms(2,3) keeps_users_RowDone] by (auto simp: loadLocked_users_tx)
next
  case (bootstrap E name password r)
  then show ?thesis using users_tx_inv [OF _ _ assms(2,3) keeps_first_user] by (auto simp: BootstrapAdmin_def)
next
  case (create E u r name password role u0)
  then show ?thesis using users_tx_inv [OF _ _ assms(2,3) add_user_keeps] assms(2) by blast
next
  case (delete E name r)
  then show ?thesis using users_tx_inv [OF _ _ assms(2,3) keeps_remove_user] assms(3)
    by (auto simp: Delete_user_def split: sum.splits)
next
  case (confirm E username candidate upgraded r)
  then show ?thesis using users_tx_inv [OF _ _ assms(2,3) keeps_confirm_login] by auto
next
  case (replace E username candidate h r)
  then show ?thesis using users_tx_inv [OF _ _ assms(2,3) keeps_replace_password] by auto
next
  case (initialize E r)
  then show ?thesis using initialize_step assms(2,3) by blast
next
  case (regenerate E name r)
  then show ?thesis using regenerate_step assms(2,3) by blast
next
  case restart
  then show ?thesis using users_inv_restart [OF assms(3)] by simp
qed

abbreviation user_steps :: "web_lib \<Rightarrow> string \<Rightarrow> user_store \<Rightarrow> user_store \<Rightarrow> bool" where
  "user_steps L master \<equiv> (user_step L master)\<^sup>*\<^sup>*"

theorem user_steps_inv:
  assumes "user_steps L master s s'" "web_lib_ok L" "users_inv L master s"
  shows "users_inv L master s' \<and> retained (users_of L s) (users_of L s')"
  using assms(1)
proof (induction rule: rtranclp_induct)
  case (step y z)
  then show ?case using user_step_inv [OF _ assms(2)] retained_trans by blast
qed (use assms in simp)

text \<open>The first administrator establishes the invariant on an empty file.\<close>

lemma bootstrap_inv:
  assumes "BootstrapAdmin E name password (NewUserStore None) = (Inr (), s)" "we_lib E = L" "web_lib_ok L" "name_text name"
  shows "users_inv L master s"
proof -
  let ?C = "users_codec (wb_json L)"
  let ?s0 = "us_file (NewUserStore None)"
  let ?body = "first_user (newUserRecord E name password RoleAdmin)"
  from assms(1,2) obtain f where tx: "row_tx ?C (we_io E) ?body ?s0 = (Inr (), f)" and s: "s = (NewUserStore None)\<lparr>us_file := f\<rparr>"
    by (auto simp: users_tx_def BootstrapAdmin_def split: prod.splits)
  have c: "rows_consistent ?C ?s0" by (simp add: NewUserStore_def rows_consistent_def)
  have d: "disk_rows ?C (rw_disk ?s0) = Some []" by (simp add: NewUserStore_def disk_rows_def)
  have I: "users_ok L master rows' \<and> users_json (wb_json L)"
    if "disk_rows ?C (rw_disk ?s0) = Some rows" "?body rows = RowWrite rows' a" for rows rows' a
    using that d assms(3) users_ok_first [OF _ name_textD [OF assms(4)]]
    by (auto simp: first_user_def web_lib_ok_def split: sum.splits)
  have con: "rows_consistent ?C f"
    by (rule users.row_tx_consistent [where master = master, OF tx c]) (use I in auto)
  have "\<exists>rows. disk_rows ?C (rw_disk f) = Some rows \<and> users_ok L master rows"
    by (rule users.row_tx_cases [where master = master, OF tx c])
      (use I d in \<open>auto simp: first_user_def split: sum.splits\<close>)
  with con show ?thesis by (auto simp: s users_inv_def users_of_def stored_users_def NewUserStore_def)
qed

end
