(* ===== verification/Sessions.thy ===== *)
theory Sessions
  imports UserSystem
begin

text \<open>
  Sessions (\<^verbatim>\<open>web/session.go\<close>): the signed cookie and what it proves, the key it is signed with
  (\<^verbatim>\<open>web/secret.go\<close>), and the limits on requests in flight.
\<close>

section \<open>The signed cookie\<close>

definition sessionTTL :: duration where "sessionTTL = 24 * Hour"

record session_payload =
  sp_User :: string
  sp_Role :: string
  sp_CredentialVersion :: int
  sp_Expires :: int

record session_info =
  si_User :: string
  si_Role :: string

record session_json =
  sj_marshal :: "session_payload \<Rightarrow> string"
  sj_unmarshal :: "string \<Rightarrow> session_payload option"

text \<open>
  \<^verbatim>\<open>Unix\<close> and \<^verbatim>\<open>UnixNano\<close> count from 1970; the latter is an \<^verbatim>\<open>int64\<close> and wraps outside of the
  years 1678 to 2262.
\<close>

definition unix_epoch :: time where "unix_epoch = 62135596800 * Second"

definition time_Unix :: "time \<Rightarrow> int" where "time_Unix t = (t - unix_epoch) div Second"

definition time_UnixNano :: "time \<Rightarrow> int" where "time_UnixNano t = wrap_int64 (t - unix_epoch)"

definition sessionSignature :: "weblib \<Rightarrow> string \<Rightarrow> string \<Rightarrow> string" where
  "sessionSignature L sessionKey data = wl_hmac L sessionKey data"

definition signSession ::
  "web_env \<Rightarrow> session_json \<Rightarrow> string \<Rightarrow> string \<Rightarrow> string \<Rightarrow> time \<Rightarrow> user_store \<Rightarrow> string \<times> user_store" where
  "signSession E J sessionKey user role expires s =
     (case Get_user E user s of (r, s') \<Rightarrow>
        let credentialVersion = (case r of Inr (Some u) \<Rightarrow> time_UnixNano (ur_UpdatedAt u) | _ \<Rightarrow> 0);
            data = sj_marshal J \<lparr>sp_User = user, sp_Role = role, sp_CredentialVersion = credentialVersion,
              sp_Expires = time_Unix expires\<rparr>;
            signature = sessionSignature (wb_hash (we_lib E)) sessionKey data
        in (b64_EncodeToString RawURLEncoding data @ ''.'' @ b64_EncodeToString RawURLEncoding signature, s'))"

definition verifySession :: "weblib \<Rightarrow> session_json \<Rightarrow> string \<Rightarrow> string \<Rightarrow> session_payload option" where
  "verifySession L J sessionKey val =
     (if length val > 2048 then None
      else
        (case Split val (CHR ''.'') of
           [p0, p1] \<Rightarrow>
             (case b64_DecodeString RawURLEncoding p0 of
                None \<Rightarrow> None
              | Some data \<Rightarrow>
                  (case b64_DecodeString RawURLEncoding p1 of
                     None \<Rightarrow> None
                   | Some signature \<Rightarrow>
                       if signature \<noteq> sessionSignature L sessionKey data then None
                       else sj_unmarshal J data))
         | _ \<Rightarrow> None))"

text \<open>The user of a request: the cookie is one that was signed, has not expired, and names a user whose credentials are those of then.\<close>

definition sessionUser ::
  "web_env \<Rightarrow> session_json \<Rightarrow> string \<Rightarrow> string option \<Rightarrow> user_store \<Rightarrow> session_info option \<times> user_store" where
  "sessionUser E J sessionKey cookie s =
     (case cookie of
        None \<Rightarrow> (None, s)
      | Some val \<Rightarrow>
          if val = [] then (None, s)
          else
            (case verifySession (wb_hash (we_lib E)) J sessionKey val of
               None \<Rightarrow> (None, s)
             | Some payload \<Rightarrow>
                 if sp_Expires payload \<le> 0 \<or> time_Unix (we_now E) \<ge> sp_Expires payload then (None, s)
                 else
                   (case Get_user E (sp_User payload) s of
                      (Inr (Some u), s') \<Rightarrow>
                        if sp_CredentialVersion payload = 0 \<or> sp_CredentialVersion payload \<noteq> time_UnixNano (ur_UpdatedAt u)
                        then (None, s')
                        else (Some \<lparr>si_User = ur_Username u, si_Role = ur_Role u\<rparr>, s')
                    | (_, s') \<Rightarrow> (None, s'))))"

section \<open>The key of the signatures\<close>

definition sessionKeyBytes :: nat where "sessionKeyBytes = 32"

record secret_io =
  sc_first :: io
  sc_mkdir :: "error option"
  sc_temp :: io
  sc_race :: "file_obj option"
  sc_link :: "error option"
  sc_opendir :: "error option"
  sc_syncdir :: "error option"
  sc_closedir :: "error option"
  sc_second :: io
  sc_random :: "string result"

definition readSessionKey :: "io \<Rightarrow> file_obj option \<Rightarrow> string reading" where
  "readSessionKey io file =
     (case readPrivateFile io ''web session key'' (int (sessionKeyBytes * 2 + 1)) file of
        NotExist \<Rightarrow> NotExist
      | ReadErr e \<Rightarrow> ReadErr e
      | ReadOK data \<Rightarrow>
          (case hex_DecodeString (TrimSpace data) of
             None \<Rightarrow> ReadErr (ErrNew ''web session key must contain exactly 32 random bytes encoded as hex'')
           | Some key \<Rightarrow>
               if length key \<noteq> sessionKeyBytes
               then ReadErr (ErrNew ''web session key must contain exactly 32 random bytes encoded as hex'')
               else ReadOK key))"

text \<open>
  The file is published with a hard link, so that of two processes the first wins; \<open>sc_race\<close> is the
  file another process has published meanwhile.
\<close>

definition loadOrCreateSessionKey :: "secret_io \<Rightarrow> string \<Rightarrow> file_obj option \<Rightarrow> string result \<times> file_obj option" where
  "loadOrCreateSessionKey K path file =
     (if TrimSpace path = [] then (sc_random K, file)
      else
        (case readSessionKey (sc_first K) file of
           ReadOK key \<Rightarrow> (Inr key, file)
         | ReadErr e \<Rightarrow> (Inl e, file)
         | NotExist \<Rightarrow>
             (case sc_mkdir K of
                Some e \<Rightarrow> (Inl e, file)
              | None \<Rightarrow>
                  (case sc_random K of
                     Inl e \<Rightarrow> (Inl e, file)
                   | Inr key \<Rightarrow>
                       let present = (case sc_race K of None \<Rightarrow> file | Some f \<Rightarrow> Some f) in
                       (case writeSyncedTempFile (sc_temp K) of
                          (Some e, _) \<Rightarrow> (Inl e, present)
                        | (None, _) \<Rightarrow>
                            (case sc_link K of
                               Some e \<Rightarrow> (Inl e, present)
                             | None \<Rightarrow>
                                 (case present of
                                    Some f \<Rightarrow>
                                      (case readSessionKey (sc_second K) (Some f) of
                                         ReadOK k \<Rightarrow> (Inr k, present)
                                       | ReadErr e \<Rightarrow> (Inl e, present)
                                       | NotExist \<Rightarrow> (Inl ErrNotExist, present))
                                  | None \<Rightarrow>
                                      let published = Some \<lparr>fo_regular = True, fo_perm = 0x180,
                                            fo_data = hex_EncodeToString key @ newline\<rparr>
                                      in (case and_then (sc_opendir K) (and_then (sc_syncdir K) (sc_closedir K)) of
                                            Some e \<Rightarrow> (Inl e, published)
                                          | None \<Rightarrow> (Inr key, published)))))))))"

definition loadOrCreateUserKeyMaster ::
  "web_env \<Rightarrow> secret_io \<Rightarrow> string \<Rightarrow> user_store \<Rightarrow> file_obj option \<Rightarrow> string result \<times> user_store \<times> file_obj option" where
  "loadOrCreateUserKeyMaster E K path s file =
     (case HasEncryptedFixedKeys E s of
        (Inl e, s1) \<Rightarrow> (Inl e, s1, file)
      | (Inr hasEncryptedKeys, s1) \<Rightarrow>
          if hasEncryptedKeys then
            (case readSessionKey (sc_first K) file of
               ReadOK master \<Rightarrow> (Inr master, s1, file)
             | ReadErr e \<Rightarrow> (Inl (ErrWrap ''read web user-key master'' [] e), s1, file)
             | NotExist \<Rightarrow> (Inl (ErrWrap ''read web user-key master'' [] ErrNotExist), s1, file))
          else (case loadOrCreateSessionKey K path file of (r, file') \<Rightarrow> (r, s1, file')))"

section \<open>Requests in flight\<close>

definition maxAuthenticatedRequests :: int where "maxAuthenticatedRequests = 64"
definition maxAuthenticatedRequestsUser :: int where "maxAuthenticatedRequestsUser = 8"
definition reservedAdminRequests :: int where "reservedAdminRequests = 8"

lemmas request_limits = maxAuthenticatedRequests_def maxAuthenticatedRequestsUser_def reservedAdminRequests_def

record request_counters =
  rq_activeUsers :: "string \<Rightarrow> int option"
  rq_activeTotal :: int
  rq_activeNonAdmin :: int

definition no_requests :: request_counters where
  "no_requests = \<lparr>rq_activeUsers = (\<lambda>_. None), rq_activeTotal = 0, rq_activeNonAdmin = 0\<rparr>"

definition session_name :: "session_info \<Rightarrow> string" where
  "session_name session = ToLower (TrimSpace (si_User session))"

definition user_requests :: "request_counters \<Rightarrow> string \<Rightarrow> int" where
  "user_requests s user = the_or 0 (rq_activeUsers s user)"

definition acquireAuthenticatedRequest :: "session_info \<Rightarrow> request_counters \<Rightarrow> bool \<times> request_counters" where
  "acquireAuthenticatedRequest session s =
     (let user = session_name session in
      if rq_activeTotal s \<ge> maxAuthenticatedRequests \<or> user_requests s user \<ge> maxAuthenticatedRequestsUser then (False, s)
      else if si_Role session \<noteq> RoleAdmin \<and> rq_activeNonAdmin s \<ge> maxAuthenticatedRequests - reservedAdminRequests
      then (False, s)
      else (True,
        s\<lparr>rq_activeUsers := (rq_activeUsers s)(user \<mapsto> user_requests s user + 1),
          rq_activeTotal := rq_activeTotal s + 1,
          rq_activeNonAdmin := rq_activeNonAdmin s + (if si_Role session \<noteq> RoleAdmin then 1 else 0)\<rparr>))"

definition release_request :: "session_info \<Rightarrow> request_counters \<Rightarrow> request_counters" where
  "release_request session s =
     (let user = session_name session; left = user_requests s user - 1 in
      s\<lparr>rq_activeUsers := (if left = 0 then (rq_activeUsers s)(user := None) else (rq_activeUsers s)(user \<mapsto> left)),
        rq_activeTotal := rq_activeTotal s - 1,
        rq_activeNonAdmin := rq_activeNonAdmin s - (if si_Role session \<noteq> RoleAdmin then 1 else 0)\<rparr>)"

end
