(* ===== verification/Registry.thy ===== *)
theory Registry
  imports UserStore NodeFiles
begin

text \<open>
  The registry of nodes (\<^verbatim>\<open>web/registry.go\<close>) and the check of their addresses (\<^verbatim>\<open>parseNodeEndpoint\<close>
  and \<^verbatim>\<open>joinURL\<close> in \<^verbatim>\<open>web/client.go\<close>). The parser of package \<^verbatim>\<open>net/url\<close> is a parameter.
\<close>

section \<open>Addresses\<close>

record url =
  url_Scheme :: string
  url_User :: "string option"
  url_Host :: string
  url_Path :: string
  url_RawQuery :: string
  url_Fragment :: string

record url_lib =
  ul_Parse :: "string \<Rightarrow> url result"
  ul_String :: "url \<Rightarrow> string"

definition parseNodeEndpoint :: "url_lib \<Rightarrow> string \<Rightarrow> url result" where
  "parseNodeEndpoint U base =
     (case ul_Parse U (rev (strip_slashes (rev (TrimSpace base)))) of
        Inl e \<Rightarrow> Inl e
      | Inr parsed \<Rightarrow>
          if url_Scheme parsed \<noteq> ''http'' \<and> url_Scheme parsed \<noteq> ''https''
          then Inl (ErrNew ''node endpoint scheme must be http or https'')
          else if url_Host parsed = [] then Inl (ErrNew ''node endpoint host is required'')
          else if url_User parsed \<noteq> None \<or> url_RawQuery parsed \<noteq> [] \<or> url_Fragment parsed \<noteq> []
          then Inl (ErrNew ''node endpoint must not contain credentials, a query, or a fragment'')
          else Inr parsed)"

definition joinURL :: "url_lib \<Rightarrow> string \<Rightarrow> string \<Rightarrow> bool \<Rightarrow> string result" where
  "joinURL U base apiPath allowInsecureNodes =
     (case parseNodeEndpoint U base of
        Inl e \<Rightarrow> Inl e
      | Inr parsed \<Rightarrow>
          if url_Scheme parsed \<noteq> ''https'' \<and> \<not> allowInsecureNodes
          then Inl (ErrNew ''plaintext HTTP node endpoints are disabled; use HTTPS or set GPUARDIAN_WEB_ALLOW_INSECURE_NODES=1'')
          else Inr (ul_String U (parsed\<lparr>url_Path := filepath_Join (url_Path parsed) apiPath\<rparr>)))"

section \<open>Records\<close>

definition maxRegistryFileBytes :: int where "maxRegistryFileBytes = 2097152"
definition maxServerRecords :: int where "maxServerRecords = 256"
definition maxServerNameBytes :: int where "maxServerNameBytes = 128"
definition maxServerEndpoint :: int where "maxServerEndpoint = 2048"
definition maxServerRootKey :: int where "maxServerRootKey = 256"

record server_record =
  sv_ID :: string
  sv_Name :: string
  sv_Endpoint :: string
  sv_RootKey :: string
  sv_TLSSkipVerify :: bool
  sv_CreatedAt :: time
  sv_UpdatedAt :: time

record public_server_record =
  pv_ID :: string
  pv_Name :: string
  pv_Endpoint :: string
  pv_TLSSkipVerify :: bool
  pv_CreatedAt :: time
  pv_UpdatedAt :: time

definition publicServerRecord :: "server_record \<Rightarrow> public_server_record" where
  "publicServerRecord r = \<lparr>pv_ID = sv_ID r, pv_Name = sv_Name r, pv_Endpoint = sv_Endpoint r,
     pv_TLSSkipVerify = sv_TLSSkipVerify r, pv_CreatedAt = sv_CreatedAt r, pv_UpdatedAt = sv_UpdatedAt r\<rparr>"

definition validateServerRecord :: "url_lib \<Rightarrow> server_record \<Rightarrow> error option" where
  "validateServerRecord U r =
     (if len (sv_Name r) > maxServerNameBytes then Some (ErrValueSize ''server name'' maxServerNameBytes)
      else if len (sv_Endpoint r) > maxServerEndpoint then Some (ErrValueSize ''server endpoint'' maxServerEndpoint)
      else if len (sv_RootKey r) > maxServerRootKey then Some (ErrValueSize ''root key'' maxServerRootKey)
      else (case parseNodeEndpoint U (sv_Endpoint r) of Inl e \<Rightarrow> Some e | Inr _ \<Rightarrow> None))"

record registry_lib =
  rl_marshal :: "server_record list \<Rightarrow> string result"
  rl_unmarshal :: "string \<Rightarrow> server_record list result"
  rl_url :: url_lib

fun first_invalid :: "url_lib \<Rightarrow> server_record list \<Rightarrow> error option" where
  "first_invalid U [] = None"
| "first_invalid U (r # rs) = (case validateServerRecord U r of Some e \<Rightarrow> Some e | None \<Rightarrow> first_invalid U rs)"

definition registry_check :: "url_lib \<Rightarrow> server_record list \<Rightarrow> error option" where
  "registry_check U records =
     (if len records > maxServerRecords then Some (ErrTooMany ''registry'' (len records) maxServerRecords)
      else first_invalid U records)"

definition registry_codec :: "registry_lib \<Rightarrow> server_record row_codec" where
  "registry_codec L = \<lparr>rc_description = ''registry file'', rc_limit = maxRegistryFileBytes, rc_marshal = rl_marshal L,
     rc_unmarshal = rl_unmarshal L, rc_check = registry_check (rl_url L)\<rparr>"

type_synonym registry = "server_record rows_state"

definition NewRegistry :: "file_obj option \<Rightarrow> registry" where
  "NewRegistry disk = \<lparr>rw_loaded = False, rw_rows = [], rw_disk = disk\<rparr>"

definition loadLocked_registry :: "registry_lib \<Rightarrow> private_io \<Rightarrow> registry \<Rightarrow> server_record list result \<times> registry" where
  "loadLocked_registry L = load_rows (registry_codec L)"

definition List_registry :: "registry_lib \<Rightarrow> private_io \<Rightarrow> registry \<Rightarrow> server_record list result \<times> registry" where
  "List_registry L io = loadLocked_registry L io"

definition PublicList :: "registry_lib \<Rightarrow> private_io \<Rightarrow> registry \<Rightarrow> public_server_record list result \<times> registry" where
  "PublicList L io s =
     (case List_registry L io s of
        (Inl e, s1) \<Rightarrow> (Inl e, s1)
      | (Inr records, s1) \<Rightarrow> (Inr (map publicServerRecord records), s1))"

definition Get_registry :: "registry_lib \<Rightarrow> private_io \<Rightarrow> string \<Rightarrow> registry \<Rightarrow> server_record option result \<times> registry" where
  "Get_registry L io i s =
     (case List_registry L io s of
        (Inl e, s1) \<Rightarrow> (Inl e, s1)
      | (Inr records, s1) \<Rightarrow> (Inr (find (\<lambda>r. sv_ID r = i) records), s1))"

text \<open>The record that an update stores: its identifier, times and name.\<close>

definition completed_record :: "string \<Rightarrow> time \<Rightarrow> server_record \<Rightarrow> server_record" where
  "completed_record random now r =
     (let r1 = (if TrimSpace (sv_ID r) = [] then r\<lparr>sv_ID := ''srv_'' @ hex_EncodeToString random, sv_CreatedAt := now\<rparr> else r);
          r2 = r1\<lparr>sv_UpdatedAt := now\<rparr>
      in if TrimSpace (sv_Name r2) = [] then r2\<lparr>sv_Name := sv_Endpoint r2\<rparr> else r2)"

definition check_record :: "url_lib \<Rightarrow> bool \<Rightarrow> server_record \<Rightarrow> error option" where
  "check_record U allowInsecureNodes r =
     (if TrimSpace (sv_Endpoint r) = [] then Some (ErrNew ''endpoint is required'')
      else if TrimSpace (sv_RootKey r) = [] then Some (ErrNew ''root key is required'')
      else
        (case validateServerRecord U r of
           Some e \<Rightarrow> Some e
         | None \<Rightarrow> (case joinURL U (sv_Endpoint r) ''/healthz'' allowInsecureNodes of Inl e \<Rightarrow> Some e | Inr _ \<Rightarrow> None)))"

definition upsert_body ::
  "url_lib \<Rightarrow> bool \<Rightarrow> string \<Rightarrow> time \<Rightarrow> server_record \<Rightarrow> server_record list \<Rightarrow> (server_record, server_record) row_outcome" where
  "upsert_body U allowInsecureNodes random now given records =
     (let r = completed_record random now given in
      case check_record U allowInsecureNodes r of
        Some e \<Rightarrow> RowFail e
      | None \<Rightarrow>
          (case find (\<lambda>x. sv_ID x = sv_ID r) records of
             Some old \<Rightarrow>
               let r' = r\<lparr>sv_CreatedAt := sv_CreatedAt old\<rparr>
               in RowWrite (update_first (\<lambda>x. sv_ID x = sv_ID r) (\<lambda>_. r') records) r'
           | None \<Rightarrow>
               if len records \<ge> maxServerRecords then RowFail (ErrTooMany ''server limit reached'' (len records) maxServerRecords)
               else RowWrite (records @ [r]) r))"

definition Upsert ::
  "registry_lib \<Rightarrow> private_io \<Rightarrow> bool \<Rightarrow> string \<Rightarrow> time \<Rightarrow> server_record \<Rightarrow> registry \<Rightarrow> server_record result \<times> registry" where
  "Upsert L io allowInsecureNodes random now r =
     row_tx (registry_codec L) io (upsert_body (rl_url L) allowInsecureNodes random now r)"

definition delete_body :: "string \<Rightarrow> server_record list \<Rightarrow> (server_record, unit) row_outcome" where
  "delete_body i records =
     (if list_ex (\<lambda>r. sv_ID r = i) records then RowWrite (filter (\<lambda>r. sv_ID r \<noteq> i) records) () else RowFail ErrNotExist)"

definition Delete_registry :: "registry_lib \<Rightarrow> private_io \<Rightarrow> string \<Rightarrow> registry \<Rightarrow> unit result \<times> registry" where
  "Delete_registry L io i = row_tx (registry_codec L) io (delete_body i)"

section \<open>Properties\<close>

definition registry_json :: "registry_lib \<Rightarrow> bool" where
  "registry_json L \<longleftrightarrow> (\<forall>rows data. rl_marshal L rows = Inr data \<longrightarrow>
     TrimSpace (data @ newline) \<noteq> [] \<and> rl_unmarshal L (data @ newline) = Inr rows)"

definition registry_ok :: "url_lib \<Rightarrow> server_record list \<Rightarrow> bool" where
  "registry_ok U records \<longleftrightarrow> len records \<le> 256 \<and> distinct (map sv_ID records) \<and>
     (\<forall>r\<in>set records. validateServerRecord U r = None)"

lemma first_invalid_None [simp]: "first_invalid U rs = None \<longleftrightarrow> (\<forall>r\<in>set rs. validateServerRecord U r = None)"
  by (induction rs) (auto split: option.splits)

interpretation registry: row_file "registry_codec L" "\<lambda>rows. registry_ok (rl_url L) rows \<and> registry_json L" for L
  by unfold_locales (auto simp: registry_codec_def registry_ok_def registry_json_def registry_check_def maxServerRecords_def)

lemma validateServerRecord_fields:
  "validateServerRecord U (r\<lparr>sv_CreatedAt := t\<rparr>) = validateServerRecord U r"
  by (simp add: validateServerRecord_def)

lemma check_record_valid: "check_record U a r = None \<Longrightarrow> validateServerRecord U r = None"
  by (auto simp: check_record_def split: if_splits option.splits)

lemma upsert_body_ok:
  assumes "upsert_body U a random now given records = RowWrite records' r" "registry_ok U records"
  shows "registry_ok U records'"
proof -
  define n where "n = completed_record random now given"
  have c: "check_record U a n = None"
    using assms(1) by (auto simp: upsert_body_def Let_def n_def split: option.splits)
  from c have v: "validateServerRecord U n = None" by (rule check_record_valid)
  show ?thesis
  proof (cases "find (\<lambda>x. sv_ID x = sv_ID n) records")
    case None
    with assms c have "records' = records @ [n]" "len records < 256"
      by (auto simp: upsert_body_def Let_def n_def [symmetric] maxServerRecords_def split: if_splits)
    with assms(2) None v show ?thesis by (auto simp: registry_ok_def find_None_iff)
  next
    case (Some old)
    let ?r = "n\<lparr>sv_CreatedAt := sv_CreatedAt old\<rparr>"
    have r': "records' = update_first (\<lambda>x. sv_ID x = sv_ID n) (\<lambda>_. ?r) records"
      using assms(1) c Some by (auto simp: upsert_body_def Let_def n_def [symmetric])
    have "map sv_ID records' = map sv_ID records" unfolding r' by (rule map_update_first) auto
    moreover have "\<forall>x\<in>set records'. validateServerRecord U x = None"
      using assms(2) v set_update_first [of "\<lambda>x. sv_ID x = sv_ID n" "\<lambda>_. ?r" records]
      unfolding r' by (auto simp: registry_ok_def validateServerRecord_fields)
    ultimately show ?thesis using assms(2) by (simp add: registry_ok_def r')
  qed
qed

lemma delete_body_ok:
  "\<lbrakk>delete_body i records = RowWrite records' r; registry_ok U records\<rbrakk> \<Longrightarrow>
     registry_ok U records' \<and> (\<forall>x\<in>set records'. sv_ID x \<noteq> i)"
  by (auto simp: delete_body_def registry_ok_def distinct_map_filter intro: order_trans [OF length_filter_le] split: if_splits)

text \<open>A plaintext address is stored only when that is allowed.\<close>

lemma check_record_https:
  assumes "check_record U False r = None"
  shows "\<exists>u. parseNodeEndpoint U (sv_Endpoint r) = Inr u \<and> url_Scheme u = ''https'' \<and> url_Host u \<noteq> [] \<and> url_User u = None"
proof -
  from assms obtain e where "joinURL U (sv_Endpoint r) ''/healthz'' False = Inr e"
    by (auto simp: check_record_def split: if_splits option.splits sum.splits)
  then obtain u where u: "parseNodeEndpoint U (sv_Endpoint r) = Inr u" "url_Scheme u = ''https''"
    by (auto simp: joinURL_def split: sum.splits if_splits)
  then have "url_Host u \<noteq> [] \<and> url_User u = None" by (auto simp: parseNodeEndpoint_def split: sum.splits if_splits)
  with u show ?thesis by simp
qed

end
