(* ===== verification/KeySync.thy ===== *)
theory KeySync
  imports Registry UserSystem StoreTokens "HOL-Library.AList"
begin

text \<open>
  Distributing the fixed keys to the nodes (\<^verbatim>\<open>web/managed_key_sync.go\<close>): the snapshot of the
  verifiers with its digest, the exchange with a node, the retry schedule of each node and the
  states that are shown. What a node answers is given; the errors of an exchange are kept as
  values, so no error is \<open>None\<close>.
\<close>

section \<open>Snapshots\<close>

definition managedKeyRetryMin :: duration where "managedKeyRetryMin = 2 * Second"
definition managedKeyRetryMax :: duration where "managedKeyRetryMax = 60 * Second"
definition managedKeyFullSync :: duration where "managedKeyFullSync = 5 * Minute"

definition managed_key_of :: "fixed_user_key_verifier \<Rightarrow> managed_key" where
  "managed_key_of v = \<lparr>mk_ID = kv_ID v, mk_Owner = kv_Owner v, mk_Version = kv_Version v, mk_Hash = kv_Hash v\<rparr>"

text \<open>\<open>encode\<close> is \<^verbatim>\<open>json.Marshal\<close> on the keys.\<close>

definition snapshot_of :: "weblib \<Rightarrow> (managed_key list \<Rightarrow> string result) \<Rightarrow> fixed_user_key_verifier list \<Rightarrow> key_snapshot result" where
  "snapshot_of L encode verifiers =
     (let keys = map managed_key_of verifiers in
      case encode keys of
        Inl e \<Rightarrow> Inl e
      | Inr raw \<Rightarrow> Inr \<lparr>snap_ID = ''sha256:'' @ hex_EncodeToString (wl_sha256 L raw), snap_Keys = keys\<rparr>)"

definition managedKeySnapshot ::
  "web_env \<Rightarrow> (managed_key list \<Rightarrow> string result) \<Rightarrow> user_store \<Rightarrow> key_snapshot result \<times> user_store" where
  "managedKeySnapshot E encode s =
     (case FixedKeyVerifiers E s of
        (Inl e, s1) \<Rightarrow> (Inl e, s1)
      | (Inr verifiers, s1) \<Rightarrow> (snapshot_of (wb_hash (we_lib E)) encode verifiers, s1))"

section \<open>The exchange with a node\<close>

text \<open>The answers of the node: to the question for its capabilities, and to a snapshot.\<close>

record node_client =
  nc_info :: "server_record \<Rightarrow> string list result"
  nc_sync :: "server_record \<Rightarrow> key_snapshot \<Rightarrow> sync_result result"

definition syncManagedKeysToNodeOnce ::
  "web_env \<Rightarrow> (managed_key list \<Rightarrow> string result) \<Rightarrow> node_client \<Rightarrow> server_record \<Rightarrow> user_store \<Rightarrow> error option \<times> user_store" where
  "syncManagedKeysToNodeOnce E encode client r s =
     (case nc_info client r of
        Inl e \<Rightarrow> (Some (ErrWrap ''query managed user-key capability'' [] e), s)
      | Inr capabilities \<Rightarrow>
          if ''managed_user_keys_v1'' \<notin> set capabilities
          then (Some (ErrNew ''node daemon must be upgraded for fixed user keys''), s)
          else
            (case managedKeySnapshot E encode s of
               (Inl e, s1) \<Rightarrow> (Some e, s1)
             | (Inr snapshot, s1) \<Rightarrow>
                 (case nc_sync client r snapshot of
                    Inl e \<Rightarrow> (Some (ErrWrap ''sync fixed user keys to'' (sv_Name r) e), s1)
                  | Inr result \<Rightarrow>
                      if \<not> sr_Managed result \<or> sr_SnapshotID result \<noteq> snap_ID snapshot
                      then (Some (ErrNew ''node did not confirm the current fixed-key snapshot''), s1)
                      else (None, s1))))"

section \<open>The schedule\<close>

record key_node_state =
  ks_SnapshotID :: string
  ks_SyncedAt :: time
  ks_LastError :: "error option"
  ks_NextTry :: time
  ks_Backoff :: duration

type_synonym key_nodes = "(string \<times> key_node_state) list"

definition new_key_node :: key_node_state where
  "new_key_node = \<lparr>ks_SnapshotID = [], ks_SyncedAt = 0, ks_LastError = None, ks_NextTry = 0, ks_Backoff = 0\<rparr>"

definition key_sync_outcome :: "time \<Rightarrow> error option \<Rightarrow> key_snapshot result \<Rightarrow> key_node_state \<Rightarrow> key_node_state" where
  "key_sync_outcome now syncErr snapshot st =
     (case (syncErr, snapshot) of
        (None, Inr snap) \<Rightarrow>
          st\<lparr>ks_SnapshotID := snap_ID snap, ks_SyncedAt := now, ks_LastError := None, ks_Backoff := 0,
             ks_NextTry := time_Add now managedKeyFullSync\<rparr>
      | _ \<Rightarrow>
          let err = (case syncErr of Some e \<Rightarrow> Some e | None \<Rightarrow> (case snapshot of Inl e \<Rightarrow> Some e | Inr _ \<Rightarrow> None));
              backoff = (if ks_Backoff st < managedKeyRetryMin then managedKeyRetryMin
                         else if ks_Backoff st * 2 > managedKeyRetryMax then managedKeyRetryMax
                         else ks_Backoff st * 2)
          in st\<lparr>ks_LastError := err, ks_Backoff := backoff, ks_NextTry := time_Add now backoff\<rparr>)"

definition recordManagedKeySync ::
  "web_env \<Rightarrow> (managed_key list \<Rightarrow> string result) \<Rightarrow> string \<Rightarrow> error option \<Rightarrow> user_store \<Rightarrow> key_nodes \<Rightarrow> key_nodes \<times> user_store" where
  "recordManagedKeySync E encode nodeID syncErr s nodes =
     (case managedKeySnapshot E encode s of (snapshot, s1) \<Rightarrow>
        (AList.update nodeID (key_sync_outcome (we_now E) syncErr snapshot (the_or new_key_node (map_of nodes nodeID))) nodes, s1))"

text \<open>
  The outcome is recorded after the exchange, with a snapshot of its own: \<open>others\<close> is what other
  requests did to the users in between.
\<close>

definition syncManagedKeysToNode ::
  "web_env \<Rightarrow> web_env \<Rightarrow> (user_store \<Rightarrow> user_store) \<Rightarrow> (managed_key list \<Rightarrow> string result) \<Rightarrow> node_client \<Rightarrow> server_record \<Rightarrow> user_store \<Rightarrow> key_nodes \<Rightarrow>
   error option \<times> user_store \<times> key_nodes" where
  "syncManagedKeysToNode E1 E2 others encode client r s nodes =
     (case syncManagedKeysToNodeOnce E1 encode client r s of (err, s1) \<Rightarrow>
        (case recordManagedKeySync E2 encode (sv_ID r) err (others s1) nodes of (nodes', s2) \<Rightarrow> (err, s2, nodes')))"

definition managedKeySyncDue :: "time \<Rightarrow> string \<Rightarrow> key_nodes \<Rightarrow> bool" where
  "managedKeySyncDue now nodeID nodes =
     (case map_of nodes nodeID of None \<Rightarrow> True | Some st \<Rightarrow> \<not> Before now (ks_NextTry st))"

text \<open>
  One round over the fleet. The \<open>i\<close>-th record finds the context alive or not and has its own
  environments for the exchange and for recording it, with the interference in between.
\<close>

fun sync_records ::
  "(nat \<Rightarrow> web_env \<times> web_env) \<Rightarrow> (nat \<Rightarrow> user_store \<Rightarrow> user_store) \<Rightarrow> (nat \<Rightarrow> bool) \<Rightarrow> (managed_key list \<Rightarrow> string result) \<Rightarrow>
   node_client \<Rightarrow> bool \<Rightarrow> nat \<Rightarrow>
   server_record list \<Rightarrow> user_store \<Rightarrow> key_nodes \<Rightarrow> user_store \<times> key_nodes" where
  "sync_records Es others cancelled encode client force i [] s nodes = (s, nodes)"
| "sync_records Es others cancelled encode client force i (r # rs) s nodes =
     (if cancelled i then (s, nodes)
      else if \<not> force \<and> \<not> managedKeySyncDue (we_now (fst (Es i))) (sv_ID r) nodes
      then sync_records Es others cancelled encode client force (Suc i) rs s nodes
      else
        (case syncManagedKeysToNode (fst (Es i)) (snd (Es i)) (others i) encode client r s nodes of
           (_, s1, nodes1) \<Rightarrow> sync_records Es others cancelled encode client force (Suc i) rs s1 nodes1))"

definition syncManagedKeysAcrossFleet ::
  "registry_lib \<Rightarrow> private_io \<Rightarrow> (nat \<Rightarrow> web_env \<times> web_env) \<Rightarrow> (nat \<Rightarrow> user_store \<Rightarrow> user_store) \<Rightarrow> (nat \<Rightarrow> bool) \<Rightarrow>
   (managed_key list \<Rightarrow> string result) \<Rightarrow> node_client \<Rightarrow> bool \<Rightarrow> registry \<Rightarrow> user_store \<Rightarrow> key_nodes \<Rightarrow> registry \<times> user_store \<times> key_nodes" where
  "syncManagedKeysAcrossFleet RL io Es others cancelled encode client force reg s nodes =
     (case List_registry RL io reg of
        (Inl _, reg1) \<Rightarrow> (reg1, s, nodes)
      | (Inr records, reg1) \<Rightarrow> (reg1, sync_records Es others cancelled encode client force 0 records s nodes))"

section \<open>What is shown\<close>

record key_node_status =
  kn_NodeID :: string
  kn_Node :: string
  kn_Status :: string
  kn_SnapshotID :: string
  kn_SyncedAt :: time
  kn_Error :: "error option"

definition key_status_of :: "string \<Rightarrow> key_nodes \<Rightarrow> server_record \<Rightarrow> key_node_status" where
  "key_status_of current nodes r =
     (case map_of nodes (sv_ID r) of
        None \<Rightarrow> \<lparr>kn_NodeID = sv_ID r, kn_Node = sv_Name r, kn_Status = ''pending'', kn_SnapshotID = [], kn_SyncedAt = 0,
                 kn_Error = None\<rparr>
      | Some st \<Rightarrow>
          \<lparr>kn_NodeID = sv_ID r, kn_Node = sv_Name r,
           kn_Status = (if ks_LastError st \<noteq> None then ''error''
                        else if current \<noteq> [] \<and> ks_SnapshotID st = current then ''synced'' else ''pending''),
           kn_SnapshotID = ks_SnapshotID st, kn_SyncedAt = ks_SyncedAt st, kn_Error = ks_LastError st\<rparr>)"

definition managedKeyStatuses ::
  "registry_lib \<Rightarrow> private_io \<Rightarrow> web_env \<Rightarrow> (managed_key list \<Rightarrow> string result) \<Rightarrow> registry \<Rightarrow> user_store \<Rightarrow> key_nodes \<Rightarrow>
   key_node_status list \<times> registry \<times> user_store" where
  "managedKeyStatuses RL io E encode reg s nodes =
     (case List_registry RL io reg of
        (Inl _, reg1) \<Rightarrow> ([], reg1, s)
      | (Inr records, reg1) \<Rightarrow>
          (case managedKeySnapshot E encode s of (snapshot, s1) \<Rightarrow>
             let current = (case snapshot of Inl _ \<Rightarrow> [] | Inr snap \<Rightarrow> snap_ID snap)
             in (map (key_status_of current nodes) records, reg1, s1)))"

end
