(* ===== verification/NodeView.thy ===== *)
theory NodeView
  imports Handlers
begin

text \<open>
  The snapshot of a node (\<^verbatim>\<open>daemon/snapshot.go\<close>): one row per GPU with its state, built from the
  status of the store and the kept samples of the vendor tools. Utilization is a number with a
  fraction and is kept as the text it is sent as.
\<close>

section \<open>Snapshots\<close>

record gpu_metric =
  gm_GPU :: int
  gm_MemoryUsedBytes :: "64 word option"
  gm_MemoryTotalBytes :: "64 word option"
  gm_UtilizationPct :: "string option"

record device_info =
  di_Vendor :: string
  di_Model :: string
  di_UUID :: string

record gpu_snapshot =
  gs_ID :: int
  gs_Vendor :: string
  gs_Model :: string
  gs_UUID :: string
  gs_State :: string
  gs_MemoryUsedBytes :: "64 word option"
  gs_MemoryTotalBytes :: "64 word option"
  gs_UtilizationPct :: "string option"
  gs_Processes :: "gpu_process list"
  gs_Reservation :: "reservation_view option"
  gs_Claim :: "soft_claim_view option"

record node_snapshot =
  ns_Now :: time
  ns_Hostname :: string
  ns_GPUs :: "gpu_snapshot list"
  ns_Tokens :: "token_view list"
  ns_Reservations :: "reservation_view list"
  ns_Authorizations :: "authorization_view list"
  ns_SoftClaims :: "soft_claim_view list"
  ns_Leases :: "lease list"
  ns_Bypasses :: "bypass_rule list"
  ns_PS :: "ps_row list"

section \<open>Kept samples\<close>

text \<open>
  The samples of metrics and of devices are kept once taken, with the error they were taken
  with; a vendor tool without them gives nothing.
\<close>

record 'a kept =
  kp_at :: time
  kp_rows :: "'a list"
  kp_err :: "error option"

definition sample_for_read ::
  "time \<Rightarrow> ('a list \<times> error option) option \<Rightarrow> 'a kept \<Rightarrow> ('a list \<times> error option) \<times> 'a kept" where
  "sample_for_read now provider c =
     (case provider of
        None \<Rightarrow> (([], None), c)
      | Some answer \<Rightarrow>
          if \<not> IsZero (kp_at c) then ((kp_rows c, kp_err c), c)
          else (answer, \<lparr>kp_at = now, kp_rows = fst answer, kp_err = snd answer\<rparr>))"

definition metricsForRead ::
  "time \<Rightarrow> (gpu_metric list \<times> error option) option \<Rightarrow> gpu_metric kept \<Rightarrow>
   (gpu_metric list \<times> error option) \<times> gpu_metric kept" where
  "metricsForRead = sample_for_read"

definition devicesForRead ::
  "time \<Rightarrow> ((int \<times> device_info) list \<times> error option) option \<Rightarrow> (int \<times> device_info) kept \<Rightarrow>
   ((int \<times> device_info) list \<times> error option) \<times> (int \<times> device_info) kept" where
  "devicesForRead = sample_for_read"

section \<open>The snapshot\<close>

definition reservationViewActiveAt :: "reservation_view \<Rightarrow> time \<Rightarrow> bool" where
  "reservationViewActiveAt r now \<longleftrightarrow>
     (let startsAt = (if IsZero (rv_StartsAt r) then rv_CreatedAt r else rv_StartsAt r)
      in rv_Active r \<and> \<not> rv_Revoked r \<and> \<not> Before now startsAt \<and> Before now (rv_ExpiresAt r))"

definition gpu_ids :: "int \<Rightarrow> gpu_process list \<Rightarrow> gpu_metric list \<Rightarrow> status \<Rightarrow> int list" where
  "gpu_ids gpuCount processes metrics st =
     sort (remdups ([0..gpuCount - 1] @ map gp_GPU processes @ map gm_GPU metrics @
       map rv_GPU (su_Reservations st) @ map cv_GPU (su_SoftClaims st) @ map lease_GPU (su_Leases st)))"

definition gpu_item ::
  "gpu_process list \<Rightarrow> gpu_metric list \<Rightarrow> (int \<times> device_info) list \<Rightarrow> status \<Rightarrow> time \<Rightarrow> int \<Rightarrow> gpu_snapshot" where
  "gpu_item processes metrics devices st now gpu =
     (let metric = go_map (map (\<lambda>m. (gm_GPU m, m)) metrics) gpu;
          device = map_of devices gpu;
          reserved = go_map (map (\<lambda>r. (rv_GPU r, r)) (filter (\<lambda>r. reservationViewActiveAt r now) (su_Reservations st))) gpu;
          claimed = go_map (map (\<lambda>c. (cv_GPU c, c)) (su_SoftClaims st)) gpu
      in \<lparr>gs_ID = gpu,
          gs_Vendor = (case device of None \<Rightarrow> [] | Some d \<Rightarrow> di_Vendor d),
          gs_Model = (case device of None \<Rightarrow> [] | Some d \<Rightarrow> di_Model d),
          gs_UUID = (case device of None \<Rightarrow> [] | Some d \<Rightarrow> di_UUID d),
          gs_State = (if reserved \<noteq> None then ''reserved'' else if claimed \<noteq> None then ''claimed'' else ''available''),
          gs_MemoryUsedBytes = (case metric of None \<Rightarrow> None | Some m \<Rightarrow> gm_MemoryUsedBytes m),
          gs_MemoryTotalBytes = (case metric of None \<Rightarrow> None | Some m \<Rightarrow> gm_MemoryTotalBytes m),
          gs_UtilizationPct = (case metric of None \<Rightarrow> None | Some m \<Rightarrow> gm_UtilizationPct m),
          gs_Processes = filter (\<lambda>p. gp_GPU p = gpu) processes,
          gs_Reservation = reserved,
          gs_Claim = (if reserved \<noteq> None then None else claimed)\<rparr>)"

text \<open>
  \<open>rows\<close> are the rows of \<^verbatim>\<open>ps\<close> for the processes; errors of the samples leave out what they would
  have given.
\<close>

definition node_snapshot_of ::
  "int \<Rightarrow> string \<Rightarrow> status \<Rightarrow> gpu_process list \<Rightarrow> ps_row list \<Rightarrow> gpu_metric list \<times> error option \<Rightarrow>
   (int \<times> device_info) list \<Rightarrow> time \<Rightarrow> node_snapshot" where
  "node_snapshot_of gpuCount hostname st processes rows metrics devices now =
     (let ms = (if snd metrics = None then fst metrics else [])
      in \<lparr>ns_Now = su_Now st, ns_Hostname = hostname,
          ns_GPUs = map (gpu_item processes ms devices st now) (gpu_ids gpuCount processes ms st),
          ns_Tokens = su_Tokens st, ns_Reservations = su_Reservations st, ns_Authorizations = su_Authorizations st,
          ns_SoftClaims = su_SoftClaims st, ns_Leases = su_Leases st, ns_Bypasses = su_Bypasses st, ns_PS = rows\<rparr>)"

definition Snapshot_node ::
  "env \<Rightarrow> int \<Rightarrow> string \<Rightarrow> gpu_process list \<Rightarrow> ps_row list \<Rightarrow> gpu_metric list \<times> error option \<Rightarrow>
   (int \<times> device_info) list \<Rightarrow> time \<Rightarrow> store \<Rightarrow> node_snapshot result \<times> store" where
  "Snapshot_node E gpuCount hostname processes rows metrics devices now s =
     (case Status E now s of
        (Inl e, s1) \<Rightarrow> (Inl e, s1)
      | (Inr st, s1) \<Rightarrow> (Inr (node_snapshot_of gpuCount hostname st processes rows metrics devices now), s1))"

section \<open>Properties\<close>

lemma node_snapshot_gpus:
  "map gs_ID (ns_GPUs (node_snapshot_of gpuCount hostname st processes rows metrics devices now)) =
   gpu_ids gpuCount processes (if snd metrics = None then fst metrics else []) st"
  by (simp add: node_snapshot_of_def Let_def gpu_item_def comp_def)

lemma gpu_ids_distinct: "distinct (gpu_ids n ps ms st)"
  by (simp add: gpu_ids_def)

text \<open>A GPU is shown as reserved exactly when a reservation of it is active now.\<close>

lemma gpu_item_reserved:
  "gs_State (gpu_item processes metrics devices st now gpu) = ''reserved'' \<longleftrightarrow>
   (\<exists>r\<in>set (su_Reservations st). rv_GPU r = gpu \<and> reservationViewActiveAt r now)"
proof -
  let ?rs = "map (\<lambda>r. (rv_GPU r, r)) (filter (\<lambda>r. reservationViewActiveAt r now) (su_Reservations st))"
  have "gs_State (gpu_item processes metrics devices st now gpu) = ''reserved'' \<longleftrightarrow> go_map ?rs gpu \<noteq> None"
    by (auto simp: gpu_item_def Let_def)
  also have "\<dots> \<longleftrightarrow> (\<exists>r\<in>set (su_Reservations st). rv_GPU r = gpu \<and> reservationViewActiveAt r now)"
    using go_map_None [of ?rs gpu] by force
  finally show ?thesis .
qed

lemma sample_kept:
  "\<lbrakk>sample_for_read now (Some answer) c = (a, c'); now \<noteq> 0\<rbrakk> \<Longrightarrow> sample_for_read now' (Some answer') c' = (a, c')"
  by (auto simp: sample_for_read_def split: if_splits)

end
