(* ===== verification/FleetView.thy ===== *)
theory FleetView
  imports NodeView Registry
begin

text \<open>
  What the web server shows of its nodes (\<^verbatim>\<open>web/server.go\<close>): the budget of a fleet snapshot and
  the view of a user who is no administrator, with the checks of ownership behind the actions on
  a node.
\<close>

section \<open>The budget\<close>

definition maxNodeSnapshotRecords :: int where "maxNodeSnapshotRecords = 4096"
definition maxNodeSnapshotProcesses :: int where "maxNodeSnapshotProcesses = 2048"
definition maxFleetSnapshotRecords :: int where "maxFleetSnapshotRecords = 32768"
definition maxFleetSnapshotProcesses :: int where "maxFleetSnapshotProcesses = 8192"
definition maxFleetSnapshotRetainedSize :: int where "maxFleetSnapshotRetainedSize = 33554432"
definition maxFleetErrorBytes :: nat where "maxFleetErrorBytes = 1024"

lemmas fleet_limits = maxNodeSnapshotRecords_def maxNodeSnapshotProcesses_def maxFleetSnapshotRecords_def
  maxFleetSnapshotProcesses_def maxFleetSnapshotRetainedSize_def

definition boundedFleetError :: "string \<Rightarrow> string" where
  "boundedFleetError message = (if length message > maxFleetErrorBytes then take maxFleetErrorBytes message else message)"

definition bytes_of :: "string list \<Rightarrow> int" where "bytes_of vals = sum_list (map len vals)"

definition snapshot_processes :: "node_snapshot \<Rightarrow> int" where
  "snapshot_processes n = sum_list (map (\<lambda>g. len (gs_Processes g)) (ns_GPUs n))"

definition snapshot_records :: "node_snapshot \<Rightarrow> int" where
  "snapshot_records n =
     len (ns_GPUs n) + len (ns_Tokens n) + len (ns_Reservations n) + len (ns_Authorizations n) + len (ns_SoftClaims n) +
     len (ns_Leases n) + len (ns_Bypasses n) + len (ns_PS n) +
     sum_list (map (\<lambda>a. len (av_Command a)) (ns_Authorizations n)) +
     sum_list (map (\<lambda>l. len (lease_Command l)) (ns_Leases n)) + snapshot_processes n"

definition snapshot_texts :: "node_snapshot \<Rightarrow> string list" where
  "snapshot_texts n =
     ns_Hostname n # concat (map (\<lambda>g. gs_State g # map gp_Name (gs_Processes g)) (ns_GPUs n)) @
     concat (map (\<lambda>t. [tv_ID t, tv_Key t, tv_KeyStatus t, tv_Name t, tv_Mode t]) (ns_Tokens n)) @
     concat (map (\<lambda>r. [rv_ID r, rv_GroupID r, rv_Holder r, rv_Purpose r]) (ns_Reservations n)) @
     concat (map (\<lambda>a. [av_ID a, av_TokenID a, av_Mode a, av_TokenMode a, av_Holder a, av_Username a, av_ContainerID a,
       av_ContainerPattern a, av_Namespace a] @ av_Command a) (ns_Authorizations n)) @
     concat (map (\<lambda>c. [cv_ID c, cv_AuthorizationID c, cv_Holder c]) (ns_SoftClaims n)) @
     concat (map (\<lambda>l. [lease_ID l, lease_Mode l, lease_TokenHash l, lease_Holder l, lease_CgroupPath l, lease_CgroupRel l,
       lease_ContainerID l, lease_Namespace l] @ lease_Command l) (ns_Leases n)) @
     concat (map (\<lambda>b. [byp_ID b, byp_Type b, byp_Command b, byp_Reason b]) (ns_Bypasses n)) @
     concat (map (\<lambda>r. [ps_ID r, ps_GPU r, ps_User r, ps_Command r]) (ns_PS n))"

definition nodeSnapshotCost :: "node_snapshot \<Rightarrow> (int \<times> int \<times> int) result" where
  "nodeSnapshotCost n =
     (let processes = snapshot_processes n; records = snapshot_records n in
      if records > maxNodeSnapshotRecords then Inl (ErrTooMany ''node snapshot records'' records maxNodeSnapshotRecords)
      else if processes > maxNodeSnapshotProcesses then Inl (ErrTooMany ''node snapshot processes'' processes maxNodeSnapshotProcesses)
      else
        let bytes = 1024 + records * 512 + bytes_of (snapshot_texts n)
        in if bytes > maxFleetSnapshotRetainedSize then Inl (ErrNew ''node snapshot retained size is too large'')
           else Inr (records, processes, bytes))"

record fleet_budget =
  fb_records :: int
  fb_processes :: int
  fb_bytes :: int

definition accept_snapshot :: "node_snapshot \<Rightarrow> fleet_budget \<Rightarrow> error option \<times> fleet_budget" where
  "accept_snapshot n b =
     (case nodeSnapshotCost n of
        Inl e \<Rightarrow> (Some e, b)
      | Inr (records, processes, bytes) \<Rightarrow>
          if fb_records b + records > maxFleetSnapshotRecords \<or> fb_processes b + processes > maxFleetSnapshotProcesses \<or>
             fb_bytes b + bytes > maxFleetSnapshotRetainedSize
          then (Some (ErrNew ''fleet snapshot budget exceeded''), b)
          else (None, \<lparr>fb_records = fb_records b + records, fb_processes = fb_processes b + processes,
                       fb_bytes = fb_bytes b + bytes\<rparr>))"

section \<open>The fleet\<close>

record server_snapshot =
  ss_Server :: public_server_record
  ss_Online :: bool
  ss_Error :: string
  ss_Snapshot :: "node_snapshot option"

type_synonym fleet_snapshot = "server_snapshot list"

text \<open>
  Fetching: the workers take the records in some order; \<open>answers\<close> gives for the \<open>i\<close>-th record what
  its node answered, \<open>None\<close> when the time was over before the record was handed out; \<open>order\<close> is the
  order in which the answers reached the budget.
\<close>

datatype fetch = Unanswered string | Failed string | Fetched node_snapshot

definition unanswered :: "server_record \<Rightarrow> string \<Rightarrow> server_snapshot" where
  "unanswered r message = \<lparr>ss_Server = publicServerRecord r, ss_Online = False, ss_Error = message, ss_Snapshot = None\<rparr>"

fun fetch_items :: "(nat \<Rightarrow> fetch) \<Rightarrow> (error \<Rightarrow> string) \<Rightarrow> server_record list \<Rightarrow> nat list \<Rightarrow> fleet_budget \<Rightarrow> fleet_snapshot \<Rightarrow> fleet_snapshot" where
  "fetch_items answers text records [] b out = out"
| "fetch_items answers text records (i # order) b out =
     (case answers i of
        Unanswered message \<Rightarrow> fetch_items answers text records order b (out[i := unanswered (records ! i) message])
      | Failed message \<Rightarrow>
          fetch_items answers text records order b (out[i := unanswered (records ! i) (boundedFleetError message)])
      | Fetched n \<Rightarrow>
          (case accept_snapshot n b of
             (Some e, b') \<Rightarrow> fetch_items answers text records order b' (out[i := unanswered (records ! i) (text e)])
           | (None, b') \<Rightarrow> fetch_items answers text records order b' (out[i :=
               \<lparr>ss_Server = publicServerRecord (records ! i), ss_Online = True, ss_Error = [], ss_Snapshot = Some n\<rparr>])))"

definition fetchFleetSnapshot :: "(nat \<Rightarrow> fetch) \<Rightarrow> (error \<Rightarrow> string) \<Rightarrow> nat list \<Rightarrow> server_record list \<Rightarrow> fleet_snapshot" where
  "fetchFleetSnapshot answers text order records =
     fetch_items answers text records order \<lparr>fb_records = 0, fb_processes = 0, fb_bytes = 0\<rparr>
       (map (\<lambda>r. unanswered r ''snapshot unavailable'') records)"

section \<open>The view of a user\<close>

definition cloneFilteredGPUSnapshots :: "gpu_snapshot list \<Rightarrow> gpu_snapshot list" where
  "cloneFilteredGPUSnapshots gpus = map (\<lambda>g. g\<lparr>gs_Processes := []\<rparr>) gpus"

definition filterTokens :: "token_view list \<Rightarrow> string \<Rightarrow> token_view list" where
  "filterTokens tokens user = filter (\<lambda>t. sameOwner (tv_Name t) user) tokens"

definition scrub_reservation :: "string \<Rightarrow> reservation_view \<Rightarrow> reservation_view" where
  "scrub_reservation user r = (if sameOwner (rv_Holder r) user then r else r\<lparr>rv_GroupID := []\<rparr>)"

definition scrubReservations :: "reservation_view list \<Rightarrow> string \<Rightarrow> reservation_view list" where
  "scrubReservations rs user = map (scrub_reservation user) rs"

definition filterAuthorizations :: "authorization_view list \<Rightarrow> string \<Rightarrow> authorization_view list" where
  "filterAuthorizations as user = filter (\<lambda>a. sameOwner (av_Holder a) user) as"

definition filterSoftClaims :: "soft_claim_view list \<Rightarrow> string \<Rightarrow> soft_claim_view list" where
  "filterSoftClaims cs user = filter (\<lambda>c. sameOwner (cv_Holder c) user) cs"

definition filterLeases :: "lease list \<Rightarrow> string \<Rightarrow> lease list" where
  "filterLeases ls user = filter (\<lambda>l. sameOwner (lease_Holder l) user) ls"

definition scrub_gpu :: "string \<Rightarrow> gpu_snapshot \<Rightarrow> gpu_snapshot" where
  "scrub_gpu user g =
     g\<lparr>gs_Reservation := map_option (scrub_reservation user) (gs_Reservation g),
       gs_Claim := (case gs_Claim g of None \<Rightarrow> None | Some c \<Rightarrow> if sameOwner (cv_Holder c) user then Some c else None)\<rparr>"

definition filter_node :: "string \<Rightarrow> node_snapshot \<Rightarrow> node_snapshot" where
  "filter_node user n =
     n\<lparr>ns_GPUs := map (scrub_gpu user) (cloneFilteredGPUSnapshots (ns_GPUs n)),
       ns_Tokens := filterTokens (ns_Tokens n) user, ns_Reservations := scrubReservations (ns_Reservations n) user,
       ns_Authorizations := filterAuthorizations (ns_Authorizations n) user,
       ns_SoftClaims := filterSoftClaims (ns_SoftClaims n) user, ns_Leases := filterLeases (ns_Leases n) user,
       ns_Bypasses := [], ns_PS := []\<rparr>"

definition filterFleetSnapshot :: "string \<Rightarrow> string \<Rightarrow> fleet_snapshot \<Rightarrow> fleet_snapshot" where
  "filterFleetSnapshot user role fleet =
     (if role = RoleAdmin then fleet
      else map (\<lambda>item. item\<lparr>ss_Snapshot := map_option (filter_node user) (ss_Snapshot item)\<rparr>) fleet)"

section \<open>Ownership\<close>

definition findToken :: "token_view list \<Rightarrow> string \<Rightarrow> token_view option" where
  "findToken tokens i = find (\<lambda>t. tv_ID t = i) tokens"

definition findReservation :: "reservation_view list \<Rightarrow> string \<Rightarrow> reservation_view option" where
  "findReservation rs i = find (\<lambda>r. rv_ID r = i) rs"

definition findAuthorization :: "authorization_view list \<Rightarrow> string \<Rightarrow> authorization_view option" where
  "findAuthorization as i = find (\<lambda>a. av_ID a = i) as"

definition canRevoke :: "string \<Rightarrow> string \<Rightarrow> key_status result \<Rightarrow> string \<Rightarrow> bool result" where
  "canRevoke user role showKeys i =
     (if role = RoleAdmin then Inr True
      else
        (case showKeys of
           Inl e \<Rightarrow> Inl e
         | Inr st \<Rightarrow>
             (case findToken (ks_Tokens st) i of
                Some t \<Rightarrow> Inr (sameOwner (tv_Name t) user)
              | None \<Rightarrow>
                  (case findReservation (ks_Reservations st) i of
                     Some r \<Rightarrow> Inr (sameOwner (rv_Holder r) user)
                   | None \<Rightarrow>
                       (case find (\<lambda>r. rv_GroupID r = i) (ks_Reservations st) of
                          Some r \<Rightarrow> Inr (sameOwner (rv_Holder r) user)
                        | None \<Rightarrow>
                            (case findAuthorization (ks_Authorizations st) i of
                               Some a \<Rightarrow> Inr (sameOwner (av_Holder a) user)
                             | None \<Rightarrow> Inr False))))))"

definition canUseKey :: "string \<Rightarrow> string \<Rightarrow> key_status result \<Rightarrow> string \<Rightarrow> bool result" where
  "canUseKey user role showKeys i =
     (if role = RoleAdmin then Inr True
      else
        (case showKeys of
           Inl e \<Rightarrow> Inl e
         | Inr st \<Rightarrow>
             (case findToken (ks_Tokens st) i of
                Some t \<Rightarrow> Inr (sameOwner (tv_Name t) user)
              | None \<Rightarrow> Inr False)))"

definition reservationTokenID :: "register_result \<Rightarrow> key_status \<Rightarrow> string" where
  "reservationTokenID r st =
     (case (if rr_Token r \<noteq> [] then find (\<lambda>t. tv_Key t = rr_Token r) (ks_Tokens st) else None) of
        Some t \<Rightarrow> tv_ID t
      | None \<Rightarrow>
          (case find (\<lambda>x. rv_ID x \<in> set (rr_ReservationIDs r) \<and> rv_GroupID x \<noteq> []) (ks_Reservations st) of
             Some x \<Rightarrow> rv_GroupID x
           | None \<Rightarrow> []))"

end
