(* ===== verification/FleetCache.thy ===== *)
theory FleetCache
  imports FleetView
begin

text \<open>
  The cache of the fleet snapshot (\<^verbatim>\<open>web/server.go\<close>): requests within a second share a snapshot,
  and at most one refresh is under way, which later requests join. The actions that change a node
  clear the cache.
\<close>

section \<open>Operations\<close>

definition fleetSnapshotCacheTTL :: duration where "fleetSnapshotCacheTTL = Second"

record fleet_cache =
  fc_cache :: fleet_snapshot
  fc_At :: time
  fc_OK :: bool
  fc_refreshing :: bool

definition empty_fleet_cache :: fleet_cache where
  "empty_fleet_cache = \<lparr>fc_cache = [], fc_At = 0, fc_OK = False, fc_refreshing = False\<rparr>"

text \<open>A request takes the cached snapshot, or waits for the refresh under way, or begins one.\<close>

datatype lookup = Hit fleet_snapshot | Wait

definition cachedFleetSnapshot :: "time \<Rightarrow> fleet_cache \<Rightarrow> lookup \<times> fleet_cache" where
  "cachedFleetSnapshot now c =
     (if fc_OK c \<and> time_Sub now (fc_At c) < fleetSnapshotCacheTTL then (Hit (fc_cache c), c)
      else if fc_refreshing c then (Wait, c)
      else (Wait, c\<lparr>fc_refreshing := True\<rparr>))"

definition refreshFleetSnapshot :: "time \<Rightarrow> fleet_snapshot result \<Rightarrow> fleet_cache \<Rightarrow> fleet_cache" where
  "refreshFleetSnapshot now out c =
     (case out of
        Inl _ \<Rightarrow> c\<lparr>fc_refreshing := False\<rparr>
      | Inr fleet \<Rightarrow> c\<lparr>fc_cache := fleet, fc_At := now, fc_OK := True, fc_refreshing := False\<rparr>)"

definition clearFleetCache :: "fleet_cache \<Rightarrow> fleet_cache" where
  "clearFleetCache c = c\<lparr>fc_OK := False\<rparr>"

section \<open>Histories\<close>

text \<open>
  A history of the cache: each event has its time. A refresh starts when a request finds neither
  a usable snapshot nor a refresh; \<open>Refreshed\<close> is its end, with what was fetched.
\<close>

datatype cache_event = Ask time | Refreshed time "fleet_snapshot result" | Cleared

fun cache_step :: "cache_event \<Rightarrow> fleet_cache \<Rightarrow> fleet_cache" where
  "cache_step (Ask now) c = snd (cachedFleetSnapshot now c)"
| "cache_step (Refreshed now out) c = (if fc_refreshing c then refreshFleetSnapshot now out c else c)"
| "cache_step Cleared c = clearFleetCache c"

text \<open>The refreshes that succeeded, the last first.\<close>

fun refreshes :: "cache_event list \<Rightarrow> fleet_cache \<Rightarrow> (time \<times> fleet_snapshot) list \<Rightarrow> (time \<times> fleet_snapshot) list" where
  "refreshes [] c done_before = done_before"
| "refreshes (e # es) c done_before =
     refreshes es (cache_step e c)
       (case e of Refreshed now (Inr fleet) \<Rightarrow> if fc_refreshing c then (now, fleet) # done_before else done_before | _ \<Rightarrow> done_before)"

definition cache_ok :: "(time \<times> fleet_snapshot) list \<Rightarrow> fleet_cache \<Rightarrow> bool" where
  "cache_ok rs c \<longleftrightarrow> (fc_OK c \<longrightarrow> (\<exists>rest. rs = (fc_At c, fc_cache c) # rest))"

lemma cache_step_ok:
  assumes "cache_ok rs c"
  shows "cache_ok (case e of Refreshed now (Inr fleet) \<Rightarrow> if fc_refreshing c then (now, fleet) # rs else rs | _ \<Rightarrow> rs) (cache_step e c)"
proof (cases e)
  case (Ask now)
  then show ?thesis using assms by (simp add: cachedFleetSnapshot_def cache_ok_def)
next
  case (Refreshed now out)
  then show ?thesis using assms by (cases out) (auto simp: refreshFleetSnapshot_def cache_ok_def)
next
  case Cleared
  then show ?thesis by (simp add: clearFleetCache_def cache_ok_def)
qed

lemma cache_run_ok: "cache_ok rs c \<Longrightarrow> cache_ok (refreshes es c rs) (fold cache_step es c)"
proof (induction es arbitrary: c rs)
  case (Cons e es)
  then show ?case using cache_step_ok [OF Cons.prems, of e] by simp
qed simp

text \<open>
  What a request is served from the cache is the result of the last refresh, and that ended less
  than a second before.
\<close>

lemma cached_recent:
  assumes "cachedFleetSnapshot now (fold cache_step es empty_fleet_cache) = (Hit fleet, c)"
  shows "\<exists>at rest. refreshes es empty_fleet_cache [] = (at, fleet) # rest \<and> time_Sub now at < Second"
proof -
  let ?c = "fold cache_step es empty_fleet_cache"
  have "cache_ok (refreshes es empty_fleet_cache []) ?c"
    by (rule cache_run_ok) (simp add: cache_ok_def empty_fleet_cache_def)
  moreover from assms have "fc_OK ?c" "time_Sub now (fc_At ?c) < fleetSnapshotCacheTTL" "fleet = fc_cache ?c"
    by (auto simp: cachedFleetSnapshot_def split: if_splits)
  ultimately show ?thesis by (auto simp: cache_ok_def fleetSnapshotCacheTTL_def)
qed

text \<open>
  Clearing the cache does not reach a refresh that is under way: what that refresh fetched before
  the cache was cleared is served afterwards.
\<close>

lemma cleared_too_early:
  "fst (cachedFleetSnapshot 1 (fold cache_step [Ask 0, Cleared, Refreshed 0 (Inr old)] empty_fleet_cache)) = Hit old"
  by (simp add: cachedFleetSnapshot_def refreshFleetSnapshot_def clearFleetCache_def empty_fleet_cache_def
    fleetSnapshotCacheTTL_def time_Sub_def Second_def)

end
