(* ===== verification/Attempts.thy ===== *)
theory Attempts
  imports Codec Passwords "HOL-Library.AList"
begin

text \<open>
  The limits on signing in, registering and changing passwords (\<^verbatim>\<open>web/session.go\<close>): a map from
  keys, for an address, an account, or both, to the attempts of the current minute. An attempt
  is counted before the password is checked and taken back when it was not a failure. A Go map
  is an association list with distinct keys.
\<close>

section \<open>Operations\<close>

definition loginWindow :: duration where "loginWindow = Minute"
definition loginFailureLimit :: int where "loginFailureLimit = 5"
definition loginIPFailureLimit :: int where "loginIPFailureLimit = 50"
definition loginUserFailureLimit :: int where "loginUserFailureLimit = 10"
definition registrationIPLimit :: int where "registrationIPLimit = 5"
definition registrationGlobalLimit :: int where "registrationGlobalLimit = 20"
definition passwordChangeLimit :: int where "passwordChangeLimit = 5"
definition maxLoginAttemptKeys :: int where "maxLoginAttemptKeys = 4096"
definition registrationGlobalAttemptKey :: string where "registrationGlobalAttemptKey = ''registration:global''"

lemmas attempt_limits = loginFailureLimit_def loginIPFailureLimit_def loginUserFailureLimit_def
  registrationIPLimit_def registrationGlobalLimit_def passwordChangeLimit_def maxLoginAttemptKeys_def

record login_attempt =
  la_Failures :: int
  la_ResetAt :: time

type_synonym attempts = "(string \<times> login_attempt) list"

definition no_attempt :: login_attempt where "no_attempt = \<lparr>la_Failures = 0, la_ResetAt = 0\<rparr>"

definition lookup_attempt :: "attempts \<Rightarrow> string \<Rightarrow> login_attempt" where
  "lookup_attempt m key = the_or no_attempt (map_of m key)"

text \<open>Reading an attempt forgets it when its window is over.\<close>

definition current_attempt :: "time \<Rightarrow> string \<Rightarrow> attempts \<Rightarrow> login_attempt \<times> attempts" where
  "current_attempt now key m =
     (let a = lookup_attempt m key in
      if \<not> IsZero (la_ResetAt a) \<and> \<not> Before now (la_ResetAt a) then (no_attempt, AList.delete key m) else (a, m))"

definition ensureAttemptCapacityLocked :: "time \<Rightarrow> int \<Rightarrow> attempts \<Rightarrow> bool \<times> attempts" where
  "ensureAttemptCapacityLocked now newKeys m =
     (if int (length m) + newKeys \<le> maxLoginAttemptKeys then (True, m)
      else
        let m' = filter (\<lambda>(key, a). Before now (la_ResetAt a)) m
        in (int (length m') + newKeys \<le> maxLoginAttemptKeys, m'))"

definition count_attempt :: "time \<Rightarrow> string \<Rightarrow> attempts \<Rightarrow> attempts" where
  "count_attempt now key m =
     (let a = lookup_attempt m key;
          reset = (if IsZero (la_ResetAt a) then time_Add now loginWindow else la_ResetAt a)
      in AList.update key \<lparr>la_Failures = la_Failures a + 1, la_ResetAt = reset\<rparr> m)"

definition retry_after :: "int \<Rightarrow> time \<Rightarrow> login_attempt \<Rightarrow> duration \<Rightarrow> duration" where
  "retry_after limit now a sofar = (if la_Failures a \<ge> limit then max sofar (time_Sub (la_ResetAt a) now) else sofar)"

definition is_new :: "attempts \<Rightarrow> string \<Rightarrow> int" where "is_new m key = (if map_of m key = None then 1 else 0)"

definition reserveLoginAttempt ::
  "string \<Rightarrow> string \<Rightarrow> string \<Rightarrow> time \<Rightarrow> attempts \<Rightarrow> (bool \<times> duration) \<times> attempts" where
  "reserveLoginAttempt userKey ipKey accountKey now m =
     (case current_attempt now userKey m of (userAttempt, m1) \<Rightarrow>
      case current_attempt now ipKey m1 of (ipAttempt, m2) \<Rightarrow>
      case current_attempt now accountKey m2 of (accountAttempt, m3) \<Rightarrow>
        let r1 = (if la_Failures userAttempt \<ge> loginFailureLimit then time_Sub (la_ResetAt userAttempt) now else 0);
            r2 = retry_after loginIPFailureLimit now ipAttempt r1;
            retryAfter = retry_after loginUserFailureLimit now accountAttempt r2
        in if retryAfter > 0 then ((False, retryAfter), m3)
           else
             (case ensureAttemptCapacityLocked now (is_new m3 userKey + is_new m3 ipKey + is_new m3 accountKey) m3 of
                (False, m4) \<Rightarrow> ((False, loginWindow), m4)
              | (True, m4) \<Rightarrow>
                  ((True, 0), count_attempt now accountKey (count_attempt now ipKey (count_attempt now userKey m4)))))"

definition reserveSingleAttempt :: "string \<Rightarrow> time \<Rightarrow> int \<Rightarrow> attempts \<Rightarrow> (bool \<times> duration) \<times> attempts" where
  "reserveSingleAttempt key now limit m =
     (case current_attempt now key m of (a, m1) \<Rightarrow>
        if la_Failures a \<ge> limit then ((False, time_Sub (la_ResetAt a) now), m1)
        else
          (case ensureAttemptCapacityLocked now (if IsZero (la_ResetAt a) then 1 else 0) m1 of
             (False, m2) \<Rightarrow> ((False, loginWindow), m2)
           | (True, m2) \<Rightarrow>
               ((True, 0),
                AList.update key \<lparr>la_Failures = la_Failures a + 1,
                  la_ResetAt = (if IsZero (la_ResetAt a) then time_Add now loginWindow else la_ResetAt a)\<rparr> m2)))"

definition reserveRegistrationAttempt :: "string \<Rightarrow> time \<Rightarrow> attempts \<Rightarrow> (bool \<times> duration) \<times> attempts" where
  "reserveRegistrationAttempt ipKey now m =
     (case current_attempt now ipKey m of (ipAttempt, m1) \<Rightarrow>
      case current_attempt now registrationGlobalAttemptKey m1 of (globalAttempt, m2) \<Rightarrow>
        let r1 = (if la_Failures ipAttempt \<ge> registrationIPLimit then time_Sub (la_ResetAt ipAttempt) now else 0);
            retryAfter = retry_after registrationGlobalLimit now globalAttempt r1
        in if retryAfter > 0 then ((False, retryAfter), m2)
           else
             (case ensureAttemptCapacityLocked now (is_new m2 ipKey + is_new m2 registrationGlobalAttemptKey) m2 of
                (False, m3) \<Rightarrow> ((False, loginWindow), m3)
              | (True, m3) \<Rightarrow> ((True, 0), count_attempt now registrationGlobalAttemptKey (count_attempt now ipKey m3))))"

definition release_one :: "string \<Rightarrow> attempts \<Rightarrow> attempts" where
  "release_one key m =
     (case map_of m key of
        None \<Rightarrow> m
      | Some a \<Rightarrow>
          if la_Failures a - 1 \<le> 0 then AList.delete key m
          else AList.update key (a\<lparr>la_Failures := la_Failures a - 1\<rparr>) m)"

definition releaseLoginReservation :: "string list \<Rightarrow> attempts \<Rightarrow> attempts" where
  "releaseLoginReservation keys m = foldl (\<lambda>m key. release_one key m) m keys"

section \<open>Keys\<close>

text \<open>Parsing addresses is the business of package \<^verbatim>\<open>net\<close>: the host of a host and port, and the canonical text of an address.\<close>

record net_lib =
  nt_SplitHostPort :: "string \<Rightarrow> string option"
  nt_ParseIP :: "string \<Rightarrow> string option"
  nt_IsLoopback :: "string \<Rightarrow> bool"

definition strip_brackets :: "string \<Rightarrow> string" where
  "strip_brackets s = (let b = (\<lambda>c. c = CHR ''['' \<or> c = CHR '']'') in rev (dropWhile b (rev (dropWhile b s))))"

definition loginIPAttemptKeyWithTrust :: "net_lib \<Rightarrow> string \<Rightarrow> string \<Rightarrow> bool \<Rightarrow> string" where
  "loginIPAttemptKeyWithTrust N remoteAddr forwardedFor trustLoopbackProxy =
     (let host = (case nt_SplitHostPort N (TrimSpace remoteAddr) of None \<Rightarrow> TrimSpace remoteAddr | Some h \<Rightarrow> h);
          loopback = (case nt_ParseIP N (strip_brackets host) of None \<Rightarrow> False | Some ip \<Rightarrow> nt_IsLoopback N ip);
          host1 = (if trustLoopbackProxy \<and> loopback
             then (case nt_ParseIP N (TrimSpace (fst (Cut forwardedFor (CHR '','')))) of None \<Rightarrow> host | Some ip \<Rightarrow> ip)
             else host)
      in ''ip:'' @ ToLower host1)"

definition name_digest :: "weblib \<Rightarrow> string \<Rightarrow> string" where
  "name_digest L username = b64_EncodeToString RawURLEncoding (wl_sha256 L (ToLower (TrimSpace username)))"

definition loginAttemptKeyForIP :: "weblib \<Rightarrow> string \<Rightarrow> string \<Rightarrow> string" where
  "loginAttemptKeyForIP L ipKey username = ipKey @ '':user:'' @ name_digest L username"

definition loginUsernameAttemptKey :: "weblib \<Rightarrow> string \<Rightarrow> string" where
  "loginUsernameAttemptKey L username = ''login:user:'' @ name_digest L username"

definition registrationAttemptKeyForIP :: "string \<Rightarrow> string" where
  "registrationAttemptKeyForIP ipKey = ''registration:'' @ ipKey"

definition passwordChangeAttemptKey :: "weblib \<Rightarrow> string \<Rightarrow> string" where
  "passwordChangeAttemptKey L username = ''password:user:'' @ name_digest L username"

end
