(* ===== verification/WebServer.thy ===== *)
theory WebServer
  imports Sessions KeySync FleetCache Attempts
begin

text \<open>
  The web server (\<^verbatim>\<open>web/server.go\<close> and the handlers of \<^verbatim>\<open>web/session.go\<close>): its state, and the
  handlers of sessions, keys and users. A request carries what the decoder makes of its body for
  each type it may be decoded into; the answers of nodes and of the history database are given,
  and the calls made to nodes are returned. \<open>ww_others\<close> is what other requests do to the users
  between the steps of a handler.
\<close>

section \<open>Requests and responses\<close>

record allow_args =
  al_ID :: string
  al_UserKeyID :: string
  al_Mode :: string
  al_Container :: string
  al_Namespace :: string
  al_User :: string

record add_server_request =
  ad_Name :: string
  ad_Endpoint :: string
  ad_RootKey :: string
  ad_TLSSkipVerify :: bool

record bodies =
  bo_login :: "(string \<times> string) result"
  bo_register :: "(string \<times> string) result"
  bo_password :: "(string \<times> string) result"
  bo_createUser :: "(string \<times> string \<times> string) result"
  bo_deleteUser :: "string result"
  bo_addServer :: "add_server_request result"
  bo_reservation :: "register_args result"
  bo_showKey :: "string result"
  bo_allow :: "allow_args result"
  bo_revoke :: "(string \<times> string) result"

record web_request =
  wr_Method :: string
  wr_Path :: string
  wr_RemoteAddr :: string
  wr_ForwardedFor :: string
  wr_TLS :: bool
  wr_Cookie :: "string option"
  wr_SecFetchSite :: string
  wr_Origin :: string
  wr_Host :: string
  wr_HasBody :: bool
  wr_MediaType :: "string result"
  wr_Bodies :: bodies

record cookie =
  ck_Value :: string
  ck_Expires :: time
  ck_MaxAge :: int
  ck_HttpOnly :: bool
  ck_SameSiteStrict :: bool
  ck_Secure :: bool

datatype web_body =
    BError error
  | BMessage string
  | BUser string string
  | BSession bool string string bool
  | BOk
  | BUsers "public_user list"
  | BPublicUser public_user
  | BKeys "fixed_user_key list" "key_node_status list"
  | BKey fixed_user_key
  | BServers "public_server_record list"
  | BServer public_server_record
  | BDeleted string
  | BReservation register_result
  | BToken time token_view
  | BAllow allow_result
  | BRevoked "(string \<times> string) list"
  | BFleet fleet_snapshot
  | BHistory
  | BFile string
  | BRedirect string

record web_response =
  rp_status :: int
  rp_body :: web_body
  rp_cookie :: "cookie option"
  rp_retryAfter :: "int option"

definition respond :: "int \<Rightarrow> web_body \<Rightarrow> web_response" where
  "respond status body = \<lparr>rp_status = status, rp_body = body, rp_cookie = None, rp_retryAfter = None\<rparr>"

definition busy :: "int \<Rightarrow> string \<Rightarrow> web_response" where
  "busy seconds message = (respond 429 (BMessage message))\<lparr>rp_retryAfter := Some seconds\<rparr>"

text \<open>\<^verbatim>\<open>Duration.Round(time.Second)\<close> for durations that are not negative, in seconds, at least one.\<close>

definition retry_seconds :: "duration \<Rightarrow> int" where
  "retry_seconds d = max 1 ((let r = d mod Second in if r + r < Second then d - r else d + Second - r) div Second)"

section \<open>The server\<close>

datatype node_call =
    CallHealth server_record
  | CallSync server_record
  | CallShowKeys server_record
  | CallReserve server_record register_args
  | CallAllow server_record allow_args
  | CallRevoke server_record string string

record node_api =
  na_Health :: "server_record \<Rightarrow> error option"
  na_ShowKeys :: "server_record \<Rightarrow> key_status result"
  na_Reserve :: "server_record \<Rightarrow> register_args \<Rightarrow> register_result result"
  na_Allow :: "server_record \<Rightarrow> allow_args \<Rightarrow> allow_result result"
  na_Revoke :: "server_record \<Rightarrow> string \<Rightarrow> string \<Rightarrow> (string \<times> string) list result"

text \<open>
  The history database: whether a session is to be prepared for a node (there is a database, and
  the node says that it can be told of one), and how that went.
\<close>

record history_api =
  hi_prepares :: "server_record \<Rightarrow> bool"
  hi_random :: string
  hi_prepare :: "error option"

record web_config =
  wc_AllowRegistration :: bool
  wc_TrustProxy :: bool
  wc_SecureCookies :: bool
  wc_AllowInsecureNodes :: bool
  wc_UIDir :: string

record web_world =
  ww_cfg :: web_config
  ww_E :: "nat \<Rightarrow> web_env"
  ww_others :: "nat \<Rightarrow> user_store \<Rightarrow> user_store"
  ww_acquired :: "error option"
  ww_work :: bool
  ww_net :: net_lib
  ww_session :: session_json
  ww_sessionKey :: string
  ww_registry :: registry_lib
  ww_io :: private_io
  ww_random :: string
  ww_encode :: "managed_key list \<Rightarrow> string result"
  ww_client :: node_client
  ww_api :: node_api
  ww_history :: history_api
  ww_text :: "error \<Rightarrow> string"
  ww_fleetDone :: "(time \<times> fleet_snapshot result) option"
  ww_isFile :: "string \<Rightarrow> bool"
  ww_parseOrigin :: "string \<Rightarrow> string option"

abbreviation hash_lib :: "web_world \<Rightarrow> weblib" where "hash_lib W \<equiv> wb_hash (we_lib (ww_E W 0))"

record web_state =
  ws_users :: user_store
  ws_attempts :: attempts
  ws_requests :: request_counters
  ws_registry :: registry
  ws_keyNodes :: key_nodes
  ws_syncRequested :: bool
  ws_fleet :: fleet_cache

type_synonym outcome3 = "web_response \<times> node_call list \<times> web_state"

definition replies :: "web_state \<Rightarrow> web_response \<Rightarrow> outcome3" where "replies s r = (r, [], s)"

definition not_allowed :: web_response where "not_allowed = respond 405 (BMessage ''method not allowed'')"
definition not_found :: web_response where "not_found = respond 404 (BMessage ''not found'')"
definition admin_required :: web_response where "admin_required = respond 403 (BMessage ''admin access required'')"

definition requestManagedKeySync :: "web_state \<Rightarrow> web_state" where
  "requestManagedKeySync s = s\<lparr>ws_syncRequested := True\<rparr>"

definition fleet_changed :: "web_state \<Rightarrow> web_state" where
  "fleet_changed s = s\<lparr>ws_fleet := clearFleetCache (ws_fleet s)\<rparr>"

section \<open>Signing in and out\<close>

definition sessionCookie :: "web_world \<Rightarrow> web_request \<Rightarrow> string \<Rightarrow> time \<Rightarrow> cookie" where
  "sessionCookie W r val expires =
     \<lparr>ck_Value = val, ck_Expires = expires, ck_MaxAge = sessionTTL div Second, ck_HttpOnly = True, ck_SameSiteStrict = True,
      ck_Secure = (wc_SecureCookies (ww_cfg W) \<or> wr_TLS r)\<rparr>"

definition clearSessionCookie :: "web_world \<Rightarrow> web_request \<Rightarrow> cookie" where
  "clearSessionCookie W r =
     \<lparr>ck_Value = [], ck_Expires = unix_epoch, ck_MaxAge = -1, ck_HttpOnly = True, ck_SameSiteStrict = True,
      ck_Secure = (wc_SecureCookies (ww_cfg W) \<or> wr_TLS r)\<rparr>"

definition loginIPAttemptKey :: "web_world \<Rightarrow> web_request \<Rightarrow> string" where
  "loginIPAttemptKey W r =
     loginIPAttemptKeyWithTrust (ww_net W) (wr_RemoteAddr r) (wr_ForwardedFor r) (wc_TrustProxy (ww_cfg W))"

text \<open>The session that a handler gives out: it is signed with the credentials of that moment.\<close>

definition start_session :: "web_world \<Rightarrow> nat \<Rightarrow> web_request \<Rightarrow> int \<Rightarrow> public_user \<Rightarrow> web_state \<Rightarrow> outcome3" where
  "start_session W k r status u s =
     (let E = ww_E W k; expires = time_Add (we_now E) sessionTTL in
      case signSession E (ww_session W) (ww_sessionKey W) (pu_Username u) (pu_Role u) expires (ww_others W k (ws_users s)) of
        (val, us) \<Rightarrow>
          replies (s\<lparr>ws_users := us\<rparr>)
            ((respond status (BUser (pu_Username u) (pu_Role u)))\<lparr>rp_cookie := Some (sessionCookie W r val expires)\<rparr>))"

definition handleLogin :: "web_world \<Rightarrow> web_request \<Rightarrow> web_state \<Rightarrow> outcome3" where
  "handleLogin W r s =
     (if wr_Method r \<noteq> ''POST'' then replies s not_allowed
      else
        (case bo_login (wr_Bodies r) of
           Inl e \<Rightarrow> replies s (respond 400 (BError e))
         | Inr (username, password) \<Rightarrow>
             let ipKey = loginIPAttemptKey W r;
                 loginKey = loginAttemptKeyForIP (hash_lib W) ipKey username;
                 userKey = loginUsernameAttemptKey (hash_lib W) username;
                 keys = [loginKey, ipKey, userKey]
             in
             (case reserveLoginAttempt loginKey ipKey userKey (we_now (ww_E W 0)) (ws_attempts s) of
                ((False, retryAfter), m) \<Rightarrow>
                  replies (s\<lparr>ws_attempts := m\<rparr>) (busy (retry_seconds retryAfter) ''too many login attempts; try again later'')
              | ((True, _), m) \<Rightarrow>
                  (case authenticate (ww_E W 0) (ww_E W 1) (ww_acquired W) (ww_others W 0) username password (ws_users s) of
                     ((answer, _), us) \<Rightarrow>
                       let s1 = s\<lparr>ws_attempts := m, ws_users := us\<rparr>;
                           s2 = s1\<lparr>ws_attempts := releaseLoginReservation keys m\<rparr>
                       in
                       (case answer of
                          Inl e \<Rightarrow>
                            if errors_Is e ErrCtx then replies s2 (respond 408 (BMessage ''authentication request canceled''))
                            else if errors_Is e errPasswordWorkBusy
                            then replies s2 (busy 1 ''authentication is temporarily busy; try again'')
                            else replies s1 (respond 401 (BMessage ''Invalid username or password''))
                        | Inr u \<Rightarrow> start_session W 2 r 200 u s2)))))"

definition handleRegister :: "web_world \<Rightarrow> web_request \<Rightarrow> web_state \<Rightarrow> outcome3" where
  "handleRegister W r s =
     (if \<not> wc_AllowRegistration (ww_cfg W) then replies s not_found
      else if wr_Method r \<noteq> ''POST'' then replies s not_allowed
      else
        (case bo_register (wr_Bodies r) of
           Inl e \<Rightarrow> replies s (respond 400 (BError e))
         | Inr (username, password) \<Rightarrow>
             (case normalizeUsername username of
                Inl e \<Rightarrow> replies s (respond 400 (BError e))
              | Inr _ \<Rightarrow>
                  (case validatePassword password of
                     Some e \<Rightarrow> replies s (respond 400 (BError e))
                   | None \<Rightarrow>
                       let ipKey = registrationAttemptKeyForIP (loginIPAttemptKey W r) in
                       (case reserveRegistrationAttempt ipKey (we_now (ww_E W 0)) (ws_attempts s) of
                          ((False, retryAfter), m) \<Rightarrow>
                            replies (s\<lparr>ws_attempts := m\<rparr>)
                              (busy (retry_seconds retryAfter) ''too many account creation attempts; try again later'')
                        | ((True, _), m) \<Rightarrow>
                            (case Create (ww_E W 1) (ww_work W) (ww_others W 0) username password RoleUser (ws_users s) of
                               (answer, us) \<Rightarrow>
                                 let s1 = s\<lparr>ws_attempts := m, ws_users := us\<rparr> in
                                 (case answer of
                                    Inl e \<Rightarrow>
                                      if errors_Is e errPasswordWorkBusy
                                      then replies (s1\<lparr>ws_attempts := releaseLoginReservation [ipKey, registrationGlobalAttemptKey] m\<rparr>)
                                        (busy 1 ''account creation is temporarily busy; try again'')
                                      else if errors_Is e errUsernameInUse then replies s1 (respond 409 (BError e))
                                      else if errors_Is e errUserLimitReached
                                      then replies s1 (respond 503 (BMessage ''account registration is unavailable''))
                                      else replies s1 (respond 500 (BMessage ''unable to create account''))
                                  | Inr u \<Rightarrow> start_session W 2 r 201 u (requestManagedKeySync s1))))))))"

definition handleSession :: "web_world \<Rightarrow> web_request \<Rightarrow> web_state \<Rightarrow> outcome3" where
  "handleSession W r s =
     (if wr_Method r \<noteq> ''GET'' then replies s not_allowed
      else
        (case sessionUser (ww_E W 0) (ww_session W) (ww_sessionKey W) (wr_Cookie r) (ws_users s) of
           (session, us) \<Rightarrow>
             replies (s\<lparr>ws_users := us\<rparr>)
               (respond 200 (case session of
                  None \<Rightarrow> BSession False [] [] (wc_AllowRegistration (ww_cfg W))
                | Some si \<Rightarrow> BSession True (si_User si) (si_Role si) (wc_AllowRegistration (ww_cfg W))))))"

definition handleLogout :: "web_world \<Rightarrow> web_request \<Rightarrow> web_state \<Rightarrow> outcome3" where
  "handleLogout W r s =
     (if wr_Method r \<noteq> ''POST'' then replies s not_allowed
      else replies s ((respond 200 BOk)\<lparr>rp_cookie := Some (clearSessionCookie W r)\<rparr>))"

definition handleChangePassword :: "web_world \<Rightarrow> session_info \<Rightarrow> web_request \<Rightarrow> web_state \<Rightarrow> outcome3" where
  "handleChangePassword W si r s =
     (if wr_Method r \<noteq> ''POST'' then replies s not_allowed
      else
        (case bo_password (wr_Bodies r) of
           Inl e \<Rightarrow> replies s (respond 400 (BError e))
         | Inr (currentPassword, newPassword) \<Rightarrow>
             let passwordKey = passwordChangeAttemptKey (hash_lib W) (si_User si) in
             (case reserveSingleAttempt passwordKey (we_now (ww_E W 0)) passwordChangeLimit (ws_attempts s) of
                ((False, retryAfter), m) \<Rightarrow>
                  replies (s\<lparr>ws_attempts := m\<rparr>) (busy (retry_seconds retryAfter) ''too many password change attempts; try again later'')
              | ((True, _), m) \<Rightarrow>
                  (case ChangePassword (ww_E W 1) (ww_E W 2) (ww_work W) (ww_others W 0) (si_User si) currentPassword newPassword
                          (ws_users s) of
                     (answer, us) \<Rightarrow>
                       let s1 = s\<lparr>ws_attempts := m, ws_users := us\<rparr> in
                       (case answer of
                          Inl e \<Rightarrow>
                            if errors_Is e errPasswordWorkBusy
                            then replies (s1\<lparr>ws_attempts := releaseLoginReservation [passwordKey] m\<rparr>)
                              (busy 1 ''password service is temporarily busy; try again'')
                            else replies s1 (respond 400 (BError e))
                        | Inr u \<Rightarrow> start_session W 3 r 200 u s1)))))"

section \<open>Keys and users\<close>

definition trim_slashes :: "string \<Rightarrow> string" where
  "trim_slashes p = rev (strip_slashes (rev (strip_slashes p)))"

definition list_keys :: "web_world \<Rightarrow> session_info \<Rightarrow> web_state \<Rightarrow> outcome3" where
  "list_keys W si s =
     (case FixedKeys (ww_E W 0) (ws_users s) of
        (Inl e, us) \<Rightarrow> replies (s\<lparr>ws_users := us\<rparr>) (respond 500 (BError e))
      | (Inr keys, us) \<Rightarrow>
          let shown = (if si_Role si \<noteq> RoleAdmin then filter (\<lambda>k. sameOwner (fk_Owner k) (si_User si)) keys else keys) in
          (case managedKeyStatuses (ww_registry W) (ww_io W) (ww_E W 1) (ww_encode W) (ws_registry s) us (ws_keyNodes s) of
             (nodeSync, reg, us1) \<Rightarrow>
               replies (s\<lparr>ws_users := us1, ws_registry := reg\<rparr>) (respond 200 (BKeys shown nodeSync))))"

definition handleKeys :: "web_world \<Rightarrow> session_info \<Rightarrow> web_request \<Rightarrow> web_state \<Rightarrow> outcome3" where
  "handleKeys W si r s =
     (let path = trim_slashes (TrimPrefix (wr_Path r) ''/api/keys'') in
      if path = [] then (if wr_Method r \<noteq> ''GET'' then replies s not_allowed else list_keys W si s)
      else
        (case Split path (CHR ''/'') of
           [username, action] \<Rightarrow>
             if action \<noteq> ''reveal'' \<and> action \<noteq> ''regenerate'' then replies s not_found
             else if si_Role si \<noteq> RoleAdmin \<and> \<not> sameOwner username (si_User si)
             then replies s (respond 403 (BMessage ''key access denied''))
             else if wr_Method r \<noteq> ''POST'' then replies s not_allowed
             else if action = ''reveal'' then
               (case RevealFixedKey (ww_E W 0) username (ws_users s) of
                  (Inl e, us) \<Rightarrow> replies (s\<lparr>ws_users := us\<rparr>) (respond 400 (BError e))
                | (Inr key, us) \<Rightarrow> replies (s\<lparr>ws_users := us\<rparr>) (respond 200 (BKey key)))
             else
               (case RegenerateFixedKey (ww_E W 0) username (ws_users s) of
                  (Inl e, us) \<Rightarrow> replies (s\<lparr>ws_users := us\<rparr>) (respond 400 (BError e))
                | (Inr key, us) \<Rightarrow> replies (requestManagedKeySync (s\<lparr>ws_users := us\<rparr>)) (respond 200 (BKey key)))
         | _ \<Rightarrow> replies s not_found))"

definition create_user :: "web_world \<Rightarrow> web_request \<Rightarrow> web_state \<Rightarrow> outcome3" where
  "create_user W r s =
     (case bo_createUser (wr_Bodies r) of
        Inl e \<Rightarrow> replies s (respond 400 (BError e))
      | Inr (username, password, role) \<Rightarrow>
          (case Create (ww_E W 0) (ww_work W) (ww_others W 0) username password role (ws_users s) of
             (Inl e, us) \<Rightarrow>
               replies (s\<lparr>ws_users := us\<rparr>)
                 (if errors_Is e errPasswordWorkBusy then busy 1 ''password service is temporarily busy; try again''
                  else respond 400 (BError e))
           | (Inr u, us) \<Rightarrow> replies (requestManagedKeySync (s\<lparr>ws_users := us\<rparr>)) (respond 201 (BPublicUser u))))"

definition delete_user :: "web_world \<Rightarrow> session_info \<Rightarrow> web_request \<Rightarrow> web_state \<Rightarrow> outcome3" where
  "delete_user W si r s =
     (case bo_deleteUser (wr_Bodies r) of
        Inl e \<Rightarrow> replies s (respond 400 (BError e))
      | Inr username \<Rightarrow>
          if sameOwner username (si_User si) then replies s (respond 400 (BMessage ''cannot delete the current user''))
          else
            (case Delete_user (ww_E W 0) username (ws_users s) of
               (Inl e, us) \<Rightarrow> replies (s\<lparr>ws_users := us\<rparr>) (respond 400 (BError e))
             | (Inr _, us) \<Rightarrow> replies (requestManagedKeySync (s\<lparr>ws_users := us\<rparr>)) (respond 200 BOk)))"

definition handleUsers :: "web_world \<Rightarrow> session_info \<Rightarrow> web_request \<Rightarrow> web_state \<Rightarrow> outcome3" where
  "handleUsers W si r s =
     (if wr_Method r = ''GET'' then
        (case List_users (ww_E W 0) (ws_users s) of
           (Inl e, us) \<Rightarrow> replies (s\<lparr>ws_users := us\<rparr>) (respond 500 (BError e))
         | (Inr users, us) \<Rightarrow> replies (s\<lparr>ws_users := us\<rparr>) (respond 200 (BUsers users)))
      else if wr_Method r = ''POST'' then create_user W r s
      else if wr_Method r = ''DELETE'' then delete_user W si r s
      else replies s not_allowed)"

end
