(* ===== verification/WebRoutes.thy ===== *)
theory WebRoutes
  imports WebServer RequestArgs
begin

text \<open>
  The actions on nodes, the fleet and the static files, and how a request reaches a handler
  (\<^verbatim>\<open>web/server.go\<close>, \<^verbatim>\<open>web/session.go\<close>): the middleware, the mux with its redirect to the clean
  path, the session, the limit on requests in flight, the role. Paths have no percent escapes. The
  handlers of the history pages read a database that is not modelled; they answer \<open>BHistory\<close>.
\<close>

section \<open>Nodes\<close>

definition new_server :: "add_server_request \<Rightarrow> server_record" where
  "new_server req =
     \<lparr>sv_ID = [], sv_Name = TrimSpace (ad_Name req), sv_Endpoint = TrimSpace (ad_Endpoint req),
      sv_RootKey = TrimSpace (ad_RootKey req), sv_TLSSkipVerify = ad_TLSSkipVerify req, sv_CreatedAt = 0, sv_UpdatedAt = 0\<rparr>"

text \<open>The exchange of keys with a node that a handler waits for.\<close>

definition sync_node :: "web_world \<Rightarrow> nat \<Rightarrow> server_record \<Rightarrow> web_state \<Rightarrow> error option \<times> web_state" where
  "sync_node W k r s =
     (case syncManagedKeysToNode (ww_E W k) (ww_E W (k + 1)) (ww_others W (k + 1)) (ww_encode W) (ww_client W) r
             (ww_others W k (ws_users s)) (ws_keyNodes s) of
        (err, us, nodes) \<Rightarrow> (err, s\<lparr>ws_users := us, ws_keyNodes := nodes\<rparr>))"

definition list_servers :: "web_world \<Rightarrow> web_state \<Rightarrow> outcome3" where
  "list_servers W s =
     (case PublicList (ww_registry W) (ww_io W) (ws_registry s) of
        (Inl e, reg) \<Rightarrow> replies (s\<lparr>ws_registry := reg\<rparr>) (respond 500 (BError e))
      | (Inr records, reg) \<Rightarrow> replies (s\<lparr>ws_registry := reg\<rparr>) (respond 200 (BServers records)))"

definition add_server :: "web_world \<Rightarrow> session_info \<Rightarrow> web_request \<Rightarrow> web_state \<Rightarrow> outcome3" where
  "add_server W si r s =
     (if si_Role si \<noteq> RoleAdmin then replies s admin_required
      else
        (case bo_addServer (wr_Bodies r) of
           Inl e \<Rightarrow> replies s (respond 400 (BError e))
         | Inr req \<Rightarrow>
             let given = new_server req in
             (case na_Health (ww_api W) given of
                Some e \<Rightarrow> (respond 400 (BError e), [CallHealth given], s)
              | None \<Rightarrow>
                  (case sync_node W 0 given s of
                     (Some e, s1) \<Rightarrow> (respond 400 (BError e), [CallHealth given, CallSync given], s1)
                   | (None, s1) \<Rightarrow>
                       (case Upsert (ww_registry W) (ww_io W) (wc_AllowInsecureNodes (ww_cfg W)) (ww_random W) (we_now (ww_E W 2)) given
                               (ws_registry s1) of
                          (Inl e, reg) \<Rightarrow>
                            (respond 400 (BError e), [CallHealth given, CallSync given], s1\<lparr>ws_registry := reg\<rparr>)
                        | (Inr stored, reg) \<Rightarrow>
                            (respond 201 (BServer (publicServerRecord stored)), [CallHealth given, CallSync given],
                             fleet_changed (s1\<lparr>ws_registry := reg\<rparr>)))))))"

definition handleServers :: "web_world \<Rightarrow> session_info \<Rightarrow> web_request \<Rightarrow> web_state \<Rightarrow> outcome3" where
  "handleServers W si r s =
     (if wr_Method r = ''GET'' then list_servers W s
      else if wr_Method r = ''POST'' then add_server W si r s
      else replies s not_allowed)"

definition splitServerAction :: "string \<Rightarrow> (string \<times> string) option" where
  "splitServerAction rawPath =
     (let trimmed = TrimPrefix rawPath ''/api/servers/'' in
      if trimmed = rawPath \<or> trimmed = [] then None
      else
        (case Split (trim_slashes trimmed) (CHR ''/'') of
           [i] \<Rightarrow> Some (i, [])
         | [i, action] \<Rightarrow> Some (i, action)
         | _ \<Rightarrow> None))"

definition delete_server :: "web_world \<Rightarrow> session_info \<Rightarrow> string \<Rightarrow> web_state \<Rightarrow> outcome3" where
  "delete_server W si i s =
     (if si_Role si \<noteq> RoleAdmin then replies s admin_required
      else
        (case Delete_registry (ww_registry W) (ww_io W) i (ws_registry s) of
           (Inl e, reg) \<Rightarrow> replies (s\<lparr>ws_registry := reg\<rparr>) (respond 404 (BError e))
         | (Inr _, reg) \<Rightarrow> replies (fleet_changed (s\<lparr>ws_registry := reg\<rparr>)) (respond 200 (BDeleted i))))"

definition unsupportedExternalSessionError :: "web_world \<Rightarrow> error \<Rightarrow> bool" where
  "unsupportedExternalSessionError W e \<longleftrightarrow>
     (let message = ToLower (ww_text W e) in
      str_Contains message ''external_session_id'' \<and>
      (str_Contains message ''unknown'' \<or> str_Contains message ''unrecognized'' \<or> str_Contains message ''unsupported''))"

text \<open>
  The key of the user who is signed in, after it has been brought to the node. The client of the
  server is the HTTP client, which can do so.
\<close>

definition own_key :: "web_world \<Rightarrow> session_info \<Rightarrow> server_record \<Rightarrow> web_state \<Rightarrow> (web_response + string) \<times> node_call list \<times> web_state" where
  "own_key W si r s =
     (case FixedKeyForUser (ww_E W 0) (si_User si) (ws_users s) of
        (Inl e, us) \<Rightarrow> (Inl (respond 400 (BError e)), [], s\<lparr>ws_users := us\<rparr>)
      | (Inr key, us) \<Rightarrow>
          (case sync_node W 1 r (s\<lparr>ws_users := us\<rparr>) of
             (Some e, s1) \<Rightarrow> (Inl (respond 503 (BError e)), [CallSync r], s1)
           | (None, s1) \<Rightarrow> (Inr (kv_ID key), [CallSync r], s1)))"

text \<open>
  A session of the history is prepared when the database is there, the reservation has both ends
  and the node knows the field; a node that then refuses the field is asked again without it.
\<close>

definition reserve :: "web_world \<Rightarrow> server_record \<Rightarrow> register_args \<Rightarrow> (web_response + register_result) \<times> node_call list" where
  "reserve W r args =
     (let prepares = hi_prepares (ww_history W) r \<and> rg_StartsAt args \<noteq> None \<and> rg_ExpiresAt args \<noteq> None in
      if prepares then
        (let args' = args\<lparr>rg_ExternalSessionID := ''sess_'' @ hi_random (ww_history W)\<rparr> in
         case hi_prepare (ww_history W) of
           Some e \<Rightarrow> (Inl (respond 500 (BError e)), [])
         | None \<Rightarrow>
             (case na_Reserve (ww_api W) r args' of
                Inr result \<Rightarrow> (Inr result, [CallReserve r args'])
              | Inl e \<Rightarrow>
                  if unsupportedExternalSessionError W e then
                    (let args'' = args'\<lparr>rg_ExternalSessionID := []\<rparr> in
                     case na_Reserve (ww_api W) r args'' of
                       Inr result \<Rightarrow> (Inr result, [CallReserve r args', CallReserve r args''])
                     | Inl e' \<Rightarrow> (Inl (respond 400 (BError e')), [CallReserve r args', CallReserve r args'']))
                  else (Inl (respond 400 (BError e)), [CallReserve r args'])))
      else
        (case na_Reserve (ww_api W) r args of
           Inr result \<Rightarrow> (Inr result, [CallReserve r args])
         | Inl e \<Rightarrow> (Inl (respond 400 (BError e)), [CallReserve r args])))"

definition create_reservation :: "web_world \<Rightarrow> session_info \<Rightarrow> server_record \<Rightarrow> web_request \<Rightarrow> web_state \<Rightarrow> outcome3" where
  "create_reservation W si r q s =
     (case bo_reservation (wr_Bodies q) of
        Inl e \<Rightarrow> replies s (respond 400 (BError e))
      | Inr args \<Rightarrow>
          (case own_key W si r s of
             (Inl resp, calls, s1) \<Rightarrow> (resp, calls, s1)
           | (Inr key, calls, s1) \<Rightarrow>
               (case reserve W r (args\<lparr>rg_Name := si_User si, rg_UserKeyID := key\<rparr>) of
                  (Inl resp, rest) \<Rightarrow> (resp, calls @ rest, s1)
                | (Inr result, rest) \<Rightarrow>
                    (respond 201 (BReservation (result\<lparr>rr_Token := [], rr_TokenID := []\<rparr>)),
                     calls @ rest @ (if rr_TokenID result = [] then [CallShowKeys r] else []), fleet_changed s1))))"

definition show_key :: "web_world \<Rightarrow> session_info \<Rightarrow> server_record \<Rightarrow> web_request \<Rightarrow> web_state \<Rightarrow> outcome3" where
  "show_key W si r q s =
     (case bo_showKey (wr_Bodies q) of
        Inl e \<Rightarrow> replies s (respond 400 (BError e))
      | Inr i \<Rightarrow>
          let tokenID = TrimSpace i in
          if tokenID = [] then replies s (respond 400 (BMessage ''id is required''))
          else
            (case na_ShowKeys (ww_api W) r of
               Inl e \<Rightarrow> (respond 401 (BError e), [CallShowKeys r], s)
             | Inr status \<Rightarrow>
                 (case findToken (ks_Tokens status) tokenID of
                    None \<Rightarrow> (respond 404 (BMessage ''key not found''), [CallShowKeys r], s)
                  | Some token \<Rightarrow>
                      if si_Role si \<noteq> RoleAdmin \<and> \<not> sameOwner (tv_Name token) (si_User si)
                      then (respond 403 (BMessage ''key access denied''), [CallShowKeys r], s)
                      else (respond 200 (BToken (ks_Now status) token), [CallShowKeys r], s))))"

definition allowArgsHaveWildcard :: "allow_args \<Rightarrow> bool" where
  "allowArgsHaveWildcard args \<longleftrightarrow>
     str_Contains (al_Container args) ''*'' \<or> str_Contains (al_Namespace args) ''*'' \<or> str_Contains (al_User args) ''*''"

definition allow :: "web_world \<Rightarrow> session_info \<Rightarrow> server_record \<Rightarrow> web_request \<Rightarrow> web_state \<Rightarrow> outcome3" where
  "allow W si r q s =
     (case bo_allow (wr_Bodies q) of
        Inl e \<Rightarrow> replies s (respond 400 (BError e))
      | Inr given \<Rightarrow>
          (case own_key W si r s of
             (Inl resp, calls, s1) \<Rightarrow> (resp, calls, s1)
           | (Inr key, calls, s1) \<Rightarrow>
               let args = given\<lparr>al_ID := key, al_UserKeyID := key, al_Mode := TrimSpace (al_Mode given)\<rparr> in
               if si_Role si \<noteq> RoleAdmin \<and> allowArgsHaveWildcard args
               then (respond 403 (BMessage ''wildcard authorization requires admin access''), calls, s1)
               else
                 let asked = (if si_Role si = RoleAdmin then [] else [CallShowKeys r]) in
                 (case canUseKey (si_User si) (si_Role si) (na_ShowKeys (ww_api W) r) (al_ID args) of
                    Inl e \<Rightarrow> (respond 400 (BError e), calls @ asked, s1)
                  | Inr False \<Rightarrow> (respond 403 (BMessage ''key access denied''), calls @ asked, s1)
                  | Inr True \<Rightarrow>
                      (case na_Allow (ww_api W) r args of
                         Inl e \<Rightarrow> (respond 400 (BError e), calls @ asked @ [CallAllow r args], s1)
                       | Inr result \<Rightarrow>
                           (respond 201 (BAllow result), calls @ asked @ [CallAllow r args], fleet_changed s1)))))"

definition revoke :: "web_world \<Rightarrow> session_info \<Rightarrow> server_record \<Rightarrow> web_request \<Rightarrow> web_state \<Rightarrow> outcome3" where
  "revoke W si r q s =
     (case bo_revoke (wr_Bodies q) of
        Inl e \<Rightarrow> replies s (respond 400 (BError e))
      | Inr (rootKey, i) \<Rightarrow>
          if TrimSpace i = [] then replies s (respond 400 (BMessage ''id is required''))
          else
            let asked = (if si_Role si = RoleAdmin then [] else [CallShowKeys r]) in
            (case canRevoke (si_User si) (si_Role si) (na_ShowKeys (ww_api W) r) i of
               Inl e \<Rightarrow> (respond 400 (BError e), asked, s)
             | Inr False \<Rightarrow> (respond 403 (BMessage ''revoke access denied''), asked, s)
             | Inr True \<Rightarrow>
                 (case na_Revoke (ww_api W) r rootKey i of
                    Inl e \<Rightarrow> (respond 400 (BError e), asked @ [CallRevoke r rootKey i], s)
                  | Inr result \<Rightarrow> (respond 200 (BRevoked result), asked @ [CallRevoke r rootKey i], fleet_changed s))))"

definition server_action ::
  "web_world \<Rightarrow> session_info \<Rightarrow> string \<Rightarrow> string \<Rightarrow> server_record \<Rightarrow> web_request \<Rightarrow> web_state \<Rightarrow> outcome3" where
  "server_action W si i action record q s =
     (if action = [] \<and> wr_Method q = ''DELETE'' then delete_server W si i s
      else if action = ''reservations'' \<and> wr_Method q = ''POST'' then create_reservation W si record q s
      else if action = ''claim-keys'' \<and> wr_Method q = ''POST''
      then replies s (respond 410 (BMessage ''claim keys were replaced by the account fixed key''))
      else if action = ''show-key'' \<and> wr_Method q = ''POST'' then show_key W si record q s
      else if action = ''allow'' \<and> wr_Method q = ''POST'' then allow W si record q s
      else if action = ''revoke'' \<and> wr_Method q = ''POST'' then revoke W si record q s
      else replies s not_allowed)"

definition handleServerAction :: "web_world \<Rightarrow> session_info \<Rightarrow> web_request \<Rightarrow> web_state \<Rightarrow> outcome3" where
  "handleServerAction W si q s =
     (case splitServerAction (wr_Path q) of
        None \<Rightarrow> replies s not_found
      | Some (i, action) \<Rightarrow>
          (case Get_registry (ww_registry W) (ww_io W) i (ws_registry s) of
             (Inl e, reg) \<Rightarrow> replies (s\<lparr>ws_registry := reg\<rparr>) (respond 500 (BError e))
           | (Inr None, reg) \<Rightarrow> replies (s\<lparr>ws_registry := reg\<rparr>) (respond 404 (BMessage ''server not found''))
           | (Inr (Some record), reg) \<Rightarrow> server_action W si i action record q (s\<lparr>ws_registry := reg\<rparr>)))"

section \<open>The fleet and the static files\<close>

text \<open>
  A request that waits is answered when the refresh ends, unless its own context ends before:
  then \<open>ww_fleetDone\<close> is \<open>None\<close>.
\<close>

definition handleFleetSnapshot :: "web_world \<Rightarrow> session_info \<Rightarrow> web_request \<Rightarrow> web_state \<Rightarrow> outcome3" where
  "handleFleetSnapshot W si r s =
     (if wr_Method r \<noteq> ''GET'' then replies s not_allowed
      else
        (case cachedFleetSnapshot (we_now (ww_E W 0)) (ws_fleet s) of (found, c) \<Rightarrow>
           (let (out, c') =
              (case found of
                 Hit fleet \<Rightarrow> (Inr fleet, c)
               | Wait \<Rightarrow>
                   (case ww_fleetDone W of
                      None \<Rightarrow> (Inl ErrCtx, c)
                    | Some (now, result) \<Rightarrow> (result, refreshFleetSnapshot now result c)))
            in replies (s\<lparr>ws_fleet := c'\<rparr>)
                 (case out of
                    Inl e \<Rightarrow> respond 500 (BError e)
                  | Inr fleet \<Rightarrow> respond 200 (BFleet (filterFleetSnapshot (si_User si) (si_Role si) fleet))))))"

definition handleStatic :: "web_world \<Rightarrow> web_request \<Rightarrow> web_response" where
  "handleStatic W r =
     (if HasPrefix (wr_Path r) ''/api/'' then not_found
      else
        let cleaned = path_Clean (TrimPrefix (wr_Path r) ''/'');
            clean = (if cleaned = ''.'' then ''index.html'' else cleaned);
            candidate = filepath_Join (wc_UIDir (ww_cfg W)) clean
        in if HasPrefix clean ''..'' then respond 400 (BMessage ''invalid path'')
           else if ww_isFile W candidate then respond 200 (BFile candidate)
           else respond 200 (BFile (filepath_Join (wc_UIDir (ww_cfg W)) ''index.html'')))"

section \<open>Routes\<close>

definition requireSession ::
  "web_world \<Rightarrow> (session_info \<Rightarrow> web_state \<Rightarrow> outcome3) \<Rightarrow> web_request \<Rightarrow> web_state \<Rightarrow> outcome3" where
  "requireSession W next r s =
     (case sessionUser (ww_E W 9) (ww_session W) (ww_sessionKey W) (wr_Cookie r) (ws_users s) of
        (None, us) \<Rightarrow> replies (s\<lparr>ws_users := us\<rparr>) (respond 401 (BMessage ''authentication required''))
      | (Some si, us) \<Rightarrow>
          (case acquireAuthenticatedRequest si (ws_requests s) of
             (False, q) \<Rightarrow>
               replies (s\<lparr>ws_users := us, ws_requests := q\<rparr>) (busy 1 ''too many concurrent requests; retry shortly'')
           | (True, q) \<Rightarrow>
               (case next si (s\<lparr>ws_users := us, ws_requests := q\<rparr>) of
                  (resp, calls, s1) \<Rightarrow> (resp, calls, s1\<lparr>ws_requests := release_request si (ws_requests s1)\<rparr>))))"

definition requireAdmin ::
  "web_world \<Rightarrow> (session_info \<Rightarrow> web_state \<Rightarrow> outcome3) \<Rightarrow> web_request \<Rightarrow> web_state \<Rightarrow> outcome3" where
  "requireAdmin W next =
     requireSession W (\<lambda>si s. if si_Role si \<noteq> RoleAdmin then replies s admin_required else next si s)"

text \<open>The mux sends a request for a path that is not clean to the clean one.\<close>

definition mux_path :: "string \<Rightarrow> string" where
  "mux_path p =
     (let np = path_Clean (if HasPrefix p ''/'' then p else ''/'' @ p)
      in if p \<noteq> [] \<and> last p = CHR ''/'' \<and> np \<noteq> ''/'' then np @ ''/'' else np)"

definition serveMux :: "web_world \<Rightarrow> web_request \<Rightarrow> web_state \<Rightarrow> outcome3" where
  "serveMux W r s =
     (let p = wr_Path r in
      if wr_Method r \<noteq> ''CONNECT'' \<and> mux_path p \<noteq> p then replies s (respond 301 (BRedirect (mux_path p)))
      else if p = ''/api/login'' then handleLogin W r s
      else if p = ''/api/register'' \<and> wc_AllowRegistration (ww_cfg W) then handleRegister W r s
      else if p = ''/api/session'' then handleSession W r s
      else if p = ''/api/logout'' then requireSession W (\<lambda>si. handleLogout W r) r s
      else if p = ''/api/password'' then requireSession W (\<lambda>si. handleChangePassword W si r) r s
      else if p = ''/api/users'' then requireAdmin W (\<lambda>si. handleUsers W si r) r s
      else if p = ''/api/keys'' \<or> HasPrefix p ''/api/keys/'' then requireSession W (\<lambda>si. handleKeys W si r) r s
      else if p = ''/api/servers'' then requireSession W (\<lambda>si. handleServers W si r) r s
      else if HasPrefix p ''/api/servers/'' then requireSession W (\<lambda>si. handleServerAction W si r) r s
      else if p = ''/api/fleet/snapshot'' then requireSession W (\<lambda>si. handleFleetSnapshot W si r) r s
      else if p = ''/api/history/summary'' \<or> p = ''/api/history/search'' \<or> p = ''/api/history/sessions'' \<or>
              HasPrefix p ''/api/history/sessions/''
      then requireSession W (\<lambda>si s. replies s (respond 200 BHistory)) r s
      else replies s (handleStatic W r))"

section \<open>The middleware\<close>

definition requestChangesState :: "string \<Rightarrow> bool" where
  "requestChangesState m \<longleftrightarrow> m \<noteq> ''GET'' \<and> m \<noteq> ''HEAD'' \<and> m \<noteq> ''OPTIONS''"

definition requestHasJSONContentType :: "web_request \<Rightarrow> bool" where
  "requestHasJSONContentType r = (case wr_MediaType r of Inl _ \<Rightarrow> False | Inr t \<Rightarrow> EqualFold t ''application/json'')"

definition sameOriginRequest :: "web_world \<Rightarrow> web_request \<Rightarrow> bool" where
  "sameOriginRequest W r =
     (if ToLower (TrimSpace (wr_SecFetchSite r)) = ''cross-site'' then False
      else
        let origin = TrimSpace (wr_Origin r) in
        if origin = [] then True
        else (case ww_parseOrigin W origin of None \<Rightarrow> False | Some host \<Rightarrow> host \<noteq> [] \<and> EqualFold host (wr_Host r)))"

definition securityMiddleware :: "web_world \<Rightarrow> (web_state \<Rightarrow> outcome3) \<Rightarrow> web_request \<Rightarrow> web_state \<Rightarrow> outcome3" where
  "securityMiddleware W next r s =
     (if HasPrefix (wr_Path r) ''/api/'' \<and> requestChangesState (wr_Method r) \<and> \<not> sameOriginRequest W r
      then replies s (respond 403 (BMessage ''cross-origin request denied''))
      else if HasPrefix (wr_Path r) ''/api/'' \<and> requestChangesState (wr_Method r) \<and> wr_HasBody r \<and> \<not> requestHasJSONContentType r
      then replies s (respond 415 (BMessage ''Content-Type must be application/json''))
      else next s)"

definition routes :: "web_world \<Rightarrow> web_request \<Rightarrow> web_state \<Rightarrow> outcome3" where
  "routes W r s = securityMiddleware W (serveMux W r) r s"

end
