(* ===== verification/SessionProps.thy ===== *)
theory SessionProps
  imports Sessions
begin

text \<open>What a session proves, when it stops to, and the limits on requests in flight.\<close>

section \<open>Reading users\<close>

lemma Get_user_cases:
  assumes "Get_user E name s = (r, s')" "we_lib E = L" "web_lib_ok L" "users_inv L master s"
  obtains (failed) e where "r = Inl e"
  | (nobody) e where "normalizeUsername name = Inl e" "r = Inr None"
  | (found) n where "normalizeUsername name = Inr n" "r = Inr (find (enabled n) (users_of L s))"
proof (cases "normalizeUsername name")
  case (Inl e)
  with assms(1) nobody show thesis by (simp add: Get_user_def)
next
  case (Inr n)
  let ?body = "\<lambda>users. RowDone (find (enabled n) users) :: (user_record, user_record option) row_outcome"
  have tx: "users_tx E ?body s = (r, s')" using assms(1) Inr by (simp add: Get_user_def)
  show thesis
    by (rule users_tx_cases [OF tx assms(2-4) keeps_users_read]) (use failed found Inr in auto)
qed

lemma Get_user_inv:
  assumes "Get_user E name s = (r, s')" "we_lib E = L" "web_lib_ok L" "users_inv L master s"
  shows "users_inv L master s' \<and> users_of L s' = users_of L s \<and> us_keyCipher s' = us_keyCipher s"
proof (cases "normalizeUsername name")
  case (Inl e)
  with assms show ?thesis by (simp add: Get_user_def)
next
  case (Inr n)
  let ?body = "\<lambda>users. RowDone (find (enabled n) users) :: (user_record, user_record option) row_outcome"
  have tx: "users_tx E ?body s = (r, s')" using assms(1) Inr by (simp add: Get_user_def)
  have "users_of L s' = users_of L s"
    by (rule users_tx_cases [OF tx assms(2-4) keeps_users_read]) auto
  with users_tx_inv [OF tx assms(2-4) keeps_users_read] show ?thesis by simp
qed

section \<open>Sessions\<close>

definition sessions_json :: "session_json \<Rightarrow> session_payload \<Rightarrow> bool" where
  "sessions_json J p \<longleftrightarrow> sj_unmarshal J (sj_marshal J p) = Some p"

lemma Split_token: "b64_alphabet A \<Longrightarrow>
   Split (b64_EncodeToString A x @ ''.'' @ b64_EncodeToString A y) (CHR ''.'') = [b64_EncodeToString A x, b64_EncodeToString A y]"
  by (simp add: Split_append Split_no_sep)

lemma verify_token:
  assumes "length (b64_EncodeToString RawURLEncoding data @ ''.'' @ b64_EncodeToString RawURLEncoding (sessionSignature L k data)) \<le> 2048"
  shows "verifySession L J k (b64_EncodeToString RawURLEncoding data @ ''.'' @
    b64_EncodeToString RawURLEncoding (sessionSignature L k data)) = sj_unmarshal J data"
  using assms by (simp add: verifySession_def Split_token [simplified])

text \<open>An accepted cookie carries a signature under the key and the current credentials of an enabled user.\<close>

lemma sessionUser_sound:
  assumes "sessionUser E J k cookie s = (Some si, s')" "we_lib E = L" "web_lib_ok L" "users_inv L master s"
  obtains val p u where "cookie = Some val" "verifySession (wb_hash L) J k val = Some p"
    "0 < sp_Expires p" "time_Unix (we_now E) < sp_Expires p"
    "u \<in> set (users_of L s)" "\<not> ur_Disabled u" "normalizeUsername (sp_User p) = Inr (ur_Username u)"
    "sp_CredentialVersion p = time_UnixNano (ur_UpdatedAt u)"
    "si = \<lparr>si_User = ur_Username u, si_Role = ur_Role u\<rparr>"
proof -
  from assms(1,2) obtain val p where c: "cookie = Some val" "verifySession (wb_hash L) J k val = Some p"
    "0 < sp_Expires p" "time_Unix (we_now E) < sp_Expires p"
    by (auto simp: sessionUser_def split: option.splits if_splits)
  obtain r s1 where g: "Get_user E (sp_User p) s = (r, s1)" by (metis prod.exhaust)
  from assms(1,2) c g obtain u where u: "r = Inr (Some u)" "sp_CredentialVersion p = time_UnixNano (ur_UpdatedAt u)"
    "si = \<lparr>si_User = ur_Username u, si_Role = ur_Role u\<rparr>"
    by (auto simp: sessionUser_def split: option.splits if_splits sum.splits)
  from g assms(2-4) show thesis
  proof (cases rule: Get_user_cases)
    case (found n)
    with u(1) have "find (enabled n) (users_of L s) = Some u" by simp
    then have "u \<in> set (users_of L s)" "ur_Username u = n" "\<not> ur_Disabled u" using find_enabled by auto
    with found(1) that c u show thesis by blast
  qed (use u in auto)
qed

lemma sessionUser_inv:
  assumes "sessionUser E J k cookie s = (r, s')" "we_lib E = L" "web_lib_ok L" "users_inv L master s"
  shows "users_inv L master s' \<and> users_of L s' = users_of L s"
proof -
  have "s' = s \<or> (\<exists>name. s' = snd (Get_user E name s))"
  proof (cases "cookie = None \<or> cookie = Some [] \<or> verifySession (wb_hash L) J k (the cookie) = None")
    case True
    with assms(1,2) show ?thesis by (auto simp: sessionUser_def split: option.splits if_splits)
  next
    case False
    then obtain val p where c: "cookie = Some val" "val \<noteq> []" "verifySession (wb_hash L) J k val = Some p"
      by (metis option.collapse)
    obtain g s1 where "Get_user E (sp_User p) s = (g, s1)" by (metis prod.exhaust)
    moreover with assms(1,2) c have "s' = s \<or> s' = s1"
      by (auto simp: sessionUser_def split: if_splits sum.splits option.splits)
    ultimately show ?thesis by (metis snd_conv)
  qed
  then show ?thesis using Get_user_inv [OF _ assms(2-4)] assms(4) by (metis prod.collapse)
qed

text \<open>A cookie that was just signed for a user is accepted until it expires.\<close>

lemma signed_session_accepted:
  assumes "signSession E J k (ur_Username u) (ur_Role u) expires s = (val, s1)" "rw_loaded (us_file s)"
    and "we_lib E = L" "web_lib_ok L" "users_inv L master s" "find (enabled (ur_Username u)) (users_of L s) = Some u"
    and "\<And>p. sessions_json J p" "length val \<le> 2048"
    and "we_lib E' = L" "time_Unix (we_now E') < time_Unix expires" "0 < time_Unix expires" "time_UnixNano (ur_UpdatedAt u) \<noteq> 0"
  shows "fst (sessionUser E' J k (Some val) s1) = Some \<lparr>si_User = ur_Username u, si_Role = ur_Role u\<rparr>"
proof -
  let ?n = "ur_Username u"
  have n: "normalizeUsername ?n = Inr ?n"
    using find_enabled [OF assms(6)] users_inv_ok [OF assms(5)] by (auto simp: users_ok_def user_ok_def)
  have rows: "rw_rows (us_file s) = users_of L s"
    using assms(2,5) by (auto simp: users_inv_def rows_consistent_def stored_users_def)
  have get: "Get_user e ?n s = (Inr (Some u), s)" if "we_lib e = L" for e
    using assms(2,6) n rows by (simp add: Get_user_def users_tx_def row_tx_def)
  define data where "data = sj_marshal J \<lparr>sp_User = ?n, sp_Role = ur_Role u,
     sp_CredentialVersion = time_UnixNano (ur_UpdatedAt u), sp_Expires = time_Unix expires\<rparr>"
  have val: "val = b64_EncodeToString RawURLEncoding data @ ''.'' @
      b64_EncodeToString RawURLEncoding (sessionSignature (wb_hash L) k data)" and s1: "s1 = s"
    using assms(1,3) get [OF assms(3)] by (auto simp: signSession_def data_def Let_def)
  have "verifySession (wb_hash L) J k val = Some \<lparr>sp_User = ?n, sp_Role = ur_Role u,
     sp_CredentialVersion = time_UnixNano (ur_UpdatedAt u), sp_Expires = time_Unix expires\<rparr>"
    using verify_token assms(7,8) unfolding val data_def sessions_json_def by metis
  moreover have "val \<noteq> []" by (simp add: val)
  ultimately show ?thesis
    using assms(9-12) get [OF assms(9)] by (simp add: sessionUser_def s1)
qed

section \<open>Who is locked out\<close>

lemma no_enabled_when_disabled:
  assumes "users_ok L master users" "u \<in> set users" "ur_Disabled u"
  shows "find (enabled (ur_Username u)) users = None"
proof (rule ccontr)
  assume "\<not> ?thesis"
  then obtain v where "find (enabled (ur_Username u)) users = Some v" by auto
  from find_enabled [OF this] have "v \<in> set users" "ur_Username v = ur_Username u" "\<not> ur_Disabled v" by auto
  with assms show False by (auto simp: users_ok_def distinct_map dest: inj_onD)
qed

definition locked_out :: "web_lib \<Rightarrow> string \<Rightarrow> user_store \<Rightarrow> bool" where
  "locked_out L name s \<longleftrightarrow> (\<exists>u\<in>set (users_of L s). ur_Username u = name \<and> ur_Disabled u)"

lemma locked_out_steps:
  assumes "user_steps L master s s'" "web_lib_ok L" "users_inv L master s" "locked_out L name s"
  shows "locked_out L name s' \<and> users_inv L master s'"
  using user_steps_inv [OF assms(1-3)] assms(4) unfolding locked_out_def retained_def by metis

lemma locked_out_find:
  assumes "locked_out L name s" "users_inv L master s"
  shows "find (enabled name) (users_of L s) = None"
  using assms no_enabled_when_disabled [OF users_inv_ok [OF assms(2)]] unfolding locked_out_def by metis

lemma deleted_locked_out:
  assumes "Delete_user E name s = (Inr (), s')" "we_lib E = L" "web_lib_ok L" "users_inv L master s"
    "normalizeUsername name = Inr n"
  shows "locked_out L n s' \<and> users_inv L master s'"
proof -
  have tx: "users_tx E (remove_user (we_now E) n) s = (Inr (), s')" using assms(1,5) by (simp add: Delete_user_def)
  have inv: "users_inv L master s'" using users_tx_inv [OF tx assms(2-4) keeps_remove_user] by simp
  have gone: "\<exists>u\<in>set users'. ur_Username u = n \<and> ur_Disabled u"
    if "remove_user (we_now E) n users = RowWrite users' ()" for users users'
  proof -
    from that obtain u where f: "find (\<lambda>u. ur_Username u = n) users = Some u"
      "users' = update_first (\<lambda>v. ur_Username v = n) (disable (we_now E)) users"
      by (auto simp: remove_user_def split: option.splits if_splits)
    then have "find (\<lambda>u. ur_Username u = n) users' = Some (disable (we_now E) u)"
      by (simp add: find_update_first disable_def)
    then show ?thesis using find_SomeD by (fastforce simp: disable_def)
  qed
  have "locked_out L n s'"
    by (rule users_tx_cases [OF tx assms(2-4) keeps_remove_user])
      (use gone in \<open>auto simp: locked_out_def remove_user_def split: option.splits if_splits\<close>)
  with inv show ?thesis by simp
qed

section \<open>Requests in flight\<close>

definition of_user :: "string \<Rightarrow> session_info multiset \<Rightarrow> session_info multiset" where
  "of_user n M = filter_mset (\<lambda>si. session_name si = n) M"

definition non_admins :: "session_info multiset \<Rightarrow> session_info multiset" where
  "non_admins M = filter_mset (\<lambda>si. si_Role si \<noteq> RoleAdmin) M"

definition may_request :: "session_info \<Rightarrow> session_info multiset \<Rightarrow> bool" where
  "may_request si M \<longleftrightarrow> size M < 64 \<and> size (of_user (session_name si) M) < 8 \<and>
     (si_Role si \<noteq> RoleAdmin \<longrightarrow> size (non_admins M) < 56)"

definition requests_counted :: "request_counters \<Rightarrow> session_info multiset \<Rightarrow> bool" where
  "requests_counted s M \<longleftrightarrow>
     (\<forall>n. rq_activeUsers s n = (if of_user n M = {#} then None else Some (int (size (of_user n M))))) \<and>
     rq_activeTotal s = int (size M) \<and> rq_activeNonAdmin s = int (size (non_admins M))"

lemma user_requests_counted: "requests_counted s M \<Longrightarrow> user_requests s n = int (size (of_user n M))"
  by (simp add: requests_counted_def user_requests_def)

lemma of_user_add [simp]: "of_user n (add_mset si M) = (if session_name si = n then add_mset si (of_user n M) else of_user n M)"
  by (simp add: of_user_def)

lemma non_admins_add [simp]: "non_admins (add_mset si M) = (if si_Role si \<noteq> RoleAdmin then add_mset si (non_admins M) else non_admins M)"
  by (simp add: non_admins_def)

lemma acquire_request_spec:
  assumes "requests_counted s M"
  shows "may_request si M \<Longrightarrow> fst (acquireAuthenticatedRequest si s) \<and> requests_counted (snd (acquireAuthenticatedRequest si s)) (add_mset si M)"
    and "\<not> may_request si M \<Longrightarrow> acquireAuthenticatedRequest si s = (False, s)"
proof -
  have c: "rq_activeTotal s = int (size M)" "rq_activeNonAdmin s = int (size (non_admins M))"
    "user_requests s (session_name si) = int (size (of_user (session_name si) M))"
    using assms user_requests_counted by (auto simp: requests_counted_def)
  have fits: "fst (acquireAuthenticatedRequest si s) \<longleftrightarrow> may_request si M"
    by (auto simp: acquireAuthenticatedRequest_def may_request_def c request_limits Let_def)
  show "may_request si M \<Longrightarrow> fst (acquireAuthenticatedRequest si s) \<and> requests_counted (snd (acquireAuthenticatedRequest si s)) (add_mset si M)"
    using assms fits c by (auto simp: acquireAuthenticatedRequest_def requests_counted_def Let_def split: if_splits)
  show "\<not> may_request si M \<Longrightarrow> acquireAuthenticatedRequest si s = (False, s)"
    using fits by (auto simp: acquireAuthenticatedRequest_def Let_def split: if_splits)
qed

lemma release_request_spec:
  assumes "requests_counted s M" "si \<in># M"
  shows "requests_counted (release_request si s) (M - {#si#})"
proof -
  from assms(2) obtain N where M: "M = add_mset si N" by (metis insert_DiffM)
  have u: "user_requests s (session_name si) = int (size (of_user (session_name si) N)) + 1"
    using user_requests_counted [OF assms(1)] M by simp
  show ?thesis
    using assms(1) unfolding release_request_def u M requests_counted_def Let_def
    by (auto split: if_splits)
qed

interpretation requests: held_pool acquireAuthenticatedRequest release_request may_request requests_counted
  by unfold_locales (auto simp: acquire_request_spec release_request_spec)

definition requests_within :: "session_info multiset \<Rightarrow> bool" where
  "requests_within M \<longleftrightarrow> size M \<le> 64 \<and> size (non_admins M) \<le> 56 \<and> (\<forall>n. size (of_user n M) \<le> 8)"

lemma requests_within_run: "spec_run may_request rs {#} = (oks, M) \<Longrightarrow> requests_within M"
proof (erule spec_run_keeps [where I = requests_within])
  show "requests_within {#}" by (simp add: requests_within_def non_admins_def of_user_def)
next
  fix M N :: "session_info multiset"
  assume "requests_within N" "M \<subseteq># N"
  then show "requests_within M" unfolding requests_within_def non_admins_def of_user_def
    by (meson multiset_filter_mono order_trans size_mset_mono)
qed (auto simp: requests_within_def may_request_def)

lemma admin_has_a_place:
  assumes "requests_within M" "si_Role si = RoleAdmin"
    "size (filter_mset (\<lambda>x. si_Role x = RoleAdmin) M) < 8" "size (of_user (session_name si) M) < 8"
  shows "may_request si M"
proof -
  have "size M = size (non_admins M) + size (filter_mset (\<lambda>x. \<not> si_Role x \<noteq> RoleAdmin) M)"
    unfolding non_admins_def by (subst (1) multiset_partition [of M "\<lambda>x. si_Role x \<noteq> RoleAdmin"]) (simp only: size_union)
  then show ?thesis using assms by (simp add: requests_within_def may_request_def)
qed

lemma requests_counted_empty [simp]: "requests_counted no_requests {#}"
  by (simp add: requests_counted_def no_requests_def of_user_def non_admins_def)

end
