(* ===== verification/AttemptProps.thy ===== *)
theory AttemptProps
  imports Attempts
begin

text \<open>
  The limits as a bound on guessing: what every operation does to the entry of one key, a
  potential that pays for the attempts of a minute, and the bound for all sequences of events.
\<close>

section \<open>Entries\<close>

definition window_over :: "time \<Rightarrow> login_attempt \<Rightarrow> bool" where
  "window_over now a \<longleftrightarrow> \<not> IsZero (la_ResetAt a) \<and> \<not> Before now (la_ResetAt a)"

definition live_entry :: "time \<Rightarrow> login_attempt option \<Rightarrow> login_attempt option" where
  "live_entry now e = (case e of None \<Rightarrow> None | Some a \<Rightarrow> if window_over now a then None else Some a)"

definition attempts_ok :: "attempts \<Rightarrow> bool" where
  "attempts_ok m \<longleftrightarrow> distinct (map fst m) \<and> (\<forall>key a. map_of m key = Some a \<longrightarrow> la_Failures a \<ge> 1 \<and> la_ResetAt a \<noteq> 0)"

lemma map_of_filter:
  "distinct (map fst m) \<Longrightarrow>
   map_of (filter P m) x = (case map_of m x of None \<Rightarrow> None | Some a \<Rightarrow> if P (x, a) then Some a else None)"
  by (induction m) (auto split: option.splits simp: map_of_eq_None_iff rev_image_eqI)

lemma current_attempt_entry:
  assumes "current_attempt now key m = (a, m')"
  shows "map_of m' = (map_of m)(key := live_entry now (map_of m key)) \<and> a = the_or no_attempt (live_entry now (map_of m key))"
proof (cases "map_of m key")
  case None
  with assms show ?thesis
    by (auto simp: current_attempt_def lookup_attempt_def Let_def no_attempt_def live_entry_def fun_upd_idem_iff)
next
  case (Some b)
  with assms show ?thesis
    by (auto simp: current_attempt_def lookup_attempt_def Let_def live_entry_def window_over_def delete_conv' split: if_splits)
qed

lemma current_attempt_ok:
  assumes "current_attempt now key m = (a, m')" "attempts_ok m"
  shows "attempts_ok m'"
  using assms current_attempt_entry [OF assms(1)]
  by (auto simp: attempts_ok_def live_entry_def current_attempt_def Let_def distinct_delete split: if_splits option.splits)

lemma capacity_entry:
  assumes "ensureAttemptCapacityLocked now n m = (b, m')" "attempts_ok m"
  shows "map_of m' key = map_of m key \<or> map_of m' key = live_entry now (map_of m key)" and "attempts_ok m'"
proof -
  let ?f = "filter (\<lambda>(key, a). Before now (la_ResetAt a)) m"
  have m': "m' = m \<or> m' = ?f"
    using assms(1) by (auto simp: ensureAttemptCapacityLocked_def Let_def split: if_splits)
  have e: "map_of ?f key = live_entry now (map_of m key)" for key
    using assms(2) map_of_filter [of m "\<lambda>(key, a). Before now (la_ResetAt a)" key]
    by (auto simp: attempts_ok_def live_entry_def window_over_def split: option.splits)
  show "map_of m' key = map_of m key \<or> map_of m' key = live_entry now (map_of m key)" using m' e by auto
  have "distinct (map fst ?f)" using assms(2) by (simp add: attempts_ok_def distinct_map_filter)
  then have "attempts_ok ?f" using assms(2) e by (auto simp: attempts_ok_def live_entry_def split: option.splits if_splits)
  with m' assms(2) show "attempts_ok m'" by auto
qed

definition counted :: "time \<Rightarrow> login_attempt option \<Rightarrow> login_attempt" where
  "counted now e = (case e of None \<Rightarrow> \<lparr>la_Failures = 1, la_ResetAt = now + loginWindow\<rparr>
     | Some a \<Rightarrow> \<lparr>la_Failures = la_Failures a + 1, la_ResetAt = la_ResetAt a\<rparr>)"

lemma count_attempt_entry:
  assumes "attempts_ok m"
  shows "map_of (count_attempt now key m) = (map_of m)(key \<mapsto> counted now (map_of m key))"
proof (cases "map_of m key")
  case None
  then show ?thesis
    by (simp add: count_attempt_def lookup_attempt_def Let_def update_conv' no_attempt_def counted_def time_Add_def)
next
  case (Some a)
  then have "la_ResetAt a \<noteq> 0" using assms by (auto simp: attempts_ok_def)
  with Some show ?thesis by (simp add: count_attempt_def lookup_attempt_def Let_def update_conv' counted_def)
qed

lemma count_attempt_ok:
  assumes "attempts_ok m" "now \<ge> 0"
  shows "attempts_ok (count_attempt now key m)"
proof -
  have "distinct (map fst (count_attempt now key m))"
    using assms(1) by (simp add: attempts_ok_def count_attempt_def Let_def distinct_update)
  moreover have "now + loginWindow \<noteq> 0" using assms(2) by (simp add: loginWindow_def duration_defs)
  ultimately show ?thesis
    using assms(1) by (fastforce simp: attempts_ok_def count_attempt_entry [OF assms(1)] counted_def split: option.splits if_splits)
qed

definition given_back :: "login_attempt option \<Rightarrow> login_attempt option" where
  "given_back e = (case e of None \<Rightarrow> None
     | Some a \<Rightarrow> if la_Failures a \<le> 1 then None else Some (a\<lparr>la_Failures := la_Failures a - 1\<rparr>))"

lemma release_one_entry: "map_of (release_one key m) = (map_of m)(key := given_back (map_of m key))"
  by (auto simp: release_one_def given_back_def delete_conv' update_conv' fun_upd_idem_iff split: option.splits)

lemma release_one_ok: "attempts_ok m \<Longrightarrow> attempts_ok (release_one key m)"
proof -
  assume ok: "attempts_ok m"
  have "distinct (map fst (release_one key m))"
    using ok by (auto simp: attempts_ok_def release_one_def distinct_delete distinct_update split: option.splits)
  with ok show ?thesis
    by (auto simp: attempts_ok_def release_one_entry given_back_def split: option.splits if_splits)
qed

section \<open>One key\<close>

text \<open>
  What may happen to the entry of a key: nothing but that a finished window is forgotten, an
  admitted attempt, which finds fewer than \<open>limit\<close> failures, or an attempt given back.
\<close>

datatype move = Quiet | Admitted | GivenBack

definition entry_move :: "int \<Rightarrow> time \<Rightarrow> move \<Rightarrow> login_attempt option \<Rightarrow> login_attempt option \<Rightarrow> bool" where
  "entry_move limit now v e e' =
     (case v of
        Quiet \<Rightarrow> e' = e \<or> e' = live_entry now e
      | Admitted \<Rightarrow> e' = Some (counted now (live_entry now e)) \<and> (\<forall>a. live_entry now e = Some a \<longrightarrow> la_Failures a < limit)
      | GivenBack \<Rightarrow> e' = given_back e)"

definition entry_ok :: "int \<Rightarrow> login_attempt option \<Rightarrow> bool" where
  "entry_ok limit e \<longleftrightarrow> (case e of None \<Rightarrow> True | Some a \<Rightarrow> 1 \<le> la_Failures a \<and> la_Failures a \<le> limit)"

definition potential :: "int \<Rightarrow> time \<Rightarrow> login_attempt option \<Rightarrow> int" where
  "potential limit T e = (case e of None \<Rightarrow> limit
     | Some a \<Rightarrow> (if la_ResetAt a \<ge> T + loginWindow then limit else 0) + la_Failures a)"

lemma entry_move_ok: "\<lbrakk>entry_move limit now v e e'; entry_ok limit e; limit \<ge> 1\<rbrakk> \<Longrightarrow> entry_ok limit e'"
  by (auto simp: entry_move_def entry_ok_def live_entry_def counted_def given_back_def
      split: move.splits option.splits if_splits)

lemma entry_move_potential:
  assumes "entry_move limit now v e e'" "entry_ok limit e" "limit \<ge> 1" "T \<le> now" "now < T + loginWindow"
  shows "potential limit T e + (if v = Admitted then 1 else 0) \<le> potential limit T e' + (if v = GivenBack then 1 else 0)"
  using assms
  by (auto simp: entry_move_def entry_ok_def potential_def live_entry_def window_over_def counted_def given_back_def
      split: move.splits option.splits if_splits)

text \<open>In less than a minute no more than twice the limit is admitted and not given back.\<close>

inductive entry_run :: "int \<Rightarrow> time \<Rightarrow> move list \<Rightarrow> login_attempt option \<Rightarrow> login_attempt option \<Rightarrow> bool" for limit T where
  Nil: "entry_run limit T [] e e"
| Cons: "\<lbrakk>entry_move limit now v e e1; T \<le> now; now < T + loginWindow; entry_run limit T vs e1 e'\<rbrakk> \<Longrightarrow>
    entry_run limit T (v # vs) e e'"

lemma entry_run_bound:
  assumes "entry_run limit T vs e e'" "entry_ok limit e" "limit \<ge> 1"
  shows "int (count_list vs Admitted) + potential limit T e \<le> int (count_list vs GivenBack) + potential limit T e' \<and> entry_ok limit e'"
  using assms
proof (induction rule: entry_run.induct)
  case (Cons now v e e1 vs e')
  have "entry_ok limit e1" using entry_move_ok Cons by blast
  with Cons entry_move_potential [OF Cons.hyps(1) Cons.prems Cons.hyps(2,3)] show ?case
    by (auto split: if_splits)
qed simp

lemma entry_run_limit:
  assumes "entry_run limit T vs e e'" "entry_ok limit e" "limit \<ge> 1"
  shows "int (count_list vs Admitted) \<le> 2 * limit + int (count_list vs GivenBack)"
proof -
  from entry_run_bound [OF assms] have b: "int (count_list vs Admitted) + potential limit T e \<le>
      int (count_list vs GivenBack) + potential limit T e'" "entry_ok limit e'" by auto
  moreover have "0 \<le> potential limit T e" using assms(2,3) by (auto simp: potential_def entry_ok_def split: option.splits)
  moreover have "potential limit T e' \<le> 2 * limit" using b(2) assms(3) by (auto simp: potential_def entry_ok_def split: option.splits)
  ultimately show ?thesis by linarith
qed

section \<open>The operations, key by key\<close>

text \<open>What reserving does to the entry of a key, when its window is read first.\<close>

lemma reserveLoginAttempt_entry:
  assumes "reserveLoginAttempt u i k now m = ((ok, d), m')" "attempts_ok m" "now \<ge> 0"
  shows "attempts_ok m'"
    and "x \<notin> {u, i, k} \<or> \<not> ok \<Longrightarrow> map_of m' x = map_of m x \<or> map_of m' x = live_entry now (map_of m x)"
    and "\<lbrakk>ok; k \<noteq> u; k \<noteq> i\<rbrakk> \<Longrightarrow> entry_move loginUserFailureLimit now Admitted (map_of m k) (map_of m' k)"
proof -
  obtain a1 m1 where c1: "current_attempt now u m = (a1, m1)" by (metis prod.exhaust)
  obtain a2 m2 where c2: "current_attempt now i m1 = (a2, m2)" by (metis prod.exhaust)
  obtain a3 m3 where c3: "current_attempt now k m2 = (a3, m3)" by (metis prod.exhaust)
  have ok3: "attempts_ok m3" using c1 c2 c3 assms(2) current_attempt_ok by metis
  have live_idem: "live_entry now (live_entry now e) = live_entry now e" for e
    by (auto simp: live_entry_def split: option.splits)
  have e3: "map_of m3 x = map_of m x \<or> map_of m3 x = live_entry now (map_of m x)" for x
    using current_attempt_entry [OF c1] current_attempt_entry [OF c2] current_attempt_entry [OF c3] live_idem
    by (auto split: if_splits)
  have e3k: "map_of m3 k = live_entry now (map_of m k)" if "k \<noteq> u" "k \<noteq> i"
    using current_attempt_entry [OF c1] current_attempt_entry [OF c2] current_attempt_entry [OF c3] that by auto
  have e3l: "a3 = the_or no_attempt (map_of m3 k)" using current_attempt_entry [OF c3] by simp
  let ?n = "is_new m3 u + is_new m3 i + is_new m3 k"
  obtain b m4 where c4: "ensureAttemptCapacityLocked now ?n m3 = (b, m4)" by (metis prod.exhaust)
  have ok4: "attempts_ok m4" using capacity_entry(2) [OF c4 ok3] .
  have e4: "map_of m4 x = map_of m x \<or> map_of m4 x = live_entry now (map_of m x)" for x
    using capacity_entry(1) [OF c4 ok3, of x] e3 [of x] live_idem by auto
  let ?counted = "count_attempt now k (count_attempt now i (count_attempt now u m4))"
  have okc: "attempts_ok ?counted" by (intro count_attempt_ok ok4 assms(3))
  have ec: "map_of ?counted = ((map_of m4)(u \<mapsto> counted now (map_of m4 u), i \<mapsto> counted now (((map_of m4)(u \<mapsto> counted now (map_of m4 u))) i)))
      (k \<mapsto> counted now (((map_of m4)(u \<mapsto> counted now (map_of m4 u), i \<mapsto> counted now (((map_of m4)(u \<mapsto> counted now (map_of m4 u))) i))) k))"
    by (simp add: count_attempt_entry ok4 count_attempt_ok assms(3))
  have cases: "\<not> ok \<and> (m' = m3 \<or> m' = m4) \<or> ok \<and> m' = ?counted \<and> \<not> retry_after loginUserFailureLimit now a3
      (retry_after loginIPFailureLimit now a2 (if la_Failures a1 \<ge> loginFailureLimit then time_Sub (la_ResetAt a1) now else 0)) > 0"
    using assms(1) c4 by (auto simp: reserveLoginAttempt_def c1 c2 c3 Let_def split: if_splits bool.splits)
  show "attempts_ok m'" using cases ok3 ok4 okc by auto
  show "map_of m' x = map_of m x \<or> map_of m' x = live_entry now (map_of m x)" if "x \<notin> {u, i, k} \<or> \<not> ok"
    using that cases e3 [of x] e4 [of x] ec by auto
  show "entry_move loginUserFailureLimit now Admitted (map_of m k) (map_of m' k)" if "ok" "k \<noteq> u" "k \<noteq> i"
  proof -
    have m': "m' = ?counted" and small: "\<not> retry_after loginUserFailureLimit now a3
      (retry_after loginIPFailureLimit now a2 (if la_Failures a1 \<ge> loginFailureLimit then time_Sub (la_ResetAt a1) now else 0)) > 0"
      using cases that(1) by auto
    have "map_of m4 k = live_entry now (map_of m k)"
      using capacity_entry(1) [OF c4 ok3, of k] e3k [OF that(2,3)] live_idem by auto
    with ec m' that have e: "map_of m' k = Some (counted now (live_entry now (map_of m k)))" by simp
    have "la_Failures a < loginUserFailureLimit" if l: "live_entry now (map_of m k) = Some a" for a
    proof (rule ccontr)
      assume "\<not> ?thesis"
      then have ge: "la_Failures a \<ge> loginUserFailureLimit" by simp
      have a: "a3 = a" using e3l e3k l \<open>k \<noteq> u\<close> \<open>k \<noteq> i\<close> by simp
      from l obtain "\<not> window_over now a" "map_of m k = Some a" by (auto simp: live_entry_def split: option.splits if_splits)
      with assms(2) have "now < la_ResetAt a" by (auto simp: window_over_def attempts_ok_def)
      then have "time_Sub (la_ResetAt a) now > 0" by (auto simp: time_Sub_def)
      with small ge a show False by (simp add: retry_after_def)
    qed
    with e show ?thesis by (simp add: entry_move_def)
  qed
qed

lemma live_entry_idem [simp]: "live_entry now (live_entry now e) = live_entry now e"
  by (auto simp: live_entry_def split: option.splits)

lemma reserveSingleAttempt_entry:
  assumes "reserveSingleAttempt k now limit m = ((ok, d), m')" "attempts_ok m" "now \<ge> 0"
  shows "attempts_ok m'" and "x \<noteq> k \<Longrightarrow> map_of m' x = map_of m x \<or> map_of m' x = live_entry now (map_of m x)"
proof -
  obtain a m1 where c1: "current_attempt now k m = (a, m1)" by (metis prod.exhaust)
  obtain b m2 where c2: "ensureAttemptCapacityLocked now (if IsZero (la_ResetAt a) then 1 else 0) m1 = (b, m2)" by (metis prod.exhaust)
  let ?new = "\<lparr>la_Failures = la_Failures a + 1,
     la_ResetAt = (if IsZero (la_ResetAt a) then time_Add now loginWindow else la_ResetAt a)\<rparr>"
  have ok1: "attempts_ok m1" by (rule current_attempt_ok [OF c1 assms(2)])
  have ok2: "attempts_ok m2" by (rule capacity_entry(2) [OF c2 ok1])
  have a: "a = the_or no_attempt (map_of m1 k)" using current_attempt_entry [OF c1] by simp
  have "la_Failures a \<ge> 0" using ok1 a by (cases "map_of m1 k") (fastforce simp: no_attempt_def attempts_ok_def)+
  moreover have "now + loginWindow \<noteq> 0" using assms(3) by (simp add: loginWindow_def duration_defs)
  ultimately have ok3: "attempts_ok (AList.update k ?new m2)"
    using ok2 by (auto simp: attempts_ok_def distinct_update update_conv' time_Add_def)
  have m': "m' = m1 \<or> m' = m2 \<or> m' = AList.update k ?new m2"
    using assms(1) c2 by (auto simp: reserveSingleAttempt_def c1 split: if_splits bool.splits)
  show "attempts_ok m'" using m' ok1 ok2 ok3 by auto
  show "map_of m' x = map_of m x \<or> map_of m' x = live_entry now (map_of m x)" if "x \<noteq> k"
    using m' that current_attempt_entry [OF c1] capacity_entry(1) [OF c2 ok1, of x] by (auto simp: update_conv')
qed

lemma reserveRegistrationAttempt_entry:
  assumes "reserveRegistrationAttempt i now m = ((ok, d), m')" "attempts_ok m" "now \<ge> 0"
  shows "attempts_ok m'" and "x \<notin> {i, registrationGlobalAttemptKey} \<Longrightarrow>
    map_of m' x = map_of m x \<or> map_of m' x = live_entry now (map_of m x)"
proof -
  let ?g = registrationGlobalAttemptKey
  obtain a1 m1 where c1: "current_attempt now i m = (a1, m1)" by (metis prod.exhaust)
  obtain a2 m2 where c2: "current_attempt now ?g m1 = (a2, m2)" by (metis prod.exhaust)
  obtain b m3 where c3: "ensureAttemptCapacityLocked now (is_new m2 i + is_new m2 ?g) m2 = (b, m3)" by (metis prod.exhaust)
  have ok2: "attempts_ok m2" using c1 c2 assms(2) current_attempt_ok by metis
  have ok3: "attempts_ok m3" by (rule capacity_entry(2) [OF c3 ok2])
  let ?counted = "count_attempt now ?g (count_attempt now i m3)"
  have m': "m' = m2 \<or> m' = m3 \<or> m' = ?counted"
    using assms(1) c3 by (auto simp: reserveRegistrationAttempt_def c1 c2 Let_def split: if_splits bool.splits)
  have "attempts_ok ?counted" by (intro count_attempt_ok ok3 assms(3))
  with m' ok2 ok3 show "attempts_ok m'" by auto
  show "map_of m' x = map_of m x \<or> map_of m' x = live_entry now (map_of m x)" if "x \<notin> {i, ?g}"
  proof -
    have "map_of m2 x = map_of m x" using current_attempt_entry [OF c1] current_attempt_entry [OF c2] that by auto
    moreover have "map_of ?counted x = map_of m3 x"
      using that by (simp add: count_attempt_entry ok3 count_attempt_ok assms(3))
    ultimately show ?thesis using m' capacity_entry(1) [OF c3 ok2, of x] by auto
  qed
qed

section \<open>Sequences of events\<close>

text \<open>
  The attempts and the returns of the three handlers; \<open>ip\<close> is the key of the address. The answer
  tells whether the attempt was admitted.
\<close>

datatype attempt_event =
    TryLogin string string time
  | ReturnLogin string string
  | TryRegister string time
  | ReturnRegister string
  | TryPassword string time
  | ReturnPassword string

fun attempt_step :: "weblib \<Rightarrow> attempt_event \<Rightarrow> attempts \<Rightarrow> bool \<times> attempts" where
  "attempt_step L (TryLogin ip name now) m =
     (case reserveLoginAttempt (loginAttemptKeyForIP L ip name) ip (loginUsernameAttemptKey L name) now m of
        ((ok, _), m') \<Rightarrow> (ok, m'))"
| "attempt_step L (ReturnLogin ip name) m =
     (True, releaseLoginReservation [loginAttemptKeyForIP L ip name, ip, loginUsernameAttemptKey L name] m)"
| "attempt_step L (TryRegister ip now) m =
     (case reserveRegistrationAttempt (registrationAttemptKeyForIP ip) now m of ((ok, _), m') \<Rightarrow> (ok, m'))"
| "attempt_step L (ReturnRegister ip) m =
     (True, releaseLoginReservation [registrationAttemptKeyForIP ip, registrationGlobalAttemptKey] m)"
| "attempt_step L (TryPassword name now) m =
     (case reserveSingleAttempt (passwordChangeAttemptKey L name) now passwordChangeLimit m of ((ok, _), m') \<Rightarrow> (ok, m'))"
| "attempt_step L (ReturnPassword name) m = (True, releaseLoginReservation [passwordChangeAttemptKey L name] m)"

fun attempt_run :: "weblib \<Rightarrow> attempt_event list \<Rightarrow> attempts \<Rightarrow> bool list \<times> attempts" where
  "attempt_run L [] m = ([], m)"
| "attempt_run L (ev # evs) m =
     (case attempt_step L ev m of (ok, m1) \<Rightarrow>
        (case attempt_run L evs m1 of (oks, m') \<Rightarrow> (ok # oks, m')))"

fun event_within :: "time \<Rightarrow> attempt_event \<Rightarrow> bool" where
  "event_within T (TryLogin ip name now) = (T \<le> now \<and> now < T + loginWindow \<and> HasPrefix ip ''ip:'')"
| "event_within T (ReturnLogin ip name) = HasPrefix ip ''ip:''"
| "event_within T (TryRegister ip now) = (T \<le> now \<and> now < T + loginWindow)"
| "event_within T (TryPassword name now) = (T \<le> now \<and> now < T + loginWindow)"
| "event_within T _ = True"

text \<open>What an event means for an account.\<close>

fun account_move :: "weblib \<Rightarrow> string \<Rightarrow> attempt_event \<Rightarrow> bool \<Rightarrow> move" where
  "account_move L account (TryLogin ip name now) ok =
     (if ok \<and> loginUsernameAttemptKey L name = account then Admitted else Quiet)"
| "account_move L account (ReturnLogin ip name) ok = (if loginUsernameAttemptKey L name = account then GivenBack else Quiet)"
| "account_move L account _ ok = Quiet"

definition account_moves :: "weblib \<Rightarrow> string \<Rightarrow> attempt_event list \<Rightarrow> bool list \<Rightarrow> move list" where
  "account_moves L account evs oks = map2 (account_move L account) evs oks"

definition wrong_passwords_open :: "weblib \<Rightarrow> string \<Rightarrow> attempt_event list \<Rightarrow> bool list \<Rightarrow> int" where
  "wrong_passwords_open L name evs oks =
     int (count_list (account_moves L (loginUsernameAttemptKey L name) evs oks) Admitted) -
     int (count_list (account_moves L (loginUsernameAttemptKey L name) evs oks) GivenBack)"

lemma key_classes:
  assumes "HasPrefix ip ''ip:''"
  shows "loginUsernameAttemptKey L n \<noteq> loginAttemptKeyForIP L ip n'" "loginUsernameAttemptKey L n \<noteq> ip"
  using assms by (auto simp: HasPrefix_def prefix_def loginUsernameAttemptKey_def loginAttemptKeyForIP_def)

lemma key_classes_other:
  "loginUsernameAttemptKey L n \<noteq> registrationAttemptKeyForIP ip"
  "loginUsernameAttemptKey L n \<noteq> registrationGlobalAttemptKey"
  "loginUsernameAttemptKey L n \<noteq> passwordChangeAttemptKey L n'"
  by (auto simp: loginUsernameAttemptKey_def registrationAttemptKeyForIP_def registrationGlobalAttemptKey_def passwordChangeAttemptKey_def)

lemma attempt_step_move:
  assumes "attempt_step L ev m = (ok, m')" "event_within T ev" "attempts_ok m" "T \<ge> 0"
  shows "attempts_ok m' \<and> (\<exists>now. T \<le> now \<and> now < T + loginWindow \<and>
    entry_move loginUserFailureLimit now (account_move L (loginUsernameAttemptKey L n) ev ok)
      (map_of m (loginUsernameAttemptKey L n)) (map_of m' (loginUsernameAttemptKey L n)))"
proof -
  have T: "T \<le> T \<and> T < T + loginWindow" by (simp add: loginWindow_def duration_defs)
  show ?thesis
  proof (cases ev)
    case (TryLogin ip name now)
    with assms(1) obtain d where r: "reserveLoginAttempt (loginAttemptKeyForIP L ip name) ip (loginUsernameAttemptKey L name) now m = ((ok, d), m')"
      by (auto split: prod.splits)
    from TryLogin assms(2,4) have t: "T \<le> now" "now < T + loginWindow" "HasPrefix ip ''ip:''" "now \<ge> 0" by auto
    note e = reserveLoginAttempt_entry [OF r assms(3) t(4)] and k = key_classes [OF t(3)]
    show ?thesis
    proof (cases "ok \<and> loginUsernameAttemptKey L name = loginUsernameAttemptKey L n")
      case True
      then show ?thesis using e(1,3) k t TryLogin by (metis account_move.simps(1))
    next
      case False
      then have "map_of m' (loginUsernameAttemptKey L n) = map_of m (loginUsernameAttemptKey L n) \<or>
        map_of m' (loginUsernameAttemptKey L n) = live_entry now (map_of m (loginUsernameAttemptKey L n))"
        using e(2) [of "loginUsernameAttemptKey L n"] k by auto
      with False TryLogin e(1) t show ?thesis by (auto simp: entry_move_def)
    qed
  next
    case (ReturnLogin ip name)
    with assms show ?thesis using T key_classes [of ip]
      by (auto simp: releaseLoginReservation_def release_one_entry release_one_ok entry_move_def)
  next
    case (TryRegister ip now)
    with assms(1) obtain d where r: "reserveRegistrationAttempt (registrationAttemptKeyForIP ip) now m = ((ok, d), m')"
      by (auto split: prod.splits)
    from TryRegister assms(2,4) have t: "T \<le> now" "now < T + loginWindow" "now \<ge> 0" by auto
    note e = reserveRegistrationAttempt_entry [OF r assms(3) t(3)]
    from e(2) [of "loginUsernameAttemptKey L n"] e(1) t TryRegister key_classes_other show ?thesis
      by (auto simp: entry_move_def)
  next
    case (TryPassword name now)
    with assms(1) obtain d where r: "reserveSingleAttempt (passwordChangeAttemptKey L name) now passwordChangeLimit m = ((ok, d), m')"
      by (auto split: prod.splits)
    from TryPassword assms(2,4) have t: "T \<le> now" "now < T + loginWindow" "now \<ge> 0" by auto
    note e = reserveSingleAttempt_entry [OF r assms(3) t(3)]
    from e(2) [of "loginUsernameAttemptKey L n"] e(1) t TryPassword key_classes_other show ?thesis
      by (auto simp: entry_move_def)
  next
    case (ReturnRegister ip)
    with assms show ?thesis using T key_classes_other
      by (auto simp: releaseLoginReservation_def release_one_entry release_one_ok entry_move_def)
  next
    case (ReturnPassword name)
    with assms show ?thesis using T key_classes_other
      by (auto simp: releaseLoginReservation_def release_one_entry release_one_ok entry_move_def)
  qed
qed

lemma attempt_run_entry:
  assumes "attempt_run L evs m = (oks, m')" "list_all (event_within T) evs" "attempts_ok m" "T \<ge> 0"
  shows "entry_run loginUserFailureLimit T (account_moves L (loginUsernameAttemptKey L n) evs oks)
    (map_of m (loginUsernameAttemptKey L n)) (map_of m' (loginUsernameAttemptKey L n))"
  using assms
proof (induction evs arbitrary: m oks)
  case Nil
  then show ?case by (simp add: account_moves_def entry_run.Nil)
next
  case (Cons ev evs)
  obtain ok m1 where s: "attempt_step L ev m = (ok, m1)" by (metis prod.exhaust)
  with Cons.prems(1) obtain oks1 where r: "attempt_run L evs m1 = (oks1, m')" "oks = ok # oks1"
    by (auto split: prod.splits)
  from attempt_step_move [OF s _ Cons.prems(3,4), of n] Cons.prems(2) obtain now where
    "attempts_ok m1" "T \<le> now" "now < T + loginWindow"
    "entry_move loginUserFailureLimit now (account_move L (loginUsernameAttemptKey L n) ev ok)
      (map_of m (loginUsernameAttemptKey L n)) (map_of m1 (loginUsernameAttemptKey L n))"
    by auto
  with Cons r show ?case by (auto simp: account_moves_def intro: entry_run.Cons)
qed

end
