(* ===== verification/WebProps.thy ===== *)
theory WebProps
  imports WebRoutes SessionProps AttemptProps
begin

text \<open>
  What the handlers do to the users. Most requests only read them, which is proved once, in the
  locale \<open>user_relation\<close>, for any relation that holds between the users before and after a read and
  what other requests do. The steps of the user store are such a relation: every request is
  served by steps, so that the invariant and everything proved of steps hold of requests.
\<close>

section \<open>Reading\<close>

lemma users_tx_silent:
  assumes "\<And>users users' a. body users \<noteq> RowWrite users' a"
  shows "snd (users_tx E body s) = snd (loadLocked_users E s)"
proof (cases "load_rows (users_codec (wb_json (we_lib E))) (we_io E) (us_file s)")
  case (Pair x f)
  show ?thesis
  proof (cases x)
    case (Inl e)
    with Pair show ?thesis by (simp add: users_tx_def loadLocked_users_def row_tx_def)
  next
    case (Inr users)
    with Pair show ?thesis using assms [of users]
      by (cases "body users") (auto simp: users_tx_def loadLocked_users_def row_tx_def)
  qed
qed

lemma replies_iff [simp]: "replies s r = (a, b, c) \<longleftrightarrow> a = r \<and> b = [] \<and> c = s"
  by (auto simp: replies_def)

lemma users_requestManagedKeySync [simp]: "ws_users (requestManagedKeySync s) = ws_users s"
  by (simp add: requestManagedKeySync_def)

lemma users_fleet_changed [simp]: "ws_users (fleet_changed s) = ws_users s"
  by (simp add: fleet_changed_def)

lemma FixedKeyForUser_snd: "snd (FixedKeyForUser E name s) = snd (FixedKeyVerifiers E s)"
  by (cases "FixedKeyVerifiers E s") (auto simp: FixedKeyForUser_def Let_def split: sum.splits option.splits)

lemma sessionUser_snd: "snd (sessionUser E J k cookie s) = s \<or> (\<exists>name. snd (sessionUser E J k cookie s) = snd (Get_user E name s))"
proof (cases "cookie = None \<or> cookie = Some [] \<or> verifySession (wb_hash (we_lib E)) J k (the cookie) = None")
  case True
  then show ?thesis by (auto simp: sessionUser_def split: option.splits)
next
  case False
  then obtain val p where c: "cookie = Some val" "val \<noteq> []" "verifySession (wb_hash (we_lib E)) J k val = Some p"
    by (metis option.collapse)
  obtain g s1 where "Get_user E (sp_User p) s = (g, s1)" by (metis prod.exhaust)
  moreover with c have "snd (sessionUser E J k cookie s) = s \<or> snd (sessionUser E J k cookie s) = s1"
    by (auto simp: sessionUser_def split: sum.splits option.splits)
  ultimately show ?thesis by (metis snd_conv)
qed

text \<open>The result of a handler, seen as the users it leaves.\<close>

definition left_users :: "outcome3 \<Rightarrow> user_store" where "left_users out = ws_users (snd (snd out))"

lemma left_users_simps [simp]: "left_users (replies s r) = ws_users s" "left_users (a, b, s) = ws_users s"
  by (simp_all add: left_users_def replies_def)

locale user_relation =
  fixes W :: web_world and R :: "user_store \<Rightarrow> user_store \<Rightarrow> bool"
  assumes same [simp]: "R us us"
    and chain: "\<lbrakk>R us us1; R us1 us2\<rbrakk> \<Longrightarrow> R us us2"
    and loads: "R us (snd (loadLocked_users (ww_E W k) us))"
    and others: "R us (ww_others W k us)"
begin

lemma silent: "(\<And>users users' a. body users \<noteq> RowWrite users' a) \<Longrightarrow> R us (snd (users_tx (ww_E W k) body us))"
  using loads users_tx_silent by metis

lemma reads:
  "R us (snd (Get_user (ww_E W k) name us))" "R us (snd (FixedKeys (ww_E W k) us))" "R us (snd (FixedKeyVerifiers (ww_E W k) us))"
  "R us (snd (List_users (ww_E W k) us))" "R us (snd (RevealFixedKey (ww_E W k) name us))"
  by (auto simp: Get_user_def FixedKeys_def FixedKeyVerifiers_def List_users_def RevealFixedKey_def intro!: silent
      split: sum.splits option.splits)

lemma reads_more:
  "R us (snd (FixedKeyForUser (ww_E W k) name us))" "R us (snd (sessionUser (ww_E W k) J key cookie us))"
  using reads sessionUser_snd [of "ww_E W k" J key cookie us] by (auto simp: FixedKeyForUser_snd)

lemma signs: "R us (snd (signSession (ww_E W k) J key user role expires us))"
  using reads(1) [of us k user] by (cases "Get_user (ww_E W k) user us") (simp add: signSession_def Let_def)

lemma snapshots: "R us (snd (managedKeySnapshot (ww_E W k) encode us))"
  using reads(3) [of us k] by (cases "FixedKeyVerifiers (ww_E W k) us") (auto simp: managedKeySnapshot_def split: sum.splits)

lemma syncs_once: "R us (snd (syncManagedKeysToNodeOnce (ww_E W k) encode client r us))"
  using snapshots [of us k encode] by (cases "managedKeySnapshot (ww_E W k) encode us")
    (auto simp: syncManagedKeysToNodeOnce_def split: sum.splits)

lemma start_session_left: "R (ws_users s) (left_users (start_session W k r status u s))"
  using chain [OF others signs] by (auto simp: start_session_def Let_def left_users_def replies_def split: prod.splits)
    (metis snd_conv)

lemma handleSession_left: "R (ws_users s) (left_users (handleSession W r s))"
  using reads_more(2) [of "ws_users s" 0 "ww_session W" "ww_sessionKey W" "wr_Cookie r"]
  by (auto simp: handleSession_def split: prod.splits)

lemma list_keys_left: "R (ws_users s) (left_users (list_keys W si s))"
proof -
  obtain x us where x: "FixedKeys (ww_E W 0) (ws_users s) = (x, us)" by (metis prod.exhaust)
  have m: "R (ws_users s) us" using reads(2) [of "ws_users s" 0] x by simp
  obtain nodes reg us1 where y: "managedKeyStatuses (ww_registry W) (ww_io W) (ww_E W 1) (ww_encode W) (ws_registry s) us (ws_keyNodes s) =
      (nodes, reg, us1)"
    by (metis prod.exhaust)
  obtain z us2 where z: "managedKeySnapshot (ww_E W 1) (ww_encode W) us = (z, us2)" by (metis prod.exhaust)
  have "us1 = us \<or> us1 = us2" using y z by (auto simp: managedKeyStatuses_def split: prod.splits sum.splits)
  then have "R us us1" using snapshots [of us 1 "ww_encode W"] z by auto
  with m have "R (ws_users s) us1" by (rule chain)
  with m x y show ?thesis by (cases x) (simp_all add: list_keys_def)
qed

lemma sync_node_left: "R (ws_users s) (ws_users (snd (sync_node W k r s)))"
proof -
  let ?us = "ww_others W k (ws_users s)"
  obtain x s1 where a: "syncManagedKeysToNodeOnce (ww_E W k) (ww_encode W) (ww_client W) r ?us = (x, s1)" by (metis prod.exhaust)
  obtain y s2 where b: "managedKeySnapshot (ww_E W (k + 1)) (ww_encode W) (ww_others W (k + 1) s1) = (y, s2)" by (metis prod.exhaust)
  have "R ?us s1" using syncs_once a by (metis snd_conv)
  moreover have "R (ww_others W (k + 1) s1) s2" using snapshots b by (metis snd_conv)
  ultimately have "R (ws_users s) s2" using others chain by meson
  with a b show ?thesis by (simp add: sync_node_def syncManagedKeysToNode_def recordManagedKeySync_def)
qed

lemma own_key_left: "R (ws_users s) (ws_users (snd (snd (own_key W si r s))))"
proof -
  obtain x us where x: "FixedKeyForUser (ww_E W 0) (si_User si) (ws_users s) = (x, us)" by (metis prod.exhaust)
  have m: "R (ws_users s) us" using reads_more(1) [of "ws_users s" 0] x by (metis snd_conv)
  obtain e s1 where y: "sync_node W 1 r (s\<lparr>ws_users := us\<rparr>) = (e, s1)" by (metis prod.exhaust)
  have "R us (ws_users s1)" using sync_node_left [of "s\<lparr>ws_users := us\<rparr>" 1 r] y by simp
  with m have "R (ws_users s) (ws_users s1)" by (rule chain)
  with m x y show ?thesis by (cases x; cases e) (simp_all add: own_key_def)
qed

lemma handleServers_left: "R (ws_users s) (left_users (handleServers W si r s))"
proof -
  have "R (ws_users s) (left_users (add_server W si r s))"
  proof (cases "bo_addServer (wr_Bodies r)")
    case (Inr req)
    obtain e s1 where y: "sync_node W 0 (new_server req) s = (e, s1)" by (metis prod.exhaust)
    have "R (ws_users s) (ws_users s1)" using sync_node_left [of s 0 "new_server req"] y by simp
    then show ?thesis using Inr y by (auto simp: add_server_def Let_def split: option.splits sum.splits prod.splits)
  qed (simp add: add_server_def)
  then show ?thesis by (auto simp: handleServers_def list_servers_def split: sum.splits prod.splits)
qed

lemma create_reservation_left: "R (ws_users s) (left_users (create_reservation W si sv q s))"
  using own_key_left [of s si sv] by (auto simp: create_reservation_def split: sum.splits prod.splits)

lemma allow_left: "R (ws_users s) (left_users (allow W si sv q s))"
proof (cases "own_key W si sv s")
  case (fields x calls s1)
  then show ?thesis using own_key_left [of s si sv] by (auto simp: allow_def Let_def split: sum.splits bool.splits)
qed

lemma handleServerAction_left: "R (ws_users s) (left_users (handleServerAction W si q s))"
proof -
  have "R (ws_users s1) (left_users (delete_server W si i s1))" for i s1
    by (auto simp: delete_server_def split: sum.splits prod.splits)
  moreover have "R (ws_users s1) (left_users (show_key W si sv q s1))" for sv s1
    by (auto simp: show_key_def Let_def split: sum.splits option.splits)
  moreover have "R (ws_users s1) (left_users (revoke W si sv q s1))" for sv s1
    by (auto simp: revoke_def Let_def split: sum.splits bool.splits)
  ultimately have "R (ws_users s1) (left_users (server_action W si i action sv q s1))" for i action sv s1
    using create_reservation_left allow_left by (simp add: server_action_def)
  from this [of "s\<lparr>ws_registry := reg\<rparr>" for reg] show ?thesis
    by (auto simp: handleServerAction_def split: option.splits sum.splits prod.splits)
qed

lemma handleFleetSnapshot_left: "R (ws_users s) (left_users (handleFleetSnapshot W si r s))"
  by (auto simp: handleFleetSnapshot_def Let_def split: prod.splits)

text \<open>Handlers that write: the relation has to hold of what is written.\<close>

lemma handleChangePassword_left:
  assumes "\<And>old new. R (ws_users s) (snd (ChangePassword (ww_E W 1) (ww_E W 2) (ww_work W) (ww_others W 0) (si_User si) old new (ws_users s)))"
  shows "R (ws_users s) (left_users (handleChangePassword W si r s))"
proof (cases "wr_Method r = ''POST'' \<and> \<not> (\<exists>e. bo_password (wr_Bodies r) = Inl e)")
  case False
  then show ?thesis by (auto simp: handleChangePassword_def)
next
  case True
  then obtain old new where b: "bo_password (wr_Bodies r) = Inr (old, new)"
    by (metis sum.exhaust prod.exhaust)
  obtain answer us where c: "ChangePassword (ww_E W 1) (ww_E W 2) (ww_work W) (ww_others W 0) (si_User si) old new (ws_users s) = (answer, us)"
    by (metis prod.exhaust)
  have m: "R (ws_users s) us" using assms [of old new] c by simp
  have "R (ws_users s) (left_users (start_session W 3 r 200 u s1))" if "ws_users s1 = us" for u s1
    using chain [OF m] start_session_left [of s1 3 r 200 u] that by simp
  then show ?thesis using True b c m
    by (auto simp: handleChangePassword_def Let_def split: sum.splits prod.splits bool.splits)
qed

lemma handleKeys_left:
  assumes "\<And>name. si_Role si = RoleAdmin \<or> sameOwner name (si_User si) \<Longrightarrow> R (ws_users s) (snd (RegenerateFixedKey (ww_E W 0) name (ws_users s)))"
  shows "R (ws_users s) (left_users (handleKeys W si r s))"
proof -
  obtain name where name: "name = hd (Split (trim_slashes (TrimPrefix (wr_Path r) ''/api/keys'')) (CHR ''/''))" by simp
  obtain x us where x: "RevealFixedKey (ww_E W 0) name (ws_users s) = (x, us)" by (metis prod.exhaust)
  obtain y us' where y: "RegenerateFixedKey (ww_E W 0) name (ws_users s) = (y, us')" by (metis prod.exhaust)
  have m: "R (ws_users s) us" "si_Role si = RoleAdmin \<or> sameOwner name (si_User si) \<Longrightarrow> R (ws_users s) us'"
    using reads(5) [of "ws_users s" 0 name] assms [of name] x y by auto
  show ?thesis
    using name x y m list_keys_left [of s si]
    by (auto simp: handleKeys_def Let_def requestManagedKeySync_def split: list.splits sum.splits)
qed

lemma requireSession_left:
  assumes "\<And>si s1. \<lbrakk>R (ws_users s) (ws_users s1);
      fst (sessionUser (ww_E W 9) (ww_session W) (ww_sessionKey W) (wr_Cookie r) (ws_users s)) = Some si\<rbrakk> \<Longrightarrow>
      R (ws_users s1) (left_users (handler si s1))"
  shows "R (ws_users s) (left_users (requireSession W handler r s))"
proof -
  obtain x us where x: "sessionUser (ww_E W 9) (ww_session W) (ww_sessionKey W) (wr_Cookie r) (ws_users s) = (x, us)"
    by (metis prod.exhaust)
  have m: "R (ws_users s) us" using reads_more(2) x by (metis snd_conv)
  show ?thesis
  proof (cases x)
    case None
    with x m show ?thesis by (simp add: requireSession_def)
  next
    case (Some si)
    obtain ok q where q: "acquireAuthenticatedRequest si (ws_requests s) = (ok, q)" by (metis prod.exhaust)
    define s1 where "s1 = s\<lparr>ws_users := us, ws_requests := q\<rparr>"
    obtain resp calls s2 where h: "handler si s1 = (resp, calls, s2)" by (metis prod.exhaust)
    have "R us (ws_users s2)" using assms [of s1 si] m x Some h by (simp add: s1_def)
    with m have "R (ws_users s) (ws_users s2)" by (rule chain)
    with x Some q h m show ?thesis by (cases ok) (simp_all add: requireSession_def s1_def)
  qed
qed

end

section \<open>Requests as steps\<close>

text \<open>
  What is assumed of the world of a request: one library, random draws of the right length, and
  other requests that only take steps; the decoder gives names in valid UTF-8.
\<close>

definition others_step :: "web_lib \<Rightarrow> string \<Rightarrow> (user_store \<Rightarrow> user_store) \<Rightarrow> bool" where
  "others_step L master others \<longleftrightarrow> (\<forall>s. user_steps L master s (others s))"

definition world_ok :: "web_lib \<Rightarrow> string \<Rightarrow> web_world \<Rightarrow> bool" where
  "world_ok L master W \<longleftrightarrow> web_lib_ok L \<and> (\<forall>k. we_lib (ww_E W k) = L \<and> draws_ok (ww_E W k)) \<and> (\<forall>k. others_step L master (ww_others W k))"

definition names_ok :: "web_request \<Rightarrow> bool" where
  "names_ok r \<longleftrightarrow> (\<forall>u p. bo_register (wr_Bodies r) = Inr (u, p) \<longrightarrow> name_text u) \<and>
     (\<forall>u p a. bo_createUser (wr_Bodies r) = Inr (u, p, a) \<longrightarrow> name_text u)"

lemma world_okD:
  assumes "world_ok L master W"
  shows "web_lib_ok L" "we_lib (ww_E W k) = L" "draws_ok (ww_E W k)" "others_step L master (ww_others W k)"
  using assms by (auto simp: world_ok_def)

lemma loadLocked_moves: "\<lbrakk>loadLocked_users E s = (r, s'); we_lib E = L\<rbrakk> \<Longrightarrow> user_steps L master s s'"
  by (auto intro: user_step.load)

text \<open>The relation is that of steps, taken in such a world from users with the invariant, which they keep.\<close>

definition moves :: "web_lib \<Rightarrow> string \<Rightarrow> web_world \<Rightarrow> user_store \<Rightarrow> user_store \<Rightarrow> bool" where
  "moves L master W us us' \<longleftrightarrow>
     (world_ok L master W \<longrightarrow> users_inv L master us \<longrightarrow> user_steps L master us us' \<and> users_inv L master us')"

lemma moves_steps: "(world_ok L master W \<Longrightarrow> user_steps L master us us') \<Longrightarrow> moves L master W us us'"
  using user_steps_inv world_okD(1) unfolding moves_def by blast

interpretation steps: user_relation W "moves L master W" for W L master
proof
  show "moves L master W us us" for us by (simp add: moves_def)
  show "\<lbrakk>moves L master W us us1; moves L master W us1 us2\<rbrakk> \<Longrightarrow> moves L master W us us2" for us us1 us2
    by (auto simp: moves_def)
  show "moves L master W us (snd (loadLocked_users (ww_E W k) us))" for us k
    using world_okD loadLocked_moves by (metis moves_steps prod.collapse)
  show "moves L master W us (ww_others W k us)" for us k
    using world_okD(4) [of L master W k] by (auto intro: moves_steps simp: others_step_def)
qed

lemma Create_moves:
  assumes "Create E work others name password role s = (r, s')" "we_lib E = L" "draws_ok E" "name_text name"
    "others_step L master others" "users_inv L master s"
  shows "user_steps L master s s'"
proof -
  have "s' = s \<or> (\<exists>u0 u. newUserRecord E name password role = Inr u0 \<and> (u = u0 \<or> assign E 0 (Some master) u0 1 = Inr u) \<and>
    users_tx E (add_user u) (others s) = (r, s'))"
    using assms(1,6) unfolding Create_def users_inv_def
    by (cases "us_keyCipher s") (auto split: if_splits sum.splits)
  moreover have "user_steps L master s (others s)" using assms(5) by (simp add: others_step_def)
  ultimately show ?thesis using assms(2-4) by (auto intro: rtranclp.rtrancl_into_rtrancl user_step.create)
qed

lemma authenticate_moves:
  assumes "authenticate E1 E2 acquired others name password s = (r, s')" "we_lib E1 = L" "we_lib E2 = L"
    "others_step L master others"
  shows "user_steps L master s s'"
proof (cases "normalizeUsername name")
  case (Inl e)
  with assms(1) show ?thesis by (simp add: authenticate_def)
next
  case (Inr n)
  obtain x s1 where l: "loadLocked_users E1 s = (x, s1)" by (metis prod.exhaust)
  have "s' = s1 \<or> (\<exists>c up x. users_tx E2 (confirm_login E2 n c up) (others s1) = (x, s'))"
    using assms(1) Inr l unfolding authenticate_def
    by (auto split: sum.splits option.splits prod.splits bool.splits)
  moreover have "user_steps L master s s1" using l assms(2) by (rule loadLocked_moves)
  moreover have "user_steps L master s1 (others s1)" using assms(4) by (simp add: others_step_def)
  ultimately show ?thesis using assms(3) by (meson rtranclp.rtrancl_into_rtrancl rtranclp_trans user_step.confirm)
qed

lemma ChangePassword_moves:
  assumes "ChangePassword E1 E2 work others name old new s = (r, s')" "we_lib E1 = L" "we_lib E2 = L"
    "others_step L master others"
  shows "user_steps L master s s'"
proof (cases "s' = s")
  case False
  then obtain n where n: "normalizeUsername name = Inr n"
    using assms(1) by (cases "normalizeUsername name") (auto simp: ChangePassword_def)
  obtain x s1 where l: "loadLocked_users E1 s = (x, s1)" by (metis prod.exhaust)
  have "s' = s1 \<or> (\<exists>c h x. users_tx E2 (replace_password E2 n c h) (others s1) = (x, s'))"
    using assms(1) n l False unfolding ChangePassword_def
    by (auto split: sum.splits option.splits if_splits)
  moreover have "user_steps L master s s1" using l assms(2) by (rule loadLocked_moves)
  moreover have "user_steps L master s1 (others s1)" using assms(4) by (simp add: others_step_def)
  ultimately show ?thesis using assms(3) by (meson rtranclp.rtrancl_into_rtrancl rtranclp_trans user_step.replace)
qed simp


section \<open>Handlers that write\<close>

lemma creates:
  assumes "name_text name"
  shows "moves L master W us (snd (Create (ww_E W k) (ww_work W) (ww_others W j) name password role us))"
proof -
  obtain x us' where c: "Create (ww_E W k) (ww_work W) (ww_others W j) name password role us = (x, us')" by (metis prod.exhaust)
  have "user_steps L master us us'" if "world_ok L master W" "users_inv L master us"
    using Create_moves [OF c] world_okD [OF that(1)] assms that(2) by blast
  with c show ?thesis using user_steps_inv world_okD(1) unfolding moves_def by (metis snd_conv)
qed

lemma authenticates: "moves L master W us (snd (authenticate (ww_E W k) (ww_E W k') acquired (ww_others W j) name password us))"
  by (rule moves_steps, rule authenticate_moves [OF prod.collapse [symmetric]]) (simp_all add: world_okD)

lemma changes: "moves L master W us (snd (ChangePassword (ww_E W k) (ww_E W k') work (ww_others W j) name old new us))"
  by (rule moves_steps, rule ChangePassword_moves [OF prod.collapse [symmetric]]) (simp_all add: world_okD)

lemma regenerates: "moves L master W us (snd (RegenerateFixedKey (ww_E W k) name us))"
  by (rule moves_steps, rule r_into_rtranclp, rule user_step.regenerate [OF prod.collapse [symmetric]]) (simp_all add: world_okD)

lemma deletes: "moves L master W us (snd (Delete_user (ww_E W k) name us))"
  by (rule moves_steps, rule r_into_rtranclp, rule user_step.delete [OF prod.collapse [symmetric]]) (simp_all add: world_okD)

lemma handleLogin_left: "moves L master W (ws_users s) (left_users (handleLogin W r s))"
proof (cases "wr_Method r \<noteq> ''POST'' \<or> (\<exists>e. bo_login (wr_Bodies r) = Inl e)")
  case True
  then show ?thesis by (auto simp: handleLogin_def)
next
  case False
  then obtain name password where b: "wr_Method r = ''POST''" "bo_login (wr_Bodies r) = Inr (name, password)"
    by (metis sum.exhaust prod.exhaust)
  obtain answer work us where a: "authenticate (ww_E W 0) (ww_E W 1) (ww_acquired W) (ww_others W 0) name password (ws_users s) =
      ((answer, work), us)"
    by (metis prod.exhaust)
  have m: "moves L master W (ws_users s) us"
    using authenticates [of L master W "ws_users s" 0 1 "ww_acquired W" 0 name password] a by simp
  have "moves L master W (ws_users s) (left_users (start_session W 2 r 200 u s1))" if "ws_users s1 = us" for u s1
    using steps.chain [OF m] steps.start_session_left [of L master W s1 2 r 200 u] that by simp
  then show ?thesis using b a m
    by (auto simp: handleLogin_def Let_def split: sum.splits prod.splits bool.splits)
qed

lemma handleRegister_left:
  assumes "names_ok r"
  shows "moves L master W (ws_users s) (left_users (handleRegister W r s))"
proof (cases "wc_AllowRegistration (ww_cfg W) \<and> wr_Method r = ''POST'' \<and> \<not> (\<exists>e. bo_register (wr_Bodies r) = Inl e)")
  case False
  then show ?thesis by (auto simp: handleRegister_def)
next
  case True
  then obtain name password where b: "bo_register (wr_Bodies r) = Inr (name, password)"
    by (metis sum.exhaust prod.exhaust)
  obtain answer us where c: "Create (ww_E W 1) (ww_work W) (ww_others W 0) name password RoleUser (ws_users s) = (answer, us)"
    by (metis prod.exhaust)
  have m: "moves L master W (ws_users s) us"
    using creates [of name L master W "ws_users s" 1 0 password RoleUser] c assms b by (auto simp: names_ok_def)
  have "moves L master W (ws_users s) (left_users (start_session W 2 r 201 u s1))" if "ws_users s1 = us" for u s1
    using steps.chain [OF m] steps.start_session_left [of L master W s1 2 r 201 u] that by simp
  then show ?thesis using True b c m
    by (auto simp: handleRegister_def Let_def requestManagedKeySync_def split: sum.splits option.splits prod.splits bool.splits)
qed

lemma create_user_left: "names_ok r \<Longrightarrow> moves L master W (ws_users s) (left_users (create_user W r s))"
  using creates [of _ L master W "ws_users s" 0 0]
  by (auto simp: create_user_def names_ok_def requestManagedKeySync_def split: sum.splits prod.splits) (metis snd_conv)+

lemma delete_user_left: "moves L master W (ws_users s) (left_users (delete_user W si r s))"
  using deletes [of L master W "ws_users s" 0]
  by (auto simp: delete_user_def requestManagedKeySync_def split: sum.splits prod.splits) (metis snd_conv)+

lemma handleUsers_left:
  assumes "names_ok r"
  shows "moves L master W (ws_users s) (left_users (handleUsers W si r s))"
  using create_user_left [OF assms, of L master W s] delete_user_left [of L master W s si r] steps.reads(4) [of L master W "ws_users s" 0]
  by (auto simp: handleUsers_def split: sum.splits prod.splits)

lemma serveMux_left:
  assumes "names_ok r"
  shows "moves L master W (ws_users s) (left_users (serveMux W r s))"
  unfolding serveMux_def Let_def requireAdmin_def
  by (auto intro!: steps.requireSession_left handleLogin_left handleRegister_left steps.handleSession_left steps.handleChangePassword_left steps.handleKeys_left
      handleUsers_left steps.handleServers_left steps.handleServerAction_left steps.handleFleetSnapshot_left changes regenerates assms
      simp: handleLogout_def)

lemma routes_left: "names_ok r \<Longrightarrow> moves L master W (ws_users s) (left_users (routes W r s))"
  using serveMux_left by (auto simp: routes_def securityMiddleware_def)

end
