(* ===== verification/WebAccess.thy ===== *)
theory WebAccess
  imports WebProps
begin

text \<open>
  What a user who is no administrator can do and see: the records of other users, the list of
  nodes, the calls that are made to nodes for the user, and the answers.
\<close>

section \<open>Routes that need a session\<close>

text \<open>The handlers behind \<^verbatim>\<open>requireSession\<close>, and the answers that depend on no state.\<close>

definition session_handlers :: "web_world \<Rightarrow> web_request \<Rightarrow> (session_info \<Rightarrow> web_state \<Rightarrow> outcome3) set" where
  "session_handlers W r =
     {\<lambda>si. handleLogout W r, \<lambda>si. handleChangePassword W si r, \<lambda>si. handleKeys W si r, \<lambda>si. handleServers W si r,
      \<lambda>si. handleServerAction W si r, \<lambda>si. handleFleetSnapshot W si r, \<lambda>si s. replies s (respond 200 BHistory),
      \<lambda>si s. if si_Role si \<noteq> RoleAdmin then replies s admin_required else handleUsers W si r s}"

fun plain_body :: "web_body \<Rightarrow> bool" where
  "plain_body (BMessage _) = True"
| "plain_body (BFile _) = True"
| "plain_body (BRedirect _) = True"
| "plain_body _ = False"

lemma routes_by_session:
  assumes "wr_Path r \<noteq> ''/api/login''" "wr_Path r \<noteq> ''/api/register''"
    and plain: "\<And>resp. plain_body (rp_body resp) \<Longrightarrow> P (replies s resp)"
    and open_session: "P (handleSession W r s)"
    and handled: "\<And>h. h \<in> session_handlers W r \<Longrightarrow> P (requireSession W h r s)"
  shows "P (routes W r s)"
proof -
  have static: "plain_body (rp_body (handleStatic W r))"
    by (simp add: handleStatic_def Let_def not_found_def respond_def)
  have "P (serveMux W r s)"
    using assms(1,2) open_session unfolding serveMux_def Let_def requireAdmin_def
    by (auto intro!: handled plain static simp: session_handlers_def respond_def)
  then show ?thesis by (auto intro!: plain simp: routes_def securityMiddleware_def respond_def)
qed

section \<open>Records of other users\<close>

definition row_of :: "web_lib \<Rightarrow> string \<Rightarrow> user_store \<Rightarrow> user_record option" where
  "row_of L v us = find (\<lambda>u. ur_Username u = v) (users_of L us)"

definition others_spare :: "web_lib \<Rightarrow> string \<Rightarrow> string \<Rightarrow> web_world \<Rightarrow> bool" where
  "others_spare L master v W \<longleftrightarrow> (\<forall>k us. users_inv L master us \<longrightarrow> row_of L v (ww_others W k us) = row_of L v us)"

text \<open>In a world whose other requests leave the record of \<open>v\<close> alone, it is left alone.\<close>

definition spares :: "web_lib \<Rightarrow> string \<Rightarrow> string \<Rightarrow> web_world \<Rightarrow> user_store \<Rightarrow> user_store \<Rightarrow> bool" where
  "spares L master v W us us' \<longleftrightarrow>
     (world_ok L master W \<and> others_spare L master v W \<longrightarrow> users_inv L master us \<longrightarrow>
        users_inv L master us' \<and> row_of L v us' = row_of L v us)"

lemma sparesI:
  assumes "moves L master W us us'"
    "\<lbrakk>world_ok L master W; others_spare L master v W; users_inv L master us\<rbrakk> \<Longrightarrow> row_of L v us' = row_of L v us"
  shows "spares L master v W us us'"
  using assms unfolding spares_def moves_def by blast

lemma users_tx_row:
  assumes "users_tx E body us = (r, us')" "we_lib E = L" "web_lib_ok L" "users_inv L master us" "keeps_users L master body"
    "\<And>users users' a. body users = RowWrite users' a \<Longrightarrow>
       find (\<lambda>u. ur_Username u = v) users' = find (\<lambda>u. ur_Username u = v) users"
  shows "row_of L v us' = row_of L v us"
  by (rule users_tx_cases [OF assms(1-5)]) (use assms(6) in \<open>auto simp: row_of_def\<close>)

lemma loads_row:
  assumes "loadLocked_users E us = (r, us')" "we_lib E = L" "web_lib_ok L" "users_inv L master us"
  shows "row_of L v us' = row_of L v us \<and> users_inv L master us' \<and> users_of L us' = users_of L us"
proof -
  have tx: "users_tx E RowDone us = (r, us')" using assms(1) by (simp add: loadLocked_users_tx)
  have "users_of L us' = users_of L us"
    by (rule users_tx_cases [OF tx assms(2-4) keeps_users_RowDone]) auto
  with users_tx_inv [OF tx assms(2-4) keeps_users_RowDone] show ?thesis by (simp add: row_of_def)
qed

interpretation spared: user_relation W "spares L master v W" for W L master v
proof
  show "spares L master v W us us" for us by (simp add: spares_def)
  show "\<lbrakk>spares L master v W us us1; spares L master v W us1 us2\<rbrakk> \<Longrightarrow> spares L master v W us us2" for us us1 us2
    by (auto simp: spares_def)
  show "spares L master v W us (snd (loadLocked_users (ww_E W k) us))" for us k
    by (rule sparesI [OF steps.loads]) (use loads_row [OF prod.collapse [symmetric]] world_okD in blast)
  show "spares L master v W us (ww_others W k us)" for us k
    by (rule sparesI [OF steps.others]) (simp add: others_spare_def)
qed

lemma find_update_other:
  assumes "\<And>u. P u \<Longrightarrow> ur_Username u = n" "ur_Username u' = n" "n \<noteq> v"
  shows "find (\<lambda>u. ur_Username u = v) (update_first P (\<lambda>_. u') users) = find (\<lambda>u. ur_Username u = v) users"
  using assms by (induction users) auto

lemma replace_password_other:
  assumes "replace_password E n c h users = RowWrite users' a" "n \<noteq> v"
  shows "find (\<lambda>u. ur_Username u = v) users' = find (\<lambda>u. ur_Username u = v) users"
proof -
  from assms(1) obtain u where u: "find (enabled n) users = Some u"
    "users' = update_first (enabled n) (\<lambda>_. u\<lparr>ur_PasswordHash := h, ur_UpdatedAt := we_now E\<rparr>) users"
    by (auto simp: replace_password_def Let_def split: option.splits if_splits)
  show ?thesis unfolding u(2)
    by (rule find_update_other [where n = n]) (use find_enabled [OF u(1)] assms(2) in \<open>auto simp: enabled_def\<close>)
qed

lemma replace_key_other:
  assumes "replace_key E c n users = RowWrite users' a" "n \<noteq> v"
  shows "find (\<lambda>u. ur_Username u = v) users' = find (\<lambda>u. ur_Username u = v) users"
proof -
  from assms(1) obtain u u' where u: "find (enabled n) users = Some u" "assign E 0 c u (next_version (ur_KeyVersion u)) = Inr u'"
    "users' = update_first (enabled n) (\<lambda>_. u') users"
    by (auto simp: replace_key_def split: option.splits sum.splits)
  have "ur_Username u' = ur_Username u" using u(2) by (auto simp: assign_def Let_def split: option.splits sum.splits)
  then show ?thesis unfolding u(3)
    by (intro find_update_other [where n = n]) (use find_enabled [OF u(1)] assms(2) in \<open>auto simp: enabled_def\<close>)
qed

lemma changes_spare:
  assumes "normalizeUsername name \<noteq> Inr v"
  shows "spares L master v W us (snd (ChangePassword (ww_E W k) (ww_E W k') work (ww_others W j) name old new us))"
proof (rule sparesI [OF changes])
  assume w: "world_ok L master W" and o: "others_spare L master v W" and i: "users_inv L master us"
  obtain r us' where c: "ChangePassword (ww_E W k) (ww_E W k') work (ww_others W j) name old new us = (r, us')" by (metis prod.exhaust)
  show "row_of L v (snd (ChangePassword (ww_E W k) (ww_E W k') work (ww_others W j) name old new us)) = row_of L v us"
  proof (cases "us' = us")
    case False
    then obtain n where n: "normalizeUsername name = Inr n"
      using c by (cases "normalizeUsername name") (auto simp: ChangePassword_def)
    obtain x us1 where l: "loadLocked_users (ww_E W k) us = (x, us1)" by (metis prod.exhaust)
    have 1: "row_of L v us1 = row_of L v us" "users_inv L master us1"
      using loads_row [OF l world_okD(2,1) [OF w] i] by simp_all
    have 2: "row_of L v (ww_others W j us1) = row_of L v us1" "users_inv L master (ww_others W j us1)"
      using o 1(2) steps.others [of L master W us1 j] w by (simp_all add: others_spare_def moves_def)
    have "us' = us1 \<or> (\<exists>c h x. users_tx (ww_E W k') (replace_password (ww_E W k') n c h) (ww_others W j us1) = (x, us'))"
      using c n l False unfolding ChangePassword_def by (auto split: sum.splits option.splits if_splits)
    moreover have "row_of L v us' = row_of L v (ww_others W j us1)"
      if "users_tx (ww_E W k') (replace_password (ww_E W k') n c h) (ww_others W j us1) = (x, us')" for c h x
      by (rule users_tx_row [OF that world_okD(2,1) [OF w] 2(2) keeps_replace_password])
        (erule replace_password_other, use assms n in simp)
    ultimately show ?thesis using 1 2 c by auto
  qed (simp add: c)
qed

lemma regenerates_spare:
  assumes "normalizeUsername name \<noteq> Inr v"
  shows "spares L master v W us (snd (RegenerateFixedKey (ww_E W k) name us))"
proof (rule sparesI [OF regenerates])
  assume w: "world_ok L master W" and i: "users_inv L master us"
  show "row_of L v (snd (RegenerateFixedKey (ww_E W k) name us)) = row_of L v us"
  proof (cases "normalizeUsername name")
    case (Inr n)
    obtain x us1 where tx: "users_tx (ww_E W k) (replace_key (ww_E W k) (us_keyCipher us) n) us = (x, us1)" by (metis prod.exhaust)
    have keeps: "keeps_users L master (replace_key (ww_E W k) (us_keyCipher us) n)"
      using world_okD [OF w] i by (intro keeps_replace_key) (simp_all add: web_lib_ok_def users_inv_def)
    have "row_of L v us1 = row_of L v us"
      by (rule users_tx_row [OF tx world_okD(2,1) [OF w] i keeps]) (erule replace_key_other, use assms Inr in simp)
    with tx Inr show ?thesis by (cases x) (simp_all add: RegenerateFixedKey_def split: sum.splits)
  qed (simp add: RegenerateFixedKey_def)
qed

text \<open>Requests of a user who is no administrator.\<close>

lemma routes_spare:
  assumes "si_Role si \<noteq> RoleAdmin" "normalizeUsername (si_User si) \<noteq> Inr v"
    "fst (sessionUser (ww_E W 9) (ww_session W) (ww_sessionKey W) (wr_Cookie r) (ws_users s)) = Some si"
    "wr_Path r \<noteq> ''/api/login''" "wr_Path r \<noteq> ''/api/register''"
  shows "spares L master v W (ws_users s) (left_users (routes W r s))"
proof (rule routes_by_session [OF assms(4,5)])
  fix h assume "h \<in> session_handlers W r"
  moreover have own: "normalizeUsername name \<noteq> Inr v" if "sameOwner name (si_User si)" for name
    using that assms(2) by (auto simp: sameOwner_def split: sum.splits)
  moreover have "spares L master v W (ws_users s1) (left_users (handleKeys W si r s1))" for s1
    by (rule spared.handleKeys_left) (use assms(1) own regenerates_spare in blast)
  moreover have "spares L master v W (ws_users s1) (left_users (handleChangePassword W si r s1))" for s1
    by (rule spared.handleChangePassword_left) (use assms(2) changes_spare in blast)
  ultimately have "spares L master v W (ws_users s1) (left_users (h si s1))" for s1
    using assms(1) spared.handleServers_left spared.handleServerAction_left spared.handleFleetSnapshot_left
    by (auto simp: session_handlers_def handleLogout_def)
  then show "spares L master v W (ws_users s) (left_users (requireSession W h r s))"
    using assms(3) by (intro spared.requireSession_left) simp
qed (simp_all add: spared.handleSession_left)

section \<open>The list of nodes\<close>

definition left_nodes :: "outcome3 \<Rightarrow> file_obj option" where "left_nodes out = rw_disk (ws_registry (snd (snd out)))"

lemma left_nodes_simps [simp]: "left_nodes (replies s r) = rw_disk (ws_registry s)" "left_nodes (a, b, s) = rw_disk (ws_registry s)"
  by (simp_all add: left_nodes_def replies_def)

lemma registry_fleet_changed [simp]: "ws_registry (fleet_changed s) = ws_registry s"
  by (simp add: fleet_changed_def)

lemma registry_requestManagedKeySync [simp]: "ws_registry (requestManagedKeySync s) = ws_registry s"
  by (simp add: requestManagedKeySync_def)

lemma List_registry_disk: "List_registry RL io reg = (x, reg') \<Longrightarrow> rw_disk reg' = rw_disk reg"
  by (auto simp: List_registry_def loadLocked_registry_def dest: load_rows_disk)

lemma Get_registry_disk: "Get_registry RL io i reg = (x, reg') \<Longrightarrow> rw_disk reg' = rw_disk reg"
  by (auto simp: Get_registry_def split: prod.splits sum.splits dest: List_registry_disk)

lemma PublicList_disk: "PublicList RL io reg = (x, reg') \<Longrightarrow> rw_disk reg' = rw_disk reg"
  by (auto simp: PublicList_def split: prod.splits sum.splits dest: List_registry_disk)

lemma managedKeyStatuses_disk: "managedKeyStatuses RL io E encode reg us nodes = (x, reg', us') \<Longrightarrow> rw_disk reg' = rw_disk reg"
  by (auto simp: managedKeyStatuses_def Let_def split: prod.splits sum.splits dest: List_registry_disk)

lemma start_session_nodes: "left_nodes (start_session W k r status u s) = rw_disk (ws_registry s)"
  by (simp add: start_session_def Let_def split: prod.splits)

lemma own_key_nodes: "ws_registry (snd (snd (own_key W si r s))) = ws_registry s"
  by (auto simp: own_key_def sync_node_def split: prod.splits sum.splits option.splits)

lemma sync_node_nodes: "ws_registry (snd (sync_node W k r s)) = ws_registry s"
  by (simp add: sync_node_def split: prod.splits)

lemma handleKeys_nodes: "left_nodes (handleKeys W si r s) = rw_disk (ws_registry s)"
  by (auto simp: handleKeys_def list_keys_def Let_def split: list.splits sum.splits prod.splits dest: managedKeyStatuses_disk)

lemma handleChangePassword_nodes: "left_nodes (handleChangePassword W si r s) = rw_disk (ws_registry s)"
  by (auto simp: handleChangePassword_def start_session_nodes Let_def split: sum.splits prod.splits bool.splits)

lemma create_reservation_nodes: "left_nodes (create_reservation W si sv q s) = rw_disk (ws_registry s)"
  using own_key_nodes [of W si sv s] by (auto simp: create_reservation_def split: sum.splits prod.splits)

lemma allow_nodes: "left_nodes (allow W si sv q s) = rw_disk (ws_registry s)"
proof (cases "own_key W si sv s")
  case (fields x calls s1)
  then show ?thesis using own_key_nodes [of W si sv s] by (auto simp: allow_def Let_def split: sum.splits bool.splits)
qed

lemma server_action_nodes:
  assumes "si_Role si \<noteq> RoleAdmin"
  shows "left_nodes (server_action W si i action sv q s) = rw_disk (ws_registry s)"
proof -
  have "left_nodes (show_key W si sv q s) = rw_disk (ws_registry s)"
    by (auto simp: show_key_def Let_def split: sum.splits option.splits)
  moreover have "left_nodes (revoke W si sv q s) = rw_disk (ws_registry s)"
    by (auto simp: revoke_def Let_def split: sum.splits bool.splits)
  ultimately show ?thesis
    using assms create_reservation_nodes [of W si sv q s] allow_nodes [of W si sv q s] by (simp add: server_action_def delete_server_def)
qed

lemma handleServerAction_nodes:
  assumes "si_Role si \<noteq> RoleAdmin"
  shows "left_nodes (handleServerAction W si q s) = rw_disk (ws_registry s)"
  using server_action_nodes [OF assms, of W _ _ _ q "s\<lparr>ws_registry := reg\<rparr>" for reg]
  by (auto simp: handleServerAction_def split: option.splits sum.splits prod.splits dest: Get_registry_disk)

lemma handleServers_nodes:
  assumes "si_Role si \<noteq> RoleAdmin"
  shows "left_nodes (handleServers W si r s) = rw_disk (ws_registry s)"
  using assms by (auto simp: handleServers_def add_server_def list_servers_def split: sum.splits prod.splits dest: PublicList_disk)

lemma requireSession_nodes:
  assumes "\<And>s1. left_nodes (handler si s1) = rw_disk (ws_registry s1)"
    "fst (sessionUser (ww_E W 9) (ww_session W) (ww_sessionKey W) (wr_Cookie r) (ws_users s)) = Some si"
  shows "left_nodes (requireSession W handler r s) = rw_disk (ws_registry s)"
proof -
  obtain us where x: "sessionUser (ww_E W 9) (ww_session W) (ww_sessionKey W) (wr_Cookie r) (ws_users s) = (Some si, us)"
    using assms(2) by (metis prod.collapse)
  obtain ok q where q: "acquireAuthenticatedRequest si (ws_requests s) = (ok, q)" by (metis prod.exhaust)
  obtain resp calls s2 where h: "handler si (s\<lparr>ws_users := us, ws_requests := q\<rparr>) = (resp, calls, s2)" by (metis prod.exhaust)
  with assms(1) [of "s\<lparr>ws_users := us, ws_requests := q\<rparr>"] have "rw_disk (ws_registry s2) = rw_disk (ws_registry s)" by simp
  with x q h show ?thesis by (cases ok) (simp_all add: requireSession_def)
qed

lemma routes_nodes:
  assumes "si_Role si \<noteq> RoleAdmin"
    "fst (sessionUser (ww_E W 9) (ww_session W) (ww_sessionKey W) (wr_Cookie r) (ws_users s)) = Some si"
    "wr_Path r \<noteq> ''/api/login''" "wr_Path r \<noteq> ''/api/register''"
  shows "left_nodes (routes W r s) = rw_disk (ws_registry s)"
proof (rule routes_by_session [OF assms(3,4)])
  fix h assume h: "h \<in> session_handlers W r"
  have "left_nodes (handleFleetSnapshot W si r s1) = rw_disk (ws_registry s1)" for s1
    by (auto simp: handleFleetSnapshot_def Let_def split: prod.splits)
  with h have "left_nodes (h si s1) = rw_disk (ws_registry s1)" for s1
    using assms(1) handleKeys_nodes handleChangePassword_nodes handleServerAction_nodes handleServers_nodes
    by (auto simp: session_handlers_def handleLogout_def)
  then show "left_nodes (requireSession W h r s) = rw_disk (ws_registry s)"
    using assms(2) by (rule requireSession_nodes)
qed (auto simp: handleSession_def split: prod.splits)

section \<open>Calls to nodes and answers\<close>

text \<open>The key of a user, the nodes of the registry, and what a listing of a node says a user owns.\<close>

definition has_key :: "user_record list \<Rightarrow> string \<Rightarrow> string \<Rightarrow> bool" where
  "has_key users name i \<longleftrightarrow> (\<exists>u\<in>set users. ur_Username u = name \<and> keyed u \<and> ur_KeyID u = i)"

definition nodes_of :: "web_world \<Rightarrow> web_state \<Rightarrow> server_record list" where
  "nodes_of W s = the_or [] (disk_rows (registry_codec (ww_registry W)) (rw_disk (ws_registry s)))"

definition owned_item :: "string \<Rightarrow> key_status \<Rightarrow> string \<Rightarrow> bool" where
  "owned_item user st i \<longleftrightarrow>
     (\<exists>t\<in>set (ks_Tokens st). tv_ID t = i \<and> sameOwner (tv_Name t) user) \<or>
     (\<exists>r\<in>set (ks_Reservations st). (rv_ID r = i \<or> rv_GroupID r = i) \<and> sameOwner (rv_Holder r) user) \<or>
     (\<exists>a\<in>set (ks_Authorizations st). av_ID a = i \<and> sameOwner (av_Holder a) user)"

fun permitted :: "web_world \<Rightarrow> user_record list \<Rightarrow> server_record set \<Rightarrow> string \<Rightarrow> node_call \<Rightarrow> bool" where
  "permitted W users nodes user (CallHealth sv) = False"
| "permitted W users nodes user (CallSync sv) = (sv \<in> nodes)"
| "permitted W users nodes user (CallShowKeys sv) = (sv \<in> nodes)"
| "permitted W users nodes user (CallReserve sv args) =
     (sv \<in> nodes \<and> rg_Name args = user \<and> has_key users user (rg_UserKeyID args))"
| "permitted W users nodes user (CallAllow sv args) =
     (sv \<in> nodes \<and> has_key users user (al_UserKeyID args) \<and> al_ID args = al_UserKeyID args \<and> \<not> allowArgsHaveWildcard args)"
| "permitted W users nodes user (CallRevoke sv rootKey i) =
     (sv \<in> nodes \<and> (\<exists>st. na_ShowKeys (ww_api W) sv = Inr st \<and> owned_item user st i))"

text \<open>What may be shown to a user: own keys and tokens, and nodes without the belongings of others.\<close>

definition own_view :: "string \<Rightarrow> node_snapshot \<Rightarrow> bool" where
  "own_view user n \<longleftrightarrow>
     (\<forall>t\<in>set (ns_Tokens n). sameOwner (tv_Name t) user) \<and>
     (\<forall>r\<in>set (ns_Reservations n). sameOwner (rv_Holder r) user \<or> rv_GroupID r = []) \<and>
     (\<forall>a\<in>set (ns_Authorizations n). sameOwner (av_Holder a) user) \<and>
     (\<forall>c\<in>set (ns_SoftClaims n). sameOwner (cv_Holder c) user) \<and>
     (\<forall>l\<in>set (ns_Leases n). sameOwner (lease_Holder l) user) \<and> ns_Bypasses n = [] \<and> ns_PS n = [] \<and>
     (\<forall>g\<in>set (ns_GPUs n). gs_Processes g = [] \<and>
        (\<forall>r. gs_Reservation g = Some r \<longrightarrow> sameOwner (rv_Holder r) user \<or> rv_GroupID r = []) \<and>
        (\<forall>c. gs_Claim g = Some c \<longrightarrow> sameOwner (cv_Holder c) user))"

fun may_see :: "string \<Rightarrow> web_body \<Rightarrow> bool" where
  "may_see user (BUsers _) = False"
| "may_see user (BPublicUser _) = False"
| "may_see user (BServer _) = False"
| "may_see user (BDeleted _) = False"
| "may_see user (BKeys keys _) = (\<forall>k\<in>set keys. sameOwner (fk_Owner k) user \<and> fk_Secret k = [])"
| "may_see user (BKey k) = (fk_Owner k = user)"
| "may_see user (BToken _ t) = sameOwner (tv_Name t) user"
| "may_see user (BReservation res) = (rr_Token res = [] \<and> rr_TokenID res = [])"
| "may_see user (BFleet fleet) = (\<forall>item\<in>set fleet. \<forall>n. ss_Snapshot item = Some n \<longrightarrow> own_view user n)"
| "may_see user _ = True"

lemma scrub_own: "sameOwner (rv_Holder (scrub_reservation user r)) user \<or> rv_GroupID (scrub_reservation user r) = []"
  by (simp add: scrub_reservation_def)

lemma filter_node_own: "own_view user (filter_node user n)"
  using scrub_own
  by (auto simp: own_view_def filter_node_def filterTokens_def scrubReservations_def filterAuthorizations_def
      filterSoftClaims_def filterLeases_def scrub_gpu_def cloneFilteredGPUSnapshots_def split: option.splits if_splits)

lemma filterFleet_own: "role \<noteq> RoleAdmin \<Longrightarrow> may_see user (BFleet (filterFleetSnapshot user role fleet))"
  using filter_node_own by (auto simp: filterFleetSnapshot_def)

lemma canRevoke_owned:
  assumes "canRevoke user role shown i = Inr True" "role \<noteq> RoleAdmin"
  shows "\<exists>st. shown = Inr st \<and> owned_item user st i"
  using assms
  by (auto simp: canRevoke_def owned_item_def findToken_def findReservation_def findAuthorization_def
      dest!: find_SomeD split: sum.splits option.splits)

lemma Get_registry_found:
  assumes "Get_registry (ww_registry W) io i (ws_registry s) = (Inr (Some sv), reg)"
    "rows_consistent (registry_codec (ww_registry W)) (ws_registry s)"
  shows "sv \<in> set (nodes_of W s)"
proof -
  from assms(1) obtain rows where l: "load_rows (registry_codec (ww_registry W)) io (ws_registry s) = (Inr rows, reg)"
    and f: "find (\<lambda>r. sv_ID r = i) rows = Some sv"
    by (auto simp: Get_registry_def List_registry_def loadLocked_registry_def split: prod.splits sum.splits)
  from load_rows_Inr [OF l assms(2)] f show ?thesis by (auto simp: nodes_of_def dest: find_SomeD)
qed

lemma FixedKeyForUser_has:
  assumes "FixedKeyForUser E name us = (Inr v, us')" "we_lib E = L" "web_lib_ok L" "users_inv L master us"
  shows "has_key (users_of L us) (ToLower (TrimSpace name)) (kv_ID v)"
proof -
  obtain x us1 where tx: "FixedKeyVerifiers E us = (x, us1)" by (metis prod.exhaust)
  let ?body = "\<lambda>users. RowDone (sort_key kv_ID (map verifier_of (filter keyed users))) :: (user_record, fixed_user_key_verifier list) row_outcome"
  have tx': "users_tx E ?body us = (x, us1)" using tx by (simp add: FixedKeyVerifiers_def)
  from assms(1) tx obtain vs where vs: "x = Inr vs" "find (\<lambda>v. kv_Owner v = ToLower (TrimSpace name)) vs = Some v"
    by (auto simp: FixedKeyForUser_def Let_def split: sum.splits option.splits)
  have "vs = sort_key kv_ID (map verifier_of (filter keyed (users_of L us)))"
    by (rule users_tx_cases [OF tx' assms(2-4) keeps_users_read]) (use vs(1) in auto)
  with find_SomeD [OF vs(2)] show ?thesis by (auto simp: has_key_def verifier_of_def)
qed

lemma own_key_has:
  assumes "own_key W si sv s = (x, calls, s1)" "world_ok L master W" "users_inv L master (ws_users s)"
    "normalizeUsername (si_User si) = Inr (si_User si)"
  shows "set calls \<subseteq> {CallSync sv} \<and> (\<forall>key. x = Inr key \<longrightarrow> has_key (users_of L (ws_users s)) (si_User si) key) \<and>
    (\<forall>resp. x = Inl resp \<longrightarrow> (\<exists>e. rp_body resp = BError e))"
proof -
  obtain y us where y: "FixedKeyForUser (ww_E W 0) (si_User si) (ws_users s) = (y, us)" by (metis prod.exhaust)
  have name: "ToLower (TrimSpace (si_User si)) = si_User si" using normalizeUsername_Inr [OF assms(4)] by simp
  have "has_key (users_of L (ws_users s)) (si_User si) (kv_ID v)" if "y = Inr v" for v
    using FixedKeyForUser_has [OF _ world_okD(2,1) [OF assms(2)] assms(3)] y that name by metis
  with y assms(1) show ?thesis
    by (cases y) (auto simp: own_key_def respond_def split: prod.splits option.splits)
qed

text \<open>An outcome within what a user may do and see.\<close>

definition confined :: "web_world \<Rightarrow> user_record list \<Rightarrow> server_record set \<Rightarrow> string \<Rightarrow> outcome3 \<Rightarrow> bool" where
  "confined W users nodes user out \<longleftrightarrow>
     may_see user (rp_body (fst out)) \<and> (\<forall>c\<in>set (fst (snd out)). permitted W users nodes user c)"

lemma confined_simps [simp]:
  "confined W users nodes user (replies s r) \<longleftrightarrow> may_see user (rp_body r)"
  "confined W users nodes user (r, calls, s) \<longleftrightarrow> may_see user (rp_body r) \<and> (\<forall>c\<in>set calls. permitted W users nodes user c)"
  by (simp_all add: confined_def replies_def)

lemmas answer_defs = respond_def busy_def not_allowed_def not_found_def admin_required_def

lemma reserve_calls:
  assumes "reserve W sv args = (x, calls)"
  shows "(\<forall>c\<in>set calls. \<exists>i. c = CallReserve sv (args\<lparr>rg_ExternalSessionID := i\<rparr>)) \<and> (\<forall>resp. x = Inl resp \<longrightarrow> (\<exists>e. rp_body resp = BError e))"
proof -
  have same: "args = args\<lparr>rg_ExternalSessionID := rg_ExternalSessionID args\<rparr>" by simp
  have "\<exists>i. CallReserve sv args = CallReserve sv (args\<lparr>rg_ExternalSessionID := i\<rparr>)" using same by metis
  with assms show ?thesis
    by (auto simp: reserve_def Let_def respond_def split: if_splits option.splits sum.splits)
qed

lemma create_reservation_confined:
  assumes "world_ok L master W" "users_inv L master (ws_users s)" "normalizeUsername (si_User si) = Inr (si_User si)" "sv \<in> nodes"
  shows "confined W (users_of L (ws_users s)) nodes (si_User si) (create_reservation W si sv q s)"
proof (cases "bo_reservation (wr_Bodies q)")
  case (Inr args)
  obtain x calls s1 where k: "own_key W si sv s = (x, calls, s1)" by (metis prod.exhaust)
  note own = own_key_has [OF k assms(1-3)]
  show ?thesis
  proof (cases x)
    case (Inl resp)
    with k Inr own assms(4) show ?thesis by (auto simp: create_reservation_def)
  next
    case key: (Inr key)
    let ?args = "args\<lparr>rg_Name := si_User si, rg_UserKeyID := key\<rparr>"
    obtain y rest where y: "reserve W sv ?args = (y, rest)" by (metis prod.exhaust)
    have "\<forall>c\<in>set rest. permitted W (users_of L (ws_users s)) nodes (si_User si) c"
      using reserve_calls [OF y] own key assms(4) by fastforce
    then show ?thesis using k Inr key y own reserve_calls [OF y] assms(4)
      by (cases y) (auto simp: create_reservation_def respond_def)
  qed
qed (simp add: create_reservation_def respond_def)

lemma allow_confined:
  assumes "world_ok L master W" "users_inv L master (ws_users s)" "normalizeUsername (si_User si) = Inr (si_User si)" "sv \<in> nodes"
    "si_Role si \<noteq> RoleAdmin"
  shows "confined W (users_of L (ws_users s)) nodes (si_User si) (allow W si sv q s)"
proof (cases "bo_allow (wr_Bodies q)")
  case (Inr args)
  obtain x calls s1 where k: "own_key W si sv s = (x, calls, s1)" by (metis prod.exhaust)
  from own_key_has [OF k assms(1-3)] k Inr assms(4,5) show ?thesis
    by (cases x) (auto simp: allow_def Let_def respond_def split: sum.splits bool.splits)
qed (simp add: allow_def respond_def)

lemma revoke_confined:
  assumes "sv \<in> nodes" "si_Role si \<noteq> RoleAdmin"
  shows "confined W users nodes (si_User si) (revoke W si sv q s)"
  using assms canRevoke_owned [of "si_User si" "si_Role si" "na_ShowKeys (ww_api W) sv"]
  by (auto simp: revoke_def Let_def respond_def split: sum.splits bool.splits)

lemma show_key_confined:
  assumes "sv \<in> nodes" "si_Role si \<noteq> RoleAdmin"
  shows "confined W users nodes (si_User si) (show_key W si sv q s)"
  using assms by (auto simp: show_key_def Let_def respond_def split: sum.splits option.splits)

lemma handleServerAction_confined:
  assumes "world_ok L master W" "users_inv L master (ws_users s)" "normalizeUsername (si_User si) = Inr (si_User si)"
    "si_Role si \<noteq> RoleAdmin" "rows_consistent (registry_codec (ww_registry W)) (ws_registry s)"
  shows "confined W (users_of L (ws_users s)) (set (nodes_of W s)) (si_User si) (handleServerAction W si q s)"
proof -
  have "confined W (users_of L (ws_users s)) (set (nodes_of W s)) (si_User si) (server_action W si i action sv q (s\<lparr>ws_registry := reg\<rparr>))"
    if "sv \<in> set (nodes_of W s)" for i action sv reg
    using create_reservation_confined [OF assms(1) _ assms(3) that, of "s\<lparr>ws_registry := reg\<rparr>" q]
      allow_confined [OF assms(1) _ assms(3) that assms(4), of "s\<lparr>ws_registry := reg\<rparr>" q] revoke_confined [OF that assms(4)]
      show_key_confined [OF that assms(4)] assms(2,4)
    by (simp add: server_action_def delete_server_def answer_defs)
  then show ?thesis using Get_registry_found [OF _ assms(5)]
    by (auto simp: handleServerAction_def answer_defs split: option.splits sum.splits prod.splits)
qed

lemma users_tx_answer:
  assumes "users_tx E body us = (Inr a, us')"
  shows "\<exists>users. body users = RowDone a \<or> (\<exists>users'. body users = RowWrite users' a)"
proof -
  obtain x f where l: "load_rows (users_codec (wb_json (we_lib E))) (we_io E) (us_file us) = (x, f)" by (metis prod.exhaust)
  with assms obtain users where x: "x = Inr users" by (cases x) (auto simp: users_tx_def row_tx_def)
  with l assms show ?thesis
    by (cases "body users") (auto simp: users_tx_def row_tx_def split: prod.splits option.splits)
qed

lemma revealed_owner:
  assumes "RevealFixedKey E name us = (Inr k, us')" "normalizeUsername name = Inr n"
  shows "fk_Owner k = n"
  using assms users_tx_answer [of E _ us k us']
  by (fastforce simp: RevealFixedKey_def fixedUserKey_def dest: find_enabled split: option.splits sum.splits)

lemma regenerated_owner:
  assumes "RegenerateFixedKey E name us = (Inr k, us')" "normalizeUsername name = Inr n"
  shows "fk_Owner k = n"
proof -
  from assms obtain u secret us1 where tx: "users_tx E (replace_key E (us_keyCipher us) n) us = (Inr u, us1)"
    and k: "k = fixedUserKey u secret"
    by (auto simp: RegenerateFixedKey_def split: prod.splits sum.splits)
  have "replace_key E (us_keyCipher us) n users \<noteq> RowDone u" for users
    by (auto simp: replace_key_def split: option.splits sum.splits)
  with users_tx_answer [OF tx] obtain users users' where "replace_key E (us_keyCipher us) n users = RowWrite users' u" by blast
  then obtain u0 where u0: "find (enabled n) users = Some u0" "assign E 0 (us_keyCipher us) u0 (next_version (ur_KeyVersion u0)) = Inr u"
    by (auto simp: replace_key_def split: option.splits sum.splits)
  have "ur_Username u = ur_Username u0" using u0(2) by (auto simp: assign_def Let_def split: option.splits sum.splits)
  with k find_enabled [OF u0(1)] show ?thesis by (simp add: fixedUserKey_def)
qed

lemma listed_secret:
  assumes "FixedKeys E us = (Inr keys, us')"
  shows "\<forall>k\<in>set keys. fk_Secret k = []"
  using users_tx_answer [OF assms [unfolded FixedKeys_def]] by (auto simp: fixedUserKey_def)

lemma handleKeys_confined:
  assumes "si_Role si \<noteq> RoleAdmin" "normalizeUsername (si_User si) = Inr (si_User si)"
  shows "confined W users nodes (si_User si) (handleKeys W si r s)"
proof -
  have own: "normalizeUsername name = Inr (si_User si)" if "sameOwner name (si_User si)" for name
    using that assms(2) by (auto simp: sameOwner_iff)
  have "confined W users nodes (si_User si) (list_keys W si s)"
    using assms(1) by (auto simp: list_keys_def respond_def Let_def dest: listed_secret split: sum.splits prod.splits)
  then show ?thesis using assms(1)
    by (auto simp: handleKeys_def answer_defs Let_def dest: own revealed_owner regenerated_owner split: list.splits sum.splits prod.splits)
qed

lemma requireSession_confined:
  assumes "\<And>s1. \<lbrakk>users_inv L master (ws_users s1); users_of L (ws_users s1) = users_of L (ws_users s); ws_registry s1 = ws_registry s\<rbrakk> \<Longrightarrow>
      confined W (users_of L (ws_users s)) nodes user (handler si s1)"
    "fst (sessionUser (ww_E W 9) (ww_session W) (ww_sessionKey W) (wr_Cookie r) (ws_users s)) = Some si"
    "world_ok L master W" "users_inv L master (ws_users s)"
  shows "confined W (users_of L (ws_users s)) nodes user (requireSession W handler r s)"
proof -
  obtain us where x: "sessionUser (ww_E W 9) (ww_session W) (ww_sessionKey W) (wr_Cookie r) (ws_users s) = (Some si, us)"
    using assms(2) by (metis prod.collapse)
  obtain ok q where q: "acquireAuthenticatedRequest si (ws_requests s) = (ok, q)" by (metis prod.exhaust)
  define s1 where "s1 = s\<lparr>ws_users := us, ws_requests := q\<rparr>"
  obtain resp calls s2 where h: "handler si s1 = (resp, calls, s2)" by (metis prod.exhaust)
  have "users_inv L master us \<and> users_of L us = users_of L (ws_users s)"
    using sessionUser_inv [OF x world_okD(2,1) [OF assms(3)] assms(4)] .
  with assms(1) [of s1] h have "confined W (users_of L (ws_users s)) nodes user (resp, calls, s2)" by (simp add: s1_def)
  with x q h show ?thesis by (cases ok) (simp_all add: requireSession_def s1_def answer_defs)
qed

lemma may_see_plain: "plain_body b \<Longrightarrow> may_see user b"
  by (cases b) simp_all

lemma routes_confined:
  assumes "si_Role si \<noteq> RoleAdmin"
    "fst (sessionUser (ww_E W 9) (ww_session W) (ww_sessionKey W) (wr_Cookie r) (ws_users s)) = Some si"
    "wr_Path r \<noteq> ''/api/login''" "wr_Path r \<noteq> ''/api/register''"
    "world_ok L master W" "users_inv L master (ws_users s)" "rows_consistent (registry_codec (ww_registry W)) (ws_registry s)"
    "normalizeUsername (si_User si) = Inr (si_User si)"
  shows "confined W (users_of L (ws_users s)) (set (nodes_of W s)) (si_User si) (routes W r s)"
proof (rule routes_by_session [OF assms(3,4)])
  fix h assume h: "h \<in> session_handlers W r"
  show "confined W (users_of L (ws_users s)) (set (nodes_of W s)) (si_User si) (requireSession W h r s)"
  proof (rule requireSession_confined [OF _ assms(2,5,6)])
    fix s1 :: web_state assume s1: "users_inv L master (ws_users s1)" "users_of L (ws_users s1) = users_of L (ws_users s)" "ws_registry s1 = ws_registry s"
    have "confined W (users_of L (ws_users s1)) (set (nodes_of W s1)) (si_User si) (handleServerAction W si r s1)"
      using handleServerAction_confined [OF assms(5) s1(1) assms(8,1)] s1(3) assms(7) by simp
    moreover have "confined W users nodes (si_User si) (handleFleetSnapshot W si r s1)" for users nodes
      using filterFleet_own [OF assms(1)] by (auto simp: handleFleetSnapshot_def answer_defs Let_def split: prod.splits sum.splits)
    moreover have "confined W users nodes (si_User si) (handleServers W si r s1)" for users nodes
      using assms(1) by (auto simp: handleServers_def list_servers_def add_server_def answer_defs split: sum.splits prod.splits)
    moreover have "confined W users nodes (si_User si) (handleChangePassword W si r s1)" for users nodes
      by (auto simp: handleChangePassword_def start_session_def answer_defs Let_def split: sum.splits prod.splits bool.splits)
    ultimately show "confined W (users_of L (ws_users s)) (set (nodes_of W s)) (si_User si) (h si s1)"
      using h assms(1) s1 handleKeys_confined [OF assms(1,8)]
      by (auto simp: session_handlers_def handleLogout_def answer_defs nodes_of_def)
  qed
qed (auto simp: may_see_plain handleSession_def answer_defs split: prod.splits option.splits)

end
