(* ===== verification/WebFixtures.thy ===== *)
theory WebFixtures
  imports WebAccess
begin

text \<open>
  A concrete web server on which the theorems are instantiated: a library whose codec knows two
  lists of users, the administrator root and the user ann with a fixed key, one node, and a session of
  ann.
\<close>

section \<open>A library\<close>

definition zeros :: "nat \<Rightarrow> string" where "zeros n = replicate n (CHR 0x00)"

definition demo_hash :: weblib where
  "demo_hash = \<lparr>wl_sha256 = (\<lambda>m. take 32 (m @ zeros 32)), wl_hmac = (\<lambda>k m. take 32 (k @ m @ zeros 32))\<rparr>"

definition demo_users_json :: "user_record list \<Rightarrow> user_record list \<Rightarrow> user_json" where
  "demo_users_json a b =
     \<lparr>uj_marshal = (\<lambda>rows. if rows = a then Inr ''A'' else if rows = b then Inr ''B'' else Inl (ErrNew ''unsupported'')),
      uj_unmarshal = (\<lambda>data. Inr (if hd data = CHR ''A'' then a else b))\<rparr>"

definition demo_aead :: aead where
  "demo_aead = \<lparr>ae_Seal = (\<lambda>m n p a. p @ zeros 16), ae_Open = (\<lambda>m n c a. Some (take (length c - 16) c))\<rparr>"

definition demo_web_lib :: "user_record list \<Rightarrow> user_record list \<Rightarrow> web_lib" where
  "demo_web_lib a b = \<lparr>wb_hash = demo_hash, wb_json = demo_users_json a b, wb_aead = demo_aead\<rparr>"

lemma demo_web_lib_simps [simp]:
  "wb_hash (demo_web_lib a b) = demo_hash" "wb_json (demo_web_lib a b) = demo_users_json a b" "wb_aead (demo_web_lib a b) = demo_aead"
  by (simp_all add: demo_web_lib_def)

lemma demo_hash_lengths: "hash_lengths demo_hash"
  by (auto simp: hash_lengths_def demo_hash_def zeros_def min_def)

lemma demo_files_not_blank: "TrimSpace (''A'' @ newline) \<noteq> []" "TrimSpace (''B'' @ newline) \<noteq> []"
  by code_simp+

lemma demo_web_lib_ok: "web_lib_ok (demo_web_lib a b)"
  using demo_files_not_blank
  by (auto simp: web_lib_ok_def users_json_def demo_users_json_def aead_ok_def demo_aead_def zeros_def split: if_splits)

section \<open>Users\<close>

definition demo_master :: string where "demo_master = zeros 32"

definition root_user :: user_record where
  "root_user = \<lparr>ur_Username = ''root'', ur_Role = RoleAdmin, ur_PasswordHash = ''x'', ur_KeyID = [], ur_KeyHash = [],
     ur_KeyVersion = 0, ur_KeyCipher = [], ur_KeyCreatedAt = 0, ur_CreatedAt = 1, ur_UpdatedAt = 1, ur_Disabled = False\<rparr>"

definition ann :: "string \<Rightarrow> user_record" where
  "ann h = \<lparr>ur_Username = ''ann'', ur_Role = RoleUser, ur_PasswordHash = h, ur_KeyID = ''uk_1'',
     ur_KeyHash = hex_EncodeToString (wl_sha256 demo_hash ''gk_1''), ur_KeyVersion = 1,
     ur_KeyCipher = b64_EncodeToString RawStdEncoding (zeros 12 @ ''gk_1'' @ zeros 16), ur_KeyCreatedAt = 2, ur_CreatedAt = 2,
     ur_UpdatedAt = 2, ur_Disabled = False\<rparr>"

definition demo_users :: "string \<Rightarrow> user_record list" where "demo_users h = [root_user, ann h]"

lemma demo_names:
  "normalizeUsername ''root'' = Inr ''root''" "normalizeUsername ''ann'' = Inr ''ann''" "valid_text ''root''" "valid_text ''ann''"
  by code_simp+

lemma demo_roles: "RoleUser \<noteq> RoleAdmin"
  by code_simp

lemma ann_reveals: "reveal demo_aead (Some demo_master) (ann h) = Inr ''gk_1''"
  by (simp add: reveal_def ann_def demo_aead_def zeros_def NonceSize_def)

lemma demo_users_ok: "users_ok (demo_web_lib a b) demo_master (demo_users h)"
  using demo_names demo_roles ann_reveals [of h]
  by (auto simp: users_ok_def demo_users_def user_ok_def key_ok_def keyed_def active_admin_def root_user_def)
    (auto simp: ann_def)

section \<open>A store\<close>

definition demo_user_store :: "user_record list \<Rightarrow> string \<Rightarrow> user_store" where
  "demo_user_store rows name =
     \<lparr>us_file = \<lparr>rw_loaded = True, rw_rows = rows,
        rw_disk = Some \<lparr>fo_regular = True, fo_perm = 0x180, fo_data = name @ newline\<rparr>\<rparr>, us_keyCipher = Some demo_master\<rparr>"

lemma demo_stored:
  assumes "length a \<le> 256"
  shows "stored_users (demo_web_lib a b) (demo_user_store a ''A'') = Some a"
  using assms demo_files_not_blank
  by (simp add: stored_users_def disk_rows_def demo_user_store_def users_codec_def demo_users_json_def users_check_def maxUsers_def)

lemma demo_users_inv:
  assumes "a = demo_users h"
  shows "users_inv (demo_web_lib a b) demo_master (demo_user_store a ''A'')" "users_of (demo_web_lib a b) (demo_user_store a ''A'') = a"
proof -
  have s: "stored_users (demo_web_lib a b) (demo_user_store a ''A'') = Some a"
    using assms by (intro demo_stored) (simp add: demo_users_def)
  then show u: "users_of (demo_web_lib a b) (demo_user_store a ''A'') = a" by (simp add: users_of_def)
  from s u assms demo_users_ok [of a b h] show "users_inv (demo_web_lib a b) demo_master (demo_user_store a ''A'')"
    by (simp add: users_inv_def rows_consistent_def stored_users_def demo_user_store_def)
qed

definition demo_web_env :: "web_lib \<Rightarrow> time \<Rightarrow> web_env" where
  "demo_web_env L now = \<lparr>we_lib = L, we_io = private_ok, we_now = now, we_salt = Inr (zeros 16), we_secret = (\<lambda>_. Inr (zeros 24)),
     we_id = (\<lambda>_. Inr (zeros 8)), we_nonce = (\<lambda>_. Inr (zeros 12))\<rparr>"

lemma demo_web_env_simps [simp]:
  "we_lib (demo_web_env L now) = L" "we_now (demo_web_env L now) = now" "we_io (demo_web_env L now) = private_ok"
  "we_salt (demo_web_env L now) = Inr (zeros 16)"
  by (simp_all add: demo_web_env_def)

lemma demo_draws: "draws_ok (demo_web_env L now)"
  by (simp add: draws_ok_def demo_web_env_def zeros_def)

section \<open>A world\<close>

definition demo_now :: time where "demo_now = unix_epoch + 100 * Second"

definition demo_payload :: session_payload where
  "demo_payload = \<lparr>sp_User = ''ann'', sp_Role = RoleUser, sp_CredentialVersion = time_UnixNano 2, sp_Expires = 200\<rparr>"

definition demo_session_json :: session_json where
  "demo_session_json = \<lparr>sj_marshal = (\<lambda>p. if p = demo_payload then ''p'' else ''q''),
     sj_unmarshal = (\<lambda>d. if d = ''p'' then Some demo_payload else None)\<rparr>"

definition demo_cookie :: string where
  "demo_cookie = b64_EncodeToString RawURLEncoding ''p'' @ ''.'' @
     b64_EncodeToString RawURLEncoding (sessionSignature demo_hash ''k'' ''p'')"

lemma demo_cookie_verifies: "verifySession demo_hash demo_session_json ''k'' demo_cookie = Some demo_payload"
proof -
  have "length (sessionSignature demo_hash ''k'' ''p'') = 32"
    using demo_hash_lengths by (simp add: hash_lengths_def sessionSignature_def)
  then have "length demo_cookie \<le> 2048"
    using length_b64 [of RawURLEncoding "''p''"] length_b64 [of RawURLEncoding "sessionSignature demo_hash ''k'' ''p''"]
    by (simp add: demo_cookie_def)
  then show ?thesis using verify_token [of "''p''" demo_hash "''k''" demo_session_json]
    by (simp add: demo_cookie_def demo_session_json_def)
qed

definition demo_node :: server_record where
  "demo_node = \<lparr>sv_ID = ''srv_1'', sv_Name = ''n'', sv_Endpoint = ''https://n'', sv_RootKey = ''rk'', sv_TLSSkipVerify = False,
     sv_CreatedAt = 1, sv_UpdatedAt = 1\<rparr>"

definition demo_url_lib :: url_lib where
  "demo_url_lib = \<lparr>ul_Parse = (\<lambda>s. Inr \<lparr>url_Scheme = ''https'', url_User = None, url_Host = ''n'', url_Path = [], url_RawQuery = [],
     url_Fragment = []\<rparr>), ul_String = (\<lambda>u. ''https://n'')\<rparr>"

definition demo_registry_lib :: registry_lib where
  "demo_registry_lib = \<lparr>rl_marshal = (\<lambda>rows. if rows = [demo_node] then Inr ''N'' else if rows = [] then Inr ''E'' else Inl (ErrNew ''unsupported'')),
     rl_unmarshal = (\<lambda>data. Inr (if hd data = CHR ''N'' then [demo_node] else [])), rl_url = demo_url_lib\<rparr>"

definition demo_registry :: registry where
  "demo_registry = \<lparr>rw_loaded = True, rw_rows = [demo_node],
     rw_disk = Some \<lparr>fo_regular = True, fo_perm = 0x180, fo_data = ''N'' @ newline\<rparr>\<rparr>"

definition demo_node_api :: node_api where
  "demo_node_api = \<lparr>na_Health = (\<lambda>_. None), na_ShowKeys = (\<lambda>_. Inl (ErrNew ''down'')), na_Reserve = (\<lambda>_ _. Inl (ErrNew ''down'')),
     na_Allow = (\<lambda>_ _. Inl (ErrNew ''down'')), na_Revoke = (\<lambda>_ _ _. Inl (ErrNew ''down''))\<rparr>"

definition demo_world :: "web_lib \<Rightarrow> web_world" where
  "demo_world L =
     \<lparr>ww_cfg = \<lparr>wc_AllowRegistration = True, wc_TrustProxy = False, wc_SecureCookies = True, wc_AllowInsecureNodes = False,
        wc_UIDir = ''/ui''\<rparr>,
      ww_E = (\<lambda>k. demo_web_env L demo_now), ww_others = (\<lambda>k us. us), ww_acquired = None, ww_work = True,
      ww_net = \<lparr>nt_SplitHostPort = (\<lambda>_. None), nt_ParseIP = (\<lambda>_. None), nt_IsLoopback = (\<lambda>_. False)\<rparr>,
      ww_session = demo_session_json, ww_sessionKey = ''k'', ww_registry = demo_registry_lib, ww_io = private_ok,
      ww_random = zeros 8, ww_encode = (\<lambda>_. Inr ''[]''),
      ww_client = \<lparr>nc_info = (\<lambda>_. Inl (ErrNew ''down'')), nc_sync = (\<lambda>_ _. Inl (ErrNew ''down''))\<rparr>,
      ww_api = demo_node_api, ww_history = \<lparr>hi_prepares = (\<lambda>_. False), hi_random = [], hi_prepare = None\<rparr>,
      ww_text = (\<lambda>_. ''error''), ww_fleetDone = None, ww_isFile = (\<lambda>_. True), ww_parseOrigin = Some\<rparr>"

lemma demo_world_simps [simp]:
  "ww_E (demo_world L) k = demo_web_env L demo_now" "ww_others (demo_world L) k us = us" "ww_session (demo_world L) = demo_session_json"
  "ww_sessionKey (demo_world L) = ''k''" "ww_registry (demo_world L) = demo_registry_lib"
  by (simp_all add: demo_world_def)

lemma demo_world_ok: "world_ok (demo_web_lib a b) demo_master (demo_world (demo_web_lib a b))"
  by (simp add: world_ok_def demo_web_lib_ok demo_draws others_step_def)

definition demo_web :: "user_record list \<Rightarrow> web_state" where
  "demo_web a = \<lparr>ws_users = demo_user_store a ''A'', ws_attempts = [], ws_requests = no_requests, ws_registry = demo_registry,
     ws_keyNodes = [], ws_syncRequested = False, ws_fleet = empty_fleet_cache\<rparr>"

definition no_bodies :: bodies where
  "no_bodies = \<lparr>bo_login = Inl ErrNotExist, bo_register = Inl ErrNotExist, bo_password = Inl ErrNotExist, bo_createUser = Inl ErrNotExist,
     bo_deleteUser = Inl ErrNotExist, bo_addServer = Inl ErrNotExist, bo_reservation = Inl ErrNotExist, bo_showKey = Inl ErrNotExist,
     bo_allow = Inl ErrNotExist, bo_revoke = Inl ErrNotExist\<rparr>"

definition demo_request :: "string \<Rightarrow> string \<Rightarrow> web_request" where
  "demo_request method path = \<lparr>wr_Method = method, wr_Path = path, wr_RemoteAddr = ''1.2.3.4:5'', wr_ForwardedFor = [], wr_TLS = True,
     wr_Cookie = Some demo_cookie, wr_SecFetchSite = ''same-origin'', wr_Origin = [], wr_Host = ''h'', wr_HasBody = False,
     wr_MediaType = Inr ''application/json'', wr_Bodies = no_bodies\<rparr>"

lemma demo_request_names: "names_ok (demo_request m p)"
  by (simp add: names_ok_def demo_request_def no_bodies_def)

lemma demo_session:
  assumes "a = demo_users h"
  shows "sessionUser (demo_web_env (demo_web_lib a b) demo_now) demo_session_json ''k'' (Some demo_cookie) (demo_user_store a ''A'') =
    (Some \<lparr>si_User = ''ann'', si_Role = RoleUser\<rparr>, demo_user_store a ''A'')"
proof -
  have "Get_user (demo_web_env (demo_web_lib a b) demo_now) ''ann'' (demo_user_store a ''A'') = (Inr (Some (ann h)), demo_user_store a ''A'')"
    using assms demo_names
    by (simp add: Get_user_def users_tx_def row_tx_def demo_user_store_def demo_users_def enabled_def root_user_def ann_def)
  moreover have "demo_cookie \<noteq> []" by (simp add: demo_cookie_def)
  moreover have "time_Unix demo_now = 100" "time_UnixNano 2 \<noteq> 0" by code_simp+
  ultimately show ?thesis using demo_cookie_verifies
    by (simp add: sessionUser_def demo_payload_def ann_def)
qed

end
