(* ===== verification/WebTheorems.thy ===== *)
theory WebTheorems
  imports WebFixtures
begin

text \<open>The theorems of the web server: who may do what, who is let in, and what the users' file keeps.\<close>

section \<open>Access\<close>





section \<open>Who is let in\<close>

lemma users_tx_reads:
  assumes "users_tx E (\<lambda>users. RowDone (f users)) s = (r, s')" "we_lib E = L" "web_lib_ok L" "users_inv L master s"
  shows "r = Inr (f (users_of L s)) \<or> (\<exists>e. r = Inl e)"
  by (rule users_tx_cases [OF assms keeps_users_read]) auto

lemma locked_out_login:
  assumes "authenticate E1 E2 acquired others name password s = ((r, work), s')" "we_lib E1 = L" "web_lib_ok L" "users_inv L master s"
    "locked_out L n s" "normalizeUsername name = Inr n"
  shows "\<exists>e. r = Inl e"
proof -
  obtain x s1 where l: "loadLocked_users E1 s = (x, s1)" by (metis prod.exhaust)
  have "users_tx E1 RowDone s = (x, s1)" using l by (simp add: loadLocked_users_tx)
  with users_tx_reads [of E1 "\<lambda>u. u" s x s1 L master] assms(2-4) have x: "x = Inr (users_of L s) \<or> (\<exists>e. x = Inl e)" by simp
  from assms(5) obtain u where u: "u \<in> set (users_of L s)" "ur_Username u = n" "ur_Disabled u" by (auto simp: locked_out_def)
  have "login_candidate n (users_of L s) = None"
  proof (cases "find (\<lambda>u. ur_Username u = n) (users_of L s)")
    case (Some v)
    then have "v \<in> set (users_of L s)" "ur_Username v = n" by (auto dest: find_SomeD)
    with u users_inv_ok [OF assms(4)] have "v = u" by (auto simp: users_ok_def distinct_map dest: inj_onD)
    with Some u(3) show ?thesis by (simp add: login_candidate_def)
  qed (simp add: login_candidate_def)
  with x l assms(1,6) show ?thesis by (auto simp: authenticate_def split: option.splits)
qed

text \<open>
  C25: Once a user has been deleted, no later history of the store, restarts included, lets the name
  back in: signing in fails whatever the password, no cookie is accepted for it, its key is no
  longer distributed, and the name cannot be taken again.
\<close>

theorem deleted_user_locked_out:
  assumes "Delete_user E name s = (Inr (), s1)" "normalizeUsername name = Inr n" "user_steps L master s1 s2"
    "web_lib_ok L" "users_inv L master s" "we_lib E = L" "we_lib E1 = L"
  shows "(normalizeUsername login = Inr n \<longrightarrow> (\<exists>e. fst (fst (authenticate E1 E2 acquired others login password s2)) = Inl e)) \<and>
    (\<forall>si. fst (sessionUser E1 J k cookie s2) = Some si \<longrightarrow> si_User si \<noteq> n) \<and>
    (\<forall>vs. fst (FixedKeyVerifiers E1 s2) = Inr vs \<longrightarrow> n \<notin> kv_Owner ` set vs) \<and>
    (ur_Username u = n \<longrightarrow> (\<exists>e. fst (users_tx E1 (add_user u) s2) = Inl e))"
proof -
  from deleted_locked_out [OF assms(1,6,4,5,2)] have "locked_out L n s1" "users_inv L master s1" by auto
  then have out: "locked_out L n s2" and inv: "users_inv L master s2"
    using locked_out_steps [OF assms(3,4)] by auto
  then obtain d where d: "d \<in> set (users_of L s2)" "ur_Username d = n" "ur_Disabled d" by (auto simp: locked_out_def)
  have one: "x = d" if "x \<in> set (users_of L s2)" "ur_Username x = n" for x
    using users_inv_ok [OF inv] d that by (auto simp: users_ok_def distinct_map dest: inj_onD)
  have gone: "ur_Username x \<noteq> n" if "x \<in> set (users_of L s2)" "\<not> ur_Disabled x" for x
    using one [OF that(1)] d(3) that(2) by blast
  obtain si2 us where si: "sessionUser E1 J k cookie s2 = (si2, us)" by (metis prod.exhaust)
  have "si_User x \<noteq> n" if "si2 = Some x" for x
  proof -
    from si that have "sessionUser E1 J k cookie s2 = (Some x, us)" by simp
    then show ?thesis by (rule sessionUser_sound [OF _ assms(7,4) inv]) (simp add: gone)
  qed
  moreover obtain vs us' where v: "FixedKeyVerifiers E1 s2 = (vs, us')" by (metis prod.exhaust)
  moreover have "n \<notin> kv_Owner ` set x" if "vs = Inr x" for x
    using users_tx_reads [OF v [unfolded FixedKeyVerifiers_def] assms(7,4) inv] that
    by (auto simp: verifier_of_def keyed_def dest: gone)
  moreover have "\<exists>e. fst (users_tx E1 (add_user u) s2) = Inl e" if "ur_Username u = n"
  proof -
    have no_write: "add_user u users \<noteq> RowDone a" for users a by (simp add: add_user_def)
    obtain r us2 where tx: "users_tx E1 (add_user u) s2 = (r, us2)" by (metis prod.exhaust)
    have full: "add_user u (users_of L s2) = RowFail errUsernameInUse"
      using d that by (auto simp: add_user_def list_ex_iff)
    obtain x f where l: "load_rows (users_codec (wb_json L)) (we_io E1) (us_file s2) = (x, f)" by (metis prod.exhaust)
    have "x = Inr (users_of L s2) \<or> (\<exists>e. x = Inl e)"
      using l inv by (cases x) (auto simp: users_inv_def stored_users_def dest: load_rows_Inr)
    with l full assms(7) tx show ?thesis by (auto simp: users_tx_def row_tx_def)
  qed
  moreover have "\<exists>e. fst (fst (authenticate E1 E2 acquired others login password s2)) = Inl e" if "normalizeUsername login = Inr n"
    using locked_out_login [OF _ assms(7,4) inv out that] by (metis prod.collapse)
  ultimately show ?thesis using si by simp
qed

theorem deleted_user_locked_out_witness:
  "\<exists>L E s s1. Delete_user E ''ann'' s = (Inr (), s1) \<and> users_inv L demo_master s \<and>
     (\<forall>password. \<exists>e. fst (fst (authenticate E E None (\<lambda>us. us) '' Ann '' password (restart_users s1))) = Inl e)"
proof -
  define a where "a = demo_users []"
  define b where "b = [root_user, disable 9 (ann [])]"
  define L where "L = demo_web_lib a b"
  define E where "E = demo_web_env L 9"
  define s where "s = demo_user_store a ''A''"
  have differ: "b \<noteq> a" by (simp add: a_def b_def demo_users_def ann_def disable_def)
  have body: "remove_user 9 ''ann'' a = RowWrite b ()"
    by (simp add: remove_user_def a_def b_def demo_users_def root_user_def ann_def RoleAdmin_def RoleUser_def)
  have "\<exists>s1. Delete_user E ''ann'' s = (Inr (), s1)"
    using demo_names differ body
    by (simp add: Delete_user_def users_tx_def row_tx_def E_def s_def demo_user_store_def L_def save_rows_def users_codec_def
        demo_users_json_def writePrivateFile_def private_ok_def io_ok_def writeSyncedTempFile_def Let_def)
  then obtain s1 where s1: "Delete_user E ''ann'' s = (Inr (), s1)" ..
  have inv: "users_inv L demo_master s" unfolding L_def s_def by (rule demo_users_inv [OF a_def])
  have restarts: "user_steps L demo_master s1 (restart_users s1)" by (rule r_into_rtranclp) (rule user_step.restart)
  have "normalizeUsername '' Ann '' = Inr ''ann''" by code_simp
  then have "\<exists>e. fst (fst (authenticate E E None (\<lambda>us. us) '' Ann '' password (restart_users s1))) = Inl e" for password
    using deleted_user_locked_out [OF s1 demo_names(2) restarts _ inv, where ?E1.0 = E]
      demo_web_lib_ok by (simp add: E_def L_def)
  with s1 inv show ?thesis by blast
qed

section \<open>Limits\<close>

text \<open>
  C93: The web server admits exactly the authenticated requests that the policy on the multiset of
  requests under way admits, however they begin and end: at most 64, at most 56 of users who are
  no administrators, at most 8 of each user; so an administrator with fewer than 8 requests is served
  while administrators have fewer than 8.
\<close>

theorem requests_limited:
  assumes "pool_run acquireAuthenticatedRequest release_request rs no_requests = (oks, s)"
    "releases_held may_request rs {#}"
  shows "\<exists>M. spec_run may_request rs {#} = (oks, M) \<and> requests_counted s M \<and> size M \<le> 64 \<and>
    size (non_admins M) \<le> 56 \<and> (\<forall>n. size (of_user n M) \<le> 8) \<and>
    (\<forall>si. si_Role si = RoleAdmin \<and> size (filter_mset (\<lambda>x. si_Role x = RoleAdmin) M) < 8 \<and>
       size (of_user (session_name si) M) < 8 \<longrightarrow> fst (acquireAuthenticatedRequest si s))"
proof -
  from requests.held_run_refines [OF assms(1) _ assms(2)] obtain M where
    M: "spec_run may_request rs {#} = (oks, M)" "requests_counted s M" by auto
  note within = requests_within_run [OF M(1)]
  with M admin_has_a_place [OF within] acquire_request_spec(1) [OF M(2)] show ?thesis
    by (intro exI [of _ M]) (auto simp: requests_within_def)
qed

definition busy_user :: session_info where
  "busy_user = \<lparr>si_User = '' Ann '', si_Role = RoleUser\<rparr>"

definition rush :: "session_info request list" where
  "rush = replicate 9 (Acquire busy_user) @ [Release busy_user]"

theorem requests_limited_witness:
  "\<exists>s M. pool_run acquireAuthenticatedRequest release_request rush no_requests = (replicate 8 True @ [False], s) \<and>
     spec_run may_request rush {#} = (replicate 8 True @ [False], M) \<and> requests_counted s M \<and> size (of_user ''ann'' M) \<le> 8"
proof -
  have run: "fst (pool_run acquireAuthenticatedRequest release_request rush no_requests) = replicate 8 True @ [False]"
    by code_simp
  have "session_name busy_user = ''ann''" "RoleUser \<noteq> RoleAdmin" by code_simp+
  then have "releases_held may_request rush {#}"
    by (simp add: rush_def may_request_def numeral_eq_Suc of_user_def non_admins_def busy_user_def)
  with run requests_limited show ?thesis by (metis prod.collapse)
qed

text \<open>
  C94: Within one minute at most twenty passwords are tried for an account and found wrong, from
  whatever addresses and whatever else is attempted meanwhile.
\<close>

theorem login_throttled:
  assumes "attempt_run L evs m = (oks, m')" "list_all (event_within T) evs" "attempts_ok m" "T \<ge> 0"
    "entry_ok loginUserFailureLimit (map_of m (loginUsernameAttemptKey L name))"
  shows "wrong_passwords_open L name evs oks \<le> 20"
  using entry_run_limit [OF attempt_run_entry [OF assms(1-4)] assms(5)]
  by (simp add: wrong_passwords_open_def loginUserFailureLimit_def)

definition flood :: "attempt_event list" where
  "flood = map (\<lambda>c. TryLogin (''ip:10.0.0.'' @ [c]) ''ann'' 5) ''abcdefghijkl''"

definition no_digest :: weblib where "no_digest = demo_hash\<lparr>wl_sha256 := (\<lambda>_. [])\<rparr>"

theorem login_throttled_witness:
  "\<exists>m. attempt_run no_digest flood [] = (replicate 10 True @ [False, False], m) \<and>
     wrong_passwords_open no_digest ''ann'' flood (replicate 10 True @ [False, False]) \<le> 20"
proof -
  have run: "fst (attempt_run no_digest flood []) = replicate 10 True @ [False, False]" by code_simp
  have within: "list_all (event_within 5) flood" by code_simp
  obtain m where m: "attempt_run no_digest flood [] = (replicate 10 True @ [False, False], m)"
    using run by (metis prod.collapse)
  with login_throttled [OF m within, of "''ann''"] show ?thesis
    by (simp add: attempts_ok_def entry_ok_def)
qed

section \<open>Passwords\<close>

text \<open>
  C95: The derivation of password keys is the one of RFC 8018: byte \<open>i\<close> of the key is byte
  \<open>i mod 32\<close> of the exclusive or of a chain of \<open>iterations\<close> keyed hashes that starts at the salt with the number
  of the block. A stored hash accepts a password exactly if its chain of
  600000 hashes gives the same block, and is never taken for an old one.
\<close>

theorem pbkdf2_reference:
  assumes "hash_lengths L" "hashPassword L (Inr salt) password = Inr encoded" "length salt = 16"
  shows "(\<forall>i<keyLen. pbkdf2SHA256 L guess salt iterations keyLen ! i =
      chain_xor L guess (salt @ PutUint32 (Suc (i div 32))) (nat (iterations - 1)) ! (i mod 32)) \<and>
    (fst (verifyPasswordHash L encoded guess) \<longleftrightarrow>
      chain_xor L guess (salt @ PutUint32 1) 599999 = chain_xor L password (salt @ PutUint32 1) 599999) \<and>
    \<not> passwordHashNeedsUpgrade encoded"
proof -
  have enc: "encodePasswordHash L (Inr salt) password = Inr encoded"
    using assms(2) by (auto simp: hashPassword_def split: option.splits)
  have len: "length (pbkdf2_block L p salt n b) = 32" for p n b
    using assms(1) by (simp add: pbkdf2_block_chain length_chain_xor)
  have key: "pbkdf2SHA256 L p salt passwordHashIterations passwordKeyBytes = chain_xor L p (salt @ PutUint32 1) 599999" for p
    using len [of p passwordHashIterations 1]
    by (simp add: pbkdf2SHA256_def Let_def passwordKeyBytes_def pbkdf2_block_chain passwordHashIterations_def)
  have "pbkdf2SHA256 L guess salt iterations keyLen ! i =
      chain_xor L guess (salt @ PutUint32 (Suc (i div 32))) (nat (iterations - 1)) ! (i mod 32)" if "i < keyLen" for i
  proof -
    from that have "i < 32 * ((keyLen + 32 - 1) div 32)" by linarith
    from nth_concat_blocks [OF len this] that show ?thesis
      unfolding pbkdf2SHA256_def Let_def by (simp only: nth_take flip: pbkdf2_block_chain)
  qed
  with verify_encoded [OF enc assms(3,1), of guess] encoded_current [OF enc] show ?thesis by (auto simp: key)
qed

theorem pbkdf2_reference_witness:
  "\<exists>encoded. hashPassword demo_hash (Inr (zeros 16)) ''correct horse'' = Inr encoded \<and>
     fst (verifyPasswordHash demo_hash encoded ''correct horse'') \<and> \<not> passwordHashNeedsUpgrade encoded"
proof -
  have "validatePassword ''correct horse'' = None" by code_simp
  then obtain encoded where e: "hashPassword demo_hash (Inr (zeros 16)) ''correct horse'' = Inr encoded"
    by (auto simp: hashPassword_def encodePasswordHash_def Let_def)
  from pbkdf2_reference [OF demo_hash_lengths e, of 0 "''correct horse''"] e show ?thesis by (simp add: zeros_def)
qed

lemma find_replaced:
  "\<lbrakk>update_first (enabled n) (\<lambda>_. u\<lparr>ur_PasswordHash := h, ur_UpdatedAt := t\<rparr>) users = users'; find (enabled n) users = Some u\<rbrakk> \<Longrightarrow>
     find (enabled n) users' = Some (u\<lparr>ur_PasswordHash := h, ur_UpdatedAt := t\<rparr>)"
  by (auto simp: enabled_def dest: find_enabled intro!: find_update_first)

lemma ChangePassword_steps:
  assumes "ChangePassword E1 E2 work others name old new s = (Inr pu, s1)" "normalizeUsername name = Inr n"
    "we_lib E1 = L" "web_lib_ok L" "users_inv L master s"
  obtains u newHash s0 where "find (enabled n) (users_of L s) = Some u"
    "fst (verifyPasswordHash (wb_hash L) (ur_PasswordHash u) old)"
    "hashPassword (wb_hash L) (we_salt E1) new = Inr newHash" "users_inv L master s0" "users_of L s0 = users_of L s"
    "users_tx E2 (replace_password E2 n u newHash) (others s0) = (Inr pu, s1)"
proof -
  obtain x s0 where l: "loadLocked_users E1 s = (x, s0)" by (metis prod.exhaust)
  then have tx: "users_tx E1 RowDone s = (x, s0)" by (simp add: loadLocked_users_tx)
  have s0: "users_inv L master s0" using users_tx_inv [OF tx assms(3-5) keeps_users_RowDone] by simp
  have x: "(x = Inr (users_of L s) \<or> (\<exists>e. x = Inl e)) \<and> users_of L s0 = users_of L s"
    by (rule users_tx_cases [OF tx assms(3-5) keeps_users_RowDone]) auto
  with assms(1-3) l show thesis
    by (auto simp: ChangePassword_def split: if_splits option.splits sum.splits intro: that [OF _ _ _ s0])
qed

text \<open>
  C96: When a change of password succeeds, the old password was the right one, and afterwards the new
  one is; whatever happens meanwhile, every session of the user that was opened with
  other credentials than those of the change is refused, and the file stays well formed.
\<close>

theorem password_change_ends_sessions:
  assumes "ChangePassword E1 E2 work others name old new s = (Inr pu, s1)" "normalizeUsername name = Inr n"
    "we_lib E1 = L" "we_lib E2 = L" "web_lib_ok L" "users_inv L master s" "hash_lengths (wb_hash L)"
    "\<And>us. users_inv L master us \<Longrightarrow> users_inv L master (others us)" "we_salt E1 = Inr salt" "length salt = 16"
  shows "users_inv L master s1 \<and>
    (\<exists>u. find (enabled n) (users_of L s) = Some u \<and> fst (verifyPasswordHash (wb_hash L) (ur_PasswordHash u) old)) \<and>
    (\<exists>u. find (enabled n) (users_of L s1) = Some u \<and> fst (verifyPasswordHash (wb_hash L) (ur_PasswordHash u) new) \<and>
       ur_UpdatedAt u = we_now E2) \<and>
    (\<forall>E J k val p. we_lib E = L \<and> verifySession (wb_hash L) J k val = Some p \<and> normalizeUsername (sp_User p) = Inr n \<and>
       sp_CredentialVersion p \<noteq> time_UnixNano (we_now E2) \<longrightarrow> fst (sessionUser E J k (Some val) s1) = None)"
proof (rule ChangePassword_steps [OF assms(1-3,5,6)])
  fix u newHash s0
  assume u: "find (enabled n) (users_of L s) = Some u" "fst (verifyPasswordHash (wb_hash L) (ur_PasswordHash u) old)"
    and hash: "hashPassword (wb_hash L) (we_salt E1) new = Inr newHash"
    and s0: "users_inv L master s0" "users_of L s0 = users_of L s"
    and tx: "users_tx E2 (replace_password E2 n u newHash) (others s0) = (Inr pu, s1)"
  note inv = assms(8) [OF s0(1)]
  have inv1: "users_inv L master s1" using users_tx_inv [OF tx assms(4,5) inv keeps_replace_password] by simp
  have encoded: "encodePasswordHash (wb_hash L) (Inr salt) new = Inr newHash"
    using hash assms(9) by (auto simp: hashPassword_def split: option.splits)
  have "\<exists>v. find (enabled n) (users_of L s1) = Some v \<and> ur_PasswordHash v = newHash \<and> ur_UpdatedAt v = we_now E2"
    by (rule users_tx_cases [OF tx assms(4,5) inv keeps_replace_password])
      (auto simp: replace_password_def Let_def split: option.splits if_splits dest: find_replaced)
  then obtain v where v: "find (enabled n) (users_of L s1) = Some v" "ur_PasswordHash v = newHash" "ur_UpdatedAt v = we_now E2" by blast
  have "fst (sessionUser E J k (Some val) s1) = None"
    if "we_lib E = L" "verifySession (wb_hash L) J k val = Some p" "normalizeUsername (sp_User p) = Inr n"
      "sp_CredentialVersion p \<noteq> time_UnixNano (we_now E2)" for E J k val p
  proof -
    obtain r s2 where g: "Get_user E (sp_User p) s1 = (r, s2)" by (metis prod.exhaust)
    have "r = Inr (Some v) \<or> (\<exists>e. r = Inl e)"
      by (rule Get_user_cases [OF g that(1) assms(5) inv1]) (use that(3) v(1) in auto)
    with that g v(3) show ?thesis by (auto simp: sessionUser_def)
  qed
  with inv1 u v verify_encoded [OF encoded assms(10,7)] show ?thesis by auto
qed

theorem password_change_ends_sessions_witness:
  "\<exists>L E s pu s1. ChangePassword E E True (\<lambda>us. us) '' Ann '' ''secret'' ''correct horse'' s = (Inr pu, s1) \<and>
     users_inv L demo_master s \<and>
     (\<forall>J k val p. verifySession (wb_hash L) J k val = Some p \<and> normalizeUsername (sp_User p) = Inr ''ann'' \<and>
        sp_CredentialVersion p = time_UnixNano 2 \<longrightarrow> fst (sessionUser E J k (Some val) s1) = None)"
proof -
  define h where "h = legacyPasswordHashScheme @ ''$61$'' @ hex_EncodeToString (''asecret'' @ zeros 25)"
  define a where "a = demo_users h"
  have valid: "validatePassword ''correct horse'' = None" "normalizeUsername '' Ann '' = Inr ''ann''" "TrimSpace ''correct horse'' \<noteq> []" by code_simp+
  obtain h' where h': "hashPassword demo_hash (Inr (zeros 16)) ''correct horse'' = Inr h'"
    using valid by (auto simp: hashPassword_def encodePasswordHash_def Let_def)
  define b where "b = [root_user, (ann h)\<lparr>ur_PasswordHash := h', ur_UpdatedAt := 9\<rparr>]"
  define L where "L = demo_web_lib a b"
  define E where "E = demo_web_env L 9"
  define s where "s = demo_user_store a ''A''"
  have verified: "fst (verifyPasswordHash demo_hash h ''secret'')" unfolding h_def by code_simp
  have body: "replace_password E ''ann'' (ann h) h' a = RowWrite b (publicUser ((ann h)\<lparr>ur_PasswordHash := h', ur_UpdatedAt := 9\<rparr>))"
    by (simp add: replace_password_def a_def b_def E_def demo_users_def root_user_def ann_def enabled_def same_credentials_def Let_def)
  have differ: "b \<noteq> a" by (simp add: a_def b_def demo_users_def ann_def)
  have found: "find (enabled ''ann'') a = Some (ann h)" "ur_PasswordHash (ann h) = h"
    by (simp_all add: a_def demo_users_def root_user_def ann_def enabled_def)
  have "\<exists>pu s1. ChangePassword E E True (\<lambda>us. us) '' Ann '' ''secret'' ''correct horse'' s = (Inr pu, s1)"
    using valid h' differ body found verified
    by (simp add: ChangePassword_def loadLocked_users_tx users_tx_def row_tx_def E_def s_def demo_user_store_def L_def save_rows_def
        users_codec_def demo_users_json_def writePrivateFile_def private_ok_def io_ok_def writeSyncedTempFile_def Let_def)
  then obtain pu s1 where run: "ChangePassword E E True (\<lambda>us. us) '' Ann '' ''secret'' ''correct horse'' s = (Inr pu, s1)" by blast
  have inv: "users_inv L demo_master s" unfolding L_def s_def by (rule demo_users_inv [OF a_def])
  have "time_UnixNano 2 \<noteq> time_UnixNano 9" by code_simp
  moreover have lib: "we_lib E = L" "we_now E = 9" "we_salt E = Inr (zeros 16)" "web_lib_ok L" "hash_lengths (wb_hash L)" "length (zeros 16) = 16"
    using demo_web_lib_ok demo_hash_lengths by (simp_all add: E_def L_def zeros_def)
  ultimately have "fst (sessionUser E J k (Some val) s1) = None" if "verifySession (wb_hash L) J k val = Some p"
      "normalizeUsername (sp_User p) = Inr ''ann''" "sp_CredentialVersion p = time_UnixNano 2" for J k val p
    using password_change_ends_sessions [OF run valid(2) lib(1,1,4) inv lib(5) _ lib(3,6)] that by simp
  with run inv show ?thesis by blast
qed

section \<open>Static files\<close>

text \<open>
  C97: Whatever path a browser asks for, the only files the web server sends are inside its directory of
  static files: the file it names is a clean path that extends the directory's by proper names, and is an existing file or
  the start page.
\<close>

theorem static_confined:
  assumes "HasPrefix (wc_UIDir (ww_cfg W)) ''/''" "rp_body (handleStatic W r) = BFile f"
  shows "(\<exists>ns. path_names f = clean_names (wc_UIDir (ww_cfg W)) @ ns \<and> list_all name_ok ns) \<and>
    (ww_isFile W f \<or> f = filepath_Join (wc_UIDir (ww_cfg W)) ''index.html'')"
proof -
  have index: "\<not> HasPrefix ''index.html'' ''..''" "path_Clean ''index.html'' = ''index.html''" by code_simp+
  have "f = filepath_Join (wc_UIDir (ww_cfg W)) ''index.html'' \<or>
      (\<exists>p. \<not> HasPrefix (path_Clean p) ''..'' \<and> f = filepath_Join (wc_UIDir (ww_cfg W)) (path_Clean p) \<and> ww_isFile W f)"
    using assms(2) by (auto simp: handleStatic_def Let_def not_found_def respond_def split: if_splits)
  then show ?thesis
    using joined_below [OF assms(1) index(2) [symmetric] index(1)] joined_below [OF assms(1) refl] by auto
qed

theorem static_confined_witness:
  "\<exists>W f. rp_body (handleStatic W (demo_request ''GET'' ''/a/../b/./c.js'')) = BFile f \<and> path_names f = [''ui'', ''b'', ''c.js''] \<and>
     rp_status (handleStatic W (demo_request ''GET'' ''/../../etc/passwd'')) = 400 \<and>
     (\<exists>ns. path_names f = clean_names ''/ui'' @ ns \<and> list_all name_ok ns)"
proof -
  let ?W = "demo_world (demo_web_lib [] [])"
  have clean: "path_Clean (TrimPrefix ''/a/../b/./c.js'' ''/'') = ''b/c.js''" "filepath_Join ''/ui'' ''b/c.js'' = ''/ui/b/c.js''"
    "path_Clean (TrimPrefix ''/../../etc/passwd'' ''/'') = ''../../etc/passwd''" "path_names ''/ui/b/c.js'' = [''ui'', ''b'', ''c.js'']"
    by code_simp+
  have run: "rp_body (handleStatic ?W (demo_request ''GET'' ''/a/../b/./c.js'')) = BFile ''/ui/b/c.js''"
    "rp_status (handleStatic ?W (demo_request ''GET'' ''/../../etc/passwd'')) = 400" "path_names ''/ui/b/c.js'' = [''ui'', ''b'', ''c.js'']"
    "HasPrefix (wc_UIDir (ww_cfg ?W)) ''/''" "wc_UIDir (ww_cfg ?W) = ''/ui''"
    using clean by (simp_all add: handleStatic_def demo_request_def demo_world_def HasPrefix_def respond_def)
  from static_confined [OF run(4,1)] run show ?thesis by metis
qed

end
