(* ===== verification/Spec2Isabelle.thy ===== *)
theory Spec2Isabelle
  imports StoreTheorems UpkeepTheorems EnforceTheorems MonitorTheorems RunTheorems WebTheorems
begin

text \<open>
  GPUardian guards the GPUs of shared machines. A root daemon on each node keeps reservations,
  claims and authorizations in a file (\<^verbatim>\<open>src/internal/store\<close>), samples the processes that
  use GPUs, decides which of them are entitled to, and kills the others
  (\<^verbatim>\<open>src/internal/enforce\<close>); it serves requests on a Unix socket and ticks a monitor
  (\<^verbatim>\<open>src/internal/daemon\<close>). This development models these three packages with the types
  they share (\<^verbatim>\<open>src/internal/model\<close>, \<^verbatim>\<open>src/internal/protocol\<close>) and the limiting listener
  (\<^verbatim>\<open>src/internal/netlimit\<close>), and proves what makes them correct.

  \<^bold>\<open>Foundations.\<close> \<open>Prelude\<close> holds the result type (errors are values of \<open>error\<close>, a fallible call
  returns \<open>error + 'a\<close>), generic lemmas on lists and maps and the named collections of
  facts. \<open>GoLib\<close> and \<open>GoText\<close> define what the code uses of Go's standard library: times and
  durations as integers of nanoseconds with the zero time as 0, \<^verbatim>\<open>strings\<close>, \<^verbatim>\<open>strconv\<close>,
  \<^verbatim>\<open>path\<close>; a string is a list of bytes and lower-casing is that of ASCII. \<open>Model\<close> has the
  records of \<^verbatim>\<open>model.go\<close>, field by field.

  \<^bold>\<open>The store\<close> (\<^verbatim>\<open>store.go\<close>). \<open>StoreBase\<close>: the store as memory, commit point, file and key file;
  loading, validation, atomic saving and the transaction \<open>runtx\<close> that every operation
  is. \<open>StoreTokens\<close>, \<open>StoreReservations\<close>, \<open>StoreRecords\<close>, \<open>StoreRevoke\<close>, \<open>StoreViews\<close>,
  \<open>StorePrune\<close> and \<open>RootKey\<close> have the operations, each as a decision on the state run as a
  transaction. An environment supplies the outcome of every system call, the random
  identifiers, and the codec and hash of the library (\<open>golib\<close>), with the hypothesis \<open>codec_ok\<close>
  that unmarshalling reads back what marshalling wrote. \<open>StoreTx\<close> proves what a transaction
  can do, under the interface \<open>state_contract\<close>: a decision that keeps an invariant of
  the state. \<open>StoreSystem\<close> interprets it for every operation, defines the step relation
  of a node (operations with any failures, and restarts) and shows that \<open>sound_state\<close> holds in
  all reachable stores. \<open>StoreTheorems\<close> and \<open>UpkeepTheorems\<close> have the properties; \<open>Fixtures\<close> a
  concrete node.

  \<^bold>\<open>Enforcement\<close> (\<^verbatim>\<open>enforce.go\<close>). \<open>Scopes\<close>: matching containers, cgroups, users and patterns, and the
  bypass rules. \<open>Authorize\<close>: the search for an authorization. \<open>Enforce\<close>: the pass over all
  GPUs. \<open>Evict\<close>: the pass over scopes whose entitlement is gone. \<open>Killer\<close>: signals with
  identity checks. \<open>Busy\<close>: idleness. What a call of the process reader, runtime or killer
  returns is an observation, indexed by the path of its call site (\<open>world\<close>), so that repeated
  calls may disagree; the iteration order of Go's maps is the parameter \<open>order\<close>; the
  workers that perform kills are run in the order of the requests, since they share only result
  slots. \<open>EnforceProps\<close> states the interface \<open>pass_contract\<close> of predicates that every step
  of a pass keeps, interpreted for the plan of kills, for dry runs and for the rule that
  governs a GPU; \<open>Evict\<close> has \<open>evict_contract\<close>. Waiting for a process to exit is a
  partial function on a clock; it ends if sleeping takes the time asked for (\<open>sleeps\<close>),
  with the timeout as the bound. \<open>EnforceTheorems\<close> has the properties.

  \<^bold>\<open>The daemon\<close> (\<^verbatim>\<open>server.go\<close>, \<^verbatim>\<open>request_args.go\<close>, \<^verbatim>\<open>listener.go\<close>). \<open>RequestArgs\<close>: bounded decoding over
  the tokens of a JSON document. \<open>Admission\<close>: connection counters, semaphores and the listener,
  refined against multisets under the interface \<open>pool_refinement\<close>. \<open>PsView\<close>: the process
  list. \<open>NodeFiles\<close>: cgroup paths and their removal, the socket. \<open>Handlers\<close>: the request
  handlers and \<open>dispatch\<close>, as sequences of store operations. \<open>Monitor\<close>: \<open>monitorOnce\<close> and
  the clean-ups. The lock of the daemon makes a request or a tick one step; telemetry
  events leave the state alone and are left out. \<open>HandlerProps\<close> and \<open>MonitorProps\<close> show that
  handlers and ticks change the store through its operations only, under the interfaces
  \<open>state_moves\<close>, \<open>cleanup_relation\<close> and \<open>tick_relation\<close>, and what they grant and
  release. \<open>DaemonTheorems\<close> and \<open>MonitorTheorems\<close> have the properties. This theory composes the
  store with enforcement.

  \<^bold>\<open>What is shown.\<close> The store: atomic transactions under any failure, recovery after a restart,
  disjoint reservations, revocation, replay, capacities, pruning, isolation of views. Enforcement:
  kills and evictions are justified, holders of a reserved GPU are safe, budgets, signals only to
  the identified process, termination of kills, the pattern matcher as a relation. The daemon:
  limits, grants, registrations, bypass rules, contained cgroups, releases, and the store's
  invariants over any life of the daemon.

  \<^bold>\<open>Not modelled.\<close> The run request, which starts a command and streams its output, and the framing
  of connections; HTTP endpoints, telemetry and the vendor tools' parsers; the web gateway and
  its history database, whose logic is largely SQL; the command line. \<^verbatim>\<open>AddReservation\<close>, which
  only tests call. Interleavings of requests inside one another are not modelled where the
  code releases the daemon's lock between two store operations of one handler.
\<close>

section \<open>From the store to the processes\<close>








end
